(* ===== verification/Prelude.thy ===== *)
theory Prelude
  imports Main "HOL-Library.Word"
begin

text \<open>
  What every component of the model shares: the machine integers the Rust code
  uses, the outcome of a fallible Rust call (a value, an error, or a panic), the
  error chains of the \<open>anyhow\<close> style, the \<open>while\<close> loop of the source as
  an iteration that may not end, and the termination and divergence rules for it.
\<close>

section \<open>Machine integers\<close>

text \<open>The targets of the program are 64-bit: \<open>usize\<close> has 64 bits.\<close>

type_synonym u8 = "8 word"
type_synonym u32 = "32 word"
type_synonym u64 = "64 word"
type_synonym usize = "64 word"

section \<open>Outcomes\<close>

text \<open>The ways a Rust call of this program panics.\<close>

datatype panic = Panic_slice | Panic_char_boundary | Panic_overflow

datatype ('a, 'e) outcome = Ok 'a | Err 'e | Panic panic

text \<open>
  An error of type \<open>anyhow::Error\<close> is its chain of messages, the outermost
  context first; \<open>to_string()\<close> shows the outermost one.
\<close>

type_synonym error = "string list"
type_synonym 'a result = "('a, error) outcome"

named_theorems outcome_simps \<open>evaluation rules of the outcome combinators\<close>

text \<open>The question mark operator: go on with the value, or leave with the error or panic.\<close>

fun and_then :: "('a, 'e) outcome \<Rightarrow> ('a \<Rightarrow> ('b, 'e) outcome) \<Rightarrow> ('b, 'e) outcome" where
  "and_then (Ok x) f = f x"
| "and_then (Err e) f = Err e"
| "and_then (Panic p) f = Panic p"

fun map_err :: "('e \<Rightarrow> 'f) \<Rightarrow> ('a, 'e) outcome \<Rightarrow> ('a, 'f) outcome" where
  "map_err f (Ok x) = Ok x"
| "map_err f (Err e) = Err (f e)"
| "map_err f (Panic p) = Panic p"

definition bail :: "string \<Rightarrow> 'a result" where
  "bail msg = Err [msg]"

text \<open>\<open>Result::context\<close> and \<open>Option::context\<close>.\<close>

definition with_context :: "string \<Rightarrow> 'a result \<Rightarrow> 'a result" where
  "with_context c r = map_err (\<lambda>e. c # e) r"

definition opt_context :: "string \<Rightarrow> 'a option \<Rightarrow> 'a result" where
  "opt_context c x = (case x of Some v \<Rightarrow> Ok v | None \<Rightarrow> Err [c])"

text \<open>\<open>map_err(|e| anyhow!("c: {e}"))\<close> on a third-party result \<open>Inl message\<close> or \<open>Inr value\<close>.\<close>

definition of_sum :: "(string \<Rightarrow> error) \<Rightarrow> string + 'a \<Rightarrow> 'a result" where
  "of_sum f s = (case s of Inl e \<Rightarrow> Err (f e) | Inr v \<Rightarrow> Ok v)"

fun is_ok :: "('a, 'e) outcome \<Rightarrow> bool" where
  "is_ok (Ok _) = True"
| "is_ok _ = False"

fun is_panic :: "('a, 'e) outcome \<Rightarrow> bool" where
  "is_panic (Panic _) = True"
| "is_panic _ = False"

lemma and_then_eq_Ok:
  "and_then r f = Ok y \<longleftrightarrow> (\<exists>x. r = Ok x \<and> f x = Ok y)"
  by (cases r) auto

lemma and_then_eq_Err:
  "and_then r f = Err e \<longleftrightarrow> r = Err e \<or> (\<exists>x. r = Ok x \<and> f x = Err e)"
  by (cases r) auto

lemma and_then_eq_Panic:
  "and_then r f = Panic p \<longleftrightarrow> r = Panic p \<or> (\<exists>x. r = Ok x \<and> f x = Panic p)"
  by (cases r) auto

lemma and_then_assoc: "and_then (and_then r f) g = and_then r (\<lambda>x. and_then (f x) g)"
  by (cases r) auto

lemma and_then_Ok_right: "and_then r Ok = r"
  by (cases r) auto

lemma is_panic_and_then:
  "is_panic (and_then r f) \<longleftrightarrow> is_panic r \<or> (\<exists>x. r = Ok x \<and> is_panic (f x))"
  by (cases r) auto

lemma is_panic_iff: "is_panic r \<longleftrightarrow> (\<exists>p. r = Panic p)"
  by (cases r) auto

lemma is_ok_iff: "is_ok r \<longleftrightarrow> (\<exists>x. r = Ok x)"
  by (cases r) auto

lemma map_err_eq_Ok [simp]: "map_err f r = Ok x \<longleftrightarrow> r = Ok x"
  by (cases r) auto

lemma map_err_eq_Panic [simp]: "map_err f r = Panic p \<longleftrightarrow> r = Panic p"
  by (cases r) auto

lemma with_context_eq_Ok [simp]: "with_context c r = Ok x \<longleftrightarrow> r = Ok x"
  by (simp add: with_context_def)

lemma with_context_eq_Panic [simp]: "with_context c r = Panic p \<longleftrightarrow> r = Panic p"
  by (simp add: with_context_def)

lemma with_context_Ok [simp]: "with_context c (Ok x) = Ok x"
  by (simp add: with_context_def)

lemma with_context_Err [simp]: "with_context c (Err e) = Err (c # e)"
  by (simp add: with_context_def)

lemma opt_context_Some [simp]: "opt_context c (Some x) = Ok x"
  by (simp add: opt_context_def)

lemma opt_context_None [simp]: "opt_context c None = Err [c]"
  by (simp add: opt_context_def)

lemma opt_context_eq_Ok [simp]: "opt_context c r = Ok x \<longleftrightarrow> r = Some x"
  by (cases r) (auto simp: opt_context_def)

lemma opt_context_eq_Panic [simp]: "opt_context c r = Panic p \<longleftrightarrow> False"
  by (cases r) (auto simp: opt_context_def)

lemma of_sum_Inl [simp]: "of_sum f (Inl e) = Err (f e)"
  by (simp add: of_sum_def)

lemma of_sum_Inr [simp]: "of_sum f (Inr v) = Ok v"
  by (simp add: of_sum_def)

lemma of_sum_eq_Ok [simp]: "of_sum f s = Ok v \<longleftrightarrow> s = Inr v"
  by (cases s) auto

lemma of_sum_eq_Panic [simp]: "of_sum f s = Panic p \<longleftrightarrow> False"
  by (cases s) auto

lemma bail_neq [simp]: "bail m \<noteq> Ok x" "bail m \<noteq> Panic p"
  by (simp_all add: bail_def)

lemmas outcome_inv = and_then_eq_Ok and_then_eq_Err and_then_eq_Panic

text \<open>\<open>collect::<Result<Vec<_>>>()\<close> over a mapped iterator: the first failure ends it.\<close>

fun try_map :: "('a \<Rightarrow> ('b, 'e) outcome) \<Rightarrow> 'a list \<Rightarrow> ('b list, 'e) outcome" where
  "try_map f [] = Ok []"
| "try_map f (x # xs) = and_then (f x) (\<lambda>y. and_then (try_map f xs) (\<lambda>ys. Ok (y # ys)))"

lemma try_map_eq_Ok: "try_map f xs = Ok ys \<longleftrightarrow> list_all2 (\<lambda>x y. f x = Ok y) xs ys"
  by (induction xs arbitrary: ys) (auto simp: and_then_eq_Ok list_all2_Cons1)

section \<open>Loops\<close>

text \<open>
  A \<open>while\<close> loop of the source is the iteration of its body: the body ends the
  loop with a result (\<open>Inr\<close>) or goes on from a new state (\<open>Inl\<close>). A loop that
  never ends is \<open>None\<close>.
\<close>

partial_function (option) run_loop :: "('s \<Rightarrow> 's + 'r) \<Rightarrow> 's \<Rightarrow> 'r option" where
  "run_loop step s = (case step s of Inl s' \<Rightarrow> run_loop step s' | Inr r \<Rightarrow> Some r)"

lemma run_loop_Inr [simp]: "step s = Inr r \<Longrightarrow> run_loop step s = Some r"
  by (simp add: run_loop.simps)

lemma run_loop_Inl: "step s = Inl s' \<Longrightarrow> run_loop step s = run_loop step s'"
  by (simp add: run_loop.simps [of step s])

text \<open>A set of states the body never leaves and never ends in is a loop that does not end.\<close>

lemma run_loop_diverges:
  assumes "P s" and closed: "\<And>s. P s \<Longrightarrow> \<exists>s'. step s = Inl s' \<and> P s'"
  shows "run_loop step s = None"
proof (rule ccontr)
  assume "run_loop step s \<noteq> None"
  then obtain r where r: "run_loop step s = Some r" by auto
  have "step = step \<longrightarrow> P s \<longrightarrow> False"
  proof (rule run_loop.raw_induct [where P = "\<lambda>st s r. st = step \<longrightarrow> P s \<longrightarrow> False", OF _ r],
      intro impI)
    fix f st s r
    assume IH: "\<And>st s r. f st s = Some r \<Longrightarrow> st = step \<longrightarrow> P s \<longrightarrow> False"
      and eq: "(case st s of Inl s' \<Rightarrow> f st s' | Inr r \<Rightarrow> Some r) = Some r"
      and st: "st = step" and P: "P s"
    from closed [OF P] obtain s' where "step s = Inl s'" "P s'" by auto
    with eq st have "f st s' = Some r" by simp
    from IH [OF this] st \<open>P s'\<close> show False by simp
  qed
  with \<open>P s\<close> show False by simp
qed

lemma run_loop_fixpoint: "step s = Inl s \<Longrightarrow> run_loop step s = None"
  by (rule run_loop_diverges [where P = "\<lambda>t. t = s"]) auto

text \<open>An invariant of the body holds for whatever the loop returns.\<close>

lemma run_loop_invariant:
  assumes r: "run_loop step s = Some r" and I: "I s"
    and keep: "\<And>s s'. I s \<Longrightarrow> step s = Inl s' \<Longrightarrow> I s'"
    and exit: "\<And>s r. I s \<Longrightarrow> step s = Inr r \<Longrightarrow> Q r"
  shows "Q r"
proof -
  have "step = step \<longrightarrow> I s \<longrightarrow> Q r"
  proof (rule run_loop.raw_induct [where P = "\<lambda>st s r. st = step \<longrightarrow> I s \<longrightarrow> Q r", OF _ r],
      intro impI)
    fix f st s r
    assume IH: "\<And>st s r. f st s = Some r \<Longrightarrow> st = step \<longrightarrow> I s \<longrightarrow> Q r"
      and eq: "(case st s of Inl s' \<Rightarrow> f st s' | Inr r \<Rightarrow> Some r) = Some r"
      and st: "st = step" and I: "I s"
    show "Q r"
    proof (cases "step s")
      case (Inl s')
      with eq st have "f st s' = Some r" by simp
      from IH [OF this] st keep [OF I Inl] show ?thesis by simp
    next
      case (Inr r')
      with eq st exit [OF I Inr] show ?thesis by simp
    qed
  qed
  with I show ?thesis by simp
qed

text \<open>
  Two bodies that agree wherever the first does not fail in a given way (\<open>bad\<close>)
  give loops that agree wherever the first does not end that way.
\<close>

lemma run_loop_agree:
  assumes r: "run_loop step s = Some r" and "r \<noteq> bad"
    and agree: "\<And>s. step s = step' s \<or> step s = Inr bad"
  shows "run_loop step' s = Some r"
proof -
  have "step = step \<longrightarrow> r \<noteq> bad \<longrightarrow> run_loop step' s = Some r"
  proof (rule run_loop.raw_induct
      [where P = "\<lambda>st s r. st = step \<longrightarrow> r \<noteq> bad \<longrightarrow> run_loop step' s = Some r", OF _ r],
      intro impI)
    fix f st s r
    assume IH: "\<And>st s r. f st s = Some r \<Longrightarrow> st = step \<longrightarrow> r \<noteq> bad \<longrightarrow> run_loop step' s = Some r"
      and eq: "(case st s of Inl s' \<Rightarrow> f st s' | Inr r \<Rightarrow> Some r) = Some r"
      and st: "st = step" and r: "r \<noteq> bad"
    show "run_loop step' s = Some r"
    proof (cases "step s")
      case (Inl s')
      with eq st have "f st s' = Some r" by simp
      from IH [OF this] st r have "run_loop step' s' = Some r" by simp
      moreover from agree [of s] Inl have "step' s = Inl s'" by auto
      ultimately show ?thesis by (simp add: run_loop_Inl)
    next
      case (Inr r')
      with eq st have "r' = r" by simp
      with agree [of s] Inr r have "step' s = Inr r" by auto
      then show ?thesis by simp
    qed
  qed
  with \<open>r \<noteq> bad\<close> show ?thesis by simp
qed

section \<open>Computations that may not end\<close>

text \<open>
  The outcome of code with loops: \<open>None\<close> when it does not end. The body of a loop
  goes on (\<open>Inl\<close>), returns from the function (\<open>Inr\<close>), fails or panics; after
  the loop comes \<open>finish\<close>.
\<close>

type_synonym 'a run = "'a result option"

fun and_run :: "'a run \<Rightarrow> ('a \<Rightarrow> 'b run) \<Rightarrow> 'b run" where
  "and_run None f = None"
| "and_run (Some (Ok x)) f = f x"
| "and_run (Some (Err e)) f = Some (Err e)"
| "and_run (Some (Panic p)) f = Some (Panic p)"

definition loop_step ::
  "('s \<Rightarrow> bool) \<Rightarrow> ('s \<Rightarrow> ('s + 'r) run) \<Rightarrow> ('s \<Rightarrow> 'r run) \<Rightarrow> 's \<Rightarrow> 's + 'r run" where
  "loop_step guard body finish s =
    (if \<not> guard s then Inr (finish s)
     else case body s of
            None \<Rightarrow> Inr None
          | Some (Ok (Inl s')) \<Rightarrow> Inl s'
          | Some (Ok (Inr r)) \<Rightarrow> Inr (Some (Ok r))
          | Some (Err e) \<Rightarrow> Inr (Some (Err e))
          | Some (Panic p) \<Rightarrow> Inr (Some (Panic p)))"

definition while_loop ::
  "('s \<Rightarrow> bool) \<Rightarrow> ('s \<Rightarrow> ('s + 'r) run) \<Rightarrow> ('s \<Rightarrow> 'r run) \<Rightarrow> 's \<Rightarrow> 'r run" where
  "while_loop guard body finish s =
    (case run_loop (loop_step guard body finish) s of None \<Rightarrow> None | Some r \<Rightarrow> r)"

lemma while_loop_exit: "\<not> guard s \<Longrightarrow> while_loop guard body finish s = finish s"
  by (simp add: while_loop_def loop_step_def)

lemma while_loop_continue:
  "guard s \<Longrightarrow> body s = Some (Ok (Inl s')) \<Longrightarrow>
     while_loop guard body finish s = while_loop guard body finish s'"
  by (simp add: while_loop_def loop_step_def run_loop_Inl)

lemma while_loop_return:
  "guard s \<Longrightarrow> body s = Some (Ok (Inr r)) \<Longrightarrow> while_loop guard body finish s = Some (Ok r)"
  by (simp add: while_loop_def loop_step_def)

lemma while_loop_Err:
  "guard s \<Longrightarrow> body s = Some (Err e) \<Longrightarrow> while_loop guard body finish s = Some (Err e)"
  by (simp add: while_loop_def loop_step_def)

lemma while_loop_Panic:
  "guard s \<Longrightarrow> body s = Some (Panic p) \<Longrightarrow> while_loop guard body finish s = Some (Panic p)"
  by (simp add: while_loop_def loop_step_def)

lemma while_loop_stuck:
  "guard s \<Longrightarrow> body s = Some (Ok (Inl s)) \<Longrightarrow> while_loop guard body finish s = None"
  by (simp add: while_loop_def loop_step_def run_loop_fixpoint)

text \<open>A loop that keeps moving through states where it goes on does not end.\<close>

lemma while_loop_diverges:
  assumes "P s" and "\<And>s. P s \<Longrightarrow> guard s \<and> (\<exists>s'. body s = Some (Ok (Inl s')) \<and> P s')"
  shows "while_loop guard body finish s = None"
proof -
  have "run_loop (loop_step guard body finish) s = None"
  proof (rule run_loop_diverges [where P = P, OF assms(1)])
    fix s assume "P s"
    with assms(2) obtain s' where "guard s" "body s = Some (Ok (Inl s'))" "P s'" by blast
    then show "\<exists>s'. loop_step guard body finish s = Inl s' \<and> P s'"
      by (simp add: loop_step_def)
  qed
  then show ?thesis by (simp add: while_loop_def)
qed

text \<open>Code that ends, operation by operation.\<close>

definition ends :: "'a run \<Rightarrow> bool" where
  "ends r \<longleftrightarrow> r \<noteq> None"

named_theorems ends_intros \<open>a computation ends when its parts do\<close>

lemma ends_Some [ends_intros, simp]: "ends (Some r)"
  by (simp add: ends_def)

lemma ends_and_run [ends_intros]: "ends r \<Longrightarrow> (\<And>x. ends (f x)) \<Longrightarrow> ends (and_run r f)"
  by (cases "(r, f)" rule: and_run.cases) (auto simp: ends_def)

lemma ends_if [ends_intros]: "ends r \<Longrightarrow> ends t \<Longrightarrow> ends (if c then r else t)"
  by simp

lemma ends_case_prod [ends_intros]: "(\<And>a b. ends (f a b)) \<Longrightarrow> ends (case p of (a, b) \<Rightarrow> f a b)"
  by (cases p) simp

text \<open>
  The contract of a loop over a position: as long as the loop goes on, its position is
  below a bound and grows, and the body ends. Such a loop ends.
\<close>

locale advancing_loop =
  fixes guard :: "'s \<Rightarrow> bool" and body :: "'s \<Rightarrow> ('s + 'r) run" and finish :: "'s \<Rightarrow> 'r run"
    and position :: "'s \<Rightarrow> nat" and bound :: nat
  assumes advance: "guard s \<Longrightarrow> body s = Some (Ok (Inl s')) \<Longrightarrow> position s < position s'"
    and in_bound: "guard s \<Longrightarrow> body s = Some (Ok (Inl s')) \<Longrightarrow> position s < bound"
    and body_ends: "ends (body s)"
    and finish_ends: "ends (finish s)"
begin

lemma loop_ends: "ends (while_loop guard body finish s)"
proof (induction "bound - position s" arbitrary: s rule: less_induct)
  case less
  show ?case
  proof (cases "guard s")
    case True
    from body_ends obtain r where r: "body s = Some r" by (auto simp: ends_def)
    show ?thesis
    proof (cases r)
      case (Ok x)
      show ?thesis
      proof (cases x)
        case (Inl s')
        with True r Ok have s': "body s = Some (Ok (Inl s'))" by simp
        with advance in_bound True have "bound - position s' < bound - position s"
          by (simp add: diff_less_mono2)
        from less [OF this] True s' show ?thesis by (simp add: while_loop_continue)
      qed (use True r Ok in \<open>simp add: while_loop_return\<close>)
    qed (use True r in \<open>simp_all add: while_loop_Err while_loop_Panic\<close>)
  qed (simp add: while_loop_exit finish_ends)
qed

end

section \<open>Overflow checks\<close>

text \<open>
  Rust's \<open>+\<close> on \<open>usize\<close> panics on overflow in a build with overflow checks
  (\<open>checks\<close>, the debug profile) and wraps in one without (the release profile, which
  the \<open>Cargo.toml\<close> of the workspace leaves at its default).
\<close>

definition add_usize :: "bool \<Rightarrow> usize \<Rightarrow> usize \<Rightarrow> usize result" where
  "add_usize checks a b =
    (if checks \<and> 2 ^ 64 \<le> unat a + unat b then Panic Panic_overflow else Ok (a + b))"

lemma add_usize_True:
  "add_usize True a b = Ok c \<longleftrightarrow> unat c = unat a + unat b"
proof -
  have "unat a + unat b < 2 ^ 64 \<longleftrightarrow> unat (a + b) = unat a + unat b"
    using unat_add_lem [of a b] by simp
  moreover have "unat c < 2 ^ 64" using unsigned_less [of c] by simp
  ultimately show ?thesis by (auto simp: add_usize_def word_unat_eq_iff)
qed

lemma add_usize_no_overflow:
  "unat a + unat b < 2 ^ 64 \<Longrightarrow> add_usize checks a b = Ok (a + b)"
  by (simp add: add_usize_def)

lemma add_usize_neq_Err [simp]: "add_usize checks a b \<noteq> Err e"
  by (simp add: add_usize_def)

lemma add_usize_False [simp]: "add_usize False a b = Ok (a + b)"
  by (simp add: add_usize_def)

text \<open>
  A build without overflow checks agrees with one that has them wherever the latter
  does not stop at an overflow.
\<close>

definition agrees :: "('a, 'e) outcome \<Rightarrow> ('a, 'e) outcome \<Rightarrow> bool" where
  "agrees r r' \<longleftrightarrow> r = r' \<or> r = Panic Panic_overflow"

named_theorems agree_intros \<open>two builds agree, operation by operation\<close>

lemma agrees_refl [agree_intros, simp]: "agrees r r"
  by (simp add: agrees_def)

lemma agrees_add [agree_intros]: "agrees (add_usize True a b) (add_usize False a b)"
  by (auto simp: agrees_def add_usize_def)

lemma agrees_and_then [agree_intros]:
  "agrees r r' \<Longrightarrow> (\<And>x. agrees (f x) (f' x)) \<Longrightarrow> agrees (and_then r f) (and_then r' f')"
  unfolding agrees_def by (cases r) (auto, metis)

lemma agrees_if [agree_intros]:
  "agrees r r' \<Longrightarrow> agrees t t' \<Longrightarrow> agrees (if c then r else t) (if c then r' else t')"
  by simp

definition agrees_run :: "'a run \<Rightarrow> 'a run \<Rightarrow> bool" where
  "agrees_run r r' \<longleftrightarrow> r = r' \<or> r = Some (Panic Panic_overflow)"

lemma agrees_run_refl [agree_intros, simp]: "agrees_run r r"
  by (simp add: agrees_run_def)

lemma agrees_run_Some [agree_intros]: "agrees r r' \<Longrightarrow> agrees_run (Some r) (Some r')"
  by (auto simp: agrees_run_def agrees_def)

lemma agrees_and_run [agree_intros]:
  "agrees_run r r' \<Longrightarrow> (\<And>x. agrees_run (f x) (f' x)) \<Longrightarrow> agrees_run (and_run r f) (and_run r' f')"
  unfolding agrees_run_def by (cases "(r, f)" rule: and_run.cases) (auto, metis)

lemma agrees_run_if [agree_intros]:
  "agrees_run r r' \<Longrightarrow> agrees_run t t' \<Longrightarrow> agrees_run (if c then r else t) (if c then r' else t')"
  by simp

lemma agrees_case_sum [agree_intros]:
  "(\<And>x. agrees_run (f x) (f' x)) \<Longrightarrow> (\<And>y. agrees_run (g y) (g' y)) \<Longrightarrow>
     agrees_run (case s of Inl x \<Rightarrow> f x | Inr y \<Rightarrow> g y) (case s of Inl x \<Rightarrow> f' x | Inr y \<Rightarrow> g' y)"
  by (cases s) auto

lemma agrees_case_prod [agree_intros]:
  "(\<And>a b. agrees_run (f a b) (f' a b)) \<Longrightarrow>
     agrees_run (case p of (a, b) \<Rightarrow> f a b) (case p of (a, b) \<Rightarrow> f' a b)"
  by (cases p) simp

lemma loop_step_agree:
  assumes body: "agrees_run (body s) (body' s)" and finish: "agrees_run (finish s) (finish' s)"
  shows "loop_step guard body finish s = loop_step guard body' finish' s
      \<or> loop_step guard body finish s = Inr (Some (Panic Panic_overflow))"
proof (cases "guard s")
  case True
  from body consider "body s = body' s" | "body s = Some (Panic Panic_overflow)"
    by (auto simp: agrees_run_def)
  then show ?thesis
  proof cases
    case 1
    with True have "loop_step guard body finish s = loop_step guard body' finish' s"
      by (simp add: loop_step_def)
    then show ?thesis ..
  next
    case 2
    with True show ?thesis by (simp add: loop_step_def)
  qed
next
  case False
  with finish show ?thesis by (auto simp: loop_step_def agrees_run_def)
qed

lemma agrees_while:
  assumes ends: "ends (while_loop guard body finish s)"
    and body: "\<And>s. agrees_run (body s) (body' s)"
    and finish: "\<And>s. agrees_run (finish s) (finish' s)"
  shows "agrees_run (while_loop guard body finish s) (while_loop guard body' finish' s)"
proof (cases "while_loop guard body finish s = Some (Panic Panic_overflow)")
  case False
  from ends obtain r where r: "run_loop (loop_step guard body finish) s = Some r"
    by (auto simp: ends_def while_loop_def split: option.splits)
  with False have "r \<noteq> Some (Panic Panic_overflow)" by (auto simp: while_loop_def)
  with r have "run_loop (loop_step guard body' finish') s = Some r"
    by (rule run_loop_agree) (rule loop_step_agree [of body _ body' finish finish', OF body finish])
  with r show ?thesis by (simp add: while_loop_def)
qed (simp add: agrees_run_def)

lemma and_run_eq_Some_Ok:
  "and_run r f = Some (Ok y) \<longleftrightarrow> (\<exists>x. r = Some (Ok x) \<and> f x = Some (Ok y))"
  by (cases "(r, f)" rule: and_run.cases) auto

end
