(* ===== verification/Rust_Str.thy ===== *)
theory Rust_Str
  imports Prelude "HOL-Library.Sublist"
begin

text \<open>
  The operations on \<open>String\<close> and \<open>str\<close> that the program uses. A Rust string
  is its UTF-8 byte sequence, so a \<open>string\<close> here is a list of bytes (\<open>char\<close>
  has 256 values), \<open>length\<close> is \<open>len()\<close>, and every index counts bytes, as in Rust.
\<close>

section \<open>Bytes and characters\<close>

definition byte_char :: "u8 \<Rightarrow> char" where
  "byte_char b = char_of (unat b)"

definition char_byte :: "char \<Rightarrow> u8" where
  "char_byte c = of_nat (of_char c)"

text \<open>\<open>as_bytes()\<close>\<close>

definition as_bytes :: "string \<Rightarrow> u8 list" where
  "as_bytes s = map char_byte s"

definition is_cont :: "u8 \<Rightarrow> bool" where
  "is_cont b \<longleftrightarrow> 0x80 \<le> b \<and> b \<le> 0xBF"

text \<open>The UTF-8 validity check of \<open>String::from_utf8\<close> (no overlong forms, no surrogates).\<close>

fun utf8_valid :: "u8 list \<Rightarrow> bool" where
  "utf8_valid [] = True"
| "utf8_valid (a # r) =
    (if a < 0x80 then utf8_valid r
     else if 0xC2 \<le> a \<and> a \<le> 0xDF then
       (case r of b # r' \<Rightarrow> is_cont b \<and> utf8_valid r' | _ \<Rightarrow> False)
     else if 0xE0 \<le> a \<and> a \<le> 0xEF then
       (case r of b # c # r' \<Rightarrow>
          is_cont b \<and> is_cont c \<and> (a = 0xE0 \<longrightarrow> 0xA0 \<le> b) \<and> (a = 0xED \<longrightarrow> b \<le> 0x9F)
          \<and> utf8_valid r' | _ \<Rightarrow> False)
     else if 0xF0 \<le> a \<and> a \<le> 0xF4 then
       (case r of b # c # d # r' \<Rightarrow>
          is_cont b \<and> is_cont c \<and> is_cont d \<and> (a = 0xF0 \<longrightarrow> 0x90 \<le> b)
          \<and> (a = 0xF4 \<longrightarrow> b \<le> 0x8F) \<and> utf8_valid r' | _ \<Rightarrow> False)
     else False)"

definition from_utf8 :: "u8 list \<Rightarrow> string option" where
  "from_utf8 bs = (if utf8_valid bs then Some (map byte_char bs) else None)"

text \<open>The message of the error of \<open>String::from_utf8\<close>, the valid bytes before it counted by \<open>i\<close>.\<close>

definition invalid_utf8 :: "nat \<Rightarrow> string \<Rightarrow> string" where
  "invalid_utf8 n index = ''invalid utf-8 sequence of '' @ [char_of (48 + n)] @ '' bytes from index '' @ index"

text \<open>
  \<open>show\<close> prints the index. A sequence is cut off (incomplete), has a bad first or second
  byte (1 byte), a bad third (2 bytes) or fourth byte (3 bytes).
\<close>

fun utf8_error :: "(nat \<Rightarrow> string) \<Rightarrow> nat \<Rightarrow> u8 list \<Rightarrow> string" where
  "utf8_error show i [] = []"
| "utf8_error show i (a # r) =
    (let cut_off = ''incomplete utf-8 byte sequence from index '' @ show i;
         bad = (\<lambda>n. invalid_utf8 n (show i)) in
     if a < 0x80 then utf8_error show (i + 1) r
     else if 0xC2 \<le> a \<and> a \<le> 0xDF then
       (case r of [] \<Rightarrow> cut_off | b # r2 \<Rightarrow> if is_cont b then utf8_error show (i + 2) r2 else bad 1)
     else if 0xE0 \<le> a \<and> a \<le> 0xEF then
       (case r of [] \<Rightarrow> cut_off
        | b # r2 \<Rightarrow>
            if \<not> (is_cont b \<and> (a = 0xE0 \<longrightarrow> 0xA0 \<le> b) \<and> (a = 0xED \<longrightarrow> b \<le> 0x9F)) then bad 1
            else (case r2 of [] \<Rightarrow> cut_off
                  | c # r3 \<Rightarrow> if is_cont c then utf8_error show (i + 3) r3 else bad 2))
     else if 0xF0 \<le> a \<and> a \<le> 0xF4 then
       (case r of [] \<Rightarrow> cut_off
        | b # r2 \<Rightarrow>
            if \<not> (is_cont b \<and> (a = 0xF0 \<longrightarrow> 0x90 \<le> b) \<and> (a = 0xF4 \<longrightarrow> b \<le> 0x8F)) then bad 1
            else (case r2 of [] \<Rightarrow> cut_off
                  | c # r3 \<Rightarrow>
                      if \<not> is_cont c then bad 2
                      else (case r3 of [] \<Rightarrow> cut_off
                            | d # r4 \<Rightarrow> if is_cont d then utf8_error show (i + 4) r4 else bad 3)))
     else bad 1)"

text \<open>
  \<open>String::from_utf8_lossy\<close>: each maximal piece that is not UTF-8 becomes the
  replacement character U+FFFD.
\<close>

definition replacement :: "u8 list" where
  "replacement = [0xEF, 0xBF, 0xBD]"

fun utf8_lossy :: "u8 list \<Rightarrow> u8 list" where
  "utf8_lossy [] = []"
| "utf8_lossy (a # r) =
    (if a < 0x80 then a # utf8_lossy r
     else if 0xC2 \<le> a \<and> a \<le> 0xDF then
       (case r of [] \<Rightarrow> replacement
        | b # r2 \<Rightarrow> if is_cont b then a # b # utf8_lossy r2 else replacement @ utf8_lossy r)
     else if 0xE0 \<le> a \<and> a \<le> 0xEF then
       (case r of [] \<Rightarrow> replacement
        | b # r2 \<Rightarrow>
            if \<not> (is_cont b \<and> (a = 0xE0 \<longrightarrow> 0xA0 \<le> b) \<and> (a = 0xED \<longrightarrow> b \<le> 0x9F))
            then replacement @ utf8_lossy r
            else (case r2 of [] \<Rightarrow> replacement
                  | c # r3 \<Rightarrow> if is_cont c then a # b # c # utf8_lossy r3 else replacement @ utf8_lossy r2))
     else if 0xF0 \<le> a \<and> a \<le> 0xF4 then
       (case r of [] \<Rightarrow> replacement
        | b # r2 \<Rightarrow>
            if \<not> (is_cont b \<and> (a = 0xF0 \<longrightarrow> 0x90 \<le> b) \<and> (a = 0xF4 \<longrightarrow> b \<le> 0x8F))
            then replacement @ utf8_lossy r
            else (case r2 of [] \<Rightarrow> replacement
                  | c # r3 \<Rightarrow>
                      if \<not> is_cont c then replacement @ utf8_lossy r2
                      else (case r3 of [] \<Rightarrow> replacement
                            | d # r4 \<Rightarrow> if is_cont d then a # b # c # d # utf8_lossy r4
                                       else replacement @ utf8_lossy r3)))
     else replacement @ utf8_lossy r)"

definition from_utf8_lossy :: "u8 list \<Rightarrow> string" where
  "from_utf8_lossy bs = map byte_char (utf8_lossy bs)"

declare utf8_lossy.simps(2) [simp del]

lemma utf8_lossy_valid: "utf8_valid bs \<Longrightarrow> utf8_lossy bs = bs"
proof (induction "length bs" arbitrary: bs rule: less_induct)
  case less
  show ?case
  proof (cases bs)
    case (Cons a r)
    note valid = less.prems [unfolded Cons utf8_valid.simps]
    note eval = utf8_lossy.simps list.case
    have IH: "utf8_valid s \<Longrightarrow> length s \<le> length r \<Longrightarrow> utf8_lossy s = s" for s
      using less.hyps Cons by simp
    consider "a < 0x80" | "\<not> a < 0x80" "0xC2 \<le> a \<and> a \<le> 0xDF"
      | "\<not> a < 0x80" "\<not> (0xC2 \<le> a \<and> a \<le> 0xDF)" "0xE0 \<le> a \<and> a \<le> 0xEF"
      | "\<not> a < 0x80" "\<not> (0xC2 \<le> a \<and> a \<le> 0xDF)" "\<not> (0xE0 \<le> a \<and> a \<le> 0xEF)"
        "0xF0 \<le> a \<and> a \<le> 0xF4"
      using valid by argo
    then show ?thesis
    proof cases
      case 1
      note c = if_P [OF 1]
      from valid [unfolded c] IH show ?thesis unfolding Cons eval c by blast
    next
      case 2
      note c = if_not_P [OF 2(1)] if_P [OF 2(2)]
      from valid [unfolded c] obtain b r2 where r: "r = b # r2" "is_cont b" "utf8_valid r2"
        by (cases r) simp_all
      from IH [OF r(3)] r(1) have "utf8_lossy r2 = r2" by simp
      then show ?thesis unfolding Cons eval c r(1) if_P [OF r(2)] by blast
    next
      case 3
      note c = if_not_P [OF 3(1)] if_not_P [OF 3(2)] if_P [OF 3(3)]
      from valid [unfolded c] obtain b d r3 where r: "r = b # d # r3"
        "is_cont b \<and> (a = 0xE0 \<longrightarrow> 0xA0 \<le> b) \<and> (a = 0xED \<longrightarrow> b \<le> 0x9F)" "is_cont d" "utf8_valid r3"
        by (cases r) (auto simp only: list.case split: list.splits)
      from IH [OF r(4)] r(1) have "utf8_lossy r3 = r3" by simp
      then show ?thesis unfolding Cons eval c r(1) if_P [OF r(3)] using r(2) by presburger
    next
      case 4
      note c = if_not_P [OF 4(1)] if_not_P [OF 4(2)] if_not_P [OF 4(3)] if_P [OF 4(4)]
      from valid [unfolded c] obtain b d e r4 where r: "r = b # d # e # r4"
        "is_cont b \<and> (a = 0xF0 \<longrightarrow> 0x90 \<le> b) \<and> (a = 0xF4 \<longrightarrow> b \<le> 0x8F)" "is_cont d" "is_cont e"
        "utf8_valid r4"
        by (cases r) (auto simp only: list.case split: list.splits)
      from IH [OF r(5)] r(1) have "utf8_lossy r4 = r4" by simp
      then show ?thesis unfolding Cons eval c r(1) if_P [OF r(4)] using r(2,3) by presburger
    qed
  qed simp
qed

text \<open>On a text it is \<open>from_utf8\<close>.\<close>

lemma from_utf8_lossy_of_valid: "from_utf8 bs = Some s \<Longrightarrow> from_utf8_lossy bs = s"
  by (auto simp: from_utf8_def from_utf8_lossy_def utf8_lossy_valid split: if_splits)

definition is_ascii :: "string \<Rightarrow> bool" where
  "is_ascii s \<longleftrightarrow> (\<forall>c \<in> set s. of_char c < (128 :: nat))"

lemma byte_char_char_byte [simp]: "byte_char (char_byte c) = c"
proof -
  have "of_char c < (256 :: nat)" by simp
  then show ?thesis by (simp add: byte_char_def char_byte_def unat_of_nat)
qed

lemma char_byte_byte_char [simp]: "char_byte (byte_char b) = b"
proof -
  have "unat b < 256" using unsigned_less [of b] by simp
  then show ?thesis by (simp add: byte_char_def char_byte_def)
qed

lemma map_byte_char_as_bytes [simp]: "map byte_char (as_bytes s) = s"
  by (simp add: as_bytes_def map_idI)

lemma length_as_bytes [simp]: "length (as_bytes s) = length s"
  by (simp add: as_bytes_def)

lemma utf8_valid_ascii: "(\<And>b. b \<in> set bs \<Longrightarrow> b < 0x80) \<Longrightarrow> utf8_valid bs"
  by (induction bs) auto

lemma char_byte_ascii: "of_char c < (128 :: nat) \<Longrightarrow> char_byte c < 0x80"
  by (simp add: char_byte_def word_less_nat_alt unat_of_nat)

lemma from_utf8_ascii: "is_ascii s \<Longrightarrow> from_utf8 (as_bytes s) = Some s"
proof -
  assume "is_ascii s"
  then have "utf8_valid (as_bytes s)"
    by (auto intro!: utf8_valid_ascii char_byte_ascii simp: is_ascii_def as_bytes_def)
  then show ?thesis by (simp add: from_utf8_def)
qed

section \<open>Case, prefixes, searching\<close>

definition ascii_lower :: "char \<Rightarrow> char" where
  "ascii_lower c = (let n = of_char c :: nat in if 65 \<le> n \<and> n \<le> 90 then char_of (n + 32) else c)"

definition ascii_upper :: "char \<Rightarrow> char" where
  "ascii_upper c = (let n = of_char c :: nat in if 97 \<le> n \<and> n \<le> 122 then char_of (n - 32) else c)"

definition to_ascii_lowercase :: "string \<Rightarrow> string" where
  "to_ascii_lowercase s = map ascii_lower s"

definition to_ascii_uppercase :: "string \<Rightarrow> string" where
  "to_ascii_uppercase s = map ascii_upper s"

definition eq_ignore_ascii_case :: "string \<Rightarrow> string \<Rightarrow> bool" where
  "eq_ignore_ascii_case s t \<longleftrightarrow> to_ascii_lowercase s = to_ascii_lowercase t"

fun strip_prefix :: "string \<Rightarrow> string \<Rightarrow> string option" where
  "strip_prefix [] s = Some s"
| "strip_prefix (p # ps) [] = None"
| "strip_prefix (p # ps) (c # cs) = (if p = c then strip_prefix ps cs else None)"

definition starts_with :: "string \<Rightarrow> string \<Rightarrow> bool" where
  "starts_with p s \<longleftrightarrow> strip_prefix p s \<noteq> None"

definition ends_with :: "string \<Rightarrow> string \<Rightarrow> bool" where
  "ends_with p s \<longleftrightarrow> strip_prefix (rev p) (rev s) \<noteq> None"

fun str_contains :: "string \<Rightarrow> string \<Rightarrow> bool" where
  "str_contains p [] \<longleftrightarrow> p = []"
| "str_contains p (c # cs) \<longleftrightarrow> starts_with p (c # cs) \<or> str_contains p cs"

lemma strip_prefix_Some: "strip_prefix p s = Some t \<longleftrightarrow> s = p @ t"
  by (induction p s rule: strip_prefix.induct) auto

lemma strip_prefix_append [simp]: "strip_prefix p (p @ t) = Some t"
  by (simp add: strip_prefix_Some)

lemma starts_with_iff: "starts_with p s \<longleftrightarrow> prefix p s"
  by (auto simp: starts_with_def prefix_def strip_prefix_Some not_None_eq)

lemma ends_with_iff: "ends_with p s \<longleftrightarrow> suffix p s"
  by (auto simp: ends_with_def suffix_to_prefix prefix_def strip_prefix_Some not_None_eq)

lemma str_contains_iff: "str_contains p s \<longleftrightarrow> sublist p s"
  by (induction s) (auto simp: starts_with_iff sublist_Cons_right)

lemma ascii_lower_idem [simp]: "ascii_lower (ascii_lower c) = ascii_lower c"
  by (auto simp: ascii_lower_def Let_def)

lemma to_ascii_lowercase_idem [simp]:
  "to_ascii_lowercase (to_ascii_lowercase s) = to_ascii_lowercase s"
  by (simp add: to_ascii_lowercase_def)

lemma length_to_ascii_lowercase [simp]: "length (to_ascii_lowercase s) = length s"
  by (simp add: to_ascii_lowercase_def)

lemma to_ascii_lowercase_append [simp]:
  "to_ascii_lowercase (s @ t) = to_ascii_lowercase s @ to_ascii_lowercase t"
  by (simp add: to_ascii_lowercase_def)

lemma eq_ignore_ascii_case_refl [simp]: "eq_ignore_ascii_case s s"
  by (simp add: eq_ignore_ascii_case_def)

section \<open>Replacing, splitting, joining\<close>

text \<open>\<open>s.replace(pat, r)\<close> for a character, or a set of characters, \<open>pat\<close> (all ASCII here).\<close>

definition str_replace :: "char list \<Rightarrow> string \<Rightarrow> string \<Rightarrow> string" where
  "str_replace pat r s = concat (map (\<lambda>c. if c \<in> set pat then r else [c]) s)"

lemma str_replace_empty: "str_replace pat [] s = filter (\<lambda>c. c \<notin> set pat) s"
  by (induction s) (auto simp: str_replace_def)

lemma length_str_replace_single:
  "length (str_replace pat [d] s) = length s"
  by (induction s) (auto simp: str_replace_def)

text \<open>\<open>s.split(pat)\<close> for a non-empty string \<open>pat\<close>: leftmost, non-overlapping matches.\<close>

function split_str :: "string \<Rightarrow> string \<Rightarrow> string \<Rightarrow> string list" where
  "split_str pat acc s =
    (case s of
       [] \<Rightarrow> [rev acc]
     | c # cs \<Rightarrow>
         (if pat \<noteq> [] \<and> starts_with pat s
          then rev acc # split_str pat [] (drop (length pat) s)
          else split_str pat (c # acc) cs))"
  by pat_completeness auto
termination
  by (relation "measure (\<lambda>(pat, acc, s). length s)") auto

declare split_str.simps [simp del]

definition str_split :: "string \<Rightarrow> string \<Rightarrow> string list" where
  "str_split pat s = split_str pat [] s"

text \<open>\<open>s.split([c1, c2])\<close>\<close>

fun split_chars :: "char list \<Rightarrow> string \<Rightarrow> string list" where
  "split_chars pat [] = [[]]"
| "split_chars pat (c # cs) =
    (if c \<in> set pat then [] # split_chars pat cs
     else (case split_chars pat cs of f # fs \<Rightarrow> (c # f) # fs | [] \<Rightarrow> [[c]]))"

text \<open>\<open>parts.join(sep)\<close>\<close>

fun str_join :: "string \<Rightarrow> string list \<Rightarrow> string" where
  "str_join sep [] = []"
| "str_join sep [x] = x"
| "str_join sep (x # y # ys) = x @ sep @ str_join sep (y # ys)"

lemma split_str_not_Nil [simp]: "split_str pat acc s \<noteq> []"
  by (induction pat acc s rule: split_str.induct) (subst split_str.simps, auto split: list.splits)

lemma str_join_Cons: "ys \<noteq> [] \<Longrightarrow> str_join sep (x # ys) = x @ sep @ str_join sep ys"
  by (cases ys) auto

lemma str_join_split_str: "str_join pat (split_str pat acc s) = rev acc @ s"
proof (induction pat acc s rule: split_str.induct)
  case (1 pat acc s)
  show ?case
  proof (cases s)
    case Nil
    then show ?thesis by (subst split_str.simps) simp
  next
    case (Cons c cs)
    show ?thesis
    proof (cases "pat \<noteq> [] \<and> starts_with pat s")
      case True
      then have "s = pat @ drop (length pat) s" by (auto simp: starts_with_iff prefix_def)
      with True Cons "1.IH"(1) show ?thesis
        by (subst split_str.simps) (simp add: str_join_Cons)
    next
      case False
      with Cons "1.IH"(2) show ?thesis
        by (subst split_str.simps) auto
    qed
  qed
qed

lemma str_join_str_split: "str_join pat (str_split pat s) = s"
  by (simp add: str_split_def str_join_split_str)

lemma split_str_no_match:
  assumes "\<not> sublist pat s"
  shows "split_str pat acc s = [rev acc @ s]"
  using assms
proof (induction s arbitrary: acc)
  case Nil
  then show ?case by (subst split_str.simps) simp
next
  case (Cons c cs)
  then have "\<not> starts_with pat (c # cs)" "\<not> sublist pat cs"
    by (auto simp: starts_with_iff sublist_Cons_right)
  with Cons.IH [of "c # acc"] show ?case
    by (subst split_str.simps) simp
qed

text \<open>The text before the first occurrence of a delimiter.\<close>

lemma takeWhile_before [simp]:
  "d \<notin> set xs \<Longrightarrow> takeWhile (\<lambda>c. c \<noteq> d) (xs @ d # ys) = xs"
  by (induction xs) auto

section \<open>Trimming\<close>

text \<open>The UTF-8 encodings of the characters with the Unicode property White_Space.\<close>

definition white_space :: "string list" where
  "white_space =
    [[CHR 0x09], [CHR 0x0A], [CHR 0x0B], [CHR 0x0C], [CHR 0x0D], [CHR 0x20], [CHR 0xC2, CHR 0x85],
     [CHR 0xC2, CHR 0xA0], [CHR 0xE1, CHR 0x9A, CHR 0x80]]
    @ map (\<lambda>c. [CHR 0xE2, CHR 0x80, c])
        [CHR 0x80, CHR 0x81, CHR 0x82, CHR 0x83, CHR 0x84, CHR 0x85, CHR 0x86, CHR 0x87, CHR 0x88,
         CHR 0x89, CHR 0x8A, CHR 0xA8, CHR 0xA9, CHR 0xAF]
    @ [[CHR 0xE2, CHR 0x81, CHR 0x9F], [CHR 0xE3, CHR 0x80, CHR 0x80]]"

text \<open>Strip leading members of \<open>ws\<close>, as long as there is one.\<close>

function strip_any :: "string list \<Rightarrow> string \<Rightarrow> string" where
  "strip_any ws s =
    (case find (\<lambda>w. w \<noteq> [] \<and> starts_with w s) ws of
       None \<Rightarrow> s
     | Some w \<Rightarrow> strip_any ws (drop (length w) s))"
  by pat_completeness auto
termination
proof (relation "measure (\<lambda>(ws, s). length s)")
  fix ws s w
  assume "find (\<lambda>w. w \<noteq> [] \<and> starts_with w s) ws = Some w"
  then have "w \<noteq> [] \<and> starts_with w s" by (auto simp: find_Some_iff)
  then show "((ws, drop (length w) s), (ws, s)) \<in> measure (\<lambda>(ws, s). length s)"
    by (cases s) (auto simp: starts_with_iff prefix_def)
qed simp

declare strip_any.simps [simp del]

definition trim_start :: "string \<Rightarrow> string" where
  "trim_start s = strip_any white_space s"

definition trim_end :: "string \<Rightarrow> string" where
  "trim_end s = rev (strip_any (map rev white_space) (rev s))"

definition str_trim :: "string \<Rightarrow> string" where
  "str_trim s = trim_end (trim_start s)"

lemma strip_any_Nil [simp]: "strip_any ws [] = []"
proof -
  have "find (\<lambda>w. w \<noteq> [] \<and> starts_with w []) ws = None"
    by (auto simp: find_None_iff starts_with_iff)
  then show ?thesis by (subst strip_any.simps) simp
qed

lemma str_trim_Nil [simp]: "str_trim [] = []"
  by (simp add: str_trim_def trim_start_def trim_end_def)

text \<open>Nothing to trim at a visible ASCII character; a blank is trimmed.\<close>

definition visible :: "char \<Rightarrow> bool" where
  "visible c \<longleftrightarrow> (let n = of_char c :: nat in 33 \<le> n \<and> n \<le> 126)"

lemma white_space_ends:
  "list_all (\<lambda>w. w \<noteq> [] \<and> \<not> visible (hd w) \<and> \<not> visible (last w)
      \<and> (hd w = CHR '' '' \<or> last w = CHR '' '' \<longrightarrow> w = '' '')) white_space"
  by code_simp

lemma white_space_mem:
  assumes "w \<in> set white_space"
  shows "w \<noteq> []" and "\<not> visible (hd w)" and "\<not> visible (last w)"
    and "hd w = CHR '' '' \<or> last w = CHR '' '' \<Longrightarrow> w = '' ''"
  using white_space_ends assms unfolding list_all_iff by blast+

lemma blank_white_space: "'' '' \<in> set white_space"
  by code_simp

lemma strip_any_id:
  assumes "\<And>w. w \<in> set ws \<Longrightarrow> w \<noteq> [] \<and> hd w \<noteq> hd s" and "s \<noteq> []"
  shows "strip_any ws s = s"
proof -
  from assms have "\<not> starts_with w s" if "w \<in> set ws" for w
    using assms(1) [OF that] assms(2) by (cases s; cases w) (auto simp: starts_with_iff)
  then have "List.find (\<lambda>w. w \<noteq> [] \<and> starts_with w s) ws = None" by (auto simp: find_None_iff)
  then show ?thesis by (subst strip_any.simps) simp
qed

lemma find_member: "List.find P xs = Some x \<Longrightarrow> x \<in> set xs \<and> P x"
  by (auto simp: find_Some_iff)

lemma strip_any_blank:
  assumes blank: "'' '' \<in> set ws" and only: "\<And>w. w \<in> set ws \<Longrightarrow> hd w = CHR '' '' \<Longrightarrow> w = '' ''"
  shows "strip_any ws (CHR '' '' # s) = strip_any ws s"
proof -
  let ?P = "\<lambda>w. w \<noteq> [] \<and> starts_with w (CHR '' '' # s)"
  have "List.find ?P ws = Some '' ''"
  proof (cases "List.find ?P ws")
    case None
    with blank show ?thesis by (auto simp: find_None_iff starts_with_iff)
  next
    case (Some w)
    then have w: "w \<in> set ws \<and> ?P w" by (rule find_member)
    then have "hd w = CHR '' ''" by (cases w) (auto simp: starts_with_iff)
    with only w Some show ?thesis by blast
  qed
  then show ?thesis by (subst strip_any.simps) simp
qed

lemma trim_start_visible: "visible (hd s) \<Longrightarrow> s \<noteq> [] \<Longrightarrow> trim_start s = s"
  unfolding trim_start_def by (rule strip_any_id) (metis white_space_mem(1,2))

lemma rev_white_space_mem:
  assumes "w \<in> set (map rev white_space)"
  shows "w \<noteq> []" and "\<not> visible (hd w)" and "hd w = CHR '' '' \<Longrightarrow> w = '' ''"
proof -
  from assms obtain v where "v \<in> set white_space" "w = rev v" by auto
  with white_space_mem [of v] show "w \<noteq> []" "\<not> visible (hd w)" "hd w = CHR '' '' \<Longrightarrow> w = '' ''"
    by (auto simp: hd_rev)
qed

lemma trim_end_visible: "visible (last s) \<Longrightarrow> s \<noteq> [] \<Longrightarrow> trim_end s = s"
proof -
  assume s: "visible (last s)" "s \<noteq> []"
  then have "strip_any (map rev white_space) (rev s) = rev s"
    by (intro strip_any_id) (metis rev_white_space_mem(1,2) hd_rev, simp)
  then show ?thesis by (simp add: trim_end_def)
qed

lemma trim_start_blank: "trim_start (CHR '' '' # s) = trim_start s"
  unfolding trim_start_def by (rule strip_any_blank [OF blank_white_space white_space_mem(4)]) auto

lemma trim_end_blank: "trim_end (s @ '' '') = trim_end s"
proof -
  have "'' '' \<in> set (map rev white_space)" using blank_white_space by force
  from strip_any_blank [OF this rev_white_space_mem(3)] show ?thesis
    by (simp add: trim_end_def)
qed

lemma str_trim_visible: "visible (hd s) \<Longrightarrow> visible (last s) \<Longrightarrow> str_trim s = s"
  by (cases "s = []") (simp, simp add: str_trim_def trim_start_visible trim_end_visible)

section \<open>Slicing\<close>

text \<open>
  A byte index is a character boundary when it is an end of the string or the byte
  there starts a character. \<open>s.get(a..b)\<close> is \<open>None\<close>, and \<open>s[a..b]\<close> panics,
  when the range is not one of boundaries within the string.
\<close>

definition is_char_boundary :: "string \<Rightarrow> nat \<Rightarrow> bool" where
  "is_char_boundary s i \<longleftrightarrow>
     i = length s \<or> (i < length s \<and> \<not> is_cont (char_byte (s ! i)))"

definition str_get :: "string \<Rightarrow> nat \<Rightarrow> nat \<Rightarrow> string option" where
  "str_get s a b =
    (if a \<le> b \<and> is_char_boundary s a \<and> is_char_boundary s b
     then Some (take (b - a) (drop a s)) else None)"

definition str_index :: "string \<Rightarrow> nat \<Rightarrow> nat \<Rightarrow> (string, 'e) outcome" where
  "str_index s a b =
    (case str_get s a b of Some t \<Rightarrow> Ok t | None \<Rightarrow> Panic Panic_char_boundary)"

definition get_or_empty :: "string \<Rightarrow> nat \<Rightarrow> nat \<Rightarrow> string" where
  "get_or_empty s a b = (case str_get s a b of Some t \<Rightarrow> t | None \<Rightarrow> [])"

lemma is_char_boundary_ascii: "is_ascii s \<Longrightarrow> is_char_boundary s i \<longleftrightarrow> i \<le> length s"
  using char_byte_ascii
  by (fastforce simp: is_char_boundary_def is_ascii_def is_cont_def in_set_conv_nth
      not_le le_less)

lemma str_get_ascii:
  "is_ascii s \<Longrightarrow> a \<le> b \<Longrightarrow> b \<le> length s \<Longrightarrow> str_get s a b = Some (take (b - a) (drop a s))"
  by (simp add: str_get_def is_char_boundary_ascii)

lemma str_index_ascii:
  "is_ascii s \<Longrightarrow> a \<le> b \<Longrightarrow> b \<le> length s \<Longrightarrow> str_index s a b = Ok (take (b - a) (drop a s))"
  by (simp add: str_index_def str_get_ascii)

section \<open>Printing numbers\<close>

text \<open>\<open>{n}\<close> of an unsigned integer, \<open>{b:02x}\<close> of a byte, \<open>{s:0>64}\<close>.\<close>

definition digit_char :: "nat \<Rightarrow> char" where
  "digit_char n = (''0123456789abcdef'' ! n)"

fun show_nat :: "nat \<Rightarrow> string" where
  "show_nat n = (if n < 10 then [digit_char n] else show_nat (n div 10) @ [digit_char (n mod 10)])"

declare show_nat.simps [simp del]

definition show_u64 :: "u64 \<Rightarrow> string" where
  "show_u64 w = show_nat (unat w)"

definition show_u32 :: "u32 \<Rightarrow> string" where
  "show_u32 w = show_nat (unat w)"

definition show_u8 :: "u8 \<Rightarrow> string" where
  "show_u8 w = show_nat (unat w)"

definition hex02 :: "u8 \<Rightarrow> string" where
  "hex02 b = [digit_char (unat b div 16), digit_char (unat b mod 16)]"

text \<open>Padding counts characters, \<open>s.chars().count()\<close>: the bytes that start one.\<close>

definition char_count :: "string \<Rightarrow> nat" where
  "char_count s = length (filter (\<lambda>c. \<not> is_cont (char_byte c)) s)"

definition pad_left_zeros :: "nat \<Rightarrow> string \<Rightarrow> string" where
  "pad_left_zeros n s = replicate (n - char_count s) (CHR ''0'') @ s"

text \<open>\<open>{n:064x}\<close>\<close>

fun hex_nat :: "nat \<Rightarrow> string" where
  "hex_nat n = (if n < 16 then [digit_char n] else hex_nat (n div 16) @ [digit_char (n mod 16)])"

declare hex_nat.simps [simp del]

definition is_digit :: "char \<Rightarrow> bool" where
  "is_digit c \<longleftrightarrow> c \<in> set ''0123456789''"

fun read_nat :: "nat \<Rightarrow> string \<Rightarrow> nat" where
  "read_nat acc [] = acc"
| "read_nat acc (c # cs) = read_nat (10 * acc + (of_char c - 48)) cs"

lemma less_10_cases:
  "(n :: nat) < 10 \<Longrightarrow> n \<in> {0, 1, 2, 3, 4, 5, 6, 7, 8, 9}"
  by auto

lemma digit_char_is_digit: "n < 10 \<Longrightarrow> is_digit (digit_char n)"
  by (drule less_10_cases) (auto simp: digit_char_def is_digit_def)

lemma digit_char_value: "n < 10 \<Longrightarrow> of_char (digit_char n) - 48 = n"
  by (drule less_10_cases) (auto simp: digit_char_def)

lemma read_nat_append: "read_nat acc (s @ t) = read_nat (read_nat acc s) t"
  by (induction s arbitrary: acc) auto

lemma read_nat_show_nat: "read_nat 0 (show_nat n) = n"
proof (induction n rule: show_nat.induct)
  case (1 n)
  show ?case
  proof (cases "n < 10")
    case True
    then show ?thesis by (subst show_nat.simps) (simp add: digit_char_value)
  next
    case False
    with 1 show ?thesis
      by (subst show_nat.simps) (simp add: read_nat_append digit_char_value)
  qed
qed

lemma show_nat_inject [simp]: "show_nat m = show_nat n \<longleftrightarrow> m = n"
  by (metis read_nat_show_nat)

lemma show_nat_digits: "c \<in> set (show_nat n) \<Longrightarrow> is_digit c"
proof (induction n rule: show_nat.induct)
  case (1 n)
  then show ?case
    by (subst (asm) show_nat.simps) (auto simp: digit_char_is_digit split: if_splits)
qed

lemma show_nat_not_Nil [simp]: "show_nat n \<noteq> []"
  by (subst show_nat.simps) simp

lemma show_u32_inject [simp]: "show_u32 v = show_u32 w \<longleftrightarrow> v = w"
  by (simp add: show_u32_def word_unat_eq_iff)

lemma show_u64_inject [simp]: "show_u64 v = show_u64 w \<longleftrightarrow> v = w"
  by (simp add: show_u64_def word_unat_eq_iff)

lemma length_hex02 [simp]: "length (hex02 b) = 2"
  by (simp add: hex02_def)

lemma char_count_append [simp]: "char_count (s @ t) = char_count s + char_count t"
  by (simp add: char_count_def)

lemma char_count_ascii: "is_ascii s \<Longrightarrow> char_count s = length s"
proof (induction s)
  case (Cons c s)
  then have "char_byte c < 0x80" by (simp add: is_ascii_def char_byte_ascii)
  then have "\<not> is_cont (char_byte c)" by (simp add: is_cont_def not_le)
  with Cons show ?case by (simp add: char_count_def is_ascii_def)
qed (simp add: char_count_def)

lemma char_count_zeros [simp]: "char_count (replicate n CHR ''0'') = n"
  by (simp add: char_count_ascii is_ascii_def)

lemma pad_left_zeros_id [simp]: "n \<le> char_count s \<Longrightarrow> pad_left_zeros n s = s"
  by (simp add: pad_left_zeros_def)

lemma char_count_pad [simp]: "char_count (pad_left_zeros n s) = max n (char_count s)"
  by (simp add: pad_left_zeros_def)

lemma char_count_lower [simp]: "char_count (to_ascii_lowercase s) = char_count s"
proof -
  have "is_cont (char_byte (ascii_lower c)) \<longleftrightarrow> is_cont (char_byte c)" for c
  proof (cases "65 \<le> (of_char c :: nat) \<and> of_char c \<le> (90 :: nat)")
    case True
    then have "of_char c < (128 :: nat)" "of_char (ascii_lower c) < (128 :: nat)"
      by (simp_all add: ascii_lower_def)
    then show ?thesis
      using char_byte_ascii [of c] char_byte_ascii [of "ascii_lower c"] by (auto simp: is_cont_def dest: leD)
  next
    case False
    then have "ascii_lower c = c" by (auto simp: ascii_lower_def Let_def)
    then show ?thesis by simp
  qed
  then show ?thesis by (simp add: char_count_def to_ascii_lowercase_def filter_map comp_def)
qed

end
