(* ===== verification/Der.thy ===== *)
theory Der
  imports Rust_Str
begin

unbundle bit_operations_syntax

text \<open>
  The hand-written DER reader of \<open>crates/prover-core/src/analysis.rs\<close>: tag-length-value
  headers, object identifiers, RSA key sizes, and the walk over the SOD (a CMS
  \<open>SignedData\<close> envelope). Positions and lengths are \<open>usize\<close> words; a slice out of
  range panics; an addition wraps, or panics, as the build checks overflow (\<open>checks\<close>);
  the four \<open>while\<close> loops may not end. The X.509 parser is a third-party crate: a
  parameter that returns the fields the code reads, or a message.
\<close>

section \<open>Buffers\<close>

definition blen :: "u8 list \<Rightarrow> usize" where
  "blen buf = of_nat (length buf)"

text \<open>\<open>buf[a..b]\<close>\<close>

definition slice :: "u8 list \<Rightarrow> usize \<Rightarrow> usize \<Rightarrow> u8 list result" where
  "slice buf a b =
    (if a \<le> b \<and> b \<le> blen buf then Ok (take (unat b - unat a) (drop (unat a) buf))
     else Panic Panic_slice)"

text \<open>\<open>buf[a..e + len]\<close>\<close>

definition slice_to :: "bool \<Rightarrow> u8 list \<Rightarrow> usize \<Rightarrow> usize \<Rightarrow> usize \<Rightarrow> u8 list result" where
  "slice_to checks buf a e len = and_then (add_usize checks e len) (slice buf a)"

section \<open>Headers\<close>

record tlv =
  tlv_offset :: usize
  tlv_tag :: u8
  tlv_content_start :: usize
  tlv_content_length :: usize

text \<open>
  The loop over the bytes of a long-form length. No addition on positions in
  \<open>parse_tlv\<close> can overflow, since each position is below the buffer's length.
\<close>

fun read_length :: "u8 list \<Rightarrow> nat \<Rightarrow> usize \<Rightarrow> usize \<Rightarrow> (usize \<times> usize) option" where
  "read_length buf 0 pos len = Some (len, pos)"
| "read_length buf (Suc n) pos len =
    (if blen buf \<le> pos then None
     else read_length buf n (pos + 1) (push_bit 8 len OR ucast (buf ! unat pos)))"

definition parse_tlv :: "u8 list \<Rightarrow> usize \<Rightarrow> tlv option" where
  "parse_tlv buf offset =
    (if blen buf \<le> offset then None
     else
       let tag = buf ! unat offset; pos = offset + 1 in
       if blen buf \<le> pos then None
       else
         let len = ucast (buf ! unat pos) :: usize; pos = pos + 1 in
         if len = 0x80 then None
         else if 0x80 < len then
           map_option
             (\<lambda>(len', pos'). \<lparr>tlv_offset = offset, tlv_tag = tag,
                              tlv_content_start = pos', tlv_content_length = len'\<rparr>)
             (read_length buf (unat (len AND 0x7F)) pos 0)
         else Some \<lparr>tlv_offset = offset, tlv_tag = tag,
                    tlv_content_start = pos, tlv_content_length = len\<rparr>)"

section \<open>Object identifiers\<close>

fun oid_arcs :: "u64 \<Rightarrow> u8 list \<Rightarrow> u64 list" where
  "oid_arcs value [] = []"
| "oid_arcs value (byte # bytes) =
    (let value' = push_bit 7 value OR (ucast byte AND 0x7F) in
     if byte AND 0x80 = 0 then value' # oid_arcs 0 bytes else oid_arcs value' bytes)"

definition dotted :: "u64 list \<Rightarrow> string" where
  "dotted arcs = str_join ''.'' (map show_u64 arcs)"

fun parse_oid_raw :: "u8 list \<Rightarrow> string" where
  "parse_oid_raw [] = []"
| "parse_oid_raw (b # bytes) = dotted (ucast (b div 40) # ucast (b mod 40) # oid_arcs 0 bytes)"

definition parse_oid_bytes :: "bool \<Rightarrow> u8 list \<Rightarrow> string result" where
  "parse_oid_bytes checks bytes =
    and_then (opt_context ''invalid OID TLV'' (parse_tlv bytes 0)) (\<lambda>tlv.
    if tlv_tag tlv \<noteq> 0x06 then bail (''expected OID tag, got '' @ show_u8 (tlv_tag tlv))
    else and_then
      (slice_to checks bytes (tlv_content_start tlv) (tlv_content_start tlv) (tlv_content_length tlv))
      (\<lambda>raw. Ok (parse_oid_raw raw)))"

text \<open>The text of the OID a header stands for: \<open>parse_oid_raw(&buf[...])\<close>.\<close>

definition oid_at :: "bool \<Rightarrow> u8 list \<Rightarrow> tlv \<Rightarrow> string result" where
  "oid_at checks buf oid =
    and_then
      (slice_to checks buf (tlv_content_start oid) (tlv_content_start oid) (tlv_content_length oid))
      (\<lambda>raw. Ok (parse_oid_raw raw))"

section \<open>RSA key sizes\<close>

definition parse_rsa_key_size_bits :: "bool \<Rightarrow> u8 list \<Rightarrow> u32 result" where
  "parse_rsa_key_size_bits checks bits =
    and_then (opt_context ''invalid RSA public key sequence'' (parse_tlv bits 0)) (\<lambda>sequence.
    and_then (opt_context ''missing RSA modulus'' (parse_tlv bits (tlv_content_start sequence))) (\<lambda>modulus.
    if tlv_tag modulus \<noteq> 0x02 then bail (''invalid RSA modulus tag: '' @ show_u8 (tlv_tag modulus))
    else and_then
      (slice_to checks bits (tlv_content_start modulus) (tlv_content_start modulus)
         (tlv_content_length modulus))
      (\<lambda>modulus_bytes.
        let modulus_bytes' =
              (case modulus_bytes of b # rest \<Rightarrow> if b = 0 then rest else modulus_bytes | [] \<Rightarrow> [])
        in if checks \<and> 2 ^ 64 \<le> length modulus_bytes' * 8 then Panic Panic_overflow
           else Ok (of_nat (length modulus_bytes' * 8)))))"

section \<open>The SOD envelope\<close>

text \<open>What the code reads of an X.509 certificate.\<close>

record x509_certificate =
  xc_signature_algorithm :: string
  xc_tbs_len :: nat
  xc_issuer :: string
  xc_subject :: string
  xc_extension_akis :: "u8 list option list"
  xc_spki_algorithm :: string
  xc_spki_parameters :: "u8 list option"
  xc_spki_key :: "u8 list"

type_synonym x509_parser = "u8 list \<Rightarrow> string + x509_certificate"

record parsed_sod =
  ps_certificate_der :: "u8 list"
  ps_certificate_signature_algorithm_oid :: string
  ps_digest_algorithm_oid :: string
  ps_signer_signature_algorithm_oid :: string
  ps_econtent_hash_algorithm_oid :: string
  ps_econtent :: "u8 list"

definition parse_lds_hash_algorithm_oid :: "bool \<Rightarrow> u8 list \<Rightarrow> string result" where
  "parse_lds_hash_algorithm_oid checks econtent =
    and_then (opt_context ''invalid LDS security object'' (parse_tlv econtent 0)) (\<lambda>root.
    and_then (opt_context ''invalid LDS version'' (parse_tlv econtent (tlv_content_start root))) (\<lambda>version.
    and_then (add_usize checks (tlv_content_start version) (tlv_content_length version)) (\<lambda>next.
    and_then (opt_context ''invalid LDS digest algorithm'' (parse_tlv econtent next)) (\<lambda>digest_algo.
    and_then (opt_context ''invalid LDS digest OID'' (parse_tlv econtent (tlv_content_start digest_algo)))
      (oid_at checks econtent)))))"

text \<open>The loop of \<open>parse_econtent_info\<close>; its state is \<open>pos\<close>, it breaks with the octets.\<close>

definition econtent_body :: "bool \<Rightarrow> u8 list \<Rightarrow> usize \<Rightarrow> (usize + u8 list) run" where
  "econtent_body checks buf pos = Some
    (and_then (opt_context ''invalid EncapContentInfo child'' (parse_tlv buf pos)) (\<lambda>tlv.
     if tlv_tag tlv = 0xA0 then
       and_then (opt_context ''invalid eContent OCTET STRING'' (parse_tlv buf (tlv_content_start tlv)))
         (\<lambda>octet. and_then
            (slice_to checks buf (tlv_content_start octet) (tlv_content_start octet)
               (tlv_content_length octet))
            (\<lambda>bytes. Ok (Inr bytes)))
     else and_then (add_usize checks (tlv_content_start tlv) (tlv_content_length tlv))
       (\<lambda>pos'. Ok (Inl pos'))))"

definition parse_econtent_info :: "bool \<Rightarrow> u8 list \<Rightarrow> usize \<Rightarrow> usize \<Rightarrow> (string \<times> u8 list) run" where
  "parse_econtent_info checks buf start len =
    and_run (Some (add_usize checks start len)) (\<lambda>end_pos.
    and_run (while_loop (\<lambda>pos. pos < end_pos) (econtent_body checks buf)
               (\<lambda>_. Some (bail ''missing eContent OCTET STRING'')) start) (\<lambda>econtent.
    and_run (Some (parse_lds_hash_algorithm_oid checks econtent)) (\<lambda>hash_oid.
    Some (Ok (hash_oid, econtent)))))"

text \<open>The loop of \<open>parse_signer_info_signature_algorithm\<close>; its state is \<open>(pos, field_index)\<close>.\<close>

definition signer_body :: "bool \<Rightarrow> u8 list \<Rightarrow> usize \<times> usize \<Rightarrow> ((usize \<times> usize) + string) run" where
  "signer_body checks buf = (\<lambda>(pos, field_index). Some
    (and_then (opt_context ''invalid SignerInfo child'' (parse_tlv buf pos)) (\<lambda>tlv.
     if tlv_tag tlv = 0x30 \<and> 3 \<le> field_index then
       and_then (opt_context ''invalid SignerInfo signature OID'' (parse_tlv buf (tlv_content_start tlv)))
         (\<lambda>oid. and_then (oid_at checks buf oid) (\<lambda>text. Ok (Inr text)))
     else and_then (add_usize checks (tlv_content_start tlv) (tlv_content_length tlv)) (\<lambda>pos'.
       and_then (add_usize checks field_index 1) (\<lambda>i. Ok (Inl (pos', i)))))))"

definition parse_signer_info_signature_algorithm ::
  "bool \<Rightarrow> u8 list \<Rightarrow> usize \<Rightarrow> usize \<Rightarrow> string run" where
  "parse_signer_info_signature_algorithm checks buf start len =
    and_run (Some (add_usize checks start len)) (\<lambda>end_pos.
    while_loop (\<lambda>(pos, _). pos < end_pos) (signer_body checks buf)
      (\<lambda>_. Some (bail ''SignerInfo signature algorithm not found'')) (start, 0))"

text \<open>The local variables of \<open>parse_signed_data\<close>.\<close>

record signed_data =
  sd_pos :: usize
  sd_field_index :: usize
  sd_digest_oid :: "string option"
  sd_certificate :: "u8 list option"
  sd_certificate_oid :: "string option"
  sd_signer_oid :: "string option"
  sd_econtent :: "u8 list option"
  sd_econtent_oid :: "string option"

definition signed_data_init :: "usize \<Rightarrow> signed_data" where
  "signed_data_init start =
    \<lparr>sd_pos = start, sd_field_index = 0, sd_digest_oid = None, sd_certificate = None,
     sd_certificate_oid = None, sd_signer_oid = None, sd_econtent = None, sd_econtent_oid = None\<rparr>"

text \<open>The four conditional blocks of the loop body, and the step to the next child.\<close>

definition read_digest_algorithms :: "bool \<Rightarrow> u8 list \<Rightarrow> tlv \<Rightarrow> signed_data \<Rightarrow> signed_data run" where
  "read_digest_algorithms checks buf tlv s =
    (if sd_field_index s = 1 \<and> tlv_tag tlv = 0x31 then Some
       (and_then (opt_context ''invalid digest algorithm set'' (parse_tlv buf (tlv_content_start tlv)))
         (\<lambda>algo_seq.
        and_then (opt_context ''invalid digest algorithm oid'' (parse_tlv buf (tlv_content_start algo_seq)))
         (\<lambda>oid.
        and_then (oid_at checks buf oid) (\<lambda>text. Ok (s\<lparr>sd_digest_oid := Some text\<rparr>)))))
     else Some (Ok s))"

definition read_encap_content :: "bool \<Rightarrow> u8 list \<Rightarrow> tlv \<Rightarrow> signed_data \<Rightarrow> signed_data run" where
  "read_encap_content checks buf tlv s =
    (if sd_field_index s = 2 \<and> tlv_tag tlv = 0x30 then
       and_run (parse_econtent_info checks buf (tlv_content_start tlv) (tlv_content_length tlv))
         (\<lambda>(hash_oid, content).
           Some (Ok (s\<lparr>sd_econtent_oid := Some hash_oid, sd_econtent := Some content\<rparr>)))
     else Some (Ok s))"

definition read_certificates ::
  "bool \<Rightarrow> x509_parser \<Rightarrow> u8 list \<Rightarrow> tlv \<Rightarrow> signed_data \<Rightarrow> signed_data run" where
  "read_certificates checks x509 buf tlv s =
    (if tlv_tag tlv = 0xA0 \<and> 3 \<le> sd_field_index s then Some
       (and_then (opt_context ''invalid certificate container'' (parse_tlv buf (tlv_content_start tlv)))
         (\<lambda>cert_seq.
        and_then (slice_to checks buf (tlv_offset cert_seq) (tlv_content_start cert_seq)
                    (tlv_content_length cert_seq)) (\<lambda>der.
        and_then (of_sum (\<lambda>error. [''failed to parse embedded certificate: '' @ error]) (x509 der))
         (\<lambda>cert.
        Ok (s\<lparr>sd_certificate := Some der,
              sd_certificate_oid := Some (xc_signature_algorithm cert)\<rparr>)))))
     else Some (Ok s))"

definition read_signer_infos :: "bool \<Rightarrow> u8 list \<Rightarrow> tlv \<Rightarrow> signed_data \<Rightarrow> signed_data run" where
  "read_signer_infos checks buf tlv s =
    (if tlv_tag tlv = 0x31 \<and> 4 \<le> sd_field_index s then
       and_run (Some (opt_context ''invalid signer info'' (parse_tlv buf (tlv_content_start tlv))))
         (\<lambda>signer_info.
       and_run (parse_signer_info_signature_algorithm checks buf (tlv_content_start signer_info)
                  (tlv_content_length signer_info)) (\<lambda>text.
       Some (Ok (s\<lparr>sd_signer_oid := Some text\<rparr>))))
     else Some (Ok s))"

definition next_child :: "bool \<Rightarrow> tlv \<Rightarrow> signed_data \<Rightarrow> signed_data result" where
  "next_child checks tlv s =
    and_then (add_usize checks (tlv_content_start tlv) (tlv_content_length tlv)) (\<lambda>pos.
    and_then (add_usize checks (sd_field_index s) 1) (\<lambda>i.
    Ok (s\<lparr>sd_pos := pos, sd_field_index := i\<rparr>)))"

definition signed_data_body ::
  "bool \<Rightarrow> x509_parser \<Rightarrow> u8 list \<Rightarrow> signed_data \<Rightarrow> (signed_data + 'r) run" where
  "signed_data_body checks x509 buf s =
    and_run (Some (opt_context ''invalid SignedData child'' (parse_tlv buf (sd_pos s)))) (\<lambda>tlv.
    and_run (read_digest_algorithms checks buf tlv s) (\<lambda>s.
    and_run (read_encap_content checks buf tlv s) (\<lambda>s.
    and_run (read_certificates checks x509 buf tlv s) (\<lambda>s.
    and_run (read_signer_infos checks buf tlv s) (\<lambda>s.
    and_run (Some (next_child checks tlv s)) (\<lambda>s. Some (Ok (Inl s))))))))"

definition signed_data_finish :: "signed_data \<Rightarrow> parsed_sod result" where
  "signed_data_finish s =
    and_then (opt_context ''certificate not found in SOD'' (sd_certificate s)) (\<lambda>certificate.
    and_then (opt_context ''certificate signature algorithm not found'' (sd_certificate_oid s)) (\<lambda>cert_oid.
    and_then (opt_context ''digest algorithm not found'' (sd_digest_oid s)) (\<lambda>digest_oid.
    and_then (opt_context ''signer signature algorithm not found'' (sd_signer_oid s)) (\<lambda>signer_oid.
    and_then (opt_context ''eContent hash algorithm not found'' (sd_econtent_oid s)) (\<lambda>econtent_oid.
    and_then (opt_context ''eContent not found'' (sd_econtent s)) (\<lambda>econtent.
    Ok \<lparr>ps_certificate_der = certificate,
        ps_certificate_signature_algorithm_oid = cert_oid,
        ps_digest_algorithm_oid = digest_oid,
        ps_signer_signature_algorithm_oid = signer_oid,
        ps_econtent_hash_algorithm_oid = econtent_oid,
        ps_econtent = econtent\<rparr>))))))"

definition parse_signed_data ::
  "bool \<Rightarrow> x509_parser \<Rightarrow> u8 list \<Rightarrow> usize \<Rightarrow> usize \<Rightarrow> parsed_sod run" where
  "parse_signed_data checks x509 buf start len =
    and_run (Some (add_usize checks start len)) (\<lambda>end_pos.
    while_loop (\<lambda>s. sd_pos s < end_pos) (signed_data_body checks x509 buf)
      (\<lambda>s. Some (signed_data_finish s)) (signed_data_init start))"

text \<open>
  The loop of \<open>parse_sod_envelope\<close>; its state is \<open>pos\<close>. It leaves the function by
  the tail call \<open>return parse_signed_data(...)\<close>, here the header to call it on.
\<close>

definition sod_body :: "bool \<Rightarrow> u8 list \<Rightarrow> usize \<Rightarrow> (usize + tlv) run" where
  "sod_body checks sod pos = Some
    (and_then (opt_context ''invalid SOD outer child'' (parse_tlv sod pos)) (\<lambda>tlv.
     if tlv_tag tlv = 0xA0 then
       and_then (opt_context ''invalid SignedData'' (parse_tlv sod (tlv_content_start tlv)))
         (\<lambda>signed. Ok (Inr signed))
     else and_then (add_usize checks (tlv_content_start tlv) (tlv_content_length tlv))
       (\<lambda>pos'. Ok (Inl pos'))))"

definition sod_start :: "u8 list \<Rightarrow> usize result" where
  "sod_start sod =
    (if sod \<noteq> [] \<and> hd sod = 0x77
     then and_then (opt_context ''invalid SOD wrapper'' (parse_tlv sod 0)) (\<lambda>w. Ok (tlv_content_start w))
     else Ok 0)"

definition parse_sod_envelope :: "bool \<Rightarrow> x509_parser \<Rightarrow> u8 list \<Rightarrow> parsed_sod run" where
  "parse_sod_envelope checks x509 sod =
    and_run (Some (sod_start sod)) (\<lambda>start_offset.
    and_run (Some (opt_context ''invalid SOD outer sequence'' (parse_tlv sod start_offset))) (\<lambda>outer.
    and_run (Some (add_usize checks (tlv_content_start outer) (tlv_content_length outer))) (\<lambda>outer_end.
    and_run (while_loop (\<lambda>pos. pos < outer_end) (sod_body checks sod)
               (\<lambda>_. Some (bail ''SignedData payload not found in SOD'')) (tlv_content_start outer)) (\<lambda>signed.
    parse_signed_data checks x509 sod (tlv_content_start signed) (tlv_content_length signed)))))"

section \<open>Bounds of a header\<close>

lemma unat_Suc_below: "(p :: usize) < b \<Longrightarrow> unat (p + 1) = unat p + 1 \<and> unat (p + 1) \<le> unat b"
proof -
  assume "p < b"
  then have "unat p < unat b" by (simp add: word_less_nat_alt)
  moreover have "unat b < 2 ^ 64" using unsigned_less [of b] by simp
  ultimately have "unat (p + 1) = unat p + 1" by (subst unat_add_lem [THEN iffD1]) simp_all
  with \<open>unat p < unat b\<close> show ?thesis by simp
qed

lemma unat_blen_le: "unat (blen buf) \<le> length buf"
  by (simp add: blen_def unat_of_nat)

lemma read_length_bounds:
  assumes "read_length buf n pos len = Some (len', pos')" and "pos \<le> blen buf"
  shows "unat pos' = unat pos + n \<and> pos' \<le> blen buf"
  using assms
proof (induction n arbitrary: pos len)
  case (Suc n)
  then have lt: "pos < blen buf" by (auto split: if_splits)
  note step = unat_Suc_below [OF lt]
  then have "pos + 1 \<le> blen buf" by (simp add: word_le_nat_alt)
  with Suc.IH [of "pos + 1"] Suc.prems lt step show ?case
    by (auto split: if_splits)
qed simp

lemma parse_tlv_SomeD:
  assumes "parse_tlv buf off = Some t"
  shows "off < blen buf" and "off + 1 < blen buf"
    and "tlv_offset t = off" and "tlv_tag t = buf ! unat off"
    and "tlv_content_start t = off + 1 + 1
      \<or> (\<exists>n. read_length buf n (off + 1 + 1) 0 = Some (tlv_content_length t, tlv_content_start t))"
  using assms by (auto simp: parse_tlv_def Let_def split: if_splits)

lemma parse_tlv_bounds:
  assumes t: "parse_tlv buf off = Some t"
  shows "tlv_offset t = off" and "tlv_tag t = buf ! unat off"
    and "unat off < length buf"
    and "unat off + 2 \<le> unat (tlv_content_start t)"
    and "unat (tlv_content_start t) \<le> unat (blen buf)"
proof -
  note t = parse_tlv_SomeD [OF t]
  from unat_Suc_below [OF t(1)] unat_Suc_below [OF t(2)]
  have pos: "unat (off + 1 + 1) = unat off + 2" and le: "off + 1 + 1 \<le> blen buf"
    by (simp_all add: word_le_nat_alt)
  from t(5) have "unat off + 2 \<le> unat (tlv_content_start t) \<and> tlv_content_start t \<le> blen buf"
  proof
    assume "tlv_content_start t = off + 1 + 1"
    with pos le show ?thesis by simp
  next
    assume "\<exists>n. read_length buf n (off + 1 + 1) 0 = Some (tlv_content_length t, tlv_content_start t)"
    then obtain n where
      "read_length buf n (off + 1 + 1) 0 = Some (tlv_content_length t, tlv_content_start t)" ..
    from read_length_bounds [OF this le] pos show ?thesis by simp
  qed
  with t(1,3,4) show "tlv_offset t = off" "tlv_tag t = buf ! unat off" "unat off < length buf"
    "unat off + 2 \<le> unat (tlv_content_start t)" "unat (tlv_content_start t) \<le> unat (blen buf)"
    using unat_blen_le [of buf] by (simp_all add: word_le_nat_alt word_less_nat_alt)
qed

lemma parse_tlv_offset_below: "parse_tlv buf off = Some t \<Longrightarrow> unat off < unat (blen buf)"
  using parse_tlv_bounds [of buf off t] by simp

text \<open>The next child of a header lies behind it, when the addition did not overflow.\<close>

lemma next_behind:
  assumes "parse_tlv buf off = Some t"
    and "add_usize True (tlv_content_start t) (tlv_content_length t) = Ok pos"
  shows "unat off < unat pos"
  using assms parse_tlv_bounds(4) [OF assms(1)] by (auto simp: add_usize_True)

section \<open>The loops end when overflow is checked\<close>

interpretation econtent_scan:
  advancing_loop "\<lambda>pos. pos < e" "econtent_body True buf"
    "\<lambda>_. Some (bail ''missing eContent OCTET STRING'')" unat "unat (blen buf)"
  for e buf
  by unfold_locales
    (auto simp: econtent_body_def and_then_eq_Ok split: if_splits
      dest: next_behind parse_tlv_offset_below)

interpretation signer_scan:
  advancing_loop "\<lambda>(pos, _). pos < e" "signer_body True buf"
    "\<lambda>_. Some (bail ''SignerInfo signature algorithm not found'')" "\<lambda>(pos, _). unat pos" "unat (blen buf)"
  for e buf
  by unfold_locales
    (auto simp: signer_body_def and_then_eq_Ok split: if_splits
      dest: next_behind parse_tlv_offset_below)

interpretation sod_scan:
  advancing_loop "\<lambda>pos. pos < e" "sod_body True buf"
    "\<lambda>_. Some (bail ''SignedData payload not found in SOD'')" unat "unat (blen buf)"
  for e buf
  by unfold_locales
    (auto simp: sod_body_def and_then_eq_Ok split: if_splits
      dest: next_behind parse_tlv_offset_below)

lemma parse_econtent_info_ends [ends_intros]: "ends (parse_econtent_info True buf start len)"
  unfolding parse_econtent_info_def by (intro ends_intros econtent_scan.loop_ends)

lemma parse_signer_info_ends [ends_intros]:
  "ends (parse_signer_info_signature_algorithm True buf start len)"
  unfolding parse_signer_info_signature_algorithm_def
  by (intro ends_intros signer_scan.loop_ends)

text \<open>The blocks of a loop body leave the position alone.\<close>

lemma read_blocks_pos:
  "read_digest_algorithms checks buf tlv s = Some (Ok s') \<Longrightarrow> sd_pos s' = sd_pos s"
  "read_encap_content checks buf tlv s = Some (Ok s') \<Longrightarrow> sd_pos s' = sd_pos s"
  "read_certificates checks x509 buf tlv s = Some (Ok s') \<Longrightarrow> sd_pos s' = sd_pos s"
  "read_signer_infos checks buf tlv s = Some (Ok s') \<Longrightarrow> sd_pos s' = sd_pos s"
  by (auto simp: read_digest_algorithms_def read_encap_content_def read_certificates_def
      read_signer_infos_def and_run_eq_Some_Ok and_then_eq_Ok split: if_splits)

lemma signed_data_body_Inl:
  assumes "signed_data_body True x509 buf s = Some (Ok (Inl s'))"
  shows "\<exists>t. parse_tlv buf (sd_pos s) = Some t
    \<and> add_usize True (tlv_content_start t) (tlv_content_length t) = Ok (sd_pos s')"
  using assms
  by (auto simp: signed_data_body_def and_run_eq_Some_Ok next_child_def and_then_eq_Ok)

lemma signed_data_body_ends: "ends (signed_data_body True x509 buf s)"
  unfolding signed_data_body_def read_digest_algorithms_def read_encap_content_def
    read_certificates_def read_signer_infos_def
  by (intro ends_intros)

interpretation signed_data_scan:
  advancing_loop "\<lambda>s. sd_pos s < e" "signed_data_body True x509 buf"
    "\<lambda>s. Some (signed_data_finish s)" "\<lambda>s. unat (sd_pos s)" "unat (blen buf)"
  for e x509 buf
proof unfold_locales
  fix s s'
  assume "signed_data_body True x509 buf s = Some (Ok (Inl s'))"
  then obtain t where "parse_tlv buf (sd_pos s) = Some t"
    and "add_usize True (tlv_content_start t) (tlv_content_length t) = Ok (sd_pos s')"
    using signed_data_body_Inl by blast
  then show "unat (sd_pos s) < unat (sd_pos s')" "unat (sd_pos s) < unat (blen buf)"
    by (auto dest: next_behind parse_tlv_offset_below)
qed (simp_all add: signed_data_body_ends)

lemma parse_signed_data_ends [ends_intros]: "ends (parse_signed_data True x509 buf start len)"
  unfolding parse_signed_data_def by (intro ends_intros signed_data_scan.loop_ends)

lemma parse_sod_envelope_ends: "ends (parse_sod_envelope True x509 sod)"
  unfolding parse_sod_envelope_def by (intro ends_intros sod_scan.loop_ends)

end
