(* ===== verification/Der_Encoding.thy ===== *)
theory Der_Encoding
  imports Der
begin

text \<open>
  The specification the DER reader is measured against: the definite-length encoding of
  X.690, as encoders, and the SOD of a passport built from them. The reader inverts the
  encoders; a build without overflow checks agrees with one that has them, as long as
  the latter does not stop at an overflow.
\<close>

section \<open>Encoders\<close>

text \<open>The minimal big-endian bytes of a number.\<close>

fun be_bytes :: "nat \<Rightarrow> u8 list" where
  "be_bytes n = (if n < 256 then [of_nat n] else be_bytes (n div 256) @ [of_nat (n mod 256)])"

declare be_bytes.simps [simp del]

definition der_length :: "nat \<Rightarrow> u8 list" where
  "der_length n = (if n < 128 then [of_nat n] else of_nat (128 + length (be_bytes n)) # be_bytes n)"

definition der_tlv :: "u8 \<Rightarrow> u8 list \<Rightarrow> u8 list" where
  "der_tlv tag content = tag # der_length (length content) @ content"

definition header_size :: "u8 list \<Rightarrow> nat" where
  "header_size content = 1 + length (der_length (length content))"

text \<open>The base-128 bytes of an arc; every byte but the last has its top bit set.\<close>

fun arc_high :: "nat \<Rightarrow> u8 list" where
  "arc_high m = (if m = 0 then [] else arc_high (m div 128) @ [of_nat (128 + m mod 128)])"

declare arc_high.simps [simp del]

definition arc_bytes :: "nat \<Rightarrow> u8 list" where
  "arc_bytes n = arc_high (n div 128) @ [of_nat (n mod 128)]"

text \<open>The OID \<open>a.b.c...\<close>, whose first two arcs share a byte.\<close>

definition oid_bytes :: "nat \<Rightarrow> nat \<Rightarrow> nat list \<Rightarrow> u8 list" where
  "oid_bytes a b arcs = of_nat (40 * a + b) # concat (map arc_bytes arcs)"

lemma length_der_tlv: "length (der_tlv t c) = header_size c + length c"
  by (simp add: der_tlv_def header_size_def)

section \<open>Where bytes lie in a buffer\<close>

definition at_pos :: "u8 list \<Rightarrow> nat \<Rightarrow> u8 list \<Rightarrow> bool" where
  "at_pos buf k xs \<longleftrightarrow> k + length xs \<le> length buf \<and> take (length xs) (drop k buf) = xs"

lemma at_pos_append:
  "at_pos buf k (xs @ ys) \<longleftrightarrow> at_pos buf k xs \<and> at_pos buf (k + length xs) ys"
proof -
  have "take (length xs + length ys) (drop k buf) =
      take (length xs) (drop k buf) @ take (length ys) (drop (k + length xs) buf)"
    by (simp add: take_add add.commute)
  moreover have "length (take (length xs) (drop k buf)) = length xs" if "k + length xs \<le> length buf"
    using that by simp
  ultimately show ?thesis
    unfolding at_pos_def by (auto simp: append_eq_append_conv)
qed

lemma at_pos_self: "at_pos buf 0 buf"
  by (simp add: at_pos_def)

lemma at_pos_Cons:
  "at_pos buf k (x # xs) \<longleftrightarrow> k < length buf \<and> buf ! k = x \<and> at_pos buf (Suc k) xs"
  using at_pos_append [of buf k "[x]" xs]
  by (auto simp: at_pos_def take_Suc_conv_app_nth Suc_le_eq)

lemma at_pos_length: "at_pos buf k xs \<Longrightarrow> k + length xs \<le> length buf"
  by (simp add: at_pos_def)

text \<open>Rust's limit on the size of a buffer, \<open>isize::MAX\<close>.\<close>

definition buffer_ok :: "u8 list \<Rightarrow> bool" where
  "buffer_ok buf \<longleftrightarrow> length buf < 2 ^ 63"

lemma unat_pos [simp]: "n < 2 ^ 63 \<Longrightarrow> unat (of_nat n :: usize) = n"
  by (simp add: unat_of_nat)

lemma blen_ok: "buffer_ok buf \<Longrightarrow> unat (blen buf) = length buf"
  by (simp add: blen_def buffer_ok_def)

lemma pos_below: "buffer_ok buf \<Longrightarrow> n \<le> length buf \<Longrightarrow> n < 2 ^ 63"
  by (simp add: buffer_ok_def)

lemma of_nat_less_pos: "m < 2 ^ 63 \<Longrightarrow> n < 2 ^ 63 \<Longrightarrow> (of_nat m :: usize) < of_nat n \<longleftrightarrow> m < n"
  by (simp add: word_less_nat_alt)

lemma of_nat_le_pos: "m < 2 ^ 63 \<Longrightarrow> n < 2 ^ 63 \<Longrightarrow> (of_nat m :: usize) \<le> of_nat n \<longleftrightarrow> m \<le> n"
  by (simp add: word_le_nat_alt)

lemma add_usize_pos:
  "m + n < 2 ^ 63 \<Longrightarrow> add_usize checks (of_nat m) (of_nat n) = Ok (of_nat (m + n))"
  by (simp add: add_usize_def)

lemma slice_at:
  assumes "buffer_ok buf" and at: "at_pos buf k xs"
  shows "slice buf (of_nat k) (of_nat (k + length xs)) = Ok xs"
proof -
  from at have le: "k + length xs \<le> length buf" by (rule at_pos_length)
  with assms(1) have "k + length xs < 2 ^ 63" "k < 2 ^ 63" by (auto dest: pos_below)
  with le at show ?thesis
    by (simp add: slice_def word_le_nat_alt blen_ok [OF assms(1)] at_pos_def del: of_nat_add)
qed

lemma slice_to_at:
  assumes "buffer_ok buf" and at: "at_pos buf k xs"
    and e: "e + len = k + length xs" and le: "e + len < 2 ^ 63"
  shows "slice_to checks buf (of_nat k) (of_nat e) (of_nat len) = Ok xs"
  using slice_at [OF assms(1,2)] e le
  by (simp add: slice_to_def add_usize_pos del: of_nat_add)

section \<open>The reader inverts the encoder\<close>

lemma of_nat_be_step:
  "push_bit 8 (of_nat (n div 256)) OR ucast (of_nat (n mod 256) :: u8) = (of_nat n :: usize)"
proof (rule bit_word_eqI)
  fix i
  assume "i < LENGTH(64)"
  moreover have "n div 256 = drop_bit 8 n" "n mod 256 = take_bit 8 n"
    by (simp_all add: drop_bit_eq_div take_bit_eq_mod)
  ultimately show
    "bit (push_bit 8 (of_nat (n div 256)) OR ucast (of_nat (n mod 256) :: u8) :: usize) i
      \<longleftrightarrow> bit (of_nat n :: usize) i"
    by (auto simp: bit_simps)
qed

lemma foldl_be_bytes:
  "foldl (\<lambda>l b. push_bit 8 l OR ucast b) 0 (be_bytes n) = (of_nat n :: usize)"
proof (induction n rule: be_bytes.induct)
  case (1 n)
  show ?case
  proof (cases "n < 256")
    case True
    then have "(push_bit 8 0 OR ucast (of_nat (n mod 256) :: u8)) = (of_nat n :: usize)"
      using of_nat_be_step [of n] by simp
    with True show ?thesis by (simp add: be_bytes.simps)
  next
    case False
    with 1 show ?thesis
      by (subst be_bytes.simps) (simp add: of_nat_be_step)
  qed
qed

lemma length_be_bytes: "n < 256 ^ Suc k \<Longrightarrow> length (be_bytes n) \<le> Suc k"
proof (induction k arbitrary: n)
  case 0
  then show ?case by (simp add: be_bytes.simps)
next
  case (Suc k)
  then have "n div 256 < 256 ^ Suc k" by (simp add: less_mult_imp_div_less)
  from Suc.IH [OF this] show ?case by (subst be_bytes.simps) simp
qed

lemma be_bytes_not_Nil: "0 < length (be_bytes n)"
  by (subst be_bytes.simps) simp

lemma read_length_at:
  assumes "buffer_ok buf" and "at_pos buf k bs"
  shows "read_length buf (length bs) (of_nat k) l =
    Some (foldl (\<lambda>l b. push_bit 8 l OR ucast b) l bs, of_nat (k + length bs))"
  using assms(2)
proof (induction bs arbitrary: k l)
  case (Cons b bs)
  then have "k < length buf" "buf ! k = b" "at_pos buf (Suc k) bs" by (simp_all add: at_pos_Cons)
  moreover from this assms(1) have "k < 2 ^ 63" by (auto dest: pos_below)
  moreover from this have "of_nat k < blen buf"
    using blen_ok [OF assms(1)] \<open>k < length buf\<close> by (simp add: word_less_nat_alt)
  moreover have "(of_nat k + 1 :: usize) = of_nat (Suc k)" by simp
  ultimately show ?case
    using Cons.IH [of "Suc k"] by (simp add: not_le del: of_nat_Suc)
qed simp

lemma long_form_count:
  assumes "0 < k" and "k \<le> 8"
  shows "(0x80 :: usize) < ucast (of_nat (128 + k) :: u8)"
    and "(ucast (of_nat (128 + k) :: u8) :: usize) \<noteq> 0x80"
    and "unat ((ucast (of_nat (128 + k) :: u8) :: usize) AND 0x7F) = k"
proof -
  from assms have "k \<in> {1, 2, 3, 4, 5, 6, 7, 8}" by auto
  then show "(0x80 :: usize) < ucast (of_nat (128 + k) :: u8)"
    "(ucast (of_nat (128 + k) :: u8) :: usize) \<noteq> 0x80"
    "unat ((ucast (of_nat (128 + k) :: u8) :: usize) AND 0x7F) = k"
    by auto
qed

lemma short_form:
  assumes "n < 128"
  shows "(ucast (of_nat n :: u8) :: usize) = of_nat n" and "\<not> (0x80 :: usize) < of_nat n"
    and "(of_nat n :: usize) \<noteq> 0x80"
proof -
  show "(ucast (of_nat n :: u8) :: usize) = of_nat n"
    using assms by (simp add: word_unat_eq_iff unat_of_nat unsigned_ucast_eq take_bit_nat_eq_self)
  from assms have "unat (of_nat n :: usize) = n" by simp
  with assms show "\<not> (0x80 :: usize) < of_nat n" "(of_nat n :: usize) \<noteq> 0x80"
    by (simp_all add: word_less_nat_alt word_unat_eq_iff)
qed

text \<open>
  A header that encodes \<open>tag\<close> and a length is read as such, anywhere in a buffer, whether
  or not the content behind it is in the buffer too.
\<close>

lemma parse_tlv_header:
  assumes ok: "buffer_ok buf" and at: "at_pos buf k (tag # der_length n)" and n: "n < 2 ^ 63"
  shows "parse_tlv buf (of_nat k) =
    Some \<lparr>tlv_offset = of_nat k, tlv_tag = tag,
          tlv_content_start = of_nat (k + 1 + length (der_length n)), tlv_content_length = of_nat n\<rparr>"
proof -
  from at have at_len: "at_pos buf (Suc k) (der_length n)"
    and k: "k < length buf" "buf ! k = tag"
    by (simp_all add: at_pos_Cons)
  from at_len have k': "Suc k < length buf" and len_byte: "buf ! Suc k = hd (der_length n)"
    by (auto simp: der_length_def at_pos_Cons split: if_splits)
  have lt: "of_nat k < blen buf" "of_nat (Suc k) < blen buf"
    using k(1) k' blen_ok [OF ok] pos_below [OF ok, of k] pos_below [OF ok, of "Suc k"]
    by (simp_all add: word_less_nat_alt del: of_nat_Suc)
  have suc: "(of_nat k + 1 :: usize) = of_nat (Suc k)" "(of_nat (Suc k) + 1 :: usize) = of_nat (k + 2)"
    by simp_all
  have idx: "unat (of_nat k :: usize) = k" "unat (of_nat (Suc k) :: usize) = Suc k"
    using k(1) k' pos_below [OF ok, of k] pos_below [OF ok, of "Suc k"] by (simp_all del: of_nat_Suc)
  show ?thesis
  proof (cases "n < 128")
    case True
    then have hd: "hd (der_length n) = of_nat n" and hs: "length (der_length n) = 1"
      by (simp_all add: der_length_def)
    show ?thesis
      unfolding parse_tlv_def Let_def suc idx len_byte hd k(2)
      using lt short_form [OF True] hs
      by (simp add: not_le del: of_nat_Suc of_nat_add)
  next
    case False
    let ?bs = "be_bytes n"
    have count: "0 < length ?bs" "length ?bs \<le> 8"
      using be_bytes_not_Nil length_be_bytes [of n 7] n by simp_all
    from False have hd: "hd (der_length n) = of_nat (128 + length ?bs)"
      and hs: "length (der_length n) = 1 + length ?bs"
      by (simp_all add: der_length_def)
    from False at_len have "at_pos buf (k + 2) ?bs"
      by (simp add: der_length_def at_pos_Cons)
    from read_length_at [OF ok this, of 0]
    have rl: "read_length buf (length ?bs) (of_nat (k + 2)) 0 =
        Some (of_nat n, of_nat (k + 1 + length (der_length n)))"
      by (simp add: foldl_be_bytes hs add.assoc)
    show ?thesis
      unfolding parse_tlv_def Let_def suc idx len_byte hd k(2)
      using lt long_form_count [OF count] rl
      by (simp add: not_le del: of_nat_Suc of_nat_add)
  qed
qed

text \<open>A header that encodes \<open>tag\<close> and \<open>content\<close>, with the content behind it.\<close>

theorem parse_tlv_at:
  assumes ok: "buffer_ok buf" and at: "at_pos buf k (der_tlv tag content)"
  shows "parse_tlv buf (of_nat k) =
    Some \<lparr>tlv_offset = of_nat k, tlv_tag = tag,
          tlv_content_start = of_nat (k + header_size content),
          tlv_content_length = of_nat (length content)\<rparr>"
proof -
  from at have header: "at_pos buf k (tag # der_length (length content))"
    by (simp add: der_tlv_def at_pos_append flip: append_Cons)
  from at_pos_length [OF at] ok have "length content < 2 ^ 63"
    by (simp add: length_der_tlv buffer_ok_def)
  from parse_tlv_header [OF ok header this] show ?thesis by (simp add: header_size_def add.assoc)
qed

text \<open>The same for a buffer that is cut off behind the header.\<close>

lemma at_pos_take: "at_pos buf k xs \<Longrightarrow> k + length xs \<le> m \<Longrightarrow> at_pos (take m buf) k xs"
  by (auto simp: at_pos_def drop_take min_def)

lemma parse_tlv_cut:
  assumes ok: "buffer_ok buf" and at: "at_pos buf k (der_tlv tag content)" and m: "k + header_size content \<le> m"
  shows "parse_tlv (take m buf) (of_nat k) =
    Some \<lparr>tlv_offset = of_nat k, tlv_tag = tag,
          tlv_content_start = of_nat (k + header_size content),
          tlv_content_length = of_nat (length content)\<rparr>"
proof -
  from at have "at_pos buf k (tag # der_length (length content))"
    by (simp add: der_tlv_def at_pos_append flip: append_Cons)
  from at_pos_take [OF this, of m] m have header: "at_pos (take m buf) k (tag # der_length (length content))"
    by (simp add: header_size_def)
  from at_pos_length [OF at] ok have "length content < 2 ^ 63" "buffer_ok (take m buf)"
    by (auto simp: length_der_tlv buffer_ok_def)
  with parse_tlv_header [OF _ header] show ?thesis by (simp add: header_size_def add.assoc)
qed

lemmas at_pos_tlv = at_pos_Cons at_pos_append length_der_tlv

text \<open>The content of an encoded header lies behind its header.\<close>

lemma at_pos_content: "at_pos buf k (der_tlv t c) \<Longrightarrow> at_pos buf (k + header_size c) c"
  by (simp add: der_tlv_def header_size_def at_pos_Cons at_pos_append)

section \<open>Object identifiers\<close>

lemma of_nat_arc_step:
  "push_bit 7 (of_nat (n div 128)) OR (ucast (of_nat (128 * c + n mod 128) :: u8) AND 0x7F)
     = (of_nat n :: u64)"
proof (rule bit_word_eqI)
  fix i
  assume "i < LENGTH(64)"
  moreover have "n div 128 = drop_bit 7 n" by (simp add: drop_bit_eq_div)
  moreover have "bit (128 * c + n mod 128) i \<longleftrightarrow> bit n i" if "i < 7"
  proof -
    have "take_bit 7 (128 * c + n mod 128) = take_bit 7 n" by (simp add: take_bit_eq_mod)
    then show ?thesis using that by (metis bit_take_bit_iff)
  qed
  moreover have "x AND 0x7F = take_bit 7 x" for x :: u64
    by (simp add: take_bit_eq_mask mask_eq_exp_minus_1)
  ultimately show
    "bit (push_bit 7 (of_nat (n div 128)) OR (ucast (of_nat (128 * c + n mod 128) :: u8) AND 0x7F) :: u64) i
      \<longleftrightarrow> bit (of_nat n :: u64) i"
    by (cases "i < 7") (auto simp: bit_simps simp del: of_nat_add of_nat_mult)
qed

lemma byte_top_bit:
  assumes "m < 128"
  shows "(of_nat (128 + m) :: u8) AND 0x80 \<noteq> 0" and "(of_nat m :: u8) AND 0x80 = 0"
proof -
  have top: "x AND 0x80 = 0 \<longleftrightarrow> \<not> bit x 7" for x :: u8
    using and_exp_eq_0_iff_not_bit [of x 7] by simp
  have "(128 + m) div 128 = 1" using assms by (simp add: div_add_self1)
  then have "bit (128 + m) 7" by (simp add: bit_iff_odd)
  then show "(of_nat (128 + m) :: u8) AND 0x80 \<noteq> 0"
    by (simp add: top bit_simps del: of_nat_add)
  have "\<not> bit m 7" using assms by (simp add: bit_iff_odd)
  then show "(of_nat m :: u8) AND 0x80 = 0"
    by (simp add: top bit_simps)
qed

lemma oid_arcs_high: "oid_arcs 0 (arc_high m @ bs) = oid_arcs (of_nat m) bs"
proof (induction m arbitrary: bs rule: arc_high.induct)
  case (1 m)
  show ?case
  proof (cases "m = 0")
    case False
    then have "arc_high m = arc_high (m div 128) @ [of_nat (128 + m mod 128)]"
      by (simp add: arc_high.simps [of m])
    with 1 [OF False] byte_top_bit(1) [of "m mod 128"] of_nat_arc_step [of m 1]
    show ?thesis by (simp add: Let_def del: of_nat_add)
  qed (simp add: arc_high.simps)
qed

lemma oid_arcs_arc: "oid_arcs 0 (arc_bytes n @ bs) = of_nat n # oid_arcs 0 bs"
  using byte_top_bit(2) [of "n mod 128"] of_nat_arc_step [of n 0]
  by (simp add: arc_bytes_def oid_arcs_high Let_def)

lemma oid_arcs_concat: "oid_arcs 0 (concat (map arc_bytes arcs)) = map of_nat arcs"
  by (induction arcs) (simp_all add: oid_arcs_arc)

theorem parse_oid_bytes_inverse:
  assumes "a \<le> 2" and "b < 40" and "\<forall>c \<in> set arcs. c < 2 ^ 64"
  shows "parse_oid_raw (oid_bytes a b arcs) = str_join ''.'' (map show_nat (a # b # arcs))"
proof -
  let ?f = "of_nat (40 * a + b) :: u8"
  from assms have "unat ?f = 40 * a + b" by (simp add: unat_of_nat del: of_nat_add of_nat_mult)
  then have u: "unat (?f div 40) = a" "unat (?f mod 40) = b"
    using assms(2) by (simp_all add: unat_div unat_mod del: of_nat_add of_nat_mult)
  have w: "show_u64 (ucast v) = show_nat (unat v)" for v :: u8
  proof -
    have "unat v < 2 ^ 64" using order.strict_trans [OF unsigned_less [of v], of "2 ^ 64"] by simp
    then show ?thesis by (simp add: show_u64_def unsigned_ucast_eq take_bit_nat_eq_self)
  qed
  from assms(3) have tail: "map (show_u64 \<circ> of_nat) arcs = map show_nat arcs"
    by (auto simp: show_u64_def unat_of_nat take_bit_nat_eq_self)
  with u show ?thesis
    by (simp only: oid_bytes_def parse_oid_raw.simps oid_arcs_concat dotted_def list.map w map_map)
qed

section \<open>Properties of the reader\<close>

text \<open>
  C30. The header reader inverts the definite-length encoding: whatever lies before and
  behind an encoded value in a buffer that fits in memory, reading at its position gives
  the tag, the position of the content, and its length, in short and long form.
\<close>

theorem parse_tlv_round_trip:
  assumes "buffer_ok (before @ der_tlv tag content @ behind)"
  shows "parse_tlv (before @ der_tlv tag content @ behind) (of_nat (length before)) =
    Some \<lparr>tlv_offset = of_nat (length before), tlv_tag = tag,
          tlv_content_start = of_nat (length before + header_size content),
          tlv_content_length = of_nat (length content)\<rparr>
   \<and> take (length content) (drop (length before + header_size content)
        (before @ der_tlv tag content @ behind)) = content"
proof -
  let ?buf = "before @ der_tlv tag content @ behind"
  have at: "at_pos ?buf (length before) (der_tlv tag content)"
    using at_pos_self [of ?buf] by (simp add: at_pos_append)
  have "take (length content) (drop (length before + header_size content) ?buf) = content"
    using at_pos_content [OF at] unfolding at_pos_def by (rule conjunct2)
  then show ?thesis using parse_tlv_at [OF assms at] by blast
qed

theorem parse_tlv_round_trip_witness:
  "parse_tlv ([0] @ der_tlv 4 (replicate 300 7) @ [9]) 1 =
    Some \<lparr>tlv_offset = 1, tlv_tag = 4, tlv_content_start = 5, tlv_content_length = 300\<rparr>"
proof -
  have "length (der_length 300) = 3" by code_simp
  then have size: "header_size (replicate 300 7) = 4" by (simp add: header_size_def)
  then have "buffer_ok ([0] @ der_tlv 4 (replicate 300 7) @ [9])"
    by (simp add: buffer_ok_def length_der_tlv)
  from parse_tlv_round_trip [OF this] size show ?thesis by simp
qed

end
