(* ===== verification/Sod.thy ===== *)
theory Sod
  imports Der_Encoding
begin

text \<open>
  The walk over the SOD measured against an encoded SOD: the fields of a CMS
  \<open>SignedData\<close> envelope with an LDS security object, its encoding, and the proof
  that \<open>parse_sod_envelope\<close> reads back what was encoded. Then what happens on input
  that is no such encoding: the builds with and without overflow checks agree, or the
  former stops at an overflow; an input on which the release build does not end; every SOD
  that is cut off within its digest OID, on which both builds panic.
\<close>

section \<open>An encoded SOD\<close>

text \<open>
  The parts the reader skips are arbitrary bytes: the content of the version fields, the
  parameters of algorithm identifiers, further digest algorithms, certificates and signer
  infos, the data group hashes behind the LDS digest algorithm, the signature.
\<close>

record sod_fields =
  sf_wrapped :: bool
  sf_content_type :: "u8 list"
  sf_version :: "u8 list"
  sf_digest_oid :: "u8 list"
  sf_digest_rest :: "u8 list"
  sf_digest_more :: "u8 list"
  sf_econtent_type :: "u8 list"
  sf_lds_version :: "u8 list"
  sf_lds_oid :: "u8 list"
  sf_lds_rest :: "u8 list"
  sf_lds_more :: "u8 list"
  sf_cert :: "u8 list"
  sf_cert_more :: "u8 list"
  sf_signer_version :: "u8 list"
  sf_sid_tag :: u8
  sf_sid :: "u8 list"
  sf_signer_digest :: "u8 list"
  sf_signed_attrs :: "u8 list option"
  sf_signer_oid :: "u8 list"
  sf_signer_rest :: "u8 list"
  sf_signature :: "u8 list"
  sf_signer_more :: "u8 list"

definition enc_algorithm :: "u8 list \<Rightarrow> u8 list \<Rightarrow> u8 list" where
  "enc_algorithm oid rest = der_tlv 0x30 (der_tlv 0x06 oid @ rest)"

definition enc_lds :: "sod_fields \<Rightarrow> u8 list" where
  "enc_lds f =
    der_tlv 0x30 (der_tlv 0x02 (sf_lds_version f) @ enc_algorithm (sf_lds_oid f) (sf_lds_rest f)
                  @ sf_lds_more f)"

definition enc_encap :: "sod_fields \<Rightarrow> u8 list" where
  "enc_encap f = der_tlv 0x06 (sf_econtent_type f) @ der_tlv 0xA0 (der_tlv 0x04 (enc_lds f))"

definition enc_attrs :: "sod_fields \<Rightarrow> u8 list" where
  "enc_attrs f = (case sf_signed_attrs f of None \<Rightarrow> [] | Some a \<Rightarrow> der_tlv 0xA0 a)"

definition enc_signer :: "sod_fields \<Rightarrow> u8 list" where
  "enc_signer f =
    der_tlv 0x02 (sf_signer_version f) @ der_tlv (sf_sid_tag f) (sf_sid f)
    @ der_tlv 0x30 (sf_signer_digest f) @ enc_attrs f
    @ enc_algorithm (sf_signer_oid f) (sf_signer_rest f) @ sf_signature f"

definition enc_signed_data :: "sod_fields \<Rightarrow> u8 list" where
  "enc_signed_data f =
    der_tlv 0x02 (sf_version f)
    @ der_tlv 0x31 (enc_algorithm (sf_digest_oid f) (sf_digest_rest f) @ sf_digest_more f)
    @ der_tlv 0x30 (enc_encap f)
    @ der_tlv 0xA0 (der_tlv 0x30 (sf_cert f) @ sf_cert_more f)
    @ der_tlv 0x31 (der_tlv 0x30 (enc_signer f) @ sf_signer_more f)"

definition enc_content_info :: "sod_fields \<Rightarrow> u8 list" where
  "enc_content_info f =
    der_tlv 0x30 (der_tlv 0x06 (sf_content_type f) @ der_tlv 0xA0 (der_tlv 0x30 (enc_signed_data f)))"

definition enc_sod :: "sod_fields \<Rightarrow> u8 list" where
  "enc_sod f = (if sf_wrapped f then der_tlv 0x77 (enc_content_info f) else enc_content_info f)"

definition enc_cert :: "sod_fields \<Rightarrow> u8 list" where
  "enc_cert f = der_tlv 0x30 (sf_cert f)"

section \<open>Reading it back\<close>

text \<open>One step of a walk: the position behind an encoded child.\<close>

lemma child_at:
  assumes ok: "buffer_ok buf" and at: "at_pos buf k (der_tlv t c)"
  shows "add_usize checks (of_nat (k + header_size c)) (of_nat (length c))
       = Ok (of_nat (k + length (der_tlv t c)))"
  using at_pos_length [OF at] ok
  by (subst add_usize_pos) (simp_all add: length_der_tlv buffer_ok_def add.assoc)

lemma content_slice_at:
  assumes ok: "buffer_ok buf" and at: "at_pos buf k (der_tlv t c)"
  shows "slice_to checks buf (of_nat (k + header_size c)) (of_nat (k + header_size c)) (of_nat (length c))
       = Ok c"
  using at_pos_length [OF at] ok at_pos_content [OF at]
  by (intro slice_to_at) (simp_all add: length_der_tlv buffer_ok_def)

lemma whole_slice_at:
  assumes ok: "buffer_ok buf" and at: "at_pos buf k (der_tlv t c)"
  shows "slice_to checks buf (of_nat k) (of_nat (k + header_size c)) (of_nat (length c)) = Ok (der_tlv t c)"
  using at_pos_length [OF at] ok
  by (intro slice_to_at [OF ok at]) (simp_all add: length_der_tlv buffer_ok_def)

text \<open>The OID of an encoded algorithm identifier.\<close>

lemma oid_at_algorithm:
  assumes ok: "buffer_ok buf" and at: "at_pos buf k (enc_algorithm oid rest)"
  defines "c \<equiv> der_tlv 0x06 oid @ rest"
  shows "parse_tlv buf (of_nat k) = Some \<lparr>tlv_offset = of_nat k, tlv_tag = 0x30,
           tlv_content_start = of_nat (k + header_size c), tlv_content_length = of_nat (length c)\<rparr>"
    and "\<exists>t. parse_tlv buf (of_nat (k + header_size c)) = Some t
          \<and> oid_at checks buf t = Ok (parse_oid_raw oid)"
proof -
  from at have at': "at_pos buf k (der_tlv 0x30 c)" by (simp add: enc_algorithm_def c_def)
  then show "parse_tlv buf (of_nat k) = Some \<lparr>tlv_offset = of_nat k, tlv_tag = 0x30,
      tlv_content_start = of_nat (k + header_size c), tlv_content_length = of_nat (length c)\<rparr>"
    by (rule parse_tlv_at [OF ok])
  from at_pos_content [OF at'] have oid: "at_pos buf (k + header_size c) (der_tlv 0x06 oid)"
    by (simp add: c_def at_pos_append)
  show "\<exists>t. parse_tlv buf (of_nat (k + header_size c)) = Some t
          \<and> oid_at checks buf t = Ok (parse_oid_raw oid)"
    using parse_tlv_at [OF ok oid] content_slice_at [OF ok oid] by (simp add: oid_at_def)
qed

lemma buffer_ok_part: "buffer_ok buf \<Longrightarrow> at_pos buf k xs \<Longrightarrow> buffer_ok xs"
  using at_pos_length [of buf k xs] by (simp add: buffer_ok_def)

lemma parse_lds_enc:
  assumes ok: "buffer_ok (enc_lds f)"
  shows "parse_lds_hash_algorithm_oid checks (enc_lds f) = Ok (parse_oid_raw (sf_lds_oid f))"
proof -
  let ?buf = "enc_lds f" and ?v = "sf_lds_version f"
  let ?c = "der_tlv 0x02 ?v @ enc_algorithm (sf_lds_oid f) (sf_lds_rest f) @ sf_lds_more f"
  have root: "at_pos ?buf 0 (der_tlv 0x30 ?c)"
    using at_pos_self [of ?buf] by (simp add: enc_lds_def)
  let ?k = "header_size ?c"
  from at_pos_content [OF root] have version: "at_pos ?buf ?k (der_tlv 0x02 ?v)"
    and algo: "at_pos ?buf (?k + length (der_tlv 0x02 ?v)) (enc_algorithm (sf_lds_oid f) (sf_lds_rest f))"
    by (simp_all add: at_pos_append)
  from oid_at_algorithm(1) [OF ok algo] oid_at_algorithm(2) [OF ok algo, of checks]
    parse_tlv_at [OF ok root] parse_tlv_at [OF ok version] child_at [OF ok version, of checks]
  show ?thesis by (auto simp: parse_lds_hash_algorithm_oid_def simp del: of_nat_add)
qed

lemma parse_econtent_enc:
  assumes ok: "buffer_ok buf" and at: "at_pos buf k (enc_encap f)"
  shows "parse_econtent_info checks buf (of_nat k) (of_nat (length (enc_encap f)))
       = Some (Ok (parse_oid_raw (sf_lds_oid f), enc_lds f))"
proof -
  let ?n = "length (der_tlv 0x06 (sf_econtent_type f))"
  let ?o = "der_tlv 0x04 (enc_lds f)"
  from at have ct: "at_pos buf k (der_tlv 0x06 (sf_econtent_type f))"
    and ex: "at_pos buf (k + ?n) (der_tlv 0xA0 ?o)"
    by (simp_all add: enc_encap_def at_pos_append)
  from at_pos_content [OF ex] have oct: "at_pos buf (k + ?n + header_size ?o) ?o" .
  from at_pos_content [OF oct] ok have lds: "buffer_ok (enc_lds f)" by (blast intro: buffer_ok_part)
  have bound: "k + length (enc_encap f) < 2 ^ 63"
    using at_pos_length [OF at] ok by (simp add: buffer_ok_def)
  have len: "length (enc_encap f) = ?n + length (der_tlv 0xA0 ?o)" by (simp add: enc_encap_def)
  then have pos: "0 < length (der_tlv 0xA0 ?o)" "0 < ?n" by (simp_all add: der_tlv_def)
  let ?e = "of_nat (k + length (enc_encap f)) :: usize"
  have g1: "(of_nat k :: usize) < ?e" "(of_nat (k + ?n) :: usize) < ?e"
    using bound len pos by (simp_all add: of_nat_less_pos del: of_nat_add)
  have b1: "econtent_body checks buf (of_nat k) = Some (Ok (Inl (of_nat (k + ?n))))"
    using parse_tlv_at [OF ok ct] child_at [OF ok ct, of checks]
    by (simp add: econtent_body_def del: of_nat_add)
  have b2: "econtent_body checks buf (of_nat (k + ?n)) = Some (Ok (Inr (enc_lds f)))"
    using parse_tlv_at [OF ok ex] parse_tlv_at [OF ok oct] content_slice_at [OF ok oct, of checks]
    by (simp add: econtent_body_def del: of_nat_add)
  have "while_loop (\<lambda>pos. pos < ?e) (econtent_body checks buf) fin (of_nat k) = Some (Ok (enc_lds f))" for fin
    by (subst while_loop_continue, rule g1, rule b1, rule while_loop_return, rule g1, rule b2)
  with add_usize_pos [OF bound, of checks] parse_lds_enc [OF lds, of checks] show ?thesis
    by (simp only: parse_econtent_info_def and_run.simps)
qed

lemma parse_signer_enc:
  assumes ok: "buffer_ok buf" and at: "at_pos buf k (enc_signer f)"
  shows "parse_signer_info_signature_algorithm checks buf (of_nat k) (of_nat (length (enc_signer f)))
       = Some (Ok (parse_oid_raw (sf_signer_oid f)))"
proof -
  let ?v = "der_tlv 0x02 (sf_signer_version f)" and ?s = "der_tlv (sf_sid_tag f) (sf_sid f)"
    and ?d = "der_tlv 0x30 (sf_signer_digest f)" and ?a = "enc_attrs f"
    and ?o = "enc_algorithm (sf_signer_oid f) (sf_signer_rest f)"
  define k1 where "k1 = k + length ?v"
  define k2 where "k2 = k1 + length ?s"
  define k3 where "k3 = k2 + length ?d"
  define k4 where "k4 = k3 + length ?a"
  from at have v: "at_pos buf k ?v" and sid: "at_pos buf k1 ?s" and d: "at_pos buf k2 ?d"
    and a: "at_pos buf k3 ?a" and o: "at_pos buf k4 ?o"
    by (simp_all add: enc_signer_def at_pos_append k1_def k2_def k3_def k4_def add.assoc)
  have bound: "k + length (enc_signer f) < 2 ^ 63"
    using at_pos_length [OF at] ok by (simp add: buffer_ok_def)
  have len: "k + length (enc_signer f) = k4 + length ?o + length (sf_signature f)"
    by (simp add: enc_signer_def k1_def k2_def k3_def k4_def)
  have pos: "0 < length ?o" by (simp add: enc_algorithm_def der_tlv_def)
  have order: "k \<le> k1" "k1 \<le> k2" "k2 \<le> k3" "k3 \<le> k4" "k4 < k + length (enc_signer f)"
    using len pos by (simp_all add: k1_def k2_def k3_def k4_def)
  let ?e = "of_nat (k + length (enc_signer f)) :: usize"
  have g: "(of_nat n :: usize) < ?e" if "n \<le> k4" for n
    using that order bound by (simp add: of_nat_less_pos del: of_nat_add)
  have small: "\<not> (3 :: usize) \<le> 1" "\<not> (3 :: usize) \<le> 2" by (simp_all add: word_le_nat_alt)
  note body = signer_body_def prod.case small
  have b0: "signer_body checks buf (of_nat k, 0) = Some (Ok (Inl (of_nat k1, 1)))"
    using parse_tlv_at [OF ok v] child_at [OF ok v, of checks]
    by (simp add: body k1_def add_usize_def del: of_nat_add)
  have b1: "signer_body checks buf (of_nat k1, 1) = Some (Ok (Inl (of_nat k2, 2)))"
    using parse_tlv_at [OF ok sid] child_at [OF ok sid, of checks]
    by (simp add: body k2_def add_usize_no_overflow del: of_nat_add)
  have b2: "signer_body checks buf (of_nat k2, 2) = Some (Ok (Inl (of_nat k3, 3)))"
    using parse_tlv_at [OF ok d] child_at [OF ok d, of checks]
    by (simp add: body k3_def add_usize_no_overflow del: of_nat_add)
  have found: "signer_body checks buf (of_nat k4, i) = Some (Ok (Inr (parse_oid_raw (sf_signer_oid f))))"
    if "3 \<le> i" for i
    using oid_at_algorithm(1) [OF ok o] oid_at_algorithm(2) [OF ok o, of checks] that
    by (auto simp: body simp del: of_nat_add)
  let ?loop = "while_loop (\<lambda>(pos, _). pos < ?e) (signer_body checks buf)"
  have last: "?loop fin (of_nat k3, 3) = Some (Ok (parse_oid_raw (sf_signer_oid f)))" for fin
  proof (cases "sf_signed_attrs f")
    case None
    then have "k4 = k3" by (simp add: k4_def enc_attrs_def)
    with found [of 3] g [of k3] show ?thesis by (intro while_loop_return) simp_all
  next
    case (Some attrs)
    with a have attrs: "at_pos buf k3 (der_tlv 0xA0 attrs)" and k4: "k4 = k3 + length (der_tlv 0xA0 attrs)"
      by (simp_all add: enc_attrs_def k4_def)
    have b3: "signer_body checks buf (of_nat k3, 3) = Some (Ok (Inl (of_nat k4, 4)))"
      using parse_tlv_at [OF ok attrs] child_at [OF ok attrs, of checks]
      by (simp add: body k4 add_usize_no_overflow del: of_nat_add)
    have "?loop fin (of_nat k3, 3) = ?loop fin (of_nat k4, 4)"
      using g [of k3] order by (intro while_loop_continue b3) simp
    also have "\<dots> = Some (Ok (parse_oid_raw (sf_signer_oid f)))"
      using g [of k4] found [of 4] by (intro while_loop_return) simp_all
    finally show ?thesis .
  qed
  have "?loop fin (of_nat k, 0) = ?loop fin (of_nat k1, 1)" for fin
    using g [of k] order by (intro while_loop_continue b0) simp
  moreover have "?loop fin (of_nat k1, 1) = ?loop fin (of_nat k2, 2)" for fin
    using g [of k1] order by (intro while_loop_continue b1) simp
  moreover have "?loop fin (of_nat k2, 2) = ?loop fin (of_nat k3, 3)" for fin
    using g [of k2] order by (intro while_loop_continue b2) simp
  ultimately show ?thesis
    using last add_usize_pos [OF bound, of checks]
    by (simp only: parse_signer_info_signature_algorithm_def and_run.simps)
qed

lemma next_child_at:
  assumes ok: "buffer_ok buf" and at: "at_pos buf k (der_tlv t c)"
  shows "unat (sd_field_index s) < 8 \<Longrightarrow>
    next_child checks \<lparr>tlv_offset = of_nat k, tlv_tag = t, tlv_content_start = of_nat (k + header_size c),
        tlv_content_length = of_nat (length c)\<rparr> s
    = Ok (s\<lparr>sd_pos := of_nat (k + length (der_tlv t c)), sd_field_index := sd_field_index s + 1\<rparr>)"
  using child_at [OF ok at, of checks] by (simp add: next_child_def add_usize_no_overflow del: of_nat_add)

lemma parse_signed_data_enc:
  assumes ok: "buffer_ok buf" and at: "at_pos buf k (enc_signed_data f)"
  shows "parse_signed_data checks x509 buf (of_nat k) (of_nat (length (enc_signed_data f)))
       = (case x509 (enc_cert f) of
            Inl e \<Rightarrow> Some (Err [''failed to parse embedded certificate: '' @ e])
          | Inr cert \<Rightarrow> Some (Ok \<lparr>ps_certificate_der = enc_cert f,
              ps_certificate_signature_algorithm_oid = xc_signature_algorithm cert,
              ps_digest_algorithm_oid = parse_oid_raw (sf_digest_oid f),
              ps_signer_signature_algorithm_oid = parse_oid_raw (sf_signer_oid f),
              ps_econtent_hash_algorithm_oid = parse_oid_raw (sf_lds_oid f),
              ps_econtent = enc_lds f\<rparr>))"
proof -
  let ?dg = "enc_algorithm (sf_digest_oid f) (sf_digest_rest f) @ sf_digest_more f"
    and ?cs = "der_tlv 0x30 (sf_cert f) @ sf_cert_more f"
    and ?ss = "der_tlv 0x30 (enc_signer f) @ sf_signer_more f"
  let ?v = "der_tlv 0x02 (sf_version f)" and ?d = "der_tlv 0x31 ?dg"
    and ?e = "der_tlv 0x30 (enc_encap f)" and ?c = "der_tlv 0xA0 ?cs" and ?s = "der_tlv 0x31 ?ss"
  define k1 where "k1 = k + length ?v"
  define k2 where "k2 = k1 + length ?d"
  define k3 where "k3 = k2 + length ?e"
  define k4 where "k4 = k3 + length ?c"
  define k5 where "k5 = k4 + length ?s"
  from at have v: "at_pos buf k ?v" and d: "at_pos buf k1 ?d" and e: "at_pos buf k2 ?e"
    and c: "at_pos buf k3 ?c" and s: "at_pos buf k4 ?s"
    by (simp_all add: enc_signed_data_def at_pos_append k1_def k2_def k3_def k4_def add.assoc)
  have len: "k + length (enc_signed_data f) = k5"
    by (simp add: enc_signed_data_def k1_def k2_def k3_def k4_def k5_def)
  have bound: "k + length (enc_signed_data f) < 2 ^ 63"
    using at_pos_length [OF at] ok by (simp add: buffer_ok_def)
  have order: "k < k1" "k1 < k2" "k2 < k3" "k3 < k4" "k4 < k5"
    by (simp_all add: k1_def k2_def k3_def k4_def k5_def der_tlv_def)
  have g: "(of_nat n :: usize) < of_nat k5" if "n < k5" for n
    using that bound len by (simp add: of_nat_less_pos)
  from at_pos_content [OF d] have dg: "at_pos buf (k1 + header_size ?dg) (enc_algorithm (sf_digest_oid f) (sf_digest_rest f))"
    by (simp add: at_pos_append)
  from at_pos_content [OF c] have cert: "at_pos buf (k3 + header_size ?cs) (der_tlv 0x30 (sf_cert f))"
    by (simp add: at_pos_append)
  from at_pos_content [OF s] have sig: "at_pos buf (k4 + header_size ?ss) (der_tlv 0x30 (enc_signer f))"
    by (simp add: at_pos_append)
  let ?body = "signed_data_body checks x509 buf"
  let ?s0 = "signed_data_init (of_nat k)"
  let ?s1 = "?s0\<lparr>sd_pos := of_nat k1, sd_field_index := 1\<rparr>"
  let ?s2 = "?s1\<lparr>sd_pos := of_nat k2, sd_field_index := 2, sd_digest_oid := Some (parse_oid_raw (sf_digest_oid f))\<rparr>"
  let ?s3 = "?s2\<lparr>sd_pos := of_nat k3, sd_field_index := 3,
     sd_econtent_oid := Some (parse_oid_raw (sf_lds_oid f)), sd_econtent := Some (enc_lds f)\<rparr>"
  let ?s4 = "\<lambda>cert. ?s3\<lparr>sd_pos := of_nat k4, sd_field_index := 4,
     sd_certificate := Some (enc_cert f), sd_certificate_oid := Some (xc_signature_algorithm cert)\<rparr>"
  let ?s5 = "\<lambda>cert. (?s4 cert)\<lparr>sd_pos := of_nat k5, sd_field_index := 5,
     sd_signer_oid := Some (parse_oid_raw (sf_signer_oid f))\<rparr>"
  have small: "\<not> (4 :: usize) \<le> 3" "\<not> (3 :: usize) \<le> 2" "\<not> (4 :: usize) \<le> 1" "\<not> (4 :: usize) \<le> 2"
    "\<not> (3 :: usize) \<le> 1" by (simp_all add: word_le_nat_alt)
  note body = signed_data_body_def read_digest_algorithms_def read_encap_content_def
    read_certificates_def read_signer_infos_def signed_data_init_def small
  have b0: "?body ?s0 = Some (Ok (Inl ?s1))"
    using parse_tlv_at [OF ok v] next_child_at [OF ok v, of ?s0 checks]
    by (simp add: body k1_def del: of_nat_add)
  have b1: "?body ?s1 = Some (Ok (Inl ?s2))"
    using parse_tlv_at [OF ok d] oid_at_algorithm(1) [OF ok dg] oid_at_algorithm(2) [OF ok dg, of checks]
      next_child_at [OF ok d, of "?s1\<lparr>sd_digest_oid := Some (parse_oid_raw (sf_digest_oid f))\<rparr>" checks]
    by (auto simp: body k2_def simp del: of_nat_add)
  have b2: "?body ?s2 = Some (Ok (Inl ?s3))"
    using parse_tlv_at [OF ok e] parse_econtent_enc [OF ok at_pos_content [OF e], of checks]
      next_child_at [OF ok e, of "?s2\<lparr>sd_econtent_oid := Some (parse_oid_raw (sf_lds_oid f)),
        sd_econtent := Some (enc_lds f)\<rparr>" checks]
    by (simp add: body k3_def del: of_nat_add)
  have b3: "?body ?s3 = (case x509 (enc_cert f) of
            Inl e \<Rightarrow> Some (Err [''failed to parse embedded certificate: '' @ e])
          | Inr cert \<Rightarrow> Some (Ok (Inl (?s4 cert))))"
    using parse_tlv_at [OF ok c] parse_tlv_at [OF ok cert] whole_slice_at [OF ok cert, of checks]
      next_child_at [OF ok c, of "?s3\<lparr>sd_certificate := Some (enc_cert f),
        sd_certificate_oid := Some (xc_signature_algorithm (projr (x509 (enc_cert f))))\<rparr>" checks]
    by (cases "x509 (enc_cert f)") (simp_all add: body k4_def enc_cert_def del: of_nat_add)
  have b4: "?body (?s4 cert) = Some (Ok (Inl (?s5 cert)))" for cert
    using parse_tlv_at [OF ok s] parse_tlv_at [OF ok sig]
      parse_signer_enc [OF ok at_pos_content [OF sig], of checks]
      next_child_at [OF ok s, of "(?s4 cert)\<lparr>sd_signer_oid := Some (parse_oid_raw (sf_signer_oid f))\<rparr>" checks]
    by (simp add: body k5_def del: of_nat_add)
  let ?loop = "while_loop (\<lambda>s. sd_pos s < of_nat k5) ?body (\<lambda>s. Some (signed_data_finish s))"
  have p: "sd_pos ?s0 = of_nat k" "sd_pos ?s1 = of_nat k1" "sd_pos ?s2 = of_nat k2"
    "sd_pos ?s3 = of_nat k3" "sd_pos (?s4 cert) = of_nat k4" "sd_pos (?s5 cert) = of_nat k5" for cert
    by (simp_all add: signed_data_init_def)
  have "?loop ?s0 = ?loop ?s1"
    using g [of k] order p by (intro while_loop_continue b0) simp
  also have "\<dots> = ?loop ?s2"
    using g [of k1] order p by (intro while_loop_continue b1) simp
  also have "\<dots> = ?loop ?s3"
    using g [of k2] order p by (intro while_loop_continue b2) simp
  finally have start: "?loop ?s0 = ?loop ?s3" .
  have parse: "parse_signed_data checks x509 buf (of_nat k) (of_nat (length (enc_signed_data f))) = ?loop ?s3"
    using add_usize_pos [OF bound, of checks] start
    by (simp only: parse_signed_data_def and_run.simps len)
  show ?thesis
  proof (cases "x509 (enc_cert f)")
    case (Inl e)
    with b3 have "?body ?s3 = Some (Err [''failed to parse embedded certificate: '' @ e])" by simp
    with g [of k3] order p have "?loop ?s3 = Some (Err [''failed to parse embedded certificate: '' @ e])"
      by (intro while_loop_Err) simp_all
    with parse Inl show ?thesis by simp
  next
    case (Inr cert)
    with b3 have "?body ?s3 = Some (Ok (Inl (?s4 cert)))" by simp
    with g [of k3] order p have "?loop ?s3 = ?loop (?s4 cert)"
      by (intro while_loop_continue) simp_all
    also have "\<dots> = ?loop (?s5 cert)"
      using g [of k4] order p by (intro while_loop_continue b4) simp
    also have "\<dots> = Some (signed_data_finish (?s5 cert))"
      using p by (intro while_loop_exit) simp
    finally show ?thesis
      using parse Inr by (simp add: signed_data_finish_def signed_data_init_def)
  qed
qed
lemma enc_sod_hd: "hd (enc_content_info f) = 0x30" "enc_content_info f \<noteq> []"
  by (simp_all add: enc_content_info_def der_tlv_def)

text \<open>
  Where the \<open>SignedData\<close> of an encoded SOD starts: behind the wrapper, the headers of the
  content info, the content type and the two headers around it.
\<close>

definition content_info_start :: "sod_fields \<Rightarrow> nat" where
  "content_info_start f = (if sf_wrapped f then header_size (enc_content_info f) else 0)"

definition content_info_body :: "sod_fields \<Rightarrow> u8 list" where
  "content_info_body f =
    der_tlv 0x06 (sf_content_type f) @ der_tlv 0xA0 (der_tlv 0x30 (enc_signed_data f))"

definition signed_data_start :: "sod_fields \<Rightarrow> nat" where
  "signed_data_start f =
    content_info_start f + header_size (content_info_body f) + length (der_tlv 0x06 (sf_content_type f))
    + header_size (der_tlv 0x30 (enc_signed_data f)) + header_size (enc_signed_data f)"

lemma header_size_pos: "0 < header_size c"
  by (simp add: header_size_def)

lemma content_info_at: "at_pos (enc_sod f) (content_info_start f) (der_tlv 0x30 (content_info_body f))"
proof (cases "sf_wrapped f")
  case True
  then have "at_pos (enc_sod f) 0 (der_tlv 0x77 (enc_content_info f))"
    using at_pos_self [of "enc_sod f"] by (simp add: enc_sod_def)
  from at_pos_content [OF this] True show ?thesis
    by (simp add: content_info_start_def enc_content_info_def content_info_body_def)
next
  case False
  then show ?thesis
    using at_pos_self [of "enc_sod f"]
    by (simp add: content_info_start_def enc_sod_def enc_content_info_def content_info_body_def)
qed

lemma sod_start_cut:
  assumes ok: "buffer_ok (enc_sod f)" and m: "content_info_start f < m"
  shows "sod_start (take m (enc_sod f)) = Ok (of_nat (content_info_start f))"
proof (cases "sf_wrapped f")
  case True
  then have w: "at_pos (enc_sod f) 0 (der_tlv 0x77 (enc_content_info f))"
    using at_pos_self [of "enc_sod f"] by (simp add: enc_sod_def)
  from True m have "take m (enc_sod f) \<noteq> []" "hd (take m (enc_sod f)) = 0x77"
    by (simp_all add: enc_sod_def der_tlv_def hd_take)
  with True parse_tlv_cut [OF ok w, of m] m show ?thesis
    by (simp add: sod_start_def content_info_start_def)
next
  case False
  with enc_sod_hd [of f] m show ?thesis
    by (simp add: sod_start_def enc_sod_def content_info_start_def hd_take)
qed

text \<open>
  The walk down to the \<open>SignedData\<close> reads the headers before it only, so that it ends
  there too when the file is cut off behind them.
\<close>

lemma parse_sod_envelope_walk:
  assumes ok: "buffer_ok (enc_sod f)"
  shows "at_pos (enc_sod f) (signed_data_start f) (enc_signed_data f)"
    and "signed_data_start f \<le> m \<Longrightarrow>
      parse_sod_envelope checks x509 (take m (enc_sod f)) =
        parse_signed_data checks x509 (take m (enc_sod f)) (of_nat (signed_data_start f))
          (of_nat (length (enc_signed_data f)))"
proof -
  let ?sod = "enc_sod f" and ?cut = "take m (enc_sod f)" and ?ci = "content_info_body f"
  let ?signed = "der_tlv 0x30 (enc_signed_data f)" and ?type = "der_tlv 0x06 (sf_content_type f)"
  note outer = content_info_at [of f]
  define k1 where "k1 = content_info_start f + header_size ?ci"
  define k2 where "k2 = k1 + length ?type"
  define k3 where "k3 = k2 + header_size ?signed"
  have ss: "signed_data_start f = k3 + header_size (enc_signed_data f)"
    by (simp add: signed_data_start_def k1_def k2_def k3_def)
  from at_pos_content [OF outer] have type: "at_pos ?sod k1 ?type" and ex: "at_pos ?sod k2 (der_tlv 0xA0 ?signed)"
    by (simp_all add: at_pos_append k1_def k2_def content_info_body_def)
  from at_pos_content [OF ex] have signed: "at_pos ?sod k3 ?signed" by (simp add: k3_def)
  from at_pos_content [OF signed] show "at_pos ?sod (signed_data_start f) (enc_signed_data f)"
    by (simp add: ss)
  assume m: "signed_data_start f \<le> m"
  then have below: "content_info_start f < m" "content_info_start f + header_size ?ci \<le> m"
    "k1 + header_size (sf_content_type f) \<le> m"
    "k2 + header_size ?signed \<le> m" "k3 + header_size (enc_signed_data f) \<le> m"
    using header_size_pos [of ?ci] by (simp_all add: ss k1_def k2_def k3_def length_der_tlv)
  have len: "content_info_start f + length (der_tlv 0x30 ?ci) = k2 + length (der_tlv 0xA0 ?signed)"
  proof -
    have "length ?ci = length ?type + length (der_tlv 0xA0 ?signed)" by (simp add: content_info_body_def)
    then show ?thesis by (simp add: length_der_tlv [of _ ?ci] k1_def k2_def)
  qed
  have order: "k1 < k2" "k2 < k2 + length (der_tlv 0xA0 ?signed)"
    by (simp_all add: k2_def der_tlv_def)
  have bound: "k2 + length (der_tlv 0xA0 ?signed) < 2 ^ 63"
    using at_pos_length [OF ex] ok by (simp add: buffer_ok_def)
  let ?e = "of_nat (k2 + length (der_tlv 0xA0 ?signed)) :: usize"
  have g: "(of_nat k1 :: usize) < ?e" "(of_nat k2 :: usize) < ?e"
    using order bound by (simp_all add: of_nat_less_pos del: of_nat_add)
  have b1: "sod_body checks ?cut (of_nat k1) = Some (Ok (Inl (of_nat k2)))"
    using parse_tlv_cut [OF ok type below(3)] child_at [OF ok type, of checks]
    by (simp add: sod_body_def k2_def del: of_nat_add)
  have b2: "sod_body checks ?cut (of_nat k2) = Some (Ok (Inr \<lparr>tlv_offset = of_nat k3, tlv_tag = 0x30,
      tlv_content_start = of_nat (signed_data_start f),
      tlv_content_length = of_nat (length (enc_signed_data f))\<rparr>))" (is "_ = Some (Ok (Inr ?t))")
    using parse_tlv_cut [OF ok ex below(4)] parse_tlv_cut [OF ok signed below(5)]
    by (simp add: sod_body_def ss flip: k3_def del: of_nat_add)
  have loop: "while_loop (\<lambda>pos. pos < ?e) (sod_body checks ?cut) fin (of_nat k1) = Some (Ok ?t)" for fin
    by (subst while_loop_continue, rule g, rule b1, rule while_loop_return, rule g, rule b2)
  have e: "add_usize checks (of_nat k1) (of_nat (length ?ci)) = Ok ?e"
    using child_at [OF ok outer, of checks] len by (simp only: k1_def)
  show "parse_sod_envelope checks x509 ?cut = parse_signed_data checks x509 ?cut
      (of_nat (signed_data_start f)) (of_nat (length (enc_signed_data f)))"
    using parse_tlv_cut [OF ok outer below(2)] e loop
    by (simp only: parse_sod_envelope_def sod_start_cut [OF ok below(1)] and_run.simps opt_context_Some
        tlv.simps k1_def [symmetric])
qed

theorem parse_sod_envelope_enc:
  assumes ok: "buffer_ok (enc_sod f)"
  shows "parse_sod_envelope checks x509 (enc_sod f)
       = (case x509 (enc_cert f) of
            Inl e \<Rightarrow> Some (Err [''failed to parse embedded certificate: '' @ e])
          | Inr cert \<Rightarrow> Some (Ok \<lparr>ps_certificate_der = enc_cert f,
              ps_certificate_signature_algorithm_oid = xc_signature_algorithm cert,
              ps_digest_algorithm_oid = parse_oid_raw (sf_digest_oid f),
              ps_signer_signature_algorithm_oid = parse_oid_raw (sf_signer_oid f),
              ps_econtent_hash_algorithm_oid = parse_oid_raw (sf_lds_oid f),
              ps_econtent = enc_lds f\<rparr>))"
proof -
  note at = parse_sod_envelope_walk(1) [OF ok]
  from at_pos_length [OF at] have "signed_data_start f \<le> length (enc_sod f)" by simp
  from parse_sod_envelope_walk(2) [OF ok this] parse_signed_data_enc [OF ok at] show ?thesis by simp
qed

section \<open>A SOD cut off within its digest OID\<close>

definition digest_set :: "sod_fields \<Rightarrow> u8 list" where
  "digest_set f = enc_algorithm (sf_digest_oid f) (sf_digest_rest f) @ sf_digest_more f"

definition digest_oid_start :: "sod_fields \<Rightarrow> nat" where
  "digest_oid_start f =
    signed_data_start f + length (der_tlv 0x02 (sf_version f)) + header_size (digest_set f)
    + header_size (der_tlv 0x06 (sf_digest_oid f) @ sf_digest_rest f) + header_size (sf_digest_oid f)"

lemma digest_oid_at:
  assumes "buffer_ok (enc_sod f)"
  shows "at_pos (enc_sod f) (digest_oid_start f) (sf_digest_oid f)"
proof -
  from parse_sod_envelope_walk(1) [OF assms]
  have "at_pos (enc_sod f) (signed_data_start f + length (der_tlv 0x02 (sf_version f))) (der_tlv 0x31 (digest_set f))"
    by (simp add: enc_signed_data_def digest_set_def at_pos_append)
  from at_pos_content [OF this]
  have "at_pos (enc_sod f) (signed_data_start f + length (der_tlv 0x02 (sf_version f)) + header_size (digest_set f))
      (der_tlv 0x30 (der_tlv 0x06 (sf_digest_oid f) @ sf_digest_rest f))"
    by (simp add: digest_set_def enc_algorithm_def at_pos_append)
  from at_pos_content [OF this] show ?thesis
    by (auto dest: at_pos_content simp: at_pos_append digest_oid_start_def)
qed

lemma oid_at_cut:
  assumes "buffer_ok buf" and "k + n < 2 ^ 63" and "length buf < k + n"
  shows "oid_at checks buf \<lparr>tlv_offset = p, tlv_tag = t, tlv_content_start = of_nat k, tlv_content_length = of_nat n\<rparr>
    = Panic Panic_slice"
  using assms blen_ok [OF assms(1)]
  by (simp add: oid_at_def slice_to_def add_usize_pos slice_def word_le_nat_alt del: of_nat_add)

lemma parse_sod_envelope_cut:
  assumes ok: "buffer_ok (enc_sod f)" and lo: "digest_oid_start f \<le> m"
    and hi: "m < digest_oid_start f + length (sf_digest_oid f)"
  shows "parse_sod_envelope checks x509 (take m (enc_sod f)) = Some (Panic Panic_slice)"
proof -
  let ?sod = "enc_sod f" and ?cut = "take m (enc_sod f)" and ?k = "signed_data_start f"
  let ?v = "der_tlv 0x02 (sf_version f)" and ?dg = "digest_set f"
    and ?o = "der_tlv 0x06 (sf_digest_oid f)"
  let ?c = "?o @ sf_digest_rest f" and ?len = "length (enc_signed_data f)"
  define k1 where "k1 = ?k + length ?v"
  define k2 where "k2 = k1 + header_size ?dg"
  define k3 where "k3 = k2 + header_size ?c"
  note at = parse_sod_envelope_walk(1) [OF ok]
  from at have v: "at_pos ?sod ?k ?v" and d: "at_pos ?sod k1 (der_tlv 0x31 ?dg)"
    by (simp_all add: enc_signed_data_def digest_set_def at_pos_append k1_def)
  from at_pos_content [OF d] have algo: "at_pos ?sod k2 (der_tlv 0x30 ?c)"
    by (simp add: digest_set_def enc_algorithm_def at_pos_append k2_def)
  from at_pos_content [OF algo] have oid: "at_pos ?sod k3 ?o" by (simp add: at_pos_append k3_def)
  have start: "digest_oid_start f = k3 + header_size (sf_digest_oid f)"
    by (simp add: digest_oid_start_def k1_def k2_def k3_def)
  from lo have below: "?k \<le> m" "?k + header_size (sf_version f) \<le> m" "k1 + header_size ?dg \<le> m"
    "k2 + header_size ?c \<le> m" "k3 + header_size (sf_digest_oid f) \<le> m"
    by (simp_all add: start k1_def k2_def k3_def length_der_tlv)
  have bound: "?k + ?len < 2 ^ 63" and k1: "k1 < ?k + ?len" and k: "?k < ?k + ?len"
    using at_pos_length [OF at] ok by (simp_all add: buffer_ok_def k1_def enc_signed_data_def der_tlv_def)
  let ?e = "of_nat (?k + ?len) :: usize"
  have g: "(of_nat ?k :: usize) < ?e" "(of_nat k1 :: usize) < ?e"
    using bound k1 k by (simp_all add: of_nat_less_pos del: of_nat_add)
  have cut_ok: "buffer_ok ?cut" using ok by (simp add: buffer_ok_def)
  have fits: "digest_oid_start f + length (sf_digest_oid f) < 2 ^ 63"
    using at_pos_length [OF digest_oid_at [OF ok]] ok by (simp add: buffer_ok_def)
  have panic: "oid_at checks ?cut \<lparr>tlv_offset = of_nat k3, tlv_tag = 0x06,
      tlv_content_start = of_nat (digest_oid_start f), tlv_content_length = of_nat (length (sf_digest_oid f))\<rparr>
      = Panic Panic_slice"
    using hi by (intro oid_at_cut [OF cut_ok fits]) simp
  let ?body = "signed_data_body checks x509 ?cut" and ?s0 = "signed_data_init (of_nat ?k)"
  let ?s1 = "?s0\<lparr>sd_pos := of_nat k1, sd_field_index := 1\<rparr>"
  have small: "\<not> (4 :: usize) \<le> 1" "\<not> (3 :: usize) \<le> 1" by (simp_all add: word_le_nat_alt)
  note body = signed_data_body_def read_digest_algorithms_def read_encap_content_def
    read_certificates_def read_signer_infos_def signed_data_init_def small
  have b0: "?body ?s0 = Some (Ok (Inl ?s1))"
    using parse_tlv_cut [OF ok v below(2)] next_child_at [OF ok v, of ?s0 checks]
    by (simp add: body k1_def del: of_nat_add)
  have b1: "?body ?s1 = Some (Panic Panic_slice)"
    using parse_tlv_cut [OF ok d below(3)] parse_tlv_cut [OF ok algo below(4)]
      parse_tlv_cut [OF ok oid below(5)] panic
    by (simp add: body start flip: k2_def k3_def del: of_nat_add)
  have "while_loop (\<lambda>s. sd_pos s < ?e) ?body (\<lambda>s. Some (signed_data_finish s)) ?s0 = Some (Panic Panic_slice)"
    by (subst while_loop_continue, simp add: signed_data_init_def g del: of_nat_add, rule b0,
        rule while_loop_Panic, simp add: signed_data_init_def g del: of_nat_add, rule b1)
  then show ?thesis
    using parse_sod_envelope_walk(2) [OF ok below(1), of checks x509] add_usize_pos [OF bound, of checks]
    by (simp only: parse_signed_data_def and_run.simps)
qed

section \<open>The two builds\<close>

lemma agrees_slice_to [agree_intros]: "agrees (slice_to True buf a e n) (slice_to False buf a e n)"
  unfolding slice_to_def by (intro agree_intros)

lemma agrees_oid_at [agree_intros]: "agrees (oid_at True buf t) (oid_at False buf t)"
  unfolding oid_at_def by (intro agree_intros)

lemma agrees_parse_lds [agree_intros]:
  "agrees (parse_lds_hash_algorithm_oid True c) (parse_lds_hash_algorithm_oid False c)"
  unfolding parse_lds_hash_algorithm_oid_def by (intro agree_intros)

lemma agrees_econtent [agree_intros]:
  "agrees_run (parse_econtent_info True buf start n) (parse_econtent_info False buf start n)"
  unfolding parse_econtent_info_def
  by (intro agree_intros agrees_while econtent_scan.loop_ends)
     (unfold econtent_body_def, intro agree_intros)

lemma agrees_signer [agree_intros]:
  "agrees_run (parse_signer_info_signature_algorithm True buf start n)
     (parse_signer_info_signature_algorithm False buf start n)"
  unfolding parse_signer_info_signature_algorithm_def
  by (intro agree_intros agrees_while signer_scan.loop_ends)
     (unfold signer_body_def, intro agree_intros)

lemma agrees_signed_data [agree_intros]:
  "agrees_run (parse_signed_data True x509 buf start n) (parse_signed_data False x509 buf start n)"
  unfolding parse_signed_data_def
  by (intro agree_intros agrees_while signed_data_scan.loop_ends)
     (unfold signed_data_body_def read_digest_algorithms_def read_encap_content_def read_certificates_def
       read_signer_infos_def next_child_def, intro agree_intros)

lemma parse_sod_envelope_builds:
  "agrees_run (parse_sod_envelope True x509 sod) (parse_sod_envelope False x509 sod)"
  unfolding parse_sod_envelope_def
  by (intro agree_intros agrees_while sod_scan.loop_ends)
     (unfold sod_body_def, intro agree_intros)

section \<open>Input that is no SOD\<close>

text \<open>
  A child whose long-form length, added to the position of its content, is the position
  of the child itself modulo \<open>2 ^ 64\<close>.
\<close>

definition endless_sod :: "u8 list" where
  "endless_sod = [0x30, 0x0A, 0x02, 0x88, 0xFF, 0xFF, 0xFF, 0xFF, 0xFF, 0xFF, 0xFF, 0xF6]"

lemma endless_sod_headers:
  "sod_start endless_sod = Ok 0"
  "parse_tlv endless_sod 0 = Some \<lparr>tlv_offset = 0, tlv_tag = 0x30, tlv_content_start = 2,
     tlv_content_length = 10\<rparr>"
  "parse_tlv endless_sod 2 = Some \<lparr>tlv_offset = 2, tlv_tag = 2, tlv_content_start = 12,
     tlv_content_length = - 10\<rparr>"
  by code_simp+

lemma parse_sod_envelope_endless:
  "parse_sod_envelope False x509 endless_sod = None"
proof -
  have "sod_body False endless_sod 2 = Some (Ok (Inl 2))"
    by (simp add: sod_body_def endless_sod_headers)
  moreover have "(2 :: usize) < 12" by simp
  ultimately show ?thesis
    by (simp add: parse_sod_envelope_def endless_sod_headers while_loop_stuck)
qed

lemma endless_sod_checked: "parse_sod_envelope True x509 endless_sod = Some (Panic Panic_overflow)"
proof -
  have "sod_body True endless_sod 2 = Some (Panic Panic_overflow)"
    by (simp add: sod_body_def endless_sod_headers add_usize_def)
  moreover have "(2 :: usize) < 12" by simp
  ultimately show ?thesis
    by (simp add: parse_sod_envelope_def endless_sod_headers while_loop_Panic add_usize_def)
qed

section \<open>Properties of the SOD parser\<close>

text \<open>
  C1. An encoded SOD is read back, in either build: whatever the skipped parts hold, with
  or without the outer wrapper and the signed attributes, and for every buffer that fits
  in memory, the parser returns the bytes of the embedded certificate, the OIDs of the
  certificate's signature, of the digest, the signer's signature and the LDS digest, and
  the bytes of the LDS security object; when the X.509 parser rejects the certificate,
  the error says so.
\<close>

theorem sod_round_trip:
  assumes "buffer_ok (enc_sod f)"
  shows "parse_sod_envelope checks x509 (enc_sod f)
       = (case x509 (enc_cert f) of
            Inl e \<Rightarrow> Some (Err [''failed to parse embedded certificate: '' @ e])
          | Inr cert \<Rightarrow> Some (Ok \<lparr>ps_certificate_der = enc_cert f,
              ps_certificate_signature_algorithm_oid = xc_signature_algorithm cert,
              ps_digest_algorithm_oid = parse_oid_raw (sf_digest_oid f),
              ps_signer_signature_algorithm_oid = parse_oid_raw (sf_signer_oid f),
              ps_econtent_hash_algorithm_oid = parse_oid_raw (sf_lds_oid f),
              ps_econtent = enc_lds f\<rparr>))"
  by (rule parse_sod_envelope_enc [OF assms])

definition sha256_oid :: "u8 list" where
  "sha256_oid = [0x60, 0x86, 0x48, 0x01, 0x65, 0x03, 0x04, 0x02, 0x01]"

definition rsa_sha256_oid :: "u8 list" where
  "rsa_sha256_oid = [0x2A, 0x86, 0x48, 0x86, 0xF7, 0x0D, 0x01, 0x01, 0x0B]"

definition example_sod :: sod_fields where
  "example_sod =
    \<lparr>sf_wrapped = True, sf_content_type = [0x2A, 0x86, 0x48, 0x86, 0xF7, 0x0D, 0x01, 0x07, 0x02],
     sf_version = [3], sf_digest_oid = sha256_oid, sf_digest_rest = [5, 0], sf_digest_more = [],
     sf_econtent_type = [0x67, 0x81, 0x08, 0x01, 0x01, 0x01], sf_lds_version = [0],
     sf_lds_oid = sha256_oid, sf_lds_rest = [], sf_lds_more = [0x30, 0],
     sf_cert = [0x30, 0, 0x30, 0, 3, 0], sf_cert_more = [], sf_signer_version = [1],
     sf_sid_tag = 0x80, sf_sid = [1, 2, 3], sf_signer_digest = der_tlv 0x06 sha256_oid,
     sf_signed_attrs = Some [0x30, 0], sf_signer_oid = rsa_sha256_oid, sf_signer_rest = [5, 0],
     sf_signature = der_tlv 0x04 [1, 2, 3, 4], sf_signer_more = []\<rparr>"

definition example_cert :: x509_certificate where
  "example_cert =
    \<lparr>xc_signature_algorithm = ''1.2.840.113549.1.1.11'', xc_tbs_len = 650,
     xc_issuer = ''C=ZK, CN=CSCA'', xc_subject = ''C=ZK, CN=DSC'',
     xc_extension_akis = [None, Some [0xAB, 0xCD]], xc_spki_algorithm = ''1.2.840.113549.1.1.1'',
     xc_spki_parameters = None, xc_spki_key = der_tlv 0x30 (der_tlv 0x02 [0, 0xC1, 2, 3])\<rparr>"

lemma length_der_tlv_short: "length c < 128 \<Longrightarrow> length (der_tlv t c) = length c + 2"
  by (simp add: der_tlv_def der_length_def)

lemma length_der_tlv_byte: "128 \<le> length c \<Longrightarrow> length c < 256 \<Longrightarrow> length (der_tlv t c) = length c + 3"
  by (simp add: der_tlv_def der_length_def be_bytes.simps [of "length c"])

lemma example_sod_ok: "buffer_ok (enc_sod example_sod)"
  by (simp add: buffer_ok_def enc_sod_def enc_content_info_def enc_signed_data_def enc_signer_def
      enc_attrs_def enc_encap_def enc_lds_def enc_algorithm_def example_sod_def sha256_oid_def
      rsa_sha256_oid_def length_der_tlv_short length_der_tlv_byte)

lemma example_oid_bytes:
  "sha256_oid = oid_bytes 2 16 [840, 1, 101, 3, 4, 2, 1]"
  "rsa_sha256_oid = oid_bytes 1 2 [840, 113549, 1, 1, 11]"
  by (simp_all add: oid_bytes_def arc_bytes_def arc_high.simps sha256_oid_def rsa_sha256_oid_def)

lemma example_oids:
  "parse_oid_raw sha256_oid = ''2.16.840.1.101.3.4.2.1''"
  "parse_oid_raw rsa_sha256_oid = ''1.2.840.113549.1.1.11''"
  using parse_oid_bytes_inverse [of 2 16 "[840, 1, 101, 3, 4, 2, 1]"]
    parse_oid_bytes_inverse [of 1 2 "[840, 113549, 1, 1, 11]"]
  by (simp_all add: example_oid_bytes show_nat.simps digit_char_def)

theorem sod_round_trip_witness:
  "parse_sod_envelope False (\<lambda>_. Inr example_cert) (enc_sod example_sod) =
    Some (Ok \<lparr>ps_certificate_der = [0x30, 6, 0x30, 0, 0x30, 0, 3, 0],
      ps_certificate_signature_algorithm_oid = ''1.2.840.113549.1.1.11'',
      ps_digest_algorithm_oid = ''2.16.840.1.101.3.4.2.1'',
      ps_signer_signature_algorithm_oid = ''1.2.840.113549.1.1.11'',
      ps_econtent_hash_algorithm_oid = ''2.16.840.1.101.3.4.2.1'',
      ps_econtent = enc_lds example_sod\<rparr>)"
proof -
  have cert: "enc_cert example_sod = [0x30, 6, 0x30, 0, 0x30, 0, 3, 0]" by code_simp
  have "sf_digest_oid example_sod = sha256_oid" "sf_signer_oid example_sod = rsa_sha256_oid"
    "sf_lds_oid example_sod = sha256_oid"
    by (simp_all add: example_sod_def)
  with sod_round_trip [OF example_sod_ok, of False "\<lambda>_. Inr example_cert"] example_oids cert
  show ?thesis by (simp add: example_cert_def)
qed

text \<open>
  C8. With overflow checks, reading any bytes as a SOD ends: with a parsed SOD, an error,
  or a panic.
\<close>

theorem sod_parser_ends:
  "\<exists>r. parse_sod_envelope True x509 sod = Some r"
  using parse_sod_envelope_ends [of x509 sod] by (auto simp: ends_def)

text \<open>
  C9. On every input, either a build with overflow checks stops at an overflow, or the
  build without them returns the very same result; so on such input the release build
  ends too.
\<close>

theorem sod_builds_agree:
  "parse_sod_envelope True x509 sod = Some (Panic Panic_overflow)
   \<or> parse_sod_envelope False x509 sod = parse_sod_envelope True x509 sod"
  using parse_sod_envelope_builds [of x509 sod] by (auto simp: agrees_run_def)

text \<open>
  C12. The release build does not end on every input: twelve bytes whose only child
  claims a length that, added to the position of its content, is the child's own
  position again. A build with overflow checks panics on them.
\<close>

theorem sod_endless_input:
  "parse_sod_envelope False x509 endless_sod = None
   \<and> parse_sod_envelope True x509 endless_sod = Some (Panic Panic_overflow)"
  by (simp add: parse_sod_envelope_endless endless_sod_checked)

text \<open>
  C22. A file that ends within the digest OID of a SOD makes both builds panic at a slice
  out of range, rather than return an error: whatever the SOD, the X.509 parser and the
  number of bytes of the OID that are left. The first conjunct says where the OID lies.
\<close>

theorem sod_cut_off_input:
  assumes "buffer_ok (enc_sod f)" and "digest_oid_start f \<le> m"
    and "m < digest_oid_start f + length (sf_digest_oid f)"
  shows "take (length (sf_digest_oid f)) (drop (digest_oid_start f) (enc_sod f)) = sf_digest_oid f
    \<and> parse_sod_envelope checks x509 (take m (enc_sod f)) = Some (Panic Panic_slice)"
  using digest_oid_at [OF assms(1)] parse_sod_envelope_cut [OF assms] by (simp add: at_pos_def)

theorem sod_cut_off_input_witness:
  "digest_oid_start example_sod = 30
   \<and> parse_sod_envelope False (\<lambda>_. Inr example_cert) (take 35 (enc_sod example_sod)) = Some (Panic Panic_slice)"
proof -
  have start: "digest_oid_start example_sod = 30" by code_simp
  have "length (sf_digest_oid example_sod) = 9" by (simp add: example_sod_def sha256_oid_def)
  with sod_cut_off_input [OF example_sod_ok, of 35 False "\<lambda>_. Inr example_cert"] start show ?thesis by simp
qed

end
