(* ===== verification/Prover_Types.thy ===== *)
theory Prover_Types
  imports Rust_Str
begin

text \<open>
  The shared data structures of \<open>crates/prover-types/src/lib.rs\<close> and their
  validation, with the JSON values they carry. Field names are the source's,
  prefixed by the struct's initials.
\<close>

section \<open>JSON values\<close>

text \<open>
  The value type of \<open>serde_json\<close> that the source matches on, and the accessors
  it calls, which are case analyses on the value. An object is its list of entries in
  iteration order. A float is its 64 bits. Parsing and printing JSON are parameters of
  the operations that use them.
\<close>

datatype json_number = PosInt u64 | NegInt u64 | Float u64

datatype json =
    JNull
  | JBool bool
  | JNumber json_number
  | JString string
  | JArray "json list"
  | JObject "(string \<times> json) list"

type_synonym json_map = "(string \<times> json) list"

fun as_object :: "json \<Rightarrow> json_map option" where
  "as_object (JObject m) = Some m"
| "as_object _ = None"

fun as_bool :: "json \<Rightarrow> bool option" where
  "as_bool (JBool b) = Some b"
| "as_bool _ = None"

fun as_str :: "json \<Rightarrow> string option" where
  "as_str (JString s) = Some s"
| "as_str _ = None"

definition contains_key :: "json_map \<Rightarrow> string \<Rightarrow> bool" where
  "contains_key m k \<longleftrightarrow> map_of m k \<noteq> None"

definition json_get :: "json \<Rightarrow> string \<Rightarrow> json option" where
  "json_get v k = Option.bind (as_object v) (\<lambda>m. map_of m k)"

lemma contains_key_iff: "contains_key m k \<longleftrightarrow> k \<in> fst ` set m"
  by (auto simp: contains_key_def map_of_eq_None_iff)

lemma as_object_Some: "as_object v = Some m \<longleftrightarrow> v = JObject m"
  by (cases v) auto

section \<open>Validation errors\<close>

datatype validation_error =
    MissingField string
  | InvalidValue string string

fun validation_message :: "validation_error \<Rightarrow> string" where
  "validation_message (MissingField f) = ''missing required field: '' @ f"
| "validation_message (InvalidValue f m) = ''invalid value for '' @ f @ '': '' @ m"

section \<open>Documents and requests\<close>

record document_input =
  di_dg1_base64 :: string
  di_sod_der_base64 :: string
  di_dg2_base64 :: "string option"
  di_document_type :: "string option"

definition is_blank :: "string \<Rightarrow> bool" where
  "is_blank s \<longleftrightarrow> str_trim s = []"

definition document_validate :: "document_input \<Rightarrow> (unit, validation_error) outcome" where
  "document_validate d =
    (if is_blank (di_dg1_base64 d) then Err (MissingField ''dg1_base64'')
     else if is_blank (di_sod_der_base64 d) then Err (MissingField ''sod_der_base64'')
     else Ok ())"

record proof_request =
  pr_circuit_version :: string
  pr_chain_id :: u64
  pr_service_scope :: string
  pr_service_subscope :: string
  pr_current_date :: u64
  pr_query :: json
  pr_petition_id :: "string option"
  pr_aggregate_mode :: "string option"

definition request_validate :: "proof_request \<Rightarrow> (unit, validation_error) outcome" where
  "request_validate r =
    (if is_blank (pr_circuit_version r) then Err (MissingField ''circuit_version'')
     else if is_blank (pr_service_scope r) then Err (MissingField ''service_scope'')
     else if is_blank (pr_service_subscope r) then Err (MissingField ''service_subscope'')
     else if pr_current_date r = 0
       then Err (InvalidValue ''current_date'' ''must be a unix timestamp greater than zero'')
     else Ok ())"

section \<open>Proofs and bundles\<close>

record recursive_proof =
  rp_circuit_name :: string
  rp_proof :: "string list"
  rp_public_inputs :: "string list"
  rp_vkey :: "string list"
  rp_key_hash :: string
  rp_tree_hash_path :: "string list"
  rp_tree_index :: string

record inner_proof_bundle =
  ib_version :: string
  ib_current_date :: u64
  ib_dsc :: recursive_proof
  ib_id_data :: recursive_proof
  ib_integrity :: recursive_proof
  ib_disclosures :: "recursive_proof list"
  ib_metadata :: "string \<rightharpoonup> string"

record outer_proof_result =
  or_version :: string
  or_name :: string
  or_proof :: string
  or_public_inputs :: "string list"
  or_vkey_hash :: string
  or_nullifier :: "string option"
  or_metadata :: "string \<rightharpoonup> string"

record fixture_metadata =
  fm_fixture_id :: "string option"
  fm_source :: "string option"
  fm_notes :: "string option"

record fixture_bundle =
  fb_document :: document_input
  fb_request :: proof_request
  fb_expected_inner :: "inner_proof_bundle option"
  fb_expected_outer :: "outer_proof_result option"
  fb_metadata :: fixture_metadata

definition fixture_validate :: "fixture_bundle \<Rightarrow> (unit, validation_error) outcome" where
  "fixture_validate f =
    and_then (document_validate (fb_document f)) (\<lambda>_.
    and_then (request_validate (fb_request f)) (\<lambda>_. Ok ()))"

definition fixture_metadata_default :: fixture_metadata where
  "fixture_metadata_default = \<lparr>fm_fixture_id = None, fm_source = None, fm_notes = None\<rparr>"

section \<open>What validation establishes\<close>

text \<open>A fixture the rest of the pipeline may rely on: the contract of \<open>validate\<close>.\<close>

definition document_complete :: "document_input \<Rightarrow> bool" where
  "document_complete d \<longleftrightarrow> \<not> is_blank (di_dg1_base64 d) \<and> \<not> is_blank (di_sod_der_base64 d)"

definition request_complete :: "proof_request \<Rightarrow> bool" where
  "request_complete r \<longleftrightarrow>
     \<not> is_blank (pr_circuit_version r) \<and> \<not> is_blank (pr_service_scope r)
     \<and> \<not> is_blank (pr_service_subscope r) \<and> 0 < pr_current_date r"

lemma document_validate_iff: "document_validate d = Ok () \<longleftrightarrow> document_complete d"
  by (simp add: document_validate_def document_complete_def)

lemma request_validate_iff: "request_validate r = Ok () \<longleftrightarrow> request_complete r"
  by (simp add: request_validate_def request_complete_def word_gt_0)

lemma document_validate_no_panic [simp]: "document_validate d \<noteq> Panic p"
  by (simp add: document_validate_def)

lemma request_validate_no_panic [simp]: "request_validate r \<noteq> Panic p"
  by (simp add: request_validate_def)

lemma fixture_validate_no_panic [simp]: "fixture_validate f \<noteq> Panic p"
  by (auto simp: fixture_validate_def and_then_eq_Panic)

lemma is_blank_Nil [simp]: "is_blank []"
  by (simp add: is_blank_def)

lemma fixture_validate_iff:
  "fixture_validate f = Ok () \<longleftrightarrow>
     document_complete (fb_document f) \<and> request_complete (fb_request f)"
  by (auto simp: fixture_validate_def and_then_eq_Ok document_validate_iff request_validate_iff)

end
