(* ===== verification/Resolution.thy ===== *)
theory Resolution
  imports Prover_Types
begin

text \<open>
  Circuit selection, \<open>crates/prover-core/src/resolution.rs\<close>: the tokens of hash
  algorithms, curves and signature schemes, the circuit names derived from them, and
  the lookup of those names in the manifest. The manifest's own types are from
  \<open>crates/prover-core/src/registry.rs\<close>.
\<close>

section \<open>Tokens\<close>

datatype hash_token = Sha1 | Sha224 | Sha256 | Sha384 | Sha512

definition hash_normalize :: "string \<Rightarrow> hash_token" where
  "hash_normalize value =
    (let normalized = str_replace ''-'' [] (to_ascii_lowercase value) in
     if str_contains ''512'' normalized then Sha512
     else if str_contains ''384'' normalized then Sha384
     else if str_contains ''224'' normalized then Sha224
     else if str_contains ''1'' normalized then Sha1
     else Sha256)"

fun hash_suffix :: "hash_token \<Rightarrow> string" where
  "hash_suffix Sha1 = ''sha1''"
| "hash_suffix Sha224 = ''sha224''"
| "hash_suffix Sha256 = ''sha256''"
| "hash_suffix Sha384 = ''sha384''"
| "hash_suffix Sha512 = ''sha512''"

datatype ec_curve =
    NistP192 | NistP224 | NistP256 | NistP384 | NistP521
  | Brainpool160r1 | Brainpool160t1 | Brainpool192r1 | Brainpool192t1
  | Brainpool224r1 | Brainpool224t1 | Brainpool256r1 | Brainpool256t1
  | Brainpool320r1 | Brainpool320t1 | Brainpool384r1 | Brainpool384t1
  | Brainpool512r1 | Brainpool512t1

definition zkpassport_curves :: "(string \<times> ec_curve) list" where
  "zkpassport_curves =
    [(''P-192'', NistP192), (''P-224'', NistP224), (''P-256'', NistP256), (''P-384'', NistP384),
     (''P-521'', NistP521), (''brainpoolP160r1'', Brainpool160r1),
     (''brainpoolP160t1'', Brainpool160t1), (''brainpoolP192r1'', Brainpool192r1),
     (''brainpoolP192t1'', Brainpool192t1), (''brainpoolP224r1'', Brainpool224r1),
     (''brainpoolP224t1'', Brainpool224t1), (''brainpoolP256r1'', Brainpool256r1),
     (''brainpoolP256t1'', Brainpool256t1), (''brainpoolP320r1'', Brainpool320r1),
     (''brainpoolP320t1'', Brainpool320t1), (''brainpoolP384r1'', Brainpool384r1),
     (''brainpoolP384t1'', Brainpool384t1), (''brainpoolP512r1'', Brainpool512r1),
     (''brainpoolP512t1'', Brainpool512t1)]"

definition curve_from_zkpassport_name :: "string \<Rightarrow> ec_curve result" where
  "curve_from_zkpassport_name value =
    (case map_of zkpassport_curves value of
       Some c \<Rightarrow> Ok c
     | None \<Rightarrow> bail (''unsupported ECDSA curve for circuit selection: '' @ value))"

fun curve_suffix :: "ec_curve \<Rightarrow> string" where
  "curve_suffix NistP192 = ''nist_p192''"
| "curve_suffix NistP224 = ''nist_p224''"
| "curve_suffix NistP256 = ''nist_p256''"
| "curve_suffix NistP384 = ''nist_p384''"
| "curve_suffix NistP521 = ''nist_p521''"
| "curve_suffix Brainpool160r1 = ''brainpool_160r1''"
| "curve_suffix Brainpool160t1 = ''brainpool_160t1''"
| "curve_suffix Brainpool192r1 = ''brainpool_192r1''"
| "curve_suffix Brainpool192t1 = ''brainpool_192t1''"
| "curve_suffix Brainpool224r1 = ''brainpool_224r1''"
| "curve_suffix Brainpool224t1 = ''brainpool_224t1''"
| "curve_suffix Brainpool256r1 = ''brainpool_256r1''"
| "curve_suffix Brainpool256t1 = ''brainpool_256t1''"
| "curve_suffix Brainpool320r1 = ''brainpool_320r1''"
| "curve_suffix Brainpool320t1 = ''brainpool_320t1''"
| "curve_suffix Brainpool384r1 = ''brainpool_384r1''"
| "curve_suffix Brainpool384t1 = ''brainpool_384t1''"
| "curve_suffix Brainpool512r1 = ''brainpool_512r1''"
| "curve_suffix Brainpool512t1 = ''brainpool_512t1''"

datatype signature_key = Ecdsa ec_curve | RsaPkcs u32 | RsaPss u32

fun key_suffix :: "signature_key \<Rightarrow> string" where
  "key_suffix (Ecdsa curve) = ''ecdsa_'' @ curve_suffix curve"
| "key_suffix (RsaPkcs key_bits) = ''rsa_pkcs_'' @ show_u32 key_bits"
| "key_suffix (RsaPss key_bits) = ''rsa_pss_'' @ show_u32 key_bits"

section \<open>Names and their lookup\<close>

record circuit_spec =
  cs_tbs_bucket :: u32
  cs_key :: signature_key
  cs_hash :: hash_token

record circuit_context =
  cc_dsc :: circuit_spec
  cc_id_data :: circuit_spec
  cc_dg_hash :: hash_token
  cc_outer_circuit :: string

record resolved_circuits =
  rc_dsc_name :: string
  rc_id_data_name :: string
  rc_integrity_name :: string
  rc_outer_name :: string

record manifest_circuit =
  mc_hash :: string
  mc_size :: u64

record manifest =
  mf_version :: string
  mf_root :: string
  mf_circuits :: "string \<rightharpoonup> manifest_circuit"

definition dsc_circuit_name :: "circuit_spec \<Rightarrow> string" where
  "dsc_circuit_name s =
    ''sig_check_dsc_tbs_'' @ show_u32 (cs_tbs_bucket s) @ ''_'' @ key_suffix (cs_key s) @ ''_''
      @ hash_suffix (cs_hash s)"

definition id_data_circuit_name :: "circuit_spec \<Rightarrow> string" where
  "id_data_circuit_name s =
    ''sig_check_id_data_tbs_'' @ show_u32 (cs_tbs_bucket s) @ ''_'' @ key_suffix (cs_key s) @ ''_''
      @ hash_suffix (cs_hash s)"

definition integrity_circuit_name :: "hash_token \<Rightarrow> hash_token \<Rightarrow> string" where
  "integrity_circuit_name sa dg =
    ''data_check_integrity_sa_'' @ hash_suffix sa @ ''_dg_'' @ hash_suffix dg"

text \<open>The \<open>for name in [...]\<close> loop: every name must be in the manifest.\<close>

fun check_in_manifest :: "manifest \<Rightarrow> string list \<Rightarrow> unit result" where
  "check_in_manifest m [] = Ok ()"
| "check_in_manifest m (name # names) =
    and_then (opt_context (''derived circuit not found in manifest: '' @ name) (mf_circuits m name))
      (\<lambda>_. check_in_manifest m names)"

definition resolve_document_circuits :: "manifest \<Rightarrow> circuit_context \<Rightarrow> resolved_circuits result" where
  "resolve_document_circuits m c =
    (let dsc_name = dsc_circuit_name (cc_dsc c);
         id_data_name = id_data_circuit_name (cc_id_data c);
         integrity_name = integrity_circuit_name (cs_hash (cc_id_data c)) (cc_dg_hash c)
     in and_then (check_in_manifest m [dsc_name, id_data_name, integrity_name, cc_outer_circuit c])
          (\<lambda>_. Ok \<lparr>rc_dsc_name = dsc_name, rc_id_data_name = id_data_name,
                   rc_integrity_name = integrity_name, rc_outer_name = cc_outer_circuit c\<rparr>))"

section \<open>Suffix codes\<close>

text \<open>
  The contract the derived names rely on: a suffix determines its token, and a last
  suffix carries no underscore, so it can be told from what precedes it.
\<close>

locale suffix_code =
  fixes suffix_of :: "'a \<Rightarrow> string"
  assumes suffix_inj: "suffix_of x = suffix_of y \<Longrightarrow> x = y"

locale last_suffix = suffix_code +
  assumes no_underscore: "CHR ''_'' \<notin> set (suffix_of x)"
begin

lemma split_last:
  assumes "p @ ''_'' @ suffix_of x = q @ ''_'' @ suffix_of y"
  shows "p = q \<and> x = y"
proof -
  have *: "takeWhile (\<lambda>c. c \<noteq> CHR ''_'') (rev (r @ ''_'' @ suffix_of z)) = rev (suffix_of z)" for r z
    using no_underscore [of z] by simp
  from assms have "rev (suffix_of x) = rev (suffix_of y)" by (metis *)
  then have "suffix_of x = suffix_of y" by simp
  with assms suffix_inj show ?thesis by auto
qed

end

interpretation hash_code: last_suffix hash_suffix
proof unfold_locales
  fix x y
  show "hash_suffix x = hash_suffix y \<Longrightarrow> x = y" by (cases x; cases y) auto
  show "CHR ''_'' \<notin> set (hash_suffix x)" by (cases x) auto
qed

interpretation u32_code: last_suffix show_u32
proof unfold_locales
  fix x
  show "CHR ''_'' \<notin> set (show_u32 x)"
    using show_nat_digits [of "CHR ''_''"] by (auto simp: show_u32_def is_digit_def)
qed simp

definition curve_suffix_table :: "(string \<times> ec_curve) list" where
  "curve_suffix_table = map (\<lambda>(_, c). (curve_suffix c, c)) zkpassport_curves"

lemma curve_suffix_lookup: "map_of curve_suffix_table (curve_suffix c) = Some c"
  by (cases c) (simp_all add: curve_suffix_table_def zkpassport_curves_def)

interpretation curve_code: suffix_code curve_suffix
  by unfold_locales (metis curve_suffix_lookup option.inject)

interpretation key_code: suffix_code key_suffix
proof unfold_locales
  fix x y
  assume "key_suffix x = key_suffix y"
  then show "x = y" by (cases x; cases y) (auto dest: curve_code.suffix_inj)
qed

text \<open>A number printed in front of an underscore is determined by the text.\<close>

lemma show_u32_split:
  assumes "show_u32 a @ ''_'' @ r = show_u32 b @ ''_'' @ s"
  shows "a = b \<and> r = s"
proof -
  have *: "takeWhile (\<lambda>c. c \<noteq> CHR ''_'') (show_u32 z @ ''_'' @ t) = show_u32 z" for z t
    using u32_code.no_underscore [of z] by simp
  from assms have "show_u32 a = show_u32 b" by (metis *)
  with assms show ?thesis by auto
qed

lemma spec_name_inject:
  assumes "pre @ show_u32 (cs_tbs_bucket s) @ ''_'' @ key_suffix (cs_key s) @ ''_'' @ hash_suffix (cs_hash s)
         = pre @ show_u32 (cs_tbs_bucket t) @ ''_'' @ key_suffix (cs_key t) @ ''_'' @ hash_suffix (cs_hash t)"
  shows "(s :: circuit_spec) = t"
proof -
  from assms have b: "cs_tbs_bucket s = cs_tbs_bucket t"
    and "key_suffix (cs_key s) @ ''_'' @ hash_suffix (cs_hash s)
       = key_suffix (cs_key t) @ ''_'' @ hash_suffix (cs_hash t)"
    using show_u32_split by auto
  then have "key_suffix (cs_key s) = key_suffix (cs_key t)" and h: "cs_hash s = cs_hash t"
    using hash_code.split_last by blast+
  then have "cs_key s = cs_key t" by (blast dest: key_code.suffix_inj)
  with b h show ?thesis by simp
qed

section \<open>Properties\<close>

lemma check_in_manifest_iff:
  "check_in_manifest m names = Ok () \<longleftrightarrow> set names \<subseteq> dom (mf_circuits m)"
  by (induction names) (auto simp: and_then_eq_Ok)

lemma check_in_manifest_find:
  "check_in_manifest m names =
    (case find (\<lambda>n. mf_circuits m n = None) names of
       None \<Rightarrow> Ok ()
     | Some n \<Rightarrow> Err [''derived circuit not found in manifest: '' @ n])"
  by (induction names) (auto simp: opt_context_def split: option.splits)

lemma check_in_manifest_no_panic [simp]: "check_in_manifest m names \<noteq> Panic p"
  by (induction names) (auto simp: and_then_eq_Panic)

lemma resolve_document_circuits_Ok:
  "resolve_document_circuits m c = Ok r \<longleftrightarrow>
     r = \<lparr>rc_dsc_name = dsc_circuit_name (cc_dsc c),
          rc_id_data_name = id_data_circuit_name (cc_id_data c),
          rc_integrity_name = integrity_circuit_name (cs_hash (cc_id_data c)) (cc_dg_hash c),
          rc_outer_name = cc_outer_circuit c\<rparr>
     \<and> {rc_dsc_name r, rc_id_data_name r, rc_integrity_name r, rc_outer_name r}
         \<subseteq> dom (mf_circuits m)"
  by (auto simp: resolve_document_circuits_def Let_def and_then_eq_Ok check_in_manifest_iff
      simp del: check_in_manifest.simps)

lemma resolve_document_circuits_no_panic [simp]: "resolve_document_circuits m c \<noteq> Panic p"
  by (auto simp: resolve_document_circuits_def Let_def and_then_eq_Panic
      simp del: check_in_manifest.simps)

lemma integrity_name_inject:
  "integrity_circuit_name sa dg = integrity_circuit_name sa' dg' \<longleftrightarrow> sa = sa' \<and> dg = dg'"
proof
  assume "integrity_circuit_name sa dg = integrity_circuit_name sa' dg'"
  then have "(''data_check_integrity_sa_'' @ hash_suffix sa @ ''_dg'') @ ''_'' @ hash_suffix dg
           = (''data_check_integrity_sa_'' @ hash_suffix sa' @ ''_dg'') @ ''_'' @ hash_suffix dg'"
    by (simp add: integrity_circuit_name_def)
  from hash_code.split_last [OF this] show "sa = sa' \<and> dg = dg'"
    by (auto dest: hash_code.suffix_inj)
qed simp

section \<open>Properties of circuit selection\<close>

lemma names_of_kinds_differ:
  "dsc_circuit_name s \<noteq> id_data_circuit_name t" "dsc_circuit_name s \<noteq> integrity_circuit_name h h'"
  "id_data_circuit_name t \<noteq> integrity_circuit_name h h'"
  by (simp_all add: dsc_circuit_name_def id_data_circuit_name_def integrity_circuit_name_def)

text \<open>
  C13. A circuit name determines what it was derived from: two specifications have the
  same DSC circuit name, or the same ID data circuit name, only when they are equal in
  bucket, key and hash; two hash pairs have the same integrity circuit name only when
  they are equal; and the three kinds of names never coincide.
\<close>

theorem circuit_names_determine_specs:
  "(dsc_circuit_name s = dsc_circuit_name t \<longleftrightarrow> s = t)
   \<and> (id_data_circuit_name s = id_data_circuit_name t \<longleftrightarrow> s = t)
   \<and> (integrity_circuit_name sa dg = integrity_circuit_name sa' dg' \<longleftrightarrow> sa = sa' \<and> dg = dg')
   \<and> dsc_circuit_name s \<noteq> id_data_circuit_name t
   \<and> dsc_circuit_name s \<noteq> integrity_circuit_name sa dg
   \<and> id_data_circuit_name t \<noteq> integrity_circuit_name sa dg"
proof -
  have "dsc_circuit_name s = dsc_circuit_name t \<longleftrightarrow> s = t"
    using spec_name_inject [of "''sig_check_dsc_tbs_''" s t] by (auto simp: dsc_circuit_name_def)
  moreover have "id_data_circuit_name s = id_data_circuit_name t \<longleftrightarrow> s = t"
    using spec_name_inject [of "''sig_check_id_data_tbs_''" s t] by (auto simp: id_data_circuit_name_def)
  ultimately show ?thesis by (simp add: integrity_name_inject names_of_kinds_differ)
qed

text \<open>
  C33. Resolving a document's circuits yields the three derived names and the outer name
  when the manifest has all four, and otherwise the error that names the first missing
  one, in the order DSC, ID data, integrity, outer; it never panics.
\<close>

theorem resolve_document_circuits_outcome:
  "resolve_document_circuits m c =
    (let names = [dsc_circuit_name (cc_dsc c), id_data_circuit_name (cc_id_data c),
                  integrity_circuit_name (cs_hash (cc_id_data c)) (cc_dg_hash c), cc_outer_circuit c]
     in case List.find (\<lambda>n. mf_circuits m n = None) names of
          Some n \<Rightarrow> Err [''derived circuit not found in manifest: '' @ n]
        | None \<Rightarrow> Ok \<lparr>rc_dsc_name = names ! 0, rc_id_data_name = names ! 1,
                      rc_integrity_name = names ! 2, rc_outer_name = names ! 3\<rparr>)"
  by (simp only: resolve_document_circuits_def Let_def check_in_manifest_find)
    (simp add: eval_nat_numeral split: option.split)

end
