(* ===== verification/Analysis.thy ===== *)
theory Analysis
  imports Sod Resolution
begin

text \<open>
  The analysis of a document, \<open>crates/prover-core/src/analysis.rs\<close>: the MRZ out of data
  group 1, the public key and the hash algorithms out of the SOD, the country of the
  signer's certificate. Base64, the X.509 parser and the table of ISO country codes are
  third-party crates, hence parameters. The reader of the SOD is in \<open>Der\<close>.
\<close>

section \<open>The MRZ\<close>

record mrz_fields =
  mz_issuing_country :: string
  mz_document_number :: string
  mz_nationality :: string
  mz_date_of_birth :: string
  mz_gender :: string
  mz_expiry_date :: string
  mz_last_name :: string
  mz_first_name :: string

definition string_from_utf8 :: "string \<Rightarrow> u8 list \<Rightarrow> string result" where
  "string_from_utf8 context bytes =
    (case from_utf8 bytes of
       Some s \<Rightarrow> Ok s
     | None \<Rightarrow> with_context context (bail (utf8_error show_nat 0 bytes)))"

text \<open>
  An index of the loop at which \<open>extract_mrz_from_dg1\<close> returns: the tag \<open>5F1F\<close>, and
  a length that stays within the data group. Indices are bounded by the length of a
  buffer, so no addition on them overflows.
\<close>

definition mrz_tag_at :: "u8 list \<Rightarrow> nat \<Rightarrow> bool" where
  "mrz_tag_at dg1 index \<longleftrightarrow>
    dg1 ! index = 0x5F \<and> dg1 ! (index + 1) = 0x1F
    \<and> index + 3 + unat (dg1 ! (index + 2)) \<le> length dg1"

definition extract_mrz_from_dg1 :: "u8 list \<Rightarrow> string result" where
  "extract_mrz_from_dg1 dg1 =
    (case List.find (mrz_tag_at dg1) [0..<length dg1 - 2] of
       Some index \<Rightarrow>
         string_from_utf8 ''DG1 MRZ is not valid UTF-8/ASCII''
           (take (unat (dg1 ! (index + 2))) (drop (index + 3) dg1))
     | None \<Rightarrow> string_from_utf8 ''DG1 fallback ASCII decode failed'' dg1)"

text \<open>\<open>names.get(i)...replace('<', " ").trim()\<close>\<close>

definition name_part :: "string list \<Rightarrow> nat \<Rightarrow> string" where
  "name_part names i =
    str_trim (str_replace ''<'' '' '' (if i < length names then names ! i else []))"

definition clean_mrz :: "string \<Rightarrow> string" where
  "clean_mrz mrz = str_replace '' '' [] (str_replace [CHR 0x0A] [] mrz)"

text \<open>The passport branch indexes the string, and panics off a character boundary.\<close>

definition parse_td3 :: "string \<Rightarrow> mrz_fields result" where
  "parse_td3 clean =
    and_then (str_index clean 5 44) (\<lambda>names.
    and_then (str_index clean 2 5) (\<lambda>issuing_country.
    and_then (str_index clean 44 53) (\<lambda>document_number.
    and_then (str_index clean 54 57) (\<lambda>nationality.
    and_then (str_index clean 57 63) (\<lambda>date_of_birth.
    and_then (str_index clean 64 65) (\<lambda>gender.
    and_then (str_index clean 65 71) (\<lambda>expiry_date.
    let names = str_split ''<<'' names in
    Ok \<lparr>mz_issuing_country = str_replace ''<'' [] issuing_country,
        mz_document_number = str_replace ''<_'' [] document_number,
        mz_nationality = str_replace ''<'' [] nationality,
        mz_date_of_birth = str_replace ''<'' [] date_of_birth,
        mz_gender = str_replace ''<'' [] gender,
        mz_expiry_date = str_replace ''<_'' [] expiry_date,
        mz_last_name = name_part names 0,
        mz_first_name = name_part names 1\<rparr>)))))))"

text \<open>The identity card branch takes what is out of range for empty.\<close>

definition parse_td1 :: "string \<Rightarrow> mrz_fields" where
  "parse_td1 clean =
    (let names = str_split ''<<'' (get_or_empty clean 60 90) in
     \<lparr>mz_issuing_country = str_replace ''<'' [] (get_or_empty clean 2 5),
      mz_document_number = str_replace ''<_'' [] (get_or_empty clean 5 14),
      mz_nationality = str_replace ''<'' [] (get_or_empty clean 45 48),
      mz_date_of_birth = str_replace ''<'' [] (get_or_empty clean 30 36),
      mz_gender = str_replace ''<'' [] (get_or_empty clean 37 38),
      mz_expiry_date = str_replace ''<_'' [] (get_or_empty clean 38 44),
      mz_last_name = name_part names 0,
      mz_first_name = name_part names 1\<rparr>)"

definition parse_mrz :: "string \<Rightarrow> mrz_fields result" where
  "parse_mrz mrz =
    (let clean = clean_mrz mrz in
     if 88 \<le> length clean \<and> starts_with ''P'' clean then parse_td3 clean
     else Ok (parse_td1 clean))"

section \<open>Algorithms\<close>

definition oid_rsa_encryption :: string where
  "oid_rsa_encryption = ''1.2.840.113549.1.1.1''"

definition oid_rsassa_pss :: string where
  "oid_rsassa_pss = ''1.2.840.113549.1.1.10''"

definition oid_ec_public_key :: string where
  "oid_ec_public_key = ''1.2.840.10045.2.1''"

definition bucket_tbs_len :: "nat \<Rightarrow> u32" where
  "bucket_tbs_len tbs_len =
    (if tbs_len \<le> 700 then 700
     else if tbs_len \<le> 1000 then 1000
     else if tbs_len \<le> 1200 then 1200
     else 1600)"

definition normalize_country_code :: "(string \<Rightarrow> string option) \<Rightarrow> string \<Rightarrow> string" where
  "normalize_country_code alpha3 value =
    (let clean = to_ascii_uppercase (str_trim value) in
     if length clean = 2 then (case alpha3 clean of Some c \<Rightarrow> c | None \<Rightarrow> clean) else clean)"

definition signature_algorithm_family :: "string \<Rightarrow> string" where
  "signature_algorithm_family oid =
    (if oid = oid_rsassa_pss then ''RSA-PSS''
     else if starts_with ''1.2.840.113549.1.1.'' oid then ''RSA''
     else if starts_with ''1.2.840.10045.4.'' oid then ''ECDSA''
     else ''UNKNOWN'')"

definition hash_oids :: "(string \<times> hash_token) list" where
  "hash_oids =
    [(''1.3.14.3.2.26'', Sha1), (''2.16.840.1.101.3.4.2.4'', Sha224),
     (''2.16.840.1.101.3.4.2.1'', Sha256), (''2.16.840.1.101.3.4.2.2'', Sha384),
     (''2.16.840.1.101.3.4.2.3'', Sha512)]"

definition hash_from_oid :: "string \<Rightarrow> hash_token option" where
  "hash_from_oid oid = map_of hash_oids oid"

text \<open>\<open>hash_from_oid(oid).unwrap_or_else(|| HashAlgorithmToken::normalize(oid))\<close>\<close>

definition hash_of_digest :: "string \<Rightarrow> hash_token" where
  "hash_of_digest oid = (case hash_from_oid oid of Some h \<Rightarrow> h | None \<Rightarrow> hash_normalize oid)"

definition hash_from_signature_and_digest_oids :: "string \<Rightarrow> string \<Rightarrow> hash_token" where
  "hash_from_signature_and_digest_oids signature_oid digest_oid =
    (if str_contains ''4.3.2'' signature_oid \<or> ends_with ''.11'' signature_oid then Sha256
     else if str_contains ''4.3.3'' signature_oid \<or> ends_with ''.12'' signature_oid then Sha384
     else if str_contains ''4.3.4'' signature_oid \<or> ends_with ''.13'' signature_oid then Sha512
     else if ends_with ''.14'' signature_oid then Sha224
     else if ends_with ''.5'' signature_oid then Sha1
     else hash_of_digest digest_oid)"

definition curve_oids :: "(string \<times> string) list" where
  "curve_oids =
    [(''1.2.840.10045.3.1.1'', ''P-192''), (''1.3.132.0.33'', ''P-224''),
     (''1.2.840.10045.3.1.7'', ''P-256''), (''1.3.132.0.34'', ''P-384''),
     (''1.3.132.0.35'', ''P-521''), (''1.3.36.3.3.2.8.1.1.1'', ''brainpoolP160r1''),
     (''1.3.36.3.3.2.8.1.1.2'', ''brainpoolP160t1''), (''1.3.36.3.3.2.8.1.1.3'', ''brainpoolP192r1''),
     (''1.3.36.3.3.2.8.1.1.4'', ''brainpoolP192t1''), (''1.3.36.3.3.2.8.1.1.5'', ''brainpoolP224r1''),
     (''1.3.36.3.3.2.8.1.1.6'', ''brainpoolP224t1''), (''1.3.36.3.3.2.8.1.1.7'', ''brainpoolP256r1''),
     (''1.3.36.3.3.2.8.1.1.8'', ''brainpoolP256t1''), (''1.3.36.3.3.2.8.1.1.9'', ''brainpoolP320r1''),
     (''1.3.36.3.3.2.8.1.1.10'', ''brainpoolP320t1''), (''1.3.36.3.3.2.8.1.1.11'', ''brainpoolP384r1''),
     (''1.3.36.3.3.2.8.1.1.12'', ''brainpoolP384t1''), (''1.3.36.3.3.2.8.1.1.13'', ''brainpoolP512r1''),
     (''1.3.36.3.3.2.8.1.1.14'', ''brainpoolP512t1'')]"

definition parse_subject_public_key_info ::
  "bool \<Rightarrow> string \<Rightarrow> u8 list \<Rightarrow> u8 list \<Rightarrow> signature_key result" where
  "parse_subject_public_key_info checks algorithm_oid parameters_bytes subject_public_key =
    (if algorithm_oid = oid_ec_public_key then
       and_then (parse_oid_bytes checks parameters_bytes) (\<lambda>curve_oid.
       and_then
         (case map_of curve_oids curve_oid of
            Some name \<Rightarrow> Ok name
          | None \<Rightarrow> bail (''unsupported EC curve OID: '' @ curve_oid))
         (\<lambda>curve. and_then (curve_from_zkpassport_name curve) (\<lambda>token. Ok (Ecdsa token))))
     else if algorithm_oid = oid_rsa_encryption \<or> algorithm_oid = oid_rsassa_pss then
       and_then (parse_rsa_key_size_bits checks subject_public_key) (\<lambda>key_bits.
         Ok (if algorithm_oid = oid_rsassa_pss then RsaPss key_bits else RsaPkcs key_bits))
     else bail (''unsupported subjectPublicKeyInfo algorithm OID: '' @ algorithm_oid))"

section \<open>Names\<close>

fun country_in_fragments :: "string list \<Rightarrow> string option" where
  "country_in_fragments [] = None"
| "country_in_fragments (f # fs) =
    (let fragment = str_trim f in
     case strip_prefix ''countryName='' fragment of
       Some value \<Rightarrow> Some (str_trim value)
     | None \<Rightarrow>
         (case strip_prefix ''C='' fragment of
            Some value \<Rightarrow> Some (str_trim value)
          | None \<Rightarrow> country_in_fragments fs))"

definition extract_country_from_name :: "string \<Rightarrow> string option" where
  "extract_country_from_name name = country_in_fragments (split_chars '',/'' name)"

definition hex_lower :: "u8 list \<Rightarrow> string" where
  "hex_lower bytes = concat (map hex02 bytes)"

section \<open>A document\<close>

record document_analysis =
  da_mrz :: string
  da_mrz_fields :: mrz_fields
  da_document_type :: string
  da_tbs_len :: nat
  da_tbs_bucket :: u32
  da_dsc_country :: string
  da_dsc_authority_key_identifier :: "string option"
  da_dsc_signature_hash :: hash_token
  da_dsc_parent_signature_algorithm :: string
  da_dsc_signature_algorithm_oid :: string
  da_sod_digest_algorithm_oid :: string
  da_sod_signature_algorithm_oid :: string
  da_sod_signature_hash :: hash_token
  da_dg_hash :: hash_token
  da_id_data_public_key :: signature_key
  da_econtent_len :: nat

text \<open>The first extension that is an authority key identifier with a key identifier.\<close>

fun find_key_identifier :: "u8 list option list \<Rightarrow> string option" where
  "find_key_identifier [] = None"
| "find_key_identifier (Some value # es) = Some (''0x'' @ hex_lower value)"
| "find_key_identifier (None # es) = find_key_identifier es"

definition certificate_country :: "x509_certificate \<Rightarrow> string" where
  "certificate_country cert =
    (case extract_country_from_name (xc_issuer cert) of
       Some c \<Rightarrow> c
     | None \<Rightarrow> (case extract_country_from_name (xc_subject cert) of Some c \<Rightarrow> c | None \<Rightarrow> []))"

definition document_type_of :: "document_input \<Rightarrow> u8 list \<Rightarrow> string result" where
  "document_type_of document dg1 =
    (if di_document_type document = Some ''id_card'' then Ok ''id_card''
     else if di_document_type document = Some ''passport'' then Ok ''passport''
     else case di_document_type document of
            Some t \<Rightarrow> Ok t
          | None \<Rightarrow> and_then (extract_mrz_from_dg1 dg1) (\<lambda>mrz.
              Ok (if length mrz = 88 then ''passport'' else ''id_card'')))"

text \<open>What \<open>analyze_document\<close> does behind the SOD parser; \<open>x509\<close> is run again on the certificate.\<close>

definition analyze_parsed ::
  "bool \<Rightarrow> x509_parser \<Rightarrow> (string \<Rightarrow> string option) \<Rightarrow> document_input \<Rightarrow> u8 list \<Rightarrow> string
     \<Rightarrow> mrz_fields \<Rightarrow> parsed_sod \<Rightarrow> document_analysis result" where
  "analyze_parsed checks x509 alpha3 document dg1 mrz fields_read sod =
    and_then (of_sum (\<lambda>error. [''failed to parse DSC certificate: '' @ error])
                (x509 (ps_certificate_der sod))) (\<lambda>cert.
    and_then (parse_subject_public_key_info checks (xc_spki_algorithm cert)
                (case xc_spki_parameters cert of Some p \<Rightarrow> p | None \<Rightarrow> []) (xc_spki_key cert)) (\<lambda>key.
    and_then (document_type_of document dg1) (\<lambda>document_type.
    Ok \<lparr>da_mrz = mrz, da_mrz_fields = fields_read, da_document_type = document_type,
        da_tbs_len = xc_tbs_len cert, da_tbs_bucket = bucket_tbs_len (xc_tbs_len cert),
        da_dsc_country = normalize_country_code alpha3 (certificate_country cert),
        da_dsc_authority_key_identifier = find_key_identifier (xc_extension_akis cert),
        da_dsc_signature_hash =
          hash_from_signature_and_digest_oids (ps_certificate_signature_algorithm_oid sod) [],
        da_dsc_parent_signature_algorithm =
          signature_algorithm_family (ps_certificate_signature_algorithm_oid sod),
        da_dsc_signature_algorithm_oid = ps_certificate_signature_algorithm_oid sod,
        da_sod_digest_algorithm_oid = ps_digest_algorithm_oid sod,
        da_sod_signature_algorithm_oid = ps_signer_signature_algorithm_oid sod,
        da_sod_signature_hash =
          hash_from_signature_and_digest_oids (ps_signer_signature_algorithm_oid sod)
            (ps_digest_algorithm_oid sod),
        da_dg_hash = hash_of_digest (ps_econtent_hash_algorithm_oid sod),
        da_id_data_public_key = key,
        da_econtent_len = length (ps_econtent sod)\<rparr>)))"

definition analyze_document ::
  "bool \<Rightarrow> (string \<Rightarrow> string + u8 list) \<Rightarrow> x509_parser \<Rightarrow> (string \<Rightarrow> string option)
     \<Rightarrow> document_input \<Rightarrow> document_analysis run" where
  "analyze_document checks base64 x509 alpha3 document =
    and_run (Some (map_err (\<lambda>e. [validation_message e]) (document_validate document))) (\<lambda>_.
    and_run (Some (of_sum (\<lambda>e. [''failed to decode dg1_base64'', e])
                     (base64 (di_dg1_base64 document)))) (\<lambda>dg1.
    and_run (Some (of_sum (\<lambda>e. [''failed to decode sod_der_base64'', e])
                     (base64 (di_sod_der_base64 document)))) (\<lambda>sod.
    and_run (Some (extract_mrz_from_dg1 dg1)) (\<lambda>mrz.
    and_run (Some (parse_mrz mrz)) (\<lambda>fields_read.
    and_run (parse_sod_envelope checks x509 sod) (\<lambda>parsed.
    Some (analyze_parsed checks x509 alpha3 document dg1 mrz fields_read parsed)))))))"

end
