(* ===== verification/Mrz.thy ===== *)
theory Mrz
  imports Analysis
begin

text \<open>
  The machine-readable zones of ICAO Doc 9303, parts 4 (TD3, passports) and 5 (TD1,
  identity cards), as encoders of the fields \<open>parse_mrz\<close> reads, and the proof that
  it reads back what they encode. Then what it does with text outside the MRZ alphabet.
\<close>

section \<open>Layouts\<close>

definition letter :: "char \<Rightarrow> bool" where
  "letter c \<longleftrightarrow> (let n = of_char c :: nat in 65 \<le> n \<and> n \<le> 90)"

definition alnum :: "char \<Rightarrow> bool" where
  "alnum c \<longleftrightarrow> letter c \<or> is_digit c"

definition mrz_char :: "char \<Rightarrow> bool" where
  "mrz_char c \<longleftrightarrow> alnum c \<or> c = CHR ''<''"

definition fill :: "nat \<Rightarrow> string \<Rightarrow> string" where
  "fill n s = s @ replicate (n - length s) CHR ''<''"

text \<open>A name: words of letters with one blank between them; the zone has fillers for blanks.\<close>

fun name_ok :: "string \<Rightarrow> bool" where
  "name_ok [] = True"
| "name_ok [c] = letter c"
| "name_ok (c # d # s) = (letter c \<and> (if d = CHR '' '' then s \<noteq> [] \<and> name_ok s else name_ok (d # s)))"

definition mrz_name :: "string \<Rightarrow> string" where
  "mrz_name s = map (\<lambda>c. if c = CHR '' '' then CHR ''<'' else c) s"

definition names_field :: "nat \<Rightarrow> mrz_fields \<Rightarrow> string" where
  "names_field n f = fill n (mrz_name (mz_last_name f) @ ''<<'' @ mrz_name (mz_first_name f))"

text \<open>The parts that \<open>parse_mrz\<close> skips: the document code, check digits, optional data.\<close>

definition td3_mrz :: "mrz_fields \<Rightarrow> char \<Rightarrow> char \<Rightarrow> char \<Rightarrow> string \<Rightarrow> string" where
  "td3_mrz f code check1 check2 rest =
    ''P'' @ [code] @ fill 3 (mz_issuing_country f) @ names_field 39 f
    @ fill 9 (mz_document_number f) @ [check1] @ fill 3 (mz_nationality f)
    @ fill 6 (mz_date_of_birth f) @ [check2] @ fill 1 (mz_gender f) @ fill 6 (mz_expiry_date f) @ rest"

definition td1_mrz ::
  "mrz_fields \<Rightarrow> string \<Rightarrow> string \<Rightarrow> char \<Rightarrow> char \<Rightarrow> string \<Rightarrow> string" where
  "td1_mrz f code optional1 check2 check3 optional2 =
    code @ fill 3 (mz_issuing_country f) @ fill 9 (mz_document_number f) @ optional1
    @ fill 6 (mz_date_of_birth f) @ [check2] @ fill 1 (mz_gender f) @ fill 6 (mz_expiry_date f)
    @ [check3] @ fill 3 (mz_nationality f) @ optional2 @ names_field 30 f"

definition field_ok :: "nat \<Rightarrow> string \<Rightarrow> bool" where
  "field_ok n s \<longleftrightarrow> length s \<le> n \<and> list_all alnum s"

definition fields_ok :: "nat \<Rightarrow> mrz_fields \<Rightarrow> bool" where
  "fields_ok n f \<longleftrightarrow>
     field_ok 3 (mz_issuing_country f) \<and> field_ok 9 (mz_document_number f)
     \<and> field_ok 3 (mz_nationality f) \<and> field_ok 6 (mz_date_of_birth f) \<and> field_ok 1 (mz_gender f)
     \<and> field_ok 6 (mz_expiry_date f) \<and> name_ok (mz_last_name f) \<and> name_ok (mz_first_name f)
     \<and> length (mz_last_name f) + length (mz_first_name f) + 2 \<le> n"

section \<open>The alphabet\<close>

lemma letter_neq: "letter c \<Longrightarrow> c \<noteq> CHR ''<'' \<and> CHR ''<'' \<noteq> c \<and> c \<noteq> CHR '' '' \<and> c \<noteq> CHR ''_''"
  by (auto simp: letter_def Let_def)

lemma letter_visible: "letter c \<Longrightarrow> visible c"
  by (auto simp: letter_def visible_def Let_def)

lemma alnum_neq: "alnum c \<Longrightarrow> c \<noteq> CHR ''<'' \<and> c \<noteq> CHR ''_''"
  by (auto simp: letter_def alnum_def is_digit_def Let_def)

lemma mrz_char_ascii: "mrz_char c \<Longrightarrow> of_char c < (128 :: nat) \<and> c \<noteq> CHR '' '' \<and> c \<noteq> CHR 0x0A"
  by (auto simp: mrz_char_def letter_def alnum_def is_digit_def Let_def)

lemma mrz_is_ascii: "list_all mrz_char s \<Longrightarrow> is_ascii s"
  using mrz_char_ascii by (auto simp: is_ascii_def list_all_iff)

lemma clean_mrz_id: "list_all mrz_char s \<Longrightarrow> clean_mrz s = s"
  using mrz_char_ascii by (auto simp: clean_mrz_def str_replace_empty list_all_iff intro!: filter_True)

lemma length_fill: "length s \<le> n \<Longrightarrow> length (fill n s) = n"
  by (simp add: fill_def)

lemma mrz_chars_fill: "field_ok n s \<Longrightarrow> list_all mrz_char (fill n s)"
  by (auto simp: fill_def field_ok_def list_all_iff mrz_char_def)

lemma unfill:
  assumes "field_ok n s" and "set pat \<subseteq> set ''<_''" and "CHR ''<'' \<in> set pat"
  shows "str_replace pat [] (fill n s) = s"
proof -
  have "filter (\<lambda>c. c \<notin> set pat) s = s"
    using assms(1,2) alnum_neq by (fastforce simp: field_ok_def list_all_iff intro!: filter_True)
  moreover have "filter (\<lambda>c. c \<notin> set pat) (replicate k CHR ''<'') = []" for k
    using assms(3) by simp
  ultimately show ?thesis by (simp add: str_replace_empty fill_def)
qed

section \<open>Names\<close>

lemma length_mrz_name [simp]: "length (mrz_name s) = length s"
  by (simp add: mrz_name_def)

lemma name_ok_chars: "name_ok s \<Longrightarrow> c \<in> set s \<Longrightarrow> letter c \<or> c = CHR '' ''"
  by (induction s rule: name_ok.induct) (auto split: if_splits)

lemma mrz_chars_name: "name_ok s \<Longrightarrow> list_all mrz_char (mrz_name s)"
  using name_ok_chars by (auto simp: mrz_name_def list_all_iff mrz_char_def alnum_def)

lemma name_ok_hd: "name_ok s \<Longrightarrow> s \<noteq> [] \<Longrightarrow> letter (hd s)"
  by (cases s rule: name_ok.cases) auto

lemma name_ok_last: "name_ok s \<Longrightarrow> s \<noteq> [] \<Longrightarrow> letter (last s)"
  by (induction s rule: name_ok.induct) (auto split: if_splits)

lemma mrz_name_Cons: "letter c \<Longrightarrow> mrz_name (c # s) = c # mrz_name s"
  by (simp add: mrz_name_def letter_neq)

text \<open>No separator begins in a name, since every single filler in it is followed by a letter.\<close>

lemma split_step:
  "\<not> starts_with ''<<'' (c # s) \<Longrightarrow> split_str ''<<'' acc (c # s) = split_str ''<<'' (c # acc) s"
  by (subst split_str.simps) simp

lemma split_name:
  "name_ok s \<Longrightarrow>
     split_str ''<<'' acc (mrz_name s @ t) = split_str ''<<'' (rev (mrz_name s) @ acc) t"
proof (induction s arbitrary: acc rule: name_ok.induct)
  case (2 c)
  then show ?case by (simp add: mrz_name_def letter_neq split_step starts_with_iff)
next
  case (3 c d s)
  show ?case
  proof (cases "d = CHR '' ''")
    case True
    with 3 have s: "s \<noteq> []" "name_ok s" "letter c" by auto
    then obtain e es where "mrz_name s = e # es" "letter e"
      using name_ok_hd [of s] by (cases s) (auto simp: mrz_name_Cons)
    moreover have "mrz_name (c # d # s) = c # CHR ''<'' # mrz_name s"
      using s True by (simp add: mrz_name_def letter_neq)
    moreover note 3(1) [OF True s(2), of "CHR ''<'' # c # acc"]
    ultimately show ?thesis
      using s by (simp add: split_step starts_with_iff letter_neq)
  next
    case False
    with 3 have s: "name_ok (d # s)" "letter c" by auto
    with 3(2) [OF False this(1), of "c # acc"] show ?thesis
      by (simp add: mrz_name_Cons split_step starts_with_iff letter_neq)
  qed
qed (simp add: mrz_name_def)

lemma split_separator: "split_str ''<<'' acc (''<<'' @ t) = rev acc # split_str ''<<'' [] t"
  by (subst split_str.simps) (simp add: starts_with_iff)

lemma split_fillers:
  "\<exists>rest. split_str ''<<'' acc (replicate k CHR ''<'') = (rev acc @ (if k = 1 then ''<'' else [])) # rest"
proof (cases "2 \<le> k")
  case True
  then obtain j where "k = j + 2" by (metis add.commute le_add_diff_inverse)
  then have "replicate k CHR ''<'' = ''<<'' @ replicate j CHR ''<''" by simp
  then show ?thesis using True by (simp only: split_separator) simp
next
  case False
  then have "k = 0 \<or> k = 1" by auto
  then show ?thesis by (auto simp: split_str.simps starts_with_iff)
qed

text \<open>A name has nothing to trim; one filler behind it becomes one blank to trim.\<close>

lemma str_trim_name: "name_ok s \<Longrightarrow> str_trim s = s"
  using name_ok_hd [of s] name_ok_last [of s]
  by (cases "s = []") (simp, simp add: str_trim_def trim_start_visible trim_end_visible letter_visible)

lemma str_trim_name_blank: "name_ok s \<Longrightarrow> str_trim (s @ '' '') = s"
proof (cases "s = []")
  case True
  have "str_trim '' '' = []" by code_simp
  with True show ?thesis by simp
next
  case False
  assume "name_ok s"
  with False name_ok_hd [of s] name_ok_last [of s] show ?thesis
    by (simp add: str_trim_def trim_start_visible trim_end_blank trim_end_visible letter_visible)
qed

lemma unmap_name: "name_ok s \<Longrightarrow> str_replace ''<'' '' '' (mrz_name s @ t) = s @ str_replace ''<'' '' '' t"
proof -
  assume "name_ok s"
  then have "c \<noteq> CHR ''<''" if "c \<in> set s" for c
    using that name_ok_chars [of s c] letter_neq [of c] by auto
  then have "str_replace ''<'' '' '' (mrz_name s) = s"
    by (induction s) (auto simp: str_replace_def mrz_name_def)
  then show ?thesis by (simp add: str_replace_def)
qed

lemma names_read:
  assumes "name_ok (mz_last_name f)" and "name_ok (mz_first_name f)"
  shows "name_part (str_split ''<<'' (names_field n f)) 0 = mz_last_name f"
    and "name_part (str_split ''<<'' (names_field n f)) 1 = mz_first_name f"
proof -
  let ?l = "mz_last_name f" and ?g = "mz_first_name f"
  define k where "k = n - length (mrz_name ?l @ ''<<'' @ mrz_name ?g)"
  obtain rest where "split_str ''<<'' (rev (mrz_name ?g)) (replicate k CHR ''<'')
      = (mrz_name ?g @ (if k = 1 then ''<'' else [])) # rest"
    using split_fillers [of "rev (mrz_name ?g)" k] by auto
  then have split: "str_split ''<<'' (names_field n f)
      = mrz_name ?l # (mrz_name ?g @ (if k = 1 then ''<'' else [])) # rest"
    by (simp only: str_split_def names_field_def fill_def append.assoc k_def [symmetric]
      split_name [OF assms(1)] split_name [OF assms(2)] split_separator append_Nil2 rev_rev_ident)
  show "name_part (str_split ''<<'' (names_field n f)) 0 = ?l"
    using unmap_name [OF assms(1), of "[]"] by (simp add: split name_part_def str_trim_name assms str_replace_def)
  show "name_part (str_split ''<<'' (names_field n f)) 1 = ?g"
    using unmap_name [OF assms(2)]
    by (auto simp: split name_part_def str_trim_name str_trim_name_blank assms str_replace_def)
qed

section \<open>Reading the layouts back\<close>

lemma fill_take: "field_ok n s \<Longrightarrow> take n (fill n s @ t) = fill n s" "field_ok n s \<Longrightarrow> drop n (fill n s @ t) = t"
  by (simp_all add: length_fill field_ok_def)

lemma length_names_field:
  "length (mz_last_name f) + length (mz_first_name f) + 2 \<le> n \<Longrightarrow> length (names_field n f) = n"
  by (simp add: names_field_def length_fill)

lemma mrz_chars_names: "fields_ok n f \<Longrightarrow> list_all mrz_char (names_field m f)"
  using mrz_chars_name
  by (auto simp: names_field_def fields_ok_def fill_def list_all_iff mrz_char_def)

lemma td3_read:
  assumes f: "fields_ok 39 f" and rest: "length rest = 17"
    and skipped: "list_all mrz_char (code # check1 # check2 # rest)"
    and mrz: "clean_mrz mrz = td3_mrz f code check1 check2 rest"
  shows "parse_mrz mrz = Ok f"
proof -
  note ok = f [unfolded fields_ok_def]
  let ?clean = "td3_mrz f code check1 check2 rest"
  have lens: "length (fill 3 (mz_issuing_country f)) = 3" "length (fill 9 (mz_document_number f)) = 9"
    "length (fill 3 (mz_nationality f)) = 3" "length (fill 6 (mz_date_of_birth f)) = 6"
    "length (fill 1 (mz_gender f)) = 1" "length (fill 6 (mz_expiry_date f)) = 6"
    "length (names_field 39 f) = 39"
    using ok by (simp_all add: field_ok_def length_fill length_names_field)
  have "list_all mrz_char (names_field 39 f)" using f by (rule mrz_chars_names)
  with ok skipped have "list_all mrz_char ?clean"
    by (simp add: td3_mrz_def mrz_chars_fill) (simp add: mrz_char_def alnum_def letter_def Let_def)
  then have ascii: "is_ascii ?clean" by (rule mrz_is_ascii)
  have len: "length ?clean = 88" using lens rest by (simp add: td3_mrz_def)
  have P: "starts_with ''P'' ?clean" by (simp add: td3_mrz_def starts_with_iff)
  have get: "str_index ?clean a b = Ok (take (b - a) (drop a ?clean))" if "a \<le> b" "b \<le> 88" for a b
    using that len by (intro str_index_ascii [OF ascii]) simp_all
  have parts: "take 39 (drop 5 ?clean) = names_field 39 f" "take 3 (drop 2 ?clean) = fill 3 (mz_issuing_country f)"
    "take 9 (drop 44 ?clean) = fill 9 (mz_document_number f)" "take 3 (drop 54 ?clean) = fill 3 (mz_nationality f)"
    "take 6 (drop 57 ?clean) = fill 6 (mz_date_of_birth f)" "take 1 (drop 64 ?clean) = fill 1 (mz_gender f)"
    "take 6 (drop 65 ?clean) = fill 6 (mz_expiry_date f)"
    using lens by (simp_all add: td3_mrz_def)
  show ?thesis
    unfolding parse_mrz_def mrz Let_def parse_td3_def
    using len P ok parts by (simp add: get unfill names_read names_read(2) [unfolded One_nat_def])
qed

text \<open>
  C20. A passport's machine-readable zone is read back: for every holder whose fields fit
  the TD3 layout (names of words of letters, codes and numbers of letters and digits),
  whatever the document code, check digits and optional data, and however the zone is
  broken into lines, the fields come out as they went in, fillers removed.
\<close>

theorem parse_mrz_td3:
  assumes f: "fields_ok 39 f" and rest: "length rest = 17"
    and skipped: "list_all mrz_char (code # check1 # check2 # rest)"
    and mrz: "clean_mrz mrz = td3_mrz f code check1 check2 rest"
  shows "parse_mrz mrz = Ok f"
  using assms by (rule td3_read)


definition example_holder :: mrz_fields where
  "example_holder =
    \<lparr>mz_issuing_country = ''ZKR'', mz_document_number = ''ZP1111111'', mz_nationality = ''D'',
     mz_date_of_birth = ''951112'', mz_gender = ''M'', mz_expiry_date = ''350101'',
     mz_last_name = ''SMITH'', mz_first_name = ''JOHN MILLER''\<rparr>"

definition example_td3 :: string where
  "example_td3 =
    ''P<ZKRSMITH<<JOHN<MILLER<<<<<<<<<<<<<<<<<<<<<'' @ [CHR 0x0A]
    @ ''ZP11111110D<<9511120M3501010<<<<<<<<<<<<<<00''"

lemma example_holder_ok: "fields_ok 30 example_holder" "fields_ok 39 example_holder"
  by code_simp+

theorem parse_mrz_td3_witness: "parse_mrz example_td3 = Ok example_holder"
proof (rule parse_mrz_td3)
  let ?rest = "''0<<<<<<<<<<<<<<00''"
  show "clean_mrz example_td3 = td3_mrz example_holder CHR ''<'' CHR ''0'' CHR ''0'' ?rest"
    by code_simp
  show "list_all mrz_char (CHR ''<'' # CHR ''0'' # CHR ''0'' # ?rest)"
    by code_simp
qed (simp_all add: example_holder_ok)

lemma td1_read:
  assumes f: "fields_ok 30 f"
    and skipped: "list_all mrz_char (code @ optional1 @ [check2, check3] @ optional2)"
    and lengths: "length code = 2" "length optional1 = 16" "length optional2 = 12"
    and "hd code \<noteq> CHR ''P''"
    and mrz: "clean_mrz mrz = td1_mrz f code optional1 check2 check3 optional2"
  shows "parse_mrz mrz = Ok f"
proof -
  note ok = f [unfolded fields_ok_def]
  let ?clean = "td1_mrz f code optional1 check2 check3 optional2"
  have lens: "length (fill 3 (mz_issuing_country f)) = 3" "length (fill 9 (mz_document_number f)) = 9"
    "length (fill 3 (mz_nationality f)) = 3" "length (fill 6 (mz_date_of_birth f)) = 6"
    "length (fill 1 (mz_gender f)) = 1" "length (fill 6 (mz_expiry_date f)) = 6"
    "length (names_field 30 f) = 30"
    using ok by (simp_all add: field_ok_def length_fill length_names_field)
  have "list_all mrz_char (names_field 30 f)" using f by (rule mrz_chars_names)
  with ok skipped have "list_all mrz_char ?clean"
    by (simp add: td1_mrz_def mrz_chars_fill)
  then have ascii: "is_ascii ?clean" by (rule mrz_is_ascii)
  have len: "length ?clean = 90" using lens lengths by (simp add: td1_mrz_def)
  have P: "\<not> starts_with ''P'' ?clean"
    using assms(6) lengths(1) by (cases code) (auto simp: td1_mrz_def starts_with_iff)
  have get: "get_or_empty ?clean a b = take (b - a) (drop a ?clean)" if "a \<le> b" "b \<le> 90" for a b
    using that len by (simp add: get_or_empty_def str_get_ascii [OF ascii])
  have parts: "take 30 (drop 60 ?clean) = names_field 30 f" "take 3 (drop 2 ?clean) = fill 3 (mz_issuing_country f)"
    "take 9 (drop 5 ?clean) = fill 9 (mz_document_number f)" "take 3 (drop 45 ?clean) = fill 3 (mz_nationality f)"
    "take 6 (drop 30 ?clean) = fill 6 (mz_date_of_birth f)" "take 1 (drop 37 ?clean) = fill 1 (mz_gender f)"
    "take 6 (drop 38 ?clean) = fill 6 (mz_expiry_date f)"
    using lens lengths by (simp_all add: td1_mrz_def)
  show ?thesis
    unfolding parse_mrz_def mrz Let_def parse_td1_def
    using len lens P ok parts by (simp add: get unfill names_read names_read(2) [unfolded One_nat_def])
qed

text \<open>
  C21. An identity card's zone of three lines (TD1) is read back in the same way, for every
  document code that does not start with P.
\<close>

theorem parse_mrz_td1:
  assumes f: "fields_ok 30 f"
    and skipped: "list_all mrz_char (code @ optional1 @ [check2, check3] @ optional2)"
    and lengths: "length code = 2" "length optional1 = 16" "length optional2 = 12"
    and "hd code \<noteq> CHR ''P''"
    and mrz: "clean_mrz mrz = td1_mrz f code optional1 check2 check3 optional2"
  shows "parse_mrz mrz = Ok f"
  using assms by (rule td1_read)

theorem parse_mrz_td1_witness:
  "parse_mrz (''I<ZKRZP1111111<<<<<<<<<<<<<<<<'' @ [CHR 0x0A] @ ''9511120M3501010D<<<<<<<<<<<<<0''
     @ [CHR 0x0A] @ ''SMITH<<JOHN<MILLER<<<<<<<<<<<<'') = Ok example_holder"
proof (rule parse_mrz_td1)
  let ?a = "''<<<<<<<<<<<<<<<<''" and ?b = "''<<<<<<<<<<<0''"
  show "clean_mrz (''I<ZKRZP1111111<<<<<<<<<<<<<<<<'' @ [CHR 0x0A] @ ''9511120M3501010D<<<<<<<<<<<<<0''
     @ [CHR 0x0A] @ ''SMITH<<JOHN<MILLER<<<<<<<<<<<<'')
     = td1_mrz example_holder ''I<'' ?a CHR ''0'' CHR ''0'' ?b"
    by code_simp
  show "list_all mrz_char (''I<'' @ ?a @ [CHR ''0'', CHR ''0''] @ ?b)"
    by code_simp
qed (simp_all add: example_holder_ok)

end
