(* ===== verification/Document.thy ===== *)
theory Document
  imports Mrz
begin

text \<open>
  What \<open>analyze_document\<close> makes of the parts of a document: the MRZ found in data group
  1, text it panics on, the bucket of a certificate's length, the hash of a signature
  algorithm, public keys, the country in a name; and of a whole document whose SOD is
  an encoded one.
\<close>

section \<open>Text outside the alphabet\<close>

lemma str_index_cases:
  assumes "a \<le> b"
  shows "str_index s a b = (if is_char_boundary s a \<and> is_char_boundary s b
      then Ok (take (b - a) (drop a s)) else Panic Panic_char_boundary)"
  using assms by (simp add: str_index_def str_get_def)

definition td3_cuts :: "nat list" where
  "td3_cuts = [2, 5, 44, 53, 54, 57, 63, 64, 65, 71]"

lemma is_panic_parse_td3:
  "is_panic (parse_td3 clean) \<longleftrightarrow> (\<exists>i \<in> set td3_cuts. \<not> is_char_boundary clean i)"
  unfolding parse_td3_def Let_def by (auto simp: is_panic_and_then str_index_cases td3_cuts_def)

text \<open>
  Reading an MRZ fails only by a panic, and panics exactly when the text is taken for
  that of a passport and one of the fields' bounds lies inside a character.
\<close>

lemma parse_mrz_panics:
  "is_panic (parse_mrz mrz) \<longleftrightarrow>
     88 \<le> length (clean_mrz mrz) \<and> starts_with ''P'' (clean_mrz mrz)
     \<and> (\<exists>i \<in> set td3_cuts. \<not> is_char_boundary (clean_mrz mrz) i)"
  by (auto simp: parse_mrz_def Let_def is_panic_parse_td3)

lemma parse_td3_not_Err: "parse_td3 clean \<noteq> Err e"
  by (auto simp: parse_td3_def Let_def and_then_eq_Err str_index_def split: option.splits)

lemma parse_mrz_not_Err: "parse_mrz mrz \<noteq> Err e"
  by (simp add: parse_mrz_def Let_def parse_td3_not_Err)

section \<open>The MRZ in data group 1\<close>

text \<open>A data group 1: the template's header, the tag \<open>5F1F\<close>, and the MRZ with its length.\<close>

definition enc_dg1 :: "u8 list \<Rightarrow> string \<Rightarrow> u8 list \<Rightarrow> u8 list" where
  "enc_dg1 header mrz rest = header @ [0x5F, 0x1F, of_nat (length mrz)] @ as_bytes mrz @ rest"

lemma find_first_index:
  assumes "i < n" and "P i" and "\<And>j. j < i \<Longrightarrow> \<not> P j"
  shows "List.find P [0..<n] = Some i"
  using assms unfolding find_Some_iff by (intro exI [of _ i]) auto

lemma extract_mrz_enc:
  assumes "0x5F \<notin> set header" and "length mrz < 256" and "is_ascii mrz" and "mrz \<noteq> []"
  shows "extract_mrz_from_dg1 (enc_dg1 header mrz rest) = Ok mrz"
proof -
  let ?dg1 = "enc_dg1 header mrz rest" and ?i = "length header"
  have len: "unat (of_nat (length mrz) :: u8) = length mrz"
    using assms(2) by (simp add: unat_of_nat)
  have i: "?dg1 ! ?i = 0x5F" "?dg1 ! (?i + 1) = 0x1F" "?dg1 ! (?i + 2) = of_nat (length mrz)"
    by (simp_all add: enc_dg1_def nth_append)
  have before: "?dg1 ! j \<noteq> 0x5F" if "j < ?i" for j
  proof -
    have "header ! j \<noteq> 0x5F" using assms(1) nth_mem [OF that] by metis
    then show ?thesis using that by (simp add: enc_dg1_def nth_append)
  qed
  have "List.find (mrz_tag_at ?dg1) [0..<length ?dg1 - 2] = Some ?i"
  proof (rule find_first_index)
    show "?i < length ?dg1 - 2" using assms(4) by (simp add: enc_dg1_def)
    show "mrz_tag_at ?dg1 ?i"
      unfolding mrz_tag_at_def i len by (simp add: enc_dg1_def)
    show "\<not> mrz_tag_at ?dg1 j" if "j < ?i" for j
      using before [OF that] by (simp add: mrz_tag_at_def)
  qed
  moreover have "take (length mrz) (drop (?i + 3) ?dg1) = as_bytes mrz"
    by (simp add: enc_dg1_def)
  ultimately show ?thesis
    by (simp only: extract_mrz_from_dg1_def option.case i len string_from_utf8_def
      from_utf8_ascii [OF assms(3)])
qed


section \<open>Lengths and algorithms\<close>

definition tbs_buckets :: "nat list" where
  "tbs_buckets = [700, 1000, 1200, 1600]"

text \<open>The smallest bucket the certificate fits in.\<close>

lemma bucket_least:
  assumes "n \<le> 1600"
  shows "unat (bucket_tbs_len n) \<in> set tbs_buckets" and "n \<le> unat (bucket_tbs_len n)"
    and "\<forall>b \<in> set tbs_buckets. n \<le> b \<longrightarrow> unat (bucket_tbs_len n) \<le> b"
  using assms by (auto simp: bucket_tbs_len_def tbs_buckets_def)

lemma bucket_too_long: "1600 < n \<Longrightarrow> unat (bucket_tbs_len n) < n"
  by (simp add: bucket_tbs_len_def)

text \<open>
  The signature algorithms of a passport with the hash each signs: RSA and ECDSA with a hash
  of their own (RFC 8017, RFC 3279, RFC 5758), the old OIW identifier of RSA with SHA-1, and
  the two whose identifier leaves the hash to be named apart, RSA-PSS by its parameters and
  RSA encryption, in a CMS signature, by the digest algorithm (RFC 4055, RFC 3370).
\<close>

datatype signature_scheme =
    Rsa_with hash_token
  | Ecdsa_with hash_token
  | Oiw_rsa_sha1
  | Rsa_pss_with hash_token
  | Rsa_encryption_with hash_token

fun scheme_hash :: "signature_scheme \<Rightarrow> hash_token" where
  "scheme_hash (Rsa_with h) = h"
| "scheme_hash (Ecdsa_with h) = h"
| "scheme_hash Oiw_rsa_sha1 = Sha1"
| "scheme_hash (Rsa_pss_with h) = h"
| "scheme_hash (Rsa_encryption_with h) = h"

fun rsa_arc :: "hash_token \<Rightarrow> string" where
  "rsa_arc Sha1 = ''5''"
| "rsa_arc Sha224 = ''14''"
| "rsa_arc Sha256 = ''11''"
| "rsa_arc Sha384 = ''12''"
| "rsa_arc Sha512 = ''13''"

fun ecdsa_arcs :: "hash_token \<Rightarrow> string" where
  "ecdsa_arcs Sha1 = ''1''"
| "ecdsa_arcs Sha224 = ''3.1''"
| "ecdsa_arcs Sha256 = ''3.2''"
| "ecdsa_arcs Sha384 = ''3.3''"
| "ecdsa_arcs Sha512 = ''3.4''"

fun scheme_oid :: "signature_scheme \<Rightarrow> string" where
  "scheme_oid (Rsa_with h) = ''1.2.840.113549.1.1.'' @ rsa_arc h"
| "scheme_oid (Ecdsa_with h) = ''1.2.840.10045.4.'' @ ecdsa_arcs h"
| "scheme_oid Oiw_rsa_sha1 = ''1.3.14.3.2.29''"
| "scheme_oid (Rsa_pss_with _) = ''1.2.840.113549.1.1.10''"
| "scheme_oid (Rsa_encryption_with _) = ''1.2.840.113549.1.1.1''"

fun digest_oid :: "hash_token \<Rightarrow> string" where
  "digest_oid Sha1 = ''1.3.14.3.2.26''"
| "digest_oid Sha224 = ''2.16.840.1.101.3.4.2.4''"
| "digest_oid Sha256 = ''2.16.840.1.101.3.4.2.1''"
| "digest_oid Sha384 = ''2.16.840.1.101.3.4.2.2''"
| "digest_oid Sha512 = ''2.16.840.1.101.3.4.2.3''"

fun scheme_family :: "signature_scheme \<Rightarrow> string" where
  "scheme_family (Ecdsa_with _) = ''ECDSA''"
| "scheme_family (Rsa_pss_with _) = ''RSA-PSS''"
| "scheme_family _ = ''RSA''"

text \<open>The schemes whose identifier alone tells the hash, as the code reads identifiers.\<close>

fun fixes_hash :: "signature_scheme \<Rightarrow> bool" where
  "fixes_hash (Rsa_with _) = True"
| "fixes_hash (Ecdsa_with h) = (h \<in> {Sha256, Sha384, Sha512})"
| "fixes_hash _ = False"

lemma fixed_hash: "fixes_hash s \<Longrightarrow> hash_from_signature_and_digest_oids (scheme_oid s) d = scheme_hash s"
  by (cases s; cases "scheme_hash s")
    (auto simp: hash_from_signature_and_digest_oids_def starts_with_def ends_with_def)

text \<open>The others fall through to the digest, except the OIW one, whose text contains \<open>4.3.2\<close>.\<close>

lemma unfixed_hash:
  "\<not> fixes_hash s \<Longrightarrow> hash_from_signature_and_digest_oids (scheme_oid s) d =
     (if s = Oiw_rsa_sha1 then Sha256 else hash_of_digest d)"
  by (cases s; cases "scheme_hash s")
    (auto simp: hash_from_signature_and_digest_oids_def starts_with_def ends_with_def)

lemma digest_hashes: "hash_of_digest [] = Sha256" "hash_of_digest (digest_oid h) = h"
  by (simp add: hash_of_digest_def hash_from_oid_def hash_oids_def hash_normalize_def to_ascii_lowercase_def
      str_replace_def)
    (cases h; simp add: hash_of_digest_def hash_from_oid_def hash_oids_def)

lemma unfixed_hash_varies:
  assumes "\<not> fixes_hash s"
  shows "\<exists>d. hash_from_signature_and_digest_oids (scheme_oid s) d \<noteq> scheme_hash s"
proof -
  have "hash_from_signature_and_digest_oids (scheme_oid s) (digest_oid Sha384) \<noteq> scheme_hash s
      \<or> hash_from_signature_and_digest_oids (scheme_oid s) (digest_oid Sha512) \<noteq> scheme_hash s"
    using assms unfolding unfixed_hash [OF assms] digest_hashes by auto
  then show ?thesis by blast
qed

lemma scheme_family_known:
  "signature_algorithm_family (scheme_oid s) = scheme_family s \<longleftrightarrow> s \<noteq> Oiw_rsa_sha1"
  by (cases s; cases "scheme_hash s")
    (auto simp: signature_algorithm_family_def oid_rsassa_pss_def starts_with_def)

lemma hash_oids_distinct: "distinct (map fst hash_oids)" "distinct (map snd hash_oids)"
  by (simp_all add: hash_oids_def)

lemma curve_oids_known: 
  "list_all (\<lambda>(oid, name). is_ok (curve_from_zkpassport_name name)) curve_oids"
  "distinct (map fst curve_oids)" "distinct (map snd curve_oids)"
  by (simp_all add: curve_oids_def curve_from_zkpassport_name_def zkpassport_curves_def)


section \<open>Public keys\<close>

text \<open>An RSA public key: a sequence that begins with the modulus, its top byte possibly zero.\<close>

definition enc_rsa_key :: "u8 list \<Rightarrow> u8 list \<Rightarrow> u8 list" where
  "enc_rsa_key modulus rest = der_tlv 0x30 (der_tlv 0x02 modulus @ rest)"

lemma parse_rsa_key_size_enc:
  assumes ok: "buffer_ok (enc_rsa_key modulus rest)" 
    and "length m < 2 ^ 28" and "m = [] \<or> hd m \<noteq> 0" and "modulus \<in> {m, 0 # m}"
  shows "parse_rsa_key_size_bits checks (enc_rsa_key modulus rest) = Ok (of_nat (8 * length m))"
proof -
  let ?c = "der_tlv 0x02 modulus @ rest" and ?buf = "enc_rsa_key modulus rest"
  have root: "at_pos ?buf 0 (der_tlv 0x30 ?c)"
    using at_pos_self [of ?buf] by (simp add: enc_rsa_key_def)
  from at_pos_content [OF root] have modulus: "at_pos ?buf (header_size ?c) (der_tlv 0x02 modulus)"
    by (simp add: at_pos_append)
  have strip: "(case modulus of [] \<Rightarrow> [] | b # r \<Rightarrow> if b = 0 then r else modulus) = m"
    using assms(3,4) by (cases m) auto
  show ?thesis
    using parse_tlv_at [OF ok root] parse_tlv_at [OF ok modulus] content_slice_at [OF ok modulus, of checks] 
      assms(2)
    by (simp add: parse_rsa_key_size_bits_def strip mult.commute del: of_nat_mult)
qed

lemma parse_oid_bytes_enc:
  assumes ok: "buffer_ok (der_tlv 0x06 oid)"
  shows "parse_oid_bytes checks (der_tlv 0x06 oid) = Ok (parse_oid_raw oid)"
proof -
  have at: "at_pos (der_tlv 0x06 oid) 0 (der_tlv 0x06 oid)" by (rule at_pos_self)
  show ?thesis
    using parse_tlv_at [OF ok at] content_slice_at [OF ok at, of checks]
    by (simp add: parse_oid_bytes_def)
qed

lemma oids_distinct: "oid_ec_public_key \<noteq> oid_rsa_encryption" "oid_ec_public_key \<noteq> oid_rsassa_pss"
  "oid_rsa_encryption \<noteq> oid_rsassa_pss"
  by (simp_all add: oid_ec_public_key_def oid_rsa_encryption_def oid_rsassa_pss_def)

lemma public_key_rsa:
  assumes "buffer_ok (enc_rsa_key modulus rest)" 
    and "length m < 2 ^ 28" and "m = [] \<or> hd m \<noteq> 0" and "modulus \<in> {m, 0 # m}"
  shows "parse_subject_public_key_info checks oid_rsa_encryption p (enc_rsa_key modulus rest)
      = Ok (RsaPkcs (of_nat (8 * length m)))"
    and "parse_subject_public_key_info checks oid_rsassa_pss p (enc_rsa_key modulus rest)
      = Ok (RsaPss (of_nat (8 * length m)))"
  using parse_rsa_key_size_enc [OF assms] oids_distinct
  by (simp_all add: parse_subject_public_key_info_def oids_distinct [symmetric] del: of_nat_mult)

lemma public_key_ec:
  assumes ok: "buffer_ok (der_tlv 0x06 oid)" and "map_of curve_oids (parse_oid_raw oid) = Some name"
    and "map_of zkpassport_curves name = Some curve"
  shows "parse_subject_public_key_info checks oid_ec_public_key (der_tlv 0x06 oid) key = Ok (Ecdsa curve)"
  using assms by (simp add: parse_subject_public_key_info_def parse_oid_bytes_enc curve_from_zkpassport_name_def)

section \<open>Names of certificates\<close>

text \<open>A distinguished name as the X.509 parser prints it: \<open>C=ZK, CN=...\<close>.\<close>

definition attribute :: "string \<times> string \<Rightarrow> string" where
  "attribute a = fst a @ ''='' @ snd a"

definition attribute_ok :: "string \<times> string \<Rightarrow> bool" where
  "attribute_ok a \<longleftrightarrow>
     set (attribute a) \<inter> set '',/'' = {} \<and> CHR ''='' \<notin> set (fst a) \<and> fst a \<noteq> [] \<and> visible (hd (fst a))
     \<and> (snd a = [] \<or> visible (hd (snd a)) \<and> visible (last (snd a)))"

lemma split_chars_none: "set s \<inter> set pat = {} \<Longrightarrow> split_chars pat s = [s]"
  by (induction s) auto

lemma split_chars_append:
  "set s \<inter> set pat = {} \<Longrightarrow> c \<in> set pat \<Longrightarrow> split_chars pat (s @ c # t) = s # split_chars pat t"
  by (induction s) auto

lemma split_chars_Cons_same: "c \<notin> set pat \<Longrightarrow> split_chars pat t = f # fs \<Longrightarrow> split_chars pat (c # t) = (c # f) # fs"
  by simp

lemma split_attributes:
  "list_all attribute_ok (a # as) \<Longrightarrow>
     split_chars '',/'' (str_join '', '' (map attribute (a # as)))
       = attribute a # map (\<lambda>b. CHR '' '' # attribute b) as"
proof (induction as arbitrary: a)
  case Nil
  then show ?case by (simp add: split_chars_none attribute_ok_def)
next
  case (Cons b bs)
  then have "set (attribute a) \<inter> set '',/'' = {}" by (simp add: attribute_ok_def)
  from split_chars_append [OF this, of "CHR '',''"] Cons
  show ?case by (simp add: split_chars_Cons_same)
qed

lemma visible_equals: "visible CHR ''=''"
  by (simp add: visible_def)

lemma trim_attribute:
  assumes "attribute_ok a"
  shows "str_trim (attribute a) = attribute a" and "str_trim (CHR '' '' # attribute a) = attribute a"
proof -
  from assms have "visible (hd (attribute a))" "visible (last (attribute a))" "attribute a \<noteq> []"
    by (auto simp: attribute_ok_def attribute_def visible_equals)
  then show "str_trim (attribute a) = attribute a" "str_trim (CHR '' '' # attribute a) = attribute a"
    by (simp_all add: str_trim_def trim_start_blank trim_start_visible trim_end_visible)
qed

lemma prefix_attribute:
  assumes "attribute_ok a" and "CHR ''='' \<notin> set k"
  shows "strip_prefix (k @ ''='') (attribute a) = (if fst a = k then Some (snd a) else None)"
proof (cases "fst a = k")
  case True
  then show ?thesis using strip_prefix_append [of "k @ ''=''" "snd a"] by (simp add: attribute_def)
next
  case False
  have "fst a @ CHR ''='' # snd a \<noteq> k @ CHR ''='' # t" for t
    using assms False split_list_first [of "CHR ''=''"] 
    by (metis attribute_ok_def takeWhile_before)
  then have "strip_prefix (k @ ''='') (attribute a) \<noteq> Some t" for t
    by (simp add: strip_prefix_Some attribute_def)
  with False show ?thesis by (cases "strip_prefix (k @ ''='') (attribute a)") auto
qed

lemma country_step:
  assumes "attribute_ok a" and "str_trim s = attribute a"
  shows "country_in_fragments (s # fs) =
    (if fst a \<in> {''countryName'', ''C''} then Some (snd a) else country_in_fragments fs)"
proof -
  have "str_trim (snd a) = snd a"
    using assms(1) by (auto simp: attribute_ok_def str_trim_visible)
  with assms(2) prefix_attribute [OF assms(1), of "''countryName''"] prefix_attribute [OF assms(1), of "''C''"]
  show ?thesis by simp
qed

lemma country_of_attributes:
  assumes "list_all attribute_ok as"
  shows "extract_country_from_name (str_join '', '' (map attribute as))
       = map_option snd (List.find (\<lambda>a. fst a \<in> {''countryName'', ''C''}) as)"
proof -
  have rest: "list_all attribute_ok bs \<Longrightarrow> country_in_fragments (map (\<lambda>b. CHR '' '' # attribute b) bs)
      = map_option snd (List.find (\<lambda>a. fst a \<in> {''countryName'', ''C''}) bs)" for bs
    by (induction bs) (simp_all add: country_step [OF _ trim_attribute(2)] del: country_in_fragments.simps(2))
  show ?thesis
  proof (cases as)
    case Nil
    have "country_in_fragments [[]] = None" by simp
    with Nil show ?thesis by (simp add: extract_country_from_name_def)
  next
    case (Cons a bs)
    with assms have "attribute_ok a" "list_all attribute_ok bs" by auto
    with rest [of bs] Cons assms show ?thesis
      by (simp add: extract_country_from_name_def split_attributes [OF assms [unfolded Cons], simplified]
          country_step [OF _ trim_attribute(1)] del: country_in_fragments.simps(2))
  qed
qed


section \<open>A whole document\<close>

lemma analyze_document_enc:
  assumes doc: "document_complete document"
    and dg1: "base64 (di_dg1_base64 document) = Inr (enc_dg1 header mrz rest)"
    and sod: "base64 (di_sod_der_base64 document) = Inr (enc_sod f)"
    and header: "0x5F \<notin> set header" and mrz: "length mrz < 256" "is_ascii mrz" "mrz \<noteq> []"
    and buf: "buffer_ok (enc_sod f)"
    and cert: "x509 (enc_cert f) = Inr cert"
  shows "\<exists>m. parse_mrz mrz = Ok m \<and>
    analyze_document checks base64 x509 alpha3 document =
      Some (analyze_parsed checks x509 alpha3 document (enc_dg1 header mrz rest) mrz m
        \<lparr>ps_certificate_der = enc_cert f,
         ps_certificate_signature_algorithm_oid = xc_signature_algorithm cert,
         ps_digest_algorithm_oid = parse_oid_raw (sf_digest_oid f),
         ps_signer_signature_algorithm_oid = parse_oid_raw (sf_signer_oid f),
         ps_econtent_hash_algorithm_oid = parse_oid_raw (sf_lds_oid f),
         ps_econtent = enc_lds f\<rparr>)"
proof -
  have clean: "is_ascii (clean_mrz mrz)"
    using mrz(2) by (auto simp: is_ascii_def clean_mrz_def str_replace_def)
  have "\<not> is_panic (parse_mrz mrz)"
    using is_char_boundary_ascii [OF clean] by (auto simp: parse_mrz_panics td3_cuts_def)
  then obtain m where "parse_mrz mrz = Ok m"
    using parse_mrz_not_Err by (cases "parse_mrz mrz") auto
  moreover have "parse_sod_envelope checks x509 (enc_sod f) = Some (Ok
        \<lparr>ps_certificate_der = enc_cert f,
         ps_certificate_signature_algorithm_oid = xc_signature_algorithm cert,
         ps_digest_algorithm_oid = parse_oid_raw (sf_digest_oid f),
         ps_signer_signature_algorithm_oid = parse_oid_raw (sf_signer_oid f),
         ps_econtent_hash_algorithm_oid = parse_oid_raw (sf_lds_oid f),
         ps_econtent = enc_lds f\<rparr>)"
    using parse_sod_envelope_enc [OF buf] cert by simp
  moreover have "extract_mrz_from_dg1 (enc_dg1 header mrz rest) = Ok mrz"
    using header mrz by (intro extract_mrz_enc)
  moreover have "document_validate document = Ok ()"
    using doc by (simp add: document_validate_iff)
  ultimately show ?thesis
    using dg1 sod by (simp add: analyze_document_def)
qed

lemma analyze_document_ends: "ends (analyze_document True base64 x509 alpha3 document)"
  unfolding analyze_document_def by (intro ends_intros parse_sod_envelope_ends)

section \<open>Properties of document analysis\<close>

definition example_document :: "string option \<Rightarrow> document_input" where
  "example_document t =
    \<lparr>di_dg1_base64 = ''dg1'', di_sod_der_base64 = ''sod'', di_dg2_base64 = None, di_document_type = t\<rparr>"

lemma example_document_complete: "document_complete (example_document t)"
proof -
  have "\<not> is_blank ''dg1''" "\<not> is_blank ''sod''" by code_simp+
  then show ?thesis by (simp add: document_complete_def example_document_def)
qed

definition dg1_header :: "u8 list" where
  "dg1_header = [0x61, 0x5B]"

definition plain_td3 :: string where
  "plain_td3 =
    ''P<ZKRSMITH<<JOHN<MILLER<<<<<<<<<<<<<<<<<<<<<ZP11111110D<<9511120M3501010<<<<<<<<<<<<<<00''"

lemma plain_td3:
  "length plain_td3 = 88" "is_ascii plain_td3" "plain_td3 \<noteq> []" "length plain_td3 < 256"
  by (simp_all add: plain_td3_def is_ascii_def)

lemma parse_plain_td3: "parse_mrz plain_td3 = Ok example_holder"
proof (rule td3_read)
  let ?rest = "''0<<<<<<<<<<<<<<00''"
  show "clean_mrz plain_td3 = td3_mrz example_holder CHR ''<'' CHR ''0'' CHR ''0'' ?rest"
    by code_simp
  show "list_all mrz_char (CHR ''<'' # CHR ''0'' # CHR ''0'' # ?rest)"
    by code_simp
qed (simp_all add: example_holder_ok)

text \<open>
  C7. A document is analysed as its parts say. Let data group 1 hold an ASCII MRZ behind a
  header, and the SOD be an encoded one with a certificate the X.509 parser accepts and
  whose public key is understood. Then, in either build, the analysis succeeds and
  carries that MRZ and the fields read from it, the certificate's key, the bucket of its
  length and its normalised country, the hash and the family of its signature algorithm,
  the hash of the signer's algorithm and the hash of the LDS digest; the document type is
  the one given, or that of the MRZ's length.
\<close>

theorem analyze_document_parts:
  assumes doc: "document_complete document"
    and dg1: "base64 (di_dg1_base64 document) = Inr (enc_dg1 header mrz rest)"
    and sod: "base64 (di_sod_der_base64 document) = Inr (enc_sod f)"
    and header: "0x5F \<notin> set header" and mrz: "length mrz < 256" "is_ascii mrz" "mrz \<noteq> []"
    and buf: "buffer_ok (enc_sod f)"
    and cert: "x509 (enc_cert f) = Inr cert"
    and key: "parse_subject_public_key_info checks (xc_spki_algorithm cert)
        (case xc_spki_parameters cert of Some p \<Rightarrow> p | None \<Rightarrow> []) (xc_spki_key cert) = Ok key"
  shows "\<exists>a. analyze_document checks base64 x509 alpha3 document = Some (Ok a)
    \<and> da_mrz a = mrz \<and> parse_mrz mrz = Ok (da_mrz_fields a)
    \<and> da_document_type a = (case di_document_type document of
          Some t \<Rightarrow> t | None \<Rightarrow> if length mrz = 88 then ''passport'' else ''id_card'')
    \<and> da_id_data_public_key a = key
    \<and> da_tbs_bucket a = bucket_tbs_len (xc_tbs_len cert)
    \<and> da_dsc_country a = normalize_country_code alpha3 (certificate_country cert)
    \<and> da_dsc_signature_hash a = hash_from_signature_and_digest_oids (xc_signature_algorithm cert) []
    \<and> da_dsc_parent_signature_algorithm a = signature_algorithm_family (xc_signature_algorithm cert)
    \<and> da_sod_signature_hash a = hash_from_signature_and_digest_oids
          (parse_oid_raw (sf_signer_oid f)) (parse_oid_raw (sf_digest_oid f))
    \<and> da_dg_hash a = hash_of_digest (parse_oid_raw (sf_lds_oid f))
    \<and> da_econtent_len a = length (enc_lds f)"
proof -
  have "extract_mrz_from_dg1 (enc_dg1 header mrz rest) = Ok mrz"
    using header mrz by (intro extract_mrz_enc)
  then have "document_type_of document (enc_dg1 header mrz rest) = Ok (case di_document_type document of
      Some t \<Rightarrow> t | None \<Rightarrow> if length mrz = 88 then ''passport'' else ''id_card'')"
    by (auto simp: document_type_of_def split: option.split)
  with analyze_document_enc [of document base64 header mrz rest f x509 cert checks alpha3]
    doc dg1 sod header mrz buf cert key
  show ?thesis by (auto simp: analyze_parsed_def)
qed

lemma example_key:
  "parse_subject_public_key_info True ''1.2.840.113549.1.1.1'' [] (der_tlv 0x30 (der_tlv 0x02 [0, 0xC1, 2, 3]))
     = Ok (RsaPkcs 24)"
proof -
  have "buffer_ok (enc_rsa_key [0, 0xC1, 2, 3] [])"
    by (simp add: buffer_ok_def enc_rsa_key_def length_der_tlv_short)
  from public_key_rsa(1) [OF this, of "[0xC1, 2, 3]" True "[]"] show ?thesis
    by (simp add: enc_rsa_key_def oid_rsa_encryption_def)
qed

lemma example_country: "certificate_country example_cert = ''ZK''"
  by code_simp

theorem analyze_document_parts_witness:
  "\<exists>a. analyze_document True
      (\<lambda>s. if s = ''dg1'' then Inr (enc_dg1 dg1_header plain_td3 []) else Inr (enc_sod example_sod))
      (\<lambda>_. Inr example_cert) (\<lambda>_. Some ''ZKR'') (example_document None) = Some (Ok a)
    \<and> da_document_type a = ''passport'' \<and> mz_last_name (da_mrz_fields a) = ''SMITH''
    \<and> da_id_data_public_key a = RsaPkcs 24 \<and> da_tbs_bucket a = 700
    \<and> da_dsc_country a = ''ZKR'' \<and> da_dg_hash a = Sha256 \<and> da_sod_signature_hash a = Sha256"
proof -
  let ?b64 = "\<lambda>s. if s = ''dg1'' then Inr (enc_dg1 dg1_header plain_td3 []) else Inr (enc_sod example_sod)
      :: string + u8 list"
  have key: "parse_subject_public_key_info True (xc_spki_algorithm example_cert)
      (case xc_spki_parameters example_cert of Some p \<Rightarrow> p | None \<Rightarrow> []) (xc_spki_key example_cert)
      = Ok (RsaPkcs 24)"
    using example_key by (simp add: example_cert_def)
  have hashes: "hash_of_digest ''2.16.840.1.101.3.4.2.1'' = Sha256"
    "\<And>d. hash_from_signature_and_digest_oids ''1.2.840.113549.1.1.11'' d = Sha256"
    using digest_hashes(2) [of Sha256] fixed_hash [of "Rsa_with Sha256"] by simp_all
  have oids: "sf_lds_oid example_sod = sha256_oid" "sf_digest_oid example_sod = sha256_oid"
    "sf_signer_oid example_sod = rsa_sha256_oid"
    by (simp_all add: example_sod_def)
  have country: "normalize_country_code (\<lambda>_. Some ''ZKR'') ''ZK'' = ''ZKR''"
    by code_simp
  have bucket: "bucket_tbs_len (xc_tbs_len example_cert) = 700"
    by (simp add: bucket_tbs_len_def example_cert_def)
  from analyze_document_parts [OF example_document_complete [of None], of ?b64 dg1_header plain_td3 "[]"
      example_sod "\<lambda>_. Inr example_cert" example_cert True "RsaPkcs 24" "\<lambda>_. Some ''ZKR''"]
  obtain a where a: "analyze_document True ?b64 (\<lambda>_. Inr example_cert) (\<lambda>_. Some ''ZKR'')
      (example_document None) = Some (Ok a)"
    and "da_mrz_fields a = example_holder" "da_document_type a = ''passport''"
      "da_id_data_public_key a = RsaPkcs 24" "da_tbs_bucket a = 700" "da_dsc_country a = ''ZKR''"
      "da_dg_hash a = Sha256" "da_sod_signature_hash a = Sha256"
    using key hashes oids country bucket plain_td3 parse_plain_td3 example_sod_ok
    by (auto simp: example_document_def dg1_header_def example_oids example_country)
  then show ?thesis by (intro exI [of _ a]) (simp add: example_holder_def)
qed

text \<open>
  Analysing a document ends when overflow is checked, whatever the third-party
  decoders answer.
\<close>

theorem analyze_document_total:
  "\<exists>r. analyze_document True base64 x509 alpha3 document = Some r"
  using analyze_document_ends [of base64 x509 alpha3 document] by (auto simp: ends_def)

text \<open>
  C23. Reading an MRZ never fails with an error, and panics exactly when the cleaned text
  is taken for a passport's (88 bytes or more, starting with P) and a bound of one of
  the fields lies inside a multi-byte character.
\<close>

theorem parse_mrz_panics_exactly:
  "(is_panic (parse_mrz mrz) \<longleftrightarrow>
      88 \<le> length (clean_mrz mrz) \<and> starts_with ''P'' (clean_mrz mrz)
      \<and> (\<exists>i \<in> {2, 5, 44, 53, 54, 57, 63, 64, 65, 71}. \<not> is_char_boundary (clean_mrz mrz) i))
   \<and> parse_mrz mrz \<noteq> Err e"
  by (simp only: parse_mrz_panics parse_mrz_not_Err td3_cuts_def list.set simp_thms not_True_eq_False)

text \<open>
  The MRZ is found in data group 1 behind any header without the byte \<open>5F\<close>, and
  the bytes behind the MRZ do not matter.
\<close>

theorem extract_mrz_round_trip:
  assumes "0x5F \<notin> set header" and "length mrz < 256" and "is_ascii mrz" and "mrz \<noteq> []"
  shows "extract_mrz_from_dg1 (header @ [0x5F, 0x1F, of_nat (length mrz)] @ as_bytes mrz @ rest) = Ok mrz"
  using extract_mrz_enc [OF assms] by (simp add: enc_dg1_def)

theorem extract_mrz_round_trip_witness:
  "extract_mrz_from_dg1 ([0x61, 0x0A] @ [0x5F, 0x1F, 5] @ as_bytes ''P<ZKR'' @ [1, 2]) = Ok ''P<ZKR''"
  using extract_mrz_round_trip [of "[0x61, 0x0A]" "''P<ZKR''" "[1, 2]"] by (simp add: is_ascii_def)

text \<open>
  C40. A certificate of at most 1600 bytes is put into the smallest bucket that holds it; a
  longer one is put into the bucket of 1600, which does not hold it.
\<close>

theorem bucket_tbs_len_least:
  "(if n \<le> 1600
    then unat (bucket_tbs_len n) = Min {b \<in> {700, 1000, 1200, 1600}. n \<le> b}
    else unat (bucket_tbs_len n) = 1600 \<and> unat (bucket_tbs_len n) < n)"
proof (cases "n \<le> 1600")
  case True
  note least = bucket_least [OF True]
  have "Min {b \<in> {700, 1000, 1200, 1600}. n \<le> b} = unat (bucket_tbs_len n)"
    using least by (intro Min_eqI) (auto simp: tbs_buckets_def)
  with True show ?thesis by simp
next
  case False
  then show ?thesis using bucket_too_long [of n] by (simp add: bucket_tbs_len_def)
qed

text \<open>
  C38. The hash of a signature, exactly when it is right. The identifier alone decides for RSA
  with any hash and for ECDSA with SHA-256 to SHA-512, and for no other algorithm. So the
  hash of a certificate, which is computed without a digest OID, is right for these, and
  beyond them only by luck, for RSA-PSS when the hash is SHA-256: ECDSA with SHA-1 or
  SHA-224, OIW RSA with SHA-1 and RSA-PSS with another hash are taken for SHA-256. The hash
  of the signer, under the digest OID of its hash, is right for every algorithm but the OIW
  one, as is the name of the algorithm's family.
\<close>

theorem signature_hash_right_exactly:
  "((\<forall>d. hash_from_signature_and_digest_oids (scheme_oid s) d = scheme_hash s) \<longleftrightarrow> fixes_hash s)
   \<and> (hash_from_signature_and_digest_oids (scheme_oid s) [] = scheme_hash s
        \<longleftrightarrow> fixes_hash s \<or> scheme_hash s = Sha256)
   \<and> (hash_from_signature_and_digest_oids (scheme_oid s) (digest_oid (scheme_hash s)) = scheme_hash s
        \<longleftrightarrow> s \<noteq> Oiw_rsa_sha1)
   \<and> (signature_algorithm_family (scheme_oid s) = scheme_family s \<longleftrightarrow> s \<noteq> Oiw_rsa_sha1)"
proof (cases "fixes_hash s")
  case True
  then have "s \<noteq> Oiw_rsa_sha1" by auto
  with True show ?thesis by (simp add: fixed_hash scheme_family_known)
next
  case False
  with unfixed_hash_varies [OF False] show ?thesis
    unfolding scheme_family_known
    by (cases s) (auto simp: unfixed_hash digest_hashes simp del: scheme_oid.simps)
qed

text \<open>
  C39. An RSA key is understood: for an encoded key that fits in memory, whose modulus of \<open>n\<close>
  bytes, below \<open>2 ^ 28\<close>, does not start with zero, with or without the zero byte of its sign
  before it and whatever follows it, the key has \<open>8 * n\<close> bits, of the scheme that the
  algorithm names.
\<close>

theorem rsa_key_size:
  assumes "buffer_ok (enc_rsa_key modulus rest)" and "length m < 2 ^ 28" and "m = [] \<or> hd m \<noteq> 0"
    and "modulus \<in> {m, 0 # m}"
  shows "parse_subject_public_key_info checks oid_rsa_encryption p (enc_rsa_key modulus rest)
      = Ok (RsaPkcs (of_nat (8 * length m)))
    \<and> parse_subject_public_key_info checks oid_rsassa_pss p (enc_rsa_key modulus rest)
      = Ok (RsaPss (of_nat (8 * length m)))"
  using public_key_rsa [OF assms] by blast

theorem rsa_key_size_witness:
  "parse_subject_public_key_info True oid_rsa_encryption [] (enc_rsa_key (0 # replicate 64 0xC3) [2, 1, 3])
     = Ok (RsaPkcs 512)"
proof -
  have "buffer_ok (enc_rsa_key (0 # replicate 64 0xC3) [2, 1, 3])"
    by (simp add: buffer_ok_def enc_rsa_key_def length_der_tlv_short)
  from rsa_key_size [OF this, of "replicate 64 0xC3" True "[]"] show ?thesis by simp
qed

text \<open>
  C31. An object identifier survives encoding and reading: for a first arc of at most 2, a
  second below 40 and further arcs below \<open>2 ^ 64\<close>, the reader returns its dotted
  decimal text.
\<close>

theorem oid_round_trip:
  assumes "a \<le> 2" and "b < 40" and "\<forall>c \<in> set arcs. c < 2 ^ 64"
    and "buffer_ok (der_tlv 0x06 (oid_bytes a b arcs))"
  shows "parse_oid_bytes checks (der_tlv 0x06 (oid_bytes a b arcs))
    = Ok (str_join ''.'' (map show_nat (a # b # arcs)))"
  using parse_oid_bytes_enc [OF assms(4), of checks] parse_oid_bytes_inverse [OF assms(1-3)] by simp

theorem oid_round_trip_witness:
  "parse_oid_bytes True (der_tlv 0x06 [0x2A, 0x86, 0x48, 0x86, 0xF7, 0x0D, 0x01, 0x01, 0x0B])
     = Ok ''1.2.840.113549.1.1.11''"
proof -
  have "buffer_ok (der_tlv 0x06 rsa_sha256_oid)"
    by (simp add: buffer_ok_def length_der_tlv_short rsa_sha256_oid_def)
  from oid_round_trip [of 1 2 "[840, 113549, 1, 1, 11]", folded example_oid_bytes, OF _ _ _ this, of True]
  show ?thesis by (simp add: rsa_sha256_oid_def show_nat.simps digit_char_def)
qed

text \<open>
  An object identifier below the arc 2 whose second arc is 40 or more, such as 2.999
  (bytes 88 37), is misread: its first byte is split by 40 though it is the start of a
  base-128 number.
\<close>

theorem oid_second_arc_misread:
  "parse_oid_raw [0x88, 0x37] = ''3.16.55''"
  by code_simp

text \<open>
  The country is read off a distinguished name of attributes joined by comma and
  blank: it is the value of the first attribute \<open>C\<close> or \<open>countryName\<close>, and there is
  none when no attribute is one.
\<close>

theorem country_of_name:
  assumes "list_all attribute_ok attributes"
  shows "extract_country_from_name (str_join '', '' (map attribute attributes))
       = map_option snd (List.find (\<lambda>a. fst a = ''countryName'' \<or> fst a = ''C'') attributes)"
  using country_of_attributes [OF assms] by simp

theorem country_of_name_witness:
  "extract_country_from_name ''CN=Zero Knowledge CSCA, C=ZK'' = Some ''ZK''"
proof -
  have "list_all attribute_ok [(''CN'', ''Zero Knowledge CSCA''), (''C'', ''ZK'')]" by code_simp
  from country_of_name [OF this] show ?thesis by (simp add: attribute_def)
qed

end
