(* ===== verification/Fetch.thy ===== *)
theory Fetch
  imports Prover_Types
begin

text \<open>
  The blocking HTTP requests of \<open>registry.rs\<close> and \<open>certificates.rs\<close> and the decoding
  of their bodies, \<open>decode_json_bytes\<close>, which both files define alike. The client
  (\<open>reqwest\<close>), the gzip decoder (\<open>flate2\<close>) and the deserialiser are parameters.
\<close>

text \<open>
  A request fails when it is sent, by its status (\<open>error_for_status\<close>), or while its
  body is read; each failure carries the client's message.
\<close>

datatype 'a http_reply = Send_failed string | Status_failed string | Body_failed string | Received 'a

definition reply_body :: "string \<Rightarrow> string \<Rightarrow> string \<Rightarrow> 'a http_reply \<Rightarrow> 'a result" where
  "reply_body on_send on_status on_body reply =
    (case reply of
       Send_failed e \<Rightarrow> Err [on_send, e]
     | Status_failed e \<Rightarrow> Err [on_status, e]
     | Body_failed e \<Rightarrow> Err [on_body, e]
     | Received body \<Rightarrow> Ok body)"

definition is_gzip :: "u8 list \<Rightarrow> bool" where
  "is_gzip bytes \<longleftrightarrow> 2 \<le> length bytes \<and> bytes ! 0 = 0x1F \<and> bytes ! 1 = 0x8B"

definition decode_json_bytes ::
  "(u8 list \<Rightarrow> string + u8 list) \<Rightarrow> (u8 list \<Rightarrow> string + 'a) \<Rightarrow> u8 list \<Rightarrow> string \<Rightarrow> 'a result" where
  "decode_json_bytes gunzip parse bytes url =
    and_then
      (if is_gzip bytes
       then of_sum (\<lambda>e. [''failed to gunzip response body: '' @ url, e]) (gunzip bytes)
       else Ok bytes) (\<lambda>json_bytes.
    of_sum (\<lambda>e. [''failed to decode JSON payload: '' @ url, e]) (parse json_bytes))"

lemma reply_body_Ok [simp]: "reply_body a b c r = Ok v \<longleftrightarrow> r = Received v"
  by (cases r) (auto simp: reply_body_def)

lemma reply_body_no_panic [simp]: "reply_body a b c r \<noteq> Panic p"
  by (cases r) (auto simp: reply_body_def)

lemma decode_json_bytes_no_panic [simp]: "decode_json_bytes gunzip parse bytes url \<noteq> Panic p"
  by (auto simp: decode_json_bytes_def and_then_eq_Panic)

lemma is_gzip_iff: "is_gzip bytes \<longleftrightarrow> (\<exists>rest. bytes = 0x1F # 0x8B # rest)"
proof (cases bytes)
  case (Cons a as)
  then show ?thesis by (cases as) (auto simp: is_gzip_def)
qed (simp add: is_gzip_def)

text \<open>A body is decompressed exactly when it starts with the gzip magic number.\<close>

lemma decode_json_bytes_Ok:
  "decode_json_bytes gunzip parse bytes url = Ok v \<longleftrightarrow>
     (if \<exists>rest. bytes = 0x1F # 0x8B # rest then \<exists>raw. gunzip bytes = Inr raw \<and> parse raw = Inr v
      else parse bytes = Inr v)"
  by (auto simp: decode_json_bytes_def and_then_eq_Ok is_gzip_iff)

end
