(* ===== verification/Paths.thy ===== *)
theory Paths
  imports Rust_Str
begin

text \<open>
  The operations of \<open>std::path\<close> the program uses, on Unix. A path is its string; its
  components are what lies between slashes, where empty ones and \<open>.\<close> count for nothing,
  except a leading \<open>.\<close>.
\<close>

text \<open>\<open>Path::join\<close>: an absolute second path replaces the first.\<close>

definition path_join :: "string \<Rightarrow> string \<Rightarrow> string" where
  "path_join a b =
    (if starts_with ''/'' b then b
     else if a = [] \<or> ends_with ''/'' a then a @ b
     else a @ ''/'' @ b)"

text \<open>The path without trailing slashes and trailing \<open>/.\<close>, on the reversed string.\<close>

fun trim_rev_path :: "string \<Rightarrow> string" where
  "trim_rev_path [] = []"
| "trim_rev_path [c] = (if c = CHR ''/'' then [] else [c])"
| "trim_rev_path (c # d # cs) =
    (if c = CHR ''/'' then trim_rev_path (d # cs)
     else if c = CHR ''.'' \<and> d = CHR ''/'' then trim_rev_path (d # cs)
     else c # d # cs)"

definition trim_path :: "string \<Rightarrow> string" where
  "trim_path p = rev (trim_rev_path (rev p))"

definition last_part :: "string \<Rightarrow> string" where
  "last_part p = rev (takeWhile (\<lambda>c. c \<noteq> CHR ''/'') (rev p))"

text \<open>\<open>Path::file_name\<close>: the last component, unless it is none, \<open>.\<close> or \<open>..\<close>.\<close>

definition path_file_name :: "string \<Rightarrow> string option" where
  "path_file_name p =
    (let name = last_part (trim_path p) in
     if name = [] \<or> name = ''.'' \<or> name = ''..'' then None else Some name)"

text \<open>\<open>Path::parent\<close>: the path without its last component, \<open>None\<close> for the root and the empty path.\<close>

definition path_parent :: "string \<Rightarrow> string option" where
  "path_parent p =
    (let q = trim_path p; n = length (last_part q) in
     if q = [] then None
     else if n = length q then Some []
     else
       let r = trim_path (take (length q - n) q) in
       Some (if r = [] then ''/'' else r))"

text \<open>The path with all its ancestors, as \<open>create_dir_all\<close> makes them.\<close>

definition path_chain :: "string \<Rightarrow> string list" where
  "path_chain p = p # map (\<lambda>n. take n p) (filter (\<lambda>n. 0 < n \<and> p ! n = CHR ''/'') [0..<length p])"

section \<open>Rules\<close>

lemma path_join_rel: "\<not> starts_with ''/'' b \<Longrightarrow> a \<noteq> [] \<Longrightarrow> \<not> ends_with ''/'' a \<Longrightarrow> path_join a b = a @ ''/'' @ b"
  by (simp add: path_join_def)

lemma path_join_inject:
  assumes "\<not> starts_with ''/'' b" and "\<not> starts_with ''/'' c"
  shows "path_join a b = path_join a c \<longleftrightarrow> b = c"
  using assms by (simp add: path_join_def)

lemma path_chain_self [simp]: "p \<in> set (path_chain p)"
  by (simp add: path_chain_def)

text \<open>The examples of the documentation of \<open>std::path::Path\<close>.\<close>

lemma path_examples:
  "path_file_name ''/usr/bin/'' = Some ''bin''" "path_file_name ''tmp/foo.txt'' = Some ''foo.txt''"
  "path_file_name ''foo.txt/.'' = Some ''foo.txt''" "path_file_name ''foo.txt/..'' = None"
  "path_file_name ''/'' = None" "path_parent ''/foo/bar'' = Some ''/foo''"
  "path_parent ''/foo'' = Some ''/''" "path_parent ''/'' = None" "path_parent ''foo/bar'' = Some ''foo''"
  "path_parent ''foo'' = Some []" "path_parent [] = None" "path_parent ''a//b/./'' = Some ''a''"
  by code_simp+

end
