(* ===== verification/Host.thy ===== *)
theory Host
  imports Fetch Paths
begin

text \<open>
  The machine the program runs on: files and directories, environment variables, HTTP,
  child processes, temporary directories, standard output. An operation of the program
  is a function of the world that ends with an outcome and the world it leaves, or does
  not end. What the machine answers is up to a \<open>host\<close>, which may look at the whole
  world, the history of events included, so that it may answer the same question
  differently each time and fail any operation.
\<close>

section \<open>The world\<close>

datatype event =
    Got string
  | Posted string json
  | Made_dir string
  | Wrote string
  | Read_back string
  | Copied string string
  | Made_executable string
  | Made_temp string
  | Statted string
  | Ran string "string list"
  | Printed string
  | Printed_error string

record world =
  wd_files :: "string \<rightharpoonup> u8 list"
  wd_dirs :: "string set"
  wd_env :: "string \<rightharpoonup> string"
  wd_log :: "event list"

definition note_event :: "event \<Rightarrow> world \<Rightarrow> world" where
  "note_event e w = w\<lparr>wd_log := e # wd_log w\<rparr>"

text \<open>What a child process leaves: its exit status and its output, beside the files and directories.\<close>

record process_output =
  po_success :: bool
  po_status :: string
  po_stdout :: "u8 list"
  po_stderr :: "u8 list"

text \<open>
  The host: the replies to HTTP requests, whether an operation on a path fails and with
  which message, whether a command line (run in a directory, or the current one) never
  ends, and its effect when it does, fresh temporary paths, the clock, and whether the
  directory of a path can be resolved. A request is always answered, with a failure if
  need be: the client gives up on it after a time.
\<close>

record host =
  ho_get :: "world \<Rightarrow> string \<Rightarrow> u8 list http_reply"
  ho_post :: "world \<Rightarrow> string \<Rightarrow> json \<Rightarrow> json http_reply"
  ho_fault :: "world \<Rightarrow> event \<Rightarrow> string option"
  ho_hangs :: "world \<Rightarrow> string option \<Rightarrow> string \<Rightarrow> string list \<Rightarrow> bool"
  ho_run :: "world \<Rightarrow> string option \<Rightarrow> string \<Rightarrow> string list \<Rightarrow>
               string + (process_output \<times> (string \<rightharpoonup> u8 list) \<times> string set)"
  ho_temp :: "world \<Rightarrow> string + string"
  ho_now :: "world \<Rightarrow> string + u64"
  ho_canonicalize :: "world \<Rightarrow> string \<Rightarrow> string option"
  ho_exe_parent :: "string option"

section \<open>Operations in sequence\<close>

type_synonym 'a io = "world \<Rightarrow> ('a result \<times> world) option"

definition io_return :: "'a \<Rightarrow> 'a io" where
  "io_return x w = Some (Ok x, w)"

definition io_of :: "'a result \<Rightarrow> 'a io" where
  "io_of r w = Some (r, w)"

definition io_run :: "'a run \<Rightarrow> 'a io" where
  "io_run r w = map_option (\<lambda>x. (x, w)) r"

definition io_bind :: "'a io \<Rightarrow> ('a \<Rightarrow> 'b io) \<Rightarrow> 'b io" where
  "io_bind m f w =
    (case m w of
       None \<Rightarrow> None
     | Some (Ok x, w') \<Rightarrow> f x w'
     | Some (Err e, w') \<Rightarrow> Some (Err e, w')
     | Some (Panic p, w') \<Rightarrow> Some (Panic p, w'))"

definition io_context :: "string \<Rightarrow> 'a io \<Rightarrow> 'a io" where
  "io_context c m w = map_option (\<lambda>(r, w'). (with_context c r, w')) (m w)"

text \<open>Iterate over a list, leaving at the first failure.\<close>

fun io_each :: "('a \<Rightarrow> unit io) \<Rightarrow> 'a list \<Rightarrow> unit io" where
  "io_each f [] = io_return ()"
| "io_each f (x # xs) = io_bind (f x) (\<lambda>_. io_each f xs)"

fun io_map :: "('a \<Rightarrow> 'b io) \<Rightarrow> 'a list \<Rightarrow> 'b list io" where
  "io_map f [] = io_return []"
| "io_map f (x # xs) = io_bind (f x) (\<lambda>y. io_bind (io_map f xs) (\<lambda>ys. io_return (y # ys)))"

section \<open>Effects\<close>

definition path_exists :: "world \<Rightarrow> string \<Rightarrow> bool" where
  "path_exists w p \<longleftrightarrow> wd_files w p \<noteq> None \<or> p \<in> wd_dirs w"

definition io_exists :: "string \<Rightarrow> bool io" where
  "io_exists p w = Some (Ok (path_exists w p), w)"

definition attempt :: "host \<Rightarrow> event \<Rightarrow> (world \<Rightarrow> 'a result \<times> world) \<Rightarrow> 'a io" where
  "attempt h e f w =
    (case ho_fault h w e of
       Some msg \<Rightarrow> Some (Err [msg], note_event e w)
     | None \<Rightarrow> (case f w of (r, w') \<Rightarrow> Some (r, note_event e w')))"

definition create_dir_all :: "host \<Rightarrow> string \<Rightarrow> unit io" where
  "create_dir_all h p = attempt h (Made_dir p) (\<lambda>w. (Ok (), w\<lparr>wd_dirs := set (path_chain p) \<union> wd_dirs w\<rparr>))"

definition write_file :: "host \<Rightarrow> string \<Rightarrow> u8 list \<Rightarrow> unit io" where
  "write_file h p bytes = attempt h (Wrote p) (\<lambda>w. (Ok (), w\<lparr>wd_files := (wd_files w)(p \<mapsto> bytes)\<rparr>))"

definition not_found :: error where
  "not_found = [''No such file or directory (os error 2)'']"

definition read_file :: "host \<Rightarrow> string \<Rightarrow> u8 list io" where
  "read_file h p = attempt h (Read_back p)
    (\<lambda>w. (case wd_files w p of Some bytes \<Rightarrow> Ok bytes | None \<Rightarrow> Err not_found, w))"

definition read_to_string :: "host \<Rightarrow> string \<Rightarrow> string io" where
  "read_to_string h p =
    io_bind (read_file h p) (\<lambda>bytes.
    io_of (case from_utf8 bytes of
             Some s \<Rightarrow> Ok s | None \<Rightarrow> bail ''stream did not contain valid UTF-8''))"

definition copy_file :: "host \<Rightarrow> string \<Rightarrow> string \<Rightarrow> unit io" where
  "copy_file h p q = attempt h (Copied p q)
    (\<lambda>w. case wd_files w p of
           Some bytes \<Rightarrow> (Ok (), w\<lparr>wd_files := (wd_files w)(q \<mapsto> bytes)\<rparr>)
         | None \<Rightarrow> (Err not_found, w))"

definition make_executable :: "host \<Rightarrow> string \<Rightarrow> unit io" where
  "make_executable h p = attempt h (Made_executable p) (\<lambda>w. (Ok (), w))"

definition http_get_io :: "host \<Rightarrow> string \<Rightarrow> u8 list http_reply io" where
  "http_get_io h url w = Some (Ok (ho_get h w url), note_event (Got url) w)"

definition http_post_io :: "host \<Rightarrow> string \<Rightarrow> json \<Rightarrow> json http_reply io" where
  "http_post_io h url payload w = Some (Ok (ho_post h w url payload), note_event (Posted url payload) w)"

text \<open>A caller waits for a child process, and does not end when the process does not.\<close>

definition run_process :: "host \<Rightarrow> string option \<Rightarrow> string \<Rightarrow> string list \<Rightarrow> process_output io" where
  "run_process h cwd program args w =
    (if ho_hangs h w cwd program args then None else
     case ho_run h w cwd program args of
       Inl msg \<Rightarrow> Some (Err [msg], note_event (Ran program args) w)
     | Inr (out, files, dirs) \<Rightarrow>
         Some (Ok out, note_event (Ran program args) (w\<lparr>wd_files := files, wd_dirs := dirs\<rparr>)))"

definition stat_file :: "host \<Rightarrow> string \<Rightarrow> unit io" where
  "stat_file h p = attempt h (Statted p)
    (\<lambda>w. (if path_exists w p then Ok () else Err not_found, w))"

definition eprint_line :: "string \<Rightarrow> unit io" where
  "eprint_line s w = Some (Ok (), note_event (Printed_error s) w)"

definition print_line :: "string \<Rightarrow> unit io" where
  "print_line s w = Some (Ok (), note_event (Printed s) w)"

definition set_env :: "string \<Rightarrow> string option \<Rightarrow> unit io" where
  "set_env k v w = Some (Ok (), w\<lparr>wd_env := (wd_env w)(k := v)\<rparr>)"

definition get_env :: "string \<Rightarrow> string option io" where
  "get_env k w = Some (Ok (wd_env w k), w)"

text \<open>
  A temporary directory or file lives until its owner goes out of scope, on every way
  out; then it is deleted with what lies below it.
\<close>

definition below :: "string \<Rightarrow> string \<Rightarrow> bool" where
  "below dir p \<longleftrightarrow> p = dir \<or> starts_with (dir @ ''/'') p"

definition delete_tree :: "string \<Rightarrow> world \<Rightarrow> world" where
  "delete_tree dir w =
    w\<lparr>wd_files := (\<lambda>p. if below dir p then None else wd_files w p),
      wd_dirs := {p \<in> wd_dirs w. \<not> below dir p}\<rparr>"

definition with_temp ::
  "host \<Rightarrow> string \<Rightarrow> (string \<Rightarrow> world \<Rightarrow> world) \<Rightarrow> (string \<Rightarrow> 'a io) \<Rightarrow> 'a io" where
  "with_temp h failed create f w =
    (case ho_temp h w of
       Inl msg \<Rightarrow> Some (Err [failed, msg], w)
     | Inr p \<Rightarrow>
         map_option (\<lambda>(r, w'). (r, delete_tree p w')) (f p (note_event (Made_temp p) (create p w))))"

definition with_temp_dir :: "host \<Rightarrow> string \<Rightarrow> (string \<Rightarrow> 'a io) \<Rightarrow> 'a io" where
  "with_temp_dir h failed = with_temp h failed (\<lambda>p w. w\<lparr>wd_dirs := insert p (wd_dirs w)\<rparr>)"

definition with_temp_file :: "host \<Rightarrow> string \<Rightarrow> (string \<Rightarrow> 'a io) \<Rightarrow> 'a io" where
  "with_temp_file h failed = with_temp h failed (\<lambda>p w. w\<lparr>wd_files := (wd_files w)(p \<mapsto> [])\<rparr>)"

section \<open>Rules\<close>

lemma io_bind_Ok:
  "io_bind m f w = Some (Ok y, w2) \<longleftrightarrow> (\<exists>x w1. m w = Some (Ok x, w1) \<and> f x w1 = Some (Ok y, w2))"
  by (auto simp: io_bind_def split: option.splits outcome.splits)

lemma io_return_eq [simp]: "io_return x w = Some (r, w') \<longleftrightarrow> r = Ok x \<and> w' = w"
  by (auto simp: io_return_def)

lemma io_of_eq [simp]: "io_of r w = Some (r', w') \<longleftrightarrow> r = r' \<and> w' = w"
  by (auto simp: io_of_def)

lemma io_context_Ok [simp]: "io_context c m w = Some (Ok x, w') \<longleftrightarrow> m w = Some (Ok x, w')"
  by (auto simp: io_context_def split: option.splits)

lemma io_exists_eq [simp]: "io_exists p w = Some (r, w') \<longleftrightarrow> r = Ok (path_exists w p) \<and> w' = w"
  by (auto simp: io_exists_def)

lemma write_file_Ok:
  "write_file h p bytes w = Some (Ok (), w') \<longleftrightarrow>
     ho_fault h w (Wrote p) = None
     \<and> w' = note_event (Wrote p) (w\<lparr>wd_files := (wd_files w)(p \<mapsto> bytes)\<rparr>)"
  by (auto simp: write_file_def attempt_def split: option.splits)

lemma read_file_Ok:
  "read_file h p w = Some (Ok bytes, w') \<longleftrightarrow>
     ho_fault h w (Read_back p) = None \<and> wd_files w p = Some bytes \<and> w' = note_event (Read_back p) w"
  by (auto simp: read_file_def attempt_def split: option.splits)

lemma read_to_string_Ok:
  "read_to_string h p w = Some (Ok s, w') \<longleftrightarrow>
     ho_fault h w (Read_back p) = None \<and> w' = note_event (Read_back p) w
     \<and> (\<exists>bytes. wd_files w p = Some bytes \<and> from_utf8 bytes = Some s)"
  by (auto simp: read_to_string_def io_bind_Ok read_file_Ok split: option.splits)

lemma create_dir_all_Ok:
  "create_dir_all h p w = Some (Ok (), w') \<longleftrightarrow>
     ho_fault h w (Made_dir p) = None
     \<and> w' = note_event (Made_dir p) (w\<lparr>wd_dirs := set (path_chain p) \<union> wd_dirs w\<rparr>)"
  by (auto simp: create_dir_all_def attempt_def split: option.splits)

lemma http_get_io_Ok:
  "http_get_io h url w = Some (Ok reply, w') \<longleftrightarrow> reply = ho_get h w url \<and> w' = note_event (Got url) w"
  by (auto simp: http_get_io_def)

lemma note_event_simps [simp]:
  "wd_files (note_event e w) = wd_files w" "wd_dirs (note_event e w) = wd_dirs w"
  "wd_env (note_event e w) = wd_env w" "wd_log (note_event e w) = e # wd_log w"
  by (simp_all add: note_event_def)

section \<open>A host to evaluate on\<close>

text \<open>A host that answers requests by a function of the URL, and fails nothing else it can do.\<close>

definition example_host :: "(string \<Rightarrow> u8 list http_reply) \<Rightarrow> host" where
  "example_host get =
    \<lparr>ho_get = \<lambda>_. get, ho_post = \<lambda>_ _ _. Send_failed ''offline'', ho_fault = \<lambda>_ _. None,
     ho_hangs = \<lambda>_ _ _ _. False, ho_run = \<lambda>_ _ _ _. Inl ''no process'', ho_temp = \<lambda>_. Inl ''no temp'', ho_now = \<lambda>_. Inr 1,
     ho_canonicalize = \<lambda>_ _. None, ho_exe_parent = None\<rparr>"

definition empty_world :: world where
  "empty_world = \<lparr>wd_files = (\<lambda>_. None), wd_dirs = {}, wd_env = (\<lambda>_. None), wd_log = []\<rparr>"

end
