(* ===== verification/Config.thy ===== *)
theory Config
  imports Host
begin

text \<open>
  The compatibility matrix of \<open>crates/prover-core/src/config.rs\<close>, and reading a JSON
  file, which the loaders of \<open>config.rs\<close>, \<open>fixture.rs\<close>, \<open>artifacts.rs\<close> and
  \<open>prover-cli\<close> share. The file system and the deserialiser are parameters.
\<close>

record registry_config =
  rg_chain_id :: u64
  rg_rpc_url :: string
  rg_root_registry :: string
  rg_certificate_base_url :: string
  rg_manifest_base_url :: string
  rg_artifact_base_url :: string
  rg_circuit_version :: string
  rg_manifest_root :: "string option"

record proving_config =
  pg_canonical_backend :: string
  pg_preferred_fork :: string
  pg_noir_version :: string
  pg_bb_version :: string
  pg_bb_binary_source :: "string option"
  pg_inner_oracle_hash :: string
  pg_outer_evm_oracle_hash :: string
  pg_outer_evm_ipa_accumulation :: string

record mobile_config =
  mo_target_mode :: string
  mo_ffi_surface :: "string list"

record server_config =
  sv_target_mode :: string
  sv_integration_mode :: string

record compatibility_matrix =
  cm_status :: string
  cm_source_of_truth_policy :: string
  cm_registry :: registry_config
  cm_proving :: proving_config
  cm_mobile :: mobile_config
  cm_server :: server_config
  cm_notes :: "string list"

text \<open>
  \<open>fs::read_to_string\<close> and \<open>serde_json::from_str\<close>, each under a context that names
  the path; the messages differ from loader to loader.
\<close>

type_synonym 'a from_json = "string \<Rightarrow> string + 'a"

definition read_json :: "host \<Rightarrow> string \<Rightarrow> string \<Rightarrow> 'a from_json \<Rightarrow> string \<Rightarrow> 'a io" where
  "read_json h failed_read failed_parse parse path =
    io_bind (io_context (failed_read @ path) (read_to_string h path)) (\<lambda>raw.
    io_of (of_sum (\<lambda>e. [failed_parse @ path, e]) (parse raw)))"

definition load_compatibility_matrix ::
  "host \<Rightarrow> compatibility_matrix from_json \<Rightarrow> string \<Rightarrow> compatibility_matrix io" where
  "load_compatibility_matrix h =
    read_json h ''failed to read compatibility matrix: '' ''failed to parse compatibility matrix: ''"

text \<open>A file that is read as JSON is one of UTF-8 text that parses.\<close>

lemma read_json_Ok:
  "read_json h m1 m2 parse path w = Some (Ok v, w') \<longleftrightarrow>
     (\<exists>bytes raw. ho_fault h w (Read_back path) = None \<and> wd_files w path = Some bytes
        \<and> from_utf8 bytes = Some raw \<and> parse raw = Inr v \<and> w' = note_event (Read_back path) w)"
  by (auto simp: read_json_def io_bind_Ok read_to_string_Ok)

end
