(* ===== verification/Effects.thy ===== *)
theory Effects
  imports Host
begin

text \<open>
  Reasoning about operations on the world: which of them keep a relation between the world
  before and the world after, such as leaving the files as they are, and what each leaves
  when it succeeds. The relations are the instances of one contract.
\<close>

section \<open>Relations that operations keep\<close>

definition io_keeps :: "(world \<Rightarrow> world \<Rightarrow> bool) \<Rightarrow> 'a io \<Rightarrow> bool" where
  "io_keeps R m \<longleftrightarrow> (\<forall>w r w'. m w = Some (r, w') \<longrightarrow> R w w')"

lemma io_keepsD: "io_keeps R m \<Longrightarrow> m w = Some (r, w') \<Longrightarrow> R w w'"
  by (simp add: io_keeps_def)

text \<open>What is kept in sequence: a reflexive and transitive relation of worlds.\<close>

locale kept_relation =
  fixes R :: "world \<Rightarrow> world \<Rightarrow> bool"
  assumes refl: "R w w" and trans: "R w w' \<Longrightarrow> R w' w'' \<Longrightarrow> R w w''"
begin

lemma keeps_return: "io_keeps R (io_return x)"
  by (simp add: io_keeps_def refl)

lemma keeps_of: "io_keeps R (io_of r)"
  by (simp add: io_keeps_def refl)

lemma keeps_exists: "io_keeps R (io_exists p)"
  by (simp add: io_keeps_def refl)

lemma keeps_get_env: "io_keeps R (get_env k)"
  by (simp add: io_keeps_def get_env_def refl)

lemma keeps_bind: "io_keeps R m \<Longrightarrow> (\<And>x. io_keeps R (f x)) \<Longrightarrow> io_keeps R (io_bind m f)"
  by (fastforce simp: io_keeps_def io_bind_def intro: trans split: option.splits outcome.splits)

lemma keeps_context: "io_keeps R m \<Longrightarrow> io_keeps R (io_context c m)"
  by (auto simp: io_keeps_def io_context_def)

lemma keeps_if: "io_keeps R m \<Longrightarrow> io_keeps R m' \<Longrightarrow> io_keeps R (if b then m else m')"
  by simp

lemma keeps_option:
  "io_keeps R m \<Longrightarrow> (\<And>x. io_keeps R (f x)) \<Longrightarrow> io_keeps R (case x of None \<Rightarrow> m | Some x \<Rightarrow> f x)"
  by (cases x) auto

lemma keeps_each: "(\<And>x. io_keeps R (f x)) \<Longrightarrow> io_keeps R (io_each f xs)"
  by (induction xs) (simp_all add: keeps_bind keeps_return)

lemma keeps_map: "(\<And>x. io_keeps R (f x)) \<Longrightarrow> io_keeps R (io_map f xs)"
  by (induction xs) (simp_all add: keeps_bind keeps_return)

lemmas keeps_intros = keeps_return keeps_of keeps_exists keeps_get_env keeps_bind keeps_context
  keeps_if keeps_option keeps_each keeps_map

end

definition same_files :: "world \<Rightarrow> world \<Rightarrow> bool" where
  "same_files w w' \<longleftrightarrow> wd_files w' = wd_files w \<and> wd_dirs w' = wd_dirs w"

text \<open>The log only grows: what happened before stays its end, whatever happens after.\<close>

definition log_grows :: "world \<Rightarrow> world \<Rightarrow> bool" where
  "log_grows w w' \<longleftrightarrow> suffix (wd_log w) (wd_log w')"

interpretation files: kept_relation same_files
  by unfold_locales (auto simp: same_files_def)

interpretation logs: kept_relation log_grows
  by unfold_locales (auto simp: log_grows_def intro: suffix_order.trans)

lemma keeps_attempt:
  assumes "\<And>w r w'. f w = (r, w') \<Longrightarrow> R w w'"
    and "\<And>w w'. R w w' \<Longrightarrow> R w (note_event e w')" and "\<And>w. R w w"
  shows "io_keeps R (attempt h e f)"
  using assms by (auto simp: io_keeps_def attempt_def split: option.splits prod.splits)

lemma files_effects:
  "io_keeps same_files (read_file h p)" "io_keeps same_files (stat_file h p)"
  "io_keeps same_files (make_executable h p)" "io_keeps same_files (http_get_io h url)"
  "io_keeps same_files (http_post_io h url payload)" "io_keeps same_files (print_line s)"
  "io_keeps same_files (eprint_line s)" "io_keeps same_files (set_env k v)"
  by (auto simp: read_file_def stat_file_def make_executable_def same_files_def intro!: keeps_attempt)
    (auto simp: io_keeps_def http_get_io_def http_post_io_def print_line_def eprint_line_def set_env_def
      same_files_def)

lemma logs_effects:
  "io_keeps log_grows (create_dir_all h p)" "io_keeps log_grows (write_file h p bytes)"
  "io_keeps log_grows (http_get_io h url)"
  by (auto simp: create_dir_all_def write_file_def log_grows_def suffix_def intro!: keeps_attempt)
    (auto simp: io_keeps_def http_get_io_def log_grows_def suffix_def)

lemma read_to_string_keeps: "io_keeps same_files (read_to_string h p)"
  by (auto simp: read_to_string_def intro!: files.keeps_intros files_effects)

section \<open>More inversion rules\<close>

lemma get_env_bind [simp]: "io_bind (get_env k) f w = f (wd_env w k) w"
  by (simp add: io_bind_def get_env_def)

lemma io_exists_bind [simp]: "io_bind (io_exists p) f w = f (path_exists w p) w"
  by (simp add: io_bind_def io_exists_def)

lemma io_return_bind [simp]: "io_bind (io_return x) f = f x"
  by (rule ext) (simp add: io_bind_def io_return_def)

lemma io_of_bind_Ok [simp]: "io_bind (io_of (Ok x)) f = f x"
  by (rule ext) (simp add: io_bind_def io_of_def)

lemma io_of_bind_Err [simp]: "io_bind (io_of (Err e)) f = io_of (Err e)"
  by (rule ext) (simp add: io_bind_def io_of_def)

lemma io_bind_assoc: "io_bind (io_bind m f) g = io_bind m (\<lambda>x. io_bind (f x) g)"
  by (rule ext) (simp add: io_bind_def split: option.split outcome.split)

lemma run_process_Ok:
  "run_process h cwd program args w = Some (Ok out, w') \<longleftrightarrow>
     \<not> ho_hangs h w cwd program args
     \<and> (\<exists>fs ds. ho_run h w cwd program args = Inr (out, fs, ds)
          \<and> w' = note_event (Ran program args) (w\<lparr>wd_files := fs, wd_dirs := ds\<rparr>))"
  by (auto simp: run_process_def split: sum.splits)

lemma copy_file_Ok:
  "copy_file h p q w = Some (Ok (), w') \<longleftrightarrow>
     ho_fault h w (Copied p q) = None
     \<and> (\<exists>bytes. wd_files w p = Some bytes
          \<and> w' = note_event (Copied p q) (w\<lparr>wd_files := (wd_files w)(q \<mapsto> bytes)\<rparr>))"
  by (auto simp: copy_file_def attempt_def split: option.splits)

lemma make_executable_Ok:
  "make_executable h p w = Some (Ok (), w') \<longleftrightarrow>
     ho_fault h w (Made_executable p) = None \<and> w' = note_event (Made_executable p) w"
  by (auto simp: make_executable_def attempt_def split: option.splits)

lemma stat_file_Ok:
  "stat_file h p w = Some (Ok (), w') \<longleftrightarrow>
     ho_fault h w (Statted p) = None \<and> path_exists w p \<and> w' = note_event (Statted p) w"
  by (auto simp: stat_file_def attempt_def split: option.splits if_splits)

lemma print_line_Ok: "print_line s w = Some (Ok (), w') \<longleftrightarrow> w' = note_event (Printed s) w"
  by (auto simp: print_line_def)

lemma eprint_line_Ok: "eprint_line s w = Some (Ok (), w') \<longleftrightarrow> w' = note_event (Printed_error s) w"
  by (auto simp: eprint_line_def)

text \<open>A temporary directory is there for the operation and gone after it, with all it held.\<close>

lemma with_temp_dir_Ok:
  "with_temp_dir h failed f w = Some (Ok x, w') \<longleftrightarrow>
     (\<exists>p w1. ho_temp h w = Inr p
        \<and> f p (note_event (Made_temp p) (w\<lparr>wd_dirs := insert p (wd_dirs w)\<rparr>)) = Some (Ok x, w1)
        \<and> w' = delete_tree p w1)"
  by (auto simp: with_temp_dir_def with_temp_def split: sum.splits)

lemma with_temp_file_Ok:
  "with_temp_file h failed f w = Some (Ok x, w') \<longleftrightarrow>
     (\<exists>p w1. ho_temp h w = Inr p
        \<and> f p (note_event (Made_temp p) (w\<lparr>wd_files := (wd_files w)(p \<mapsto> [])\<rparr>)) = Some (Ok x, w1)
        \<and> w' = delete_tree p w1)"
  by (auto simp: with_temp_file_def with_temp_def split: sum.splits)

lemma delete_tree_simps [simp]:
  "wd_env (delete_tree p w) = wd_env w" "wd_log (delete_tree p w) = wd_log w"
  "wd_files (delete_tree p w) q = (if below p q then None else wd_files w q)"
  "q \<in> wd_dirs (delete_tree p w) \<longleftrightarrow> \<not> below p q \<and> q \<in> wd_dirs w"
  by (auto simp: delete_tree_def)

lemma below_join: "\<not> starts_with ''/'' q \<Longrightarrow> p \<noteq> [] \<Longrightarrow> \<not> ends_with ''/'' p \<Longrightarrow> below p (path_join p q)"
  by (simp add: below_def path_join_def starts_with_iff prefix_def)

end
