(* ===== verification/Registry.thy ===== *)
theory Registry
  imports Config Resolution Effects "HOL-Library.List_Lexorder" "HOL-Library.Char_ord"
begin

text \<open>
  The circuit registry, \<open>crates/prover-core/src/registry.rs\<close>: fetching the manifest and
  packaged circuits, taking a snapshot of circuit fingerprints, and writing a snapshot's
  artifacts to disk after checking each of them against the live registry.
\<close>

section \<open>Artifacts and snapshots\<close>

record packaged_circuit =
  ca_name :: "string option"
  ca_noir_version :: "string option"
  ca_bb_version :: "string option"
  ca_size :: "u64 option"
  ca_abi :: json
  ca_bytecode :: string
  ca_vkey :: string
  ca_vkey_hash :: string
  ca_hash :: "string option"

record fingerprint =
  fp_name :: string
  fp_manifest_hash :: string
  fp_manifest_size :: u64
  fp_noir_version :: "string option"
  fp_bb_version :: "string option"
  fp_vkey_hash :: string

record snapshot =
  sn_generated_at_unix :: u64
  sn_manifest_version :: string
  sn_manifest_root :: string
  sn_circuits :: "fingerprint list"

record registry_client =
  rl_manifest_base_url :: string
  rl_artifact_base_url :: string

text \<open>
  The third-party coders: gzip, the deserialisers and pretty printers of the two files
  of the registry, and \<open>{:?}\<close> of an optional string.
\<close>

record coders =
  co_gunzip :: "u8 list \<Rightarrow> string + u8 list"
  co_manifest_in :: "u8 list \<Rightarrow> string + manifest"
  co_circuit_in :: "u8 list \<Rightarrow> string + packaged_circuit"
  co_manifest_out :: "manifest \<Rightarrow> string + u8 list"
  co_circuit_out :: "packaged_circuit \<Rightarrow> string + u8 list"
  co_debug :: "string option \<Rightarrow> string"

definition registry_client_from_matrix :: "compatibility_matrix \<Rightarrow> registry_client" where
  "registry_client_from_matrix m =
    \<lparr>rl_manifest_base_url = rg_manifest_base_url (cm_registry m),
     rl_artifact_base_url = rg_artifact_base_url (cm_registry m)\<rparr>"

section \<open>Fetching\<close>

definition manifest_url :: "registry_client \<Rightarrow> string \<Rightarrow> string" where
  "manifest_url c version = rl_manifest_base_url c @ ''/'' @ version @ ''/manifest.json''"

definition manifest_of_reply :: "coders \<Rightarrow> string \<Rightarrow> u8 list http_reply \<Rightarrow> manifest result" where
  "manifest_of_reply co url reply =
    and_then
      (reply_body (''failed to GET manifest: '' @ url) (''manifest request failed: '' @ url)
         (''failed to read manifest bytes: '' @ url) reply) (\<lambda>bytes.
    decode_json_bytes (co_gunzip co) (co_manifest_in co) bytes url)"

definition fetch_manifest :: "host \<Rightarrow> coders \<Rightarrow> registry_client \<Rightarrow> string \<Rightarrow> manifest io" where
  "fetch_manifest h co c version =
    io_bind (http_get_io h (manifest_url c version)) (\<lambda>reply.
    io_of (manifest_of_reply co (manifest_url c version) reply))"

definition circuit_of_reply :: "coders \<Rightarrow> string \<Rightarrow> u8 list http_reply \<Rightarrow> packaged_circuit result" where
  "circuit_of_reply co url reply =
    and_then
      (reply_body (''failed to GET artifact: '' @ url) (''artifact request failed: '' @ url)
         (''failed to read artifact bytes: '' @ url) reply) (\<lambda>bytes.
    decode_json_bytes (co_gunzip co) (co_circuit_in co) bytes url)"

definition manifest_node :: "manifest \<Rightarrow> string \<Rightarrow> manifest_circuit result" where
  "manifest_node m name = opt_context (''circuit not found in manifest: '' @ name) (mf_circuits m name)"

definition artifact_url :: "registry_client \<Rightarrow> manifest_circuit \<Rightarrow> string" where
  "artifact_url c node = rl_artifact_base_url c @ ''/'' @ mc_hash node @ ''.json''"

definition fetch_packaged_circuit ::
  "host \<Rightarrow> coders \<Rightarrow> registry_client \<Rightarrow> manifest \<Rightarrow> string \<Rightarrow> packaged_circuit io" where
  "fetch_packaged_circuit h co c m name =
    io_bind (io_of (manifest_node m name)) (\<lambda>node.
    io_bind (http_get_io h (artifact_url c node)) (\<lambda>reply.
    io_of (circuit_of_reply co (artifact_url c node) reply)))"

section \<open>Snapshots\<close>

definition fingerprint_of ::
  "host \<Rightarrow> coders \<Rightarrow> registry_client \<Rightarrow> manifest \<Rightarrow> string \<Rightarrow> fingerprint io" where
  "fingerprint_of h co c m name =
    io_bind (io_of (manifest_node m name)) (\<lambda>node.
    io_bind (fetch_packaged_circuit h co c m name) (\<lambda>artifact.
    io_return \<lparr>fp_name = name, fp_manifest_hash = mc_hash node, fp_manifest_size = mc_size node,
               fp_noir_version = ca_noir_version artifact, fp_bb_version = ca_bb_version artifact,
               fp_vkey_hash = ca_vkey_hash artifact\<rparr>))"

definition io_now :: "host \<Rightarrow> u64 io" where
  "io_now h w = Some (of_sum (\<lambda>e. [''system clock is before unix epoch'', e]) (ho_now h w), w)"

text \<open>Sorting and removing adjacent duplicates, \<open>sort()\<close> and \<open>dedup()\<close>; strings compare by bytes.\<close>

definition snapshot_circuits ::
  "host \<Rightarrow> coders \<Rightarrow> registry_client \<Rightarrow> string \<Rightarrow> string list \<Rightarrow> snapshot io" where
  "snapshot_circuits h co c version circuit_names =
    io_bind (fetch_manifest h co c version) (\<lambda>m.
    io_bind (io_map (fingerprint_of h co c m) (remdups_adj (sort circuit_names))) (\<lambda>circuits.
    io_bind (io_now h) (\<lambda>now.
    io_return \<lparr>sn_generated_at_unix = now, sn_manifest_version = mf_version m,
               sn_manifest_root = mf_root m, sn_circuits = circuits\<rparr>)))"

text \<open>The checks of a fingerprint against the live manifest entry, then against the live artifact.\<close>

definition check_node :: "fingerprint \<Rightarrow> manifest_circuit \<Rightarrow> unit result" where
  "check_node fp node =
    (if mc_hash node \<noteq> fp_manifest_hash fp
     then bail (''manifest hash mismatch for '' @ fp_name fp @ '': snapshot='' @ fp_manifest_hash fp
                @ '', live='' @ mc_hash node)
     else if mc_size node \<noteq> fp_manifest_size fp
     then bail (''manifest size mismatch for '' @ fp_name fp @ '': snapshot=''
                @ show_u64 (fp_manifest_size fp) @ '', live='' @ show_u64 (mc_size node))
     else Ok ())"

definition check_artifact :: "coders \<Rightarrow> fingerprint \<Rightarrow> packaged_circuit \<Rightarrow> unit result" where
  "check_artifact co fp a =
    (if ca_vkey_hash a \<noteq> fp_vkey_hash fp
     then bail (''vkey hash mismatch for '' @ fp_name fp @ '': snapshot='' @ fp_vkey_hash fp
                @ '', live='' @ ca_vkey_hash a)
     else if ca_noir_version a \<noteq> fp_noir_version fp
     then bail (''noir version mismatch for '' @ fp_name fp @ '': snapshot=''
                @ co_debug co (fp_noir_version fp) @ '', live='' @ co_debug co (ca_noir_version a))
     else if ca_bb_version a \<noteq> fp_bb_version fp
     then bail (''bb version mismatch for '' @ fp_name fp @ '': snapshot=''
                @ co_debug co (fp_bb_version fp) @ '', live='' @ co_debug co (ca_bb_version a))
     else Ok ())"

definition circuit_path :: "string \<Rightarrow> string \<Rightarrow> string" where
  "circuit_path circuits_dir name = path_join circuits_dir (name @ ''.json'')"

definition materialize_circuit ::
  "host \<Rightarrow> coders \<Rightarrow> registry_client \<Rightarrow> manifest \<Rightarrow> string \<Rightarrow> fingerprint \<Rightarrow> unit io" where
  "materialize_circuit h co c m circuits_dir fp =
    io_bind (io_of (manifest_node m (fp_name fp))) (\<lambda>node.
    io_bind (io_of (check_node fp node)) (\<lambda>_.
    io_bind (fetch_packaged_circuit h co c m (fp_name fp)) (\<lambda>artifact.
    io_bind (io_of (check_artifact co fp artifact)) (\<lambda>_.
    let path = circuit_path circuits_dir (fp_name fp) in
    io_bind (io_of (of_sum (\<lambda>e. [e]) (co_circuit_out co artifact))) (\<lambda>bytes.
    io_context (''failed to write circuit artifact: '' @ path) (write_file h path bytes))))))"

definition materialize_snapshot ::
  "host \<Rightarrow> coders \<Rightarrow> registry_client \<Rightarrow> snapshot \<Rightarrow> string \<Rightarrow> unit io" where
  "materialize_snapshot h co c snapshot out_dir =
    io_bind (fetch_manifest h co c (sn_manifest_version snapshot)) (\<lambda>m.
    if mf_root m \<noteq> sn_manifest_root snapshot
    then io_of (bail (''manifest root mismatch: snapshot='' @ sn_manifest_root snapshot
                      @ '', live='' @ mf_root m))
    else
      io_bind (io_context (''failed to create output directory: '' @ out_dir)
                 (create_dir_all h out_dir)) (\<lambda>_.
      let circuits_dir = path_join out_dir ''circuits'';
          manifest_path = path_join out_dir ''manifest.json'' in
      io_bind (io_context (''failed to create circuits output directory: '' @ circuits_dir)
                 (create_dir_all h circuits_dir)) (\<lambda>_.
      io_bind (io_of (of_sum (\<lambda>e. [e]) (co_manifest_out co m))) (\<lambda>bytes.
      io_bind (io_context (''failed to write manifest file: '' @ manifest_path)
                 (write_file h manifest_path bytes)) (\<lambda>_.
      io_each (materialize_circuit h co c m circuits_dir) (sn_circuits snapshot))))))"

section \<open>What a snapshot records\<close>

lemma manifest_node_Ok [simp]: "manifest_node m name = Ok node \<longleftrightarrow> mf_circuits m name = Some node"
  by (simp add: manifest_node_def)

lemma fingerprint_of_Ok:
  assumes "fingerprint_of h co c m name w = Some (Ok fp, w')"
  shows "fp_name fp = name" and "mf_circuits m name = Some \<lparr>mc_hash = fp_manifest_hash fp, mc_size = fp_manifest_size fp\<rparr>"
  using assms by (auto simp: fingerprint_of_def io_bind_Ok)

lemma io_map_Ok:
  "io_map f xs w = Some (Ok ys, w') \<Longrightarrow> list_all2 (\<lambda>x y. \<exists>w1 w2. f x w1 = Some (Ok y, w2)) xs ys"
proof (induction xs arbitrary: ys w)
  case (Cons x xs)
  then obtain y zs w1 where "ys = y # zs" "f x w = Some (Ok y, w1)" "io_map f xs w1 = Some (Ok zs, w')"
    by (auto simp: io_bind_Ok)
  with Cons.IH show ?case by auto
qed simp

lemma remdups_adj_sorted: "sorted xs \<Longrightarrow> remdups_adj xs = remdups xs"
  by (induction xs rule: remdups_adj.induct) auto

lemma unique_circuits: "remdups_adj (sort xs) = sorted_list_of_set (set xs)"
proof -
  have "remdups_adj (sort xs) = remdups (sort xs)" by (simp add: remdups_adj_sorted)
  moreover have "remdups (sort xs) = sort (remdups xs)"
    by (rule sorted_distinct_set_unique) (simp_all add: sorted_remdups)
  ultimately show ?thesis by (simp add: sorted_list_of_set_sort_remdups)
qed

lemma snapshot_circuits_Ok:
  assumes "snapshot_circuits h co c version names w = Some (Ok s, w')"
  shows "\<exists>m w1. fetch_manifest h co c version w = Some (Ok m, w1)
    \<and> sn_manifest_version s = mf_version m \<and> sn_manifest_root s = mf_root m
    \<and> map fp_name (sn_circuits s) = sorted_list_of_set (set names)
    \<and> (\<forall>fp \<in> set (sn_circuits s). mf_circuits m (fp_name fp)
          = Some \<lparr>mc_hash = fp_manifest_hash fp, mc_size = fp_manifest_size fp\<rparr>)"
proof -
  from assms obtain m w1 fps where m: "fetch_manifest h co c version w = Some (Ok m, w1)"
    and "\<exists>w2. io_map (fingerprint_of h co c m) (sorted_list_of_set (set names)) w1 = Some (Ok fps, w2)"
    and s: "sn_manifest_version s = mf_version m" "sn_manifest_root s = mf_root m" "sn_circuits s = fps"
    by (auto simp: snapshot_circuits_def io_bind_Ok unique_circuits)
  then have all: "list_all2 (\<lambda>name fp. fp_name fp = name \<and> mf_circuits m name
        = Some \<lparr>mc_hash = fp_manifest_hash fp, mc_size = fp_manifest_size fp\<rparr>)
      (sorted_list_of_set (set names)) fps"
    by (auto dest!: io_map_Ok elim!: list_all2_mono dest: fingerprint_of_Ok)
  then have "map fp_name fps = sorted_list_of_set (set names)"
    by (auto simp: list_all2_conv_all_nth intro: nth_equalityI)
  moreover from all have "\<forall>fp \<in> set fps. mf_circuits m (fp_name fp)
        = Some \<lparr>mc_hash = fp_manifest_hash fp, mc_size = fp_manifest_size fp\<rparr>"
    by (auto simp: list_all2_conv_all_nth in_set_conv_nth)
  ultimately show ?thesis using m s by auto
qed

section \<open>What a materialised snapshot has checked\<close>

text \<open>The contract of a fingerprint: the live manifest entry and the artifact agree with it.\<close>

definition fingerprint_agrees :: "manifest \<Rightarrow> fingerprint \<Rightarrow> packaged_circuit \<Rightarrow> bool" where
  "fingerprint_agrees m fp a \<longleftrightarrow>
     mf_circuits m (fp_name fp) = Some \<lparr>mc_hash = fp_manifest_hash fp, mc_size = fp_manifest_size fp\<rparr>
     \<and> ca_vkey_hash a = fp_vkey_hash fp \<and> ca_noir_version a = fp_noir_version fp
     \<and> ca_bb_version a = fp_bb_version fp"

text \<open>Each fingerprint of a snapshot is one of an artifact that was fetched for it.\<close>

lemma snapshot_fingerprints:
  assumes "io_map (fingerprint_of h co c m) names w = Some (Ok fps, w')" and "fp \<in> set fps"
  shows "\<exists>a wa wb. fetch_packaged_circuit h co c m (fp_name fp) wa = Some (Ok a, wb) \<and> fingerprint_agrees m fp a"
proof -
  from io_map_Ok [OF assms(1)] assms(2) obtain name w1 w2
    where "fingerprint_of h co c m name w1 = Some (Ok fp, w2)"
    by (fastforce simp: list_all2_conv_all_nth in_set_conv_nth)
  then obtain a w3 where fetch: "fetch_packaged_circuit h co c m (fp_name fp) w1 = Some (Ok a, w3)"
    and "fingerprint_agrees m fp a"
    by (auto simp: fingerprint_of_def io_bind_Ok fingerprint_agrees_def)
  then show ?thesis by blast
qed

lemma check_node_Ok [simp]:
  "check_node fp node = Ok u \<longleftrightarrow> node = \<lparr>mc_hash = fp_manifest_hash fp, mc_size = fp_manifest_size fp\<rparr>"
  by (cases node) (auto simp: check_node_def)

lemma check_artifact_Ok [simp]:
  "check_artifact co fp a = Ok u \<longleftrightarrow>
     ca_vkey_hash a = fp_vkey_hash fp \<and> ca_noir_version a = fp_noir_version fp
     \<and> ca_bb_version a = fp_bb_version fp"
  by (auto simp: check_artifact_def)

lemma fetch_files:
  "fetch_packaged_circuit h co c m name w = Some (r, w') \<Longrightarrow> wd_files w' = wd_files w"
  "fetch_manifest h co c version w = Some (r', w'') \<Longrightarrow> wd_files w'' = wd_files w"
  by (auto simp: fetch_packaged_circuit_def fetch_manifest_def io_bind_def io_of_def http_get_io_def
      split: outcome.splits)

lemma fetch_logs:
  "io_keeps log_grows (fetch_packaged_circuit h co c m name)"
  by (auto simp: fetch_packaged_circuit_def intro!: logs.keeps_intros logs_effects)

lemma materialize_logs:
  "io_keeps log_grows (materialize_circuit h co c m dir fp)"
  by (auto simp: materialize_circuit_def Let_def intro!: logs.keeps_intros logs_effects fetch_logs)

text \<open>
  One circuit of a snapshot on disk: between two worlds its artifact was fetched, agrees with
  the fingerprint, and its file is the encoding of that very artifact.
\<close>

definition materialized ::
  "host \<Rightarrow> coders \<Rightarrow> registry_client \<Rightarrow> manifest \<Rightarrow> string \<Rightarrow> world \<Rightarrow> world \<Rightarrow> fingerprint \<Rightarrow> bool" where
  "materialized h co c m dir w w' fp \<longleftrightarrow>
     (\<exists>a bytes wa wb. log_grows w wa
        \<and> fetch_packaged_circuit h co c m (fp_name fp) wa = Some (Ok a, wb) \<and> log_grows wb w'
        \<and> fingerprint_agrees m fp a \<and> co_circuit_out co a = Inr bytes
        \<and> wd_files w' (circuit_path dir (fp_name fp)) = Some bytes)"

lemma materialized_earlier: "materialized h co c m dir w w' fp \<Longrightarrow> log_grows w0 w \<Longrightarrow> materialized h co c m dir w0 w' fp"
  unfolding materialized_def by (blast intro: logs.trans)

lemma materialized_later:
  assumes "materialized h co c m dir w w' fp" and "log_grows w' w''"
    and "wd_files w'' (circuit_path dir (fp_name fp)) = wd_files w' (circuit_path dir (fp_name fp))"
  shows "materialized h co c m dir w w'' fp"
proof -
  from assms(1) obtain a bytes wa wb where "log_grows w wa" "log_grows wb w'"
    and "fetch_packaged_circuit h co c m (fp_name fp) wa = Some (Ok a, wb)" "fingerprint_agrees m fp a"
    and "co_circuit_out co a = Inr bytes" "wd_files w' (circuit_path dir (fp_name fp)) = Some bytes"
    unfolding materialized_def by blast
  with assms(2,3) logs.trans show ?thesis
    unfolding materialized_def by (intro exI [of _ a] exI [of _ bytes] exI [of _ wa] exI [of _ wb]) simp
qed

lemma materialize_circuit_Ok:
  assumes "materialize_circuit h co c m dir fp w = Some (Ok (), w')"
  shows "materialized h co c m dir w w' fp"
    and "p \<noteq> circuit_path dir (fp_name fp) \<Longrightarrow> wd_files w' p = wd_files w p"
proof -
  from assms obtain a bytes wb where fetch: "fetch_packaged_circuit h co c m (fp_name fp) w = Some (Ok a, wb)"
    and "fingerprint_agrees m fp a" "co_circuit_out co a = Inr bytes"
    and wrote: "write_file h (circuit_path dir (fp_name fp)) bytes wb = Some (Ok (), w')"
    by (auto simp: materialize_circuit_def io_bind_Ok Let_def fingerprint_agrees_def)
  moreover from wrote have "log_grows wb w'" by (rule io_keepsD [OF logs_effects(2)])
  ultimately show "materialized h co c m dir w w' fp"
    unfolding materialized_def by (auto simp: write_file_Ok intro: logs.refl)
  show "p \<noteq> circuit_path dir (fp_name fp) \<Longrightarrow> wd_files w' p = wd_files w p"
    using wrote fetch_files(1) [OF fetch] by (simp add: write_file_Ok)
qed

lemma circuit_path_inject:
  assumes "\<not> starts_with ''/'' n" and "\<not> starts_with ''/'' n'" and "circuit_path dir n = circuit_path dir n'"
  shows "n = n'"
proof -
  have "\<not> starts_with ''/'' (k @ ''.json'')" if "\<not> starts_with ''/'' k" for k
    using that by (cases k) (auto simp: starts_with_iff)
  with assms show ?thesis by (auto simp: circuit_path_def path_join_def split: if_splits)
qed

lemma circuit_path_manifest:
  "\<not> starts_with ''/'' name \<Longrightarrow>
     circuit_path (path_join out ''circuits'') name \<noteq> path_join out ''manifest.json''"
  by (cases name) (auto simp: circuit_path_def path_join_def starts_with_iff ends_with_def)

lemma materialize_circuits_Ok:
  assumes "io_each (materialize_circuit h co c m dir) fps w = Some (Ok (), w')"
    and "distinct (map fp_name fps)" and "\<forall>fp \<in> set fps. \<not> starts_with ''/'' (fp_name fp)"
  shows "(\<forall>fp \<in> set fps. materialized h co c m dir w w' fp)
    \<and> (\<forall>p. p \<notin> circuit_path dir ` fp_name ` set fps \<longrightarrow> wd_files w' p = wd_files w p)"
  using assms
proof (induction fps arbitrary: w)
  case (Cons fp fps)
  then obtain w1 where first: "materialize_circuit h co c m dir fp w = Some (Ok (), w1)"
    and rest: "io_each (materialize_circuit h co c m dir) fps w1 = Some (Ok (), w')"
    by (auto simp: io_bind_Ok)
  with Cons have IH: "\<forall>fp \<in> set fps. materialized h co c m dir w1 w' fp"
    "\<forall>p. p \<notin> circuit_path dir ` fp_name ` set fps \<longrightarrow> wd_files w' p = wd_files w1 p" by auto
  have grows: "log_grows w w1" "log_grows w1 w'"
    using io_keepsD [OF materialize_logs first] io_keepsD [OF logs.keeps_each rest] materialize_logs by auto
  have "circuit_path dir (fp_name fp) \<notin> circuit_path dir ` fp_name ` set fps"
    using Cons.prems(2,3) circuit_path_inject [of "fp_name fp" _ dir] by auto
  with IH(2) have "wd_files w' (circuit_path dir (fp_name fp)) = wd_files w1 (circuit_path dir (fp_name fp))" by simp
  with materialize_circuit_Ok(1) [OF first] grows have "materialized h co c m dir w w' fp"
    by (blast intro: materialized_later)
  with IH grows materialize_circuit_Ok(2) [OF first] show ?case
    by (auto intro: materialized_earlier)
qed simp

lemma materialize_snapshot_Ok:
  assumes run: "materialize_snapshot h co c s out_dir w = Some (Ok (), w')"
    and names: "distinct (map fp_name (sn_circuits s))"
      "\<forall>fp \<in> set (sn_circuits s). \<not> starts_with ''/'' (fp_name fp)"
  shows "\<exists>m w1 bytes. fetch_manifest h co c (sn_manifest_version s) w = Some (Ok m, w1)
    \<and> mf_root m = sn_manifest_root s
    \<and> co_manifest_out co m = Inr bytes \<and> wd_files w' (path_join out_dir ''manifest.json'') = Some bytes
    \<and> (\<forall>fp \<in> set (sn_circuits s). materialized h co c m (path_join out_dir ''circuits'') w1 w' fp)"
proof -
  let ?dir = "path_join out_dir ''circuits''"
  from run obtain m w1 w2 w3 w4 bytes
    where m: "fetch_manifest h co c (sn_manifest_version s) w = Some (Ok m, w1)"
      and root: "mf_root m = sn_manifest_root s" and bytes: "co_manifest_out co m = Inr bytes"
      and steps: "create_dir_all h out_dir w1 = Some (Ok (), w2)" "create_dir_all h ?dir w2 = Some (Ok (), w3)"
        "write_file h (path_join out_dir ''manifest.json'') bytes w3 = Some (Ok (), w4)"
      and each: "io_each (materialize_circuit h co c m ?dir) (sn_circuits s) w4 = Some (Ok (), w')"
    by (auto simp: materialize_snapshot_def io_bind_Ok Let_def split: if_splits)
  from steps have grows: "log_grows w1 w2" "log_grows w2 w3" "log_grows w3 w4"
    by (auto elim: io_keepsD [OF logs_effects(1)] io_keepsD [OF logs_effects(2)])
  from logs.trans [OF logs.trans [OF grows(1,2)] grows(3)] have "log_grows w1 w4" .
  moreover from steps have "wd_files w4 (path_join out_dir ''manifest.json'') = Some bytes"
    by (simp add: write_file_Ok)
  moreover have "path_join out_dir ''manifest.json'' \<notin> circuit_path ?dir ` fp_name ` set (sn_circuits s)"
    using names(2) circuit_path_manifest [THEN not_sym] by auto
  moreover note materialize_circuits_Ok [OF each names]
  ultimately have "wd_files w' (path_join out_dir ''manifest.json'') = Some bytes"
    and "\<forall>fp \<in> set (sn_circuits s). materialized h co c m ?dir w1 w' fp"
    by (auto elim: materialized_earlier)
  with m root bytes show ?thesis by blast
qed

text \<open>A registry whose root has moved on is refused before anything is written.\<close>

lemma materialize_snapshot_stale:
  assumes "fetch_manifest h co c (sn_manifest_version s) w = Some (Ok m, w1)"
    and "mf_root m \<noteq> sn_manifest_root s"
  shows "\<exists>e. materialize_snapshot h co c s out_dir w = Some (Err e, w1) \<and> wd_files w1 = wd_files w"
  using assms fetch_files(2) [OF assms(1)]
  by (simp add: materialize_snapshot_def io_bind_def io_of_def bail_def)

section \<open>Properties of the registry\<close>

text \<open>
  A snapshot that is taken lists each requested circuit once, in byte order, with the
  hash and the size that the fetched manifest has for it, under the manifest's version
  and root.
\<close>

theorem snapshot_lists_requested_circuits:
  assumes "snapshot_circuits h co c version names w = Some (Ok s, w')"
  shows "\<exists>m w1. fetch_manifest h co c version w = Some (Ok m, w1)
    \<and> sn_manifest_version s = mf_version m \<and> sn_manifest_root s = mf_root m
    \<and> map fp_name (sn_circuits s) = sorted_list_of_set (set names)
    \<and> (\<forall>fp \<in> set (sn_circuits s). mf_circuits m (fp_name fp)
          = Some \<lparr>mc_hash = fp_manifest_hash fp, mc_size = fp_manifest_size fp\<rparr>)"
  by (rule snapshot_circuits_Ok [OF assms])

definition example_manifest :: manifest where
  "example_manifest =
    \<lparr>mf_version = ''0.18.0'', mf_root = ''0xroot'',
     mf_circuits = [''b'' \<mapsto> \<lparr>mc_hash = ''0xb'', mc_size = 2\<rparr>, ''a'' \<mapsto> \<lparr>mc_hash = ''0xa'', mc_size = 1\<rparr>]\<rparr>"

definition example_circuit :: packaged_circuit where
  "example_circuit =
    \<lparr>ca_name = Some ''a'', ca_noir_version = Some ''1'', ca_bb_version = Some ''4'', ca_size = None,
     ca_abi = JNull, ca_bytecode = ''AA=='', ca_vkey = ''AA=='', ca_vkey_hash = ''0xvk'', ca_hash = None\<rparr>"

definition example_coders :: coders where
  "example_coders =
    \<lparr>co_gunzip = \<lambda>_. Inl ''gzip'', co_manifest_in = \<lambda>_. Inr example_manifest,
     co_circuit_in = \<lambda>_. Inr example_circuit, co_manifest_out = \<lambda>_. Inr [1],
     co_circuit_out = \<lambda>_. Inr [2], co_debug = \<lambda>_. []\<rparr>"

definition example_registry :: registry_client where
  "example_registry = \<lparr>rl_manifest_base_url = ''m'', rl_artifact_base_url = ''a''\<rparr>"

definition example_fingerprint :: "string \<Rightarrow> string \<Rightarrow> u64 \<Rightarrow> fingerprint" where
  "example_fingerprint name hash sz =
    \<lparr>fp_name = name, fp_manifest_hash = hash, fp_manifest_size = sz, fp_noir_version = Some ''1'',
     fp_bb_version = Some ''4'', fp_vkey_hash = ''0xvk''\<rparr>"

definition example_snapshot :: snapshot where
  "example_snapshot =
    \<lparr>sn_generated_at_unix = 1, sn_manifest_version = ''0.18.0'', sn_manifest_root = ''0xroot'',
     sn_circuits = [example_fingerprint ''a'' ''0xa'' 1, example_fingerprint ''b'' ''0xb'' 2]\<rparr>"

lemmas example_run_defs = io_bind_def io_return_def io_of_def io_context_def http_get_io_def
  reply_body_def decode_json_bytes_def is_gzip_def example_host_def example_coders_def
  example_manifest_def example_circuit_def example_snapshot_def example_fingerprint_def

lemma example_fetches:
  "fetch_manifest (example_host (\<lambda>_. Received [1])) example_coders c version w
    = Some (Ok example_manifest, note_event (Got (manifest_url c version)) w)"
  "name = ''a'' \<or> name = ''b'' \<Longrightarrow>
   \<exists>w'. fetch_packaged_circuit (example_host (\<lambda>_. Received [1])) example_coders c example_manifest name w
    = Some (Ok example_circuit, w')"
  by (auto simp: fetch_manifest_def manifest_of_reply_def fetch_packaged_circuit_def circuit_of_reply_def
      manifest_node_def example_run_defs)

lemma example_unique: "sorted_list_of_set (set [''b'', ''a'', ''b'']) = [''a'', ''b'']"
proof -
  have "remdups_adj (sort [''b'', ''a'', ''b'']) = [''a'', ''b'']" by code_simp
  then show ?thesis by (simp only: unique_circuits)
qed

lemma example_snapshot_run:
  "\<exists>w'. snapshot_circuits (example_host (\<lambda>_. Received [1])) example_coders example_registry ''0.18.0''
      [''b'', ''a'', ''b''] empty_world = Some (Ok example_snapshot, w')"
proof -
  let ?h = "example_host (\<lambda>_. Received [1])"
  have step: "\<exists>w'. fingerprint_of ?h example_coders example_registry example_manifest name w
      = Some (Ok (example_fingerprint name hash sz), w')"
    if "(name, hash, sz) = (''a'', ''0xa'', 1) \<or> (name, hash, sz) = (''b'', ''0xb'', 2)" for name hash sz w
  proof -
    from that example_fetches(2) [of name example_registry w] obtain w'
      where "fetch_packaged_circuit ?h example_coders example_registry example_manifest name w
        = Some (Ok example_circuit, w')" by auto
    with that show ?thesis
      by (auto simp: fingerprint_of_def io_bind_def io_of_def io_return_def manifest_node_def
          example_manifest_def example_circuit_def example_fingerprint_def)
  qed
  let ?w1 = "note_event (Got (manifest_url example_registry ''0.18.0'')) empty_world"
  obtain w2 where w2: "fingerprint_of ?h example_coders example_registry example_manifest ''a'' ?w1
      = Some (Ok (example_fingerprint ''a'' ''0xa'' 1), w2)" using step by blast
  obtain w3 where w3: "fingerprint_of ?h example_coders example_registry example_manifest ''b'' w2
      = Some (Ok (example_fingerprint ''b'' ''0xb'' 2), w3)" using step by blast
  have "ho_now ?h w = Inr 1" for w by (simp add: example_host_def)
  with w2 w3 have "snapshot_circuits ?h example_coders example_registry ''0.18.0'' [''b'', ''a'', ''b''] empty_world
      = Some (Ok example_snapshot, w3)"
    unfolding snapshot_circuits_def unique_circuits example_unique
    by (simp add: example_fetches io_bind_def io_return_def io_now_def)
      (simp add: example_snapshot_def example_manifest_def)
  then show ?thesis ..
qed

theorem snapshot_lists_requested_circuits_witness:
  "\<exists>s w'. snapshot_circuits (example_host (\<lambda>_. Received [1])) example_coders example_registry ''0.18.0''
      [''b'', ''a'', ''b''] empty_world = Some (Ok s, w') \<and> map fp_name (sn_circuits s) = [''a'', ''b'']"
proof -
  from example_snapshot_run obtain w' where run: "snapshot_circuits (example_host (\<lambda>_. Received [1]))
      example_coders example_registry ''0.18.0'' [''b'', ''a'', ''b''] empty_world = Some (Ok example_snapshot, w')" ..
  with snapshot_lists_requested_circuits [OF run] example_unique show ?thesis by auto
qed

text \<open>
  C5. A snapshot that is materialised has been checked and is on disk: the live manifest has
  the snapshot's root and is what \<open>manifest.json\<close> encodes, and for each circuit of the
  snapshot the live entry has its hash and size, its artifact was fetched in this run, has
  the snapshot's verification key hash and tool versions, and is itself, whole, what the
  circuit's file encodes. It is assumed that no circuit is listed twice (the later copy
  would overwrite the earlier) and that no circuit's name starts with a slash (the file
  would then be written elsewhere).
\<close>

theorem materialized_snapshot_is_checked:
  assumes "materialize_snapshot h co c s out_dir w = Some (Ok (), w')"
    and "distinct (map fp_name (sn_circuits s))"
    and "\<forall>fp \<in> set (sn_circuits s). \<not> starts_with ''/'' (fp_name fp)"
  shows "\<exists>m w1 mbytes. fetch_manifest h co c (sn_manifest_version s) w = Some (Ok m, w1)
    \<and> mf_root m = sn_manifest_root s
    \<and> co_manifest_out co m = Inr mbytes \<and> wd_files w' (path_join out_dir ''manifest.json'') = Some mbytes
    \<and> (\<forall>fp \<in> set (sn_circuits s). \<exists>a bytes wa wb.
         log_grows w1 wa \<and> fetch_packaged_circuit h co c m (fp_name fp) wa = Some (Ok a, wb) \<and> log_grows wb w'
         \<and> fingerprint_agrees m fp a \<and> co_circuit_out co a = Inr bytes
         \<and> wd_files w' (circuit_path (path_join out_dir ''circuits'') (fp_name fp)) = Some bytes)"
  using materialize_snapshot_Ok [OF assms] unfolding materialized_def by blast

theorem materialized_snapshot_is_checked_witness:
  "\<exists>w'. materialize_snapshot (example_host (\<lambda>_. Received [1])) example_coders example_registry
      example_snapshot ''out'' empty_world = Some (Ok (), w')
    \<and> wd_files w' ''out/circuits/b.json'' = Some [2]"
proof -
  let ?h = "example_host (\<lambda>_. Received [1])"
  have "\<exists>w'. materialize_snapshot ?h example_coders example_registry example_snapshot ''out'' empty_world
      = Some (Ok (), w')"
    by (simp add: materialize_snapshot_def materialize_circuit_def fetch_manifest_def manifest_of_reply_def
        fetch_packaged_circuit_def circuit_of_reply_def manifest_node_def create_dir_all_def write_file_def attempt_def Let_def
        check_node_def check_artifact_def example_run_defs)
  then obtain w' where run: "materialize_snapshot ?h example_coders example_registry example_snapshot ''out'' empty_world
      = Some (Ok (), w')" ..
  have "circuit_path (path_join ''out'' ''circuits'') ''b'' = ''out/circuits/b.json''" by code_simp
  with materialized_snapshot_is_checked [OF run] run show ?thesis
    by (auto simp: example_snapshot_def example_fingerprint_def example_coders_def starts_with_def)
qed

text \<open>
  When the live manifest's root is not the snapshot's, materialising fails before any
  file is written.
\<close>

theorem stale_snapshot_writes_nothing:
  assumes "fetch_manifest h co c (sn_manifest_version s) w = Some (Ok m, w1)"
    and "mf_root m \<noteq> sn_manifest_root s"
  shows "\<exists>e. materialize_snapshot h co c s out_dir w = Some (Err e, w1) \<and> wd_files w1 = wd_files w"
  by (rule materialize_snapshot_stale [OF assms])

theorem stale_snapshot_writes_nothing_witness:
  "\<exists>e w1. materialize_snapshot (example_host (\<lambda>_. Received [1])) example_coders example_registry
      (example_snapshot\<lparr>sn_manifest_root := ''0xold''\<rparr>) ''out'' empty_world = Some (Err e, w1)
    \<and> wd_files w1 = wd_files empty_world"
proof -
  let ?s = "example_snapshot\<lparr>sn_manifest_root := ''0xold''\<rparr>"
  have "mf_root example_manifest \<noteq> sn_manifest_root ?s" by (simp add: example_manifest_def)
  from stale_snapshot_writes_nothing [OF example_fetches(1) this]
  show ?thesis by blast
qed

end
