(* ===== verification/Artifacts.thy ===== *)
theory Artifacts
  imports Registry
begin

text \<open>
  The artifact store, \<open>crates/prover-core/src/artifacts.rs\<close>: the manifest and packaged
  circuits from a local directory when they are there, else from the registry.
\<close>

record artifact_store =
  as_local_root :: "string option"
  as_registry :: "registry_client option"

definition store_local :: "string \<Rightarrow> artifact_store" where
  "store_local root = \<lparr>as_local_root = Some root, as_registry = None\<rparr>"

definition store_local_with_registry_fallback :: "string \<Rightarrow> registry_client \<Rightarrow> artifact_store" where
  "store_local_with_registry_fallback root c = \<lparr>as_local_root = Some root, as_registry = Some c\<rparr>"

definition store_registry :: "registry_client \<Rightarrow> artifact_store" where
  "store_registry c = \<lparr>as_local_root = None, as_registry = Some c\<rparr>"

definition load_json_file :: "host \<Rightarrow> 'a from_json \<Rightarrow> string \<Rightarrow> 'a io" where
  "load_json_file h = read_json h ''failed to read JSON file: '' ''failed to parse JSON file: ''"

text \<open>\<open>if path.exists() \{ return load_json_file(&path) \}\<close>, and what follows it.\<close>

definition local_first :: "host \<Rightarrow> 'a from_json \<Rightarrow> string option \<Rightarrow> 'a io \<Rightarrow> 'a io" where
  "local_first h parse path fallback =
    (case path of
       None \<Rightarrow> fallback
     | Some p \<Rightarrow> io_bind (io_exists p) (\<lambda>found. if found then load_json_file h parse p else fallback))"

definition local_manifest_path :: "artifact_store \<Rightarrow> string option" where
  "local_manifest_path store = map_option (\<lambda>root. path_join root ''manifest.json'') (as_local_root store)"

definition local_circuit_path :: "artifact_store \<Rightarrow> string \<Rightarrow> string option" where
  "local_circuit_path store name =
    map_option (\<lambda>root. path_join (path_join root ''circuits'') (name @ ''.json'')) (as_local_root store)"

definition load_manifest :: "host \<Rightarrow> coders \<Rightarrow> artifact_store \<Rightarrow> string \<Rightarrow> manifest io" where
  "load_manifest h co store version =
    local_first h (co_manifest_in co \<circ> as_bytes) (local_manifest_path store)
      (case as_registry store of
         Some registry \<Rightarrow> fetch_manifest h co registry version
       | None \<Rightarrow> io_of (bail ''manifest not available locally and no registry fallback configured''))"

definition load_packaged_circuit ::
  "host \<Rightarrow> coders \<Rightarrow> artifact_store \<Rightarrow> string \<Rightarrow> string \<Rightarrow> packaged_circuit io" where
  "load_packaged_circuit h co store version name =
    local_first h (co_circuit_in co \<circ> as_bytes) (local_circuit_path store name)
      (case as_registry store of
         Some registry \<Rightarrow>
           io_bind (load_manifest h co store version) (\<lambda>m. fetch_packaged_circuit h co registry m name)
       | None \<Rightarrow> io_of (bail (''circuit '' @ name
                    @ '' not available locally and no registry fallback configured'')))"

section \<open>Local files come first\<close>

text \<open>The requests of a run, and what runs without any.\<close>

fun is_request :: "event \<Rightarrow> bool" where
  "is_request (Got _) = True"
| "is_request (Posted _ _) = True"
| "is_request _ = False"

definition requests :: "world \<Rightarrow> event list" where
  "requests w = filter is_request (wd_log w)"

lemma load_json_file_offline:
  "load_json_file h parse p w = Some (r, w') \<Longrightarrow> requests w' = requests w \<and> wd_files w' = wd_files w"
  by (auto simp: load_json_file_def read_json_def io_bind_def io_of_def io_context_def read_to_string_def
      read_file_def attempt_def requests_def split: option.splits outcome.splits)

lemma local_first_found:
  "path_exists w p \<Longrightarrow> local_first h parse (Some p) fallback w = load_json_file h parse p w"
  by (simp add: local_first_def io_bind_def io_exists_def)

lemma local_first_missing:
  "\<not> path_exists w p \<Longrightarrow> local_first h parse (Some p) fallback w = fallback w"
  by (simp add: local_first_def io_bind_def io_exists_def)

text \<open>
  The contract of a store of circuits: loading one that is at hand makes no request and
  changes no file, and depends only on the file.
\<close>

locale offline_source =
  fixes load :: "string \<Rightarrow> string \<Rightarrow> 'a io" and at_hand :: "world \<Rightarrow> string \<Rightarrow> bool"
  assumes load_offline: "at_hand w name \<Longrightarrow> load version name w = Some (r, w') \<Longrightarrow>
      requests w' = requests w \<and> wd_files w' = wd_files w"
    and at_hand_files: "wd_files w' = wd_files w \<Longrightarrow> at_hand w name \<Longrightarrow> at_hand w' name"
begin

lemma load_all_offline:
  assumes "\<forall>name \<in> set names. at_hand w name"
    and "io_map (load version) names w = Some (r, w')"
  shows "requests w' = requests w \<and> wd_files w' = wd_files w"
  using assms
proof (induction names arbitrary: w r)
  case Nil
  then show ?case by (simp add: io_return_def)
next
  case (Cons name names)
  from Cons.prems(2) obtain r1 w1 where w1: "load version name w = Some (r1, w1)"
    by (auto simp: io_bind_def split: option.splits)
  with load_offline Cons.prems(1) have same: "requests w1 = requests w" "wd_files w1 = wd_files w" by auto
  with at_hand_files Cons.prems(1) have hand: "\<forall>name \<in> set names. at_hand w1 name" by auto
  show ?case
  proof (cases r1)
    case (Ok x)
    with Cons.prems(2) w1 obtain r2 where w2: "io_map (load version) names w1 = Some (r2, w')"
      by (auto simp: io_bind_def io_return_def split: option.splits outcome.splits)
    with Cons.IH [OF hand w2] same show ?thesis by simp
  next
    case (Err e)
    with Cons.prems(2) w1 same show ?thesis by (simp add: io_bind_def)
  next
    case (Panic p)
    with Cons.prems(2) w1 same show ?thesis by (simp add: io_bind_def)
  qed
qed

end

definition circuit_at_hand :: "artifact_store \<Rightarrow> world \<Rightarrow> string \<Rightarrow> bool" where
  "circuit_at_hand store w name \<longleftrightarrow>
     (\<exists>p. local_circuit_path store name = Some p \<and> wd_files w p \<noteq> None)"

interpretation store: offline_source "load_packaged_circuit h co st" "circuit_at_hand st" for h co st
proof unfold_locales
  fix w name version r w'
  assume "circuit_at_hand st w name" "load_packaged_circuit h co st version name w = Some (r, w')"
  then obtain p where "load_json_file h (co_circuit_in co \<circ> as_bytes) p w = Some (r, w')"
    by (auto simp: circuit_at_hand_def load_packaged_circuit_def local_first_found path_exists_def)
  then show "requests w' = requests w \<and> wd_files w' = wd_files w" by (rule load_json_file_offline)
qed (auto simp: circuit_at_hand_def)

lemma load_manifest_local:
  "local_manifest_path store = Some p \<Longrightarrow> path_exists w p \<Longrightarrow>
     load_manifest h co store version w = load_json_file h (co_manifest_in co \<circ> as_bytes) p w"
  by (simp add: load_manifest_def local_first_found)

section \<open>Properties of the store\<close>

text \<open>
  C34. Loading circuits whose files are in the local directory makes no HTTP request and
  changes no file, however many are loaded, whether or not a registry is configured, and
  even when one of the files fails to parse.
\<close>

theorem local_circuits_load_offline:
  assumes "\<forall>name \<in> set names. \<exists>p. local_circuit_path store name = Some p \<and> wd_files w p \<noteq> None"
    and "io_map (load_packaged_circuit h co store version) names w = Some (r, w')"
  shows "requests w' = requests w \<and> wd_files w' = wd_files w"
  using assms by (intro store.load_all_offline) (auto simp: circuit_at_hand_def)

definition example_world :: world where
  "example_world = empty_world\<lparr>wd_files := [''root/circuits/a.json'' \<mapsto> [1], ''root/circuits/b.json'' \<mapsto> [2]]\<rparr>"

lemma example_circuit_paths:
  "local_circuit_path (store_local_with_registry_fallback ''root'' c) ''a'' = Some ''root/circuits/a.json''"
  "local_circuit_path (store_local_with_registry_fallback ''root'' c) ''b'' = Some ''root/circuits/b.json''"
  by (simp_all add: local_circuit_path_def store_local_with_registry_fallback_def path_join_def
      starts_with_def ends_with_def)

theorem local_circuits_load_offline_witness:
  "\<exists>r w'. io_map (load_packaged_circuit (example_host (\<lambda>_. Send_failed ''offline'')) example_coders
        (store_local_with_registry_fallback ''root'' example_registry) ''0.18.0'') [''a'', ''b''] example_world
      = Some (r, w') \<and> requests w' = []"
proof -
  let ?load = "load_packaged_circuit (example_host (\<lambda>_. Send_failed ''offline'')) example_coders
      (store_local_with_registry_fallback ''root'' example_registry) ''0.18.0''"
  have files: "wd_files example_world ''root/circuits/a.json'' \<noteq> None"
    "wd_files example_world ''root/circuits/b.json'' \<noteq> None"
    by (simp_all add: example_world_def)
  have run: "\<exists>r w'. io_map ?load [''a'', ''b''] example_world = Some (r, w')"
    by (simp add: load_packaged_circuit_def example_circuit_paths local_first_def io_exists_def
        path_exists_def example_world_def empty_world_def load_json_file_def read_json_def read_to_string_def
        read_file_def attempt_def example_run_defs from_utf8_def note_event_def)
  then obtain r w' where run: "io_map ?load [''a'', ''b''] example_world = Some (r, w')" by blast
  from local_circuits_load_offline [OF _ run] files
  have "requests w' = requests example_world" by (simp add: example_circuit_paths)
  with run show ?thesis by (auto simp: requests_def example_world_def empty_world_def)
qed

text \<open>
  A circuit that is not in the local directory comes from the registry, under the
  manifest that the store itself loads, so that a local manifest pins the artifacts that
  are fetched; without a registry the error names the circuit.
\<close>

theorem missing_circuit_comes_from_registry:
  assumes "local_circuit_path store name = Some p" and "\<not> path_exists w p"
  shows "load_packaged_circuit h co store version name w =
    (case as_registry store of
       Some registry \<Rightarrow>
         io_bind (load_manifest h co store version) (\<lambda>m. fetch_packaged_circuit h co registry m name) w
     | None \<Rightarrow> Some (Err [''circuit '' @ name
         @ '' not available locally and no registry fallback configured''], w))"
  using assms
  by (simp add: load_packaged_circuit_def local_first_missing io_of_def bail_def split: option.split)

theorem missing_circuit_comes_from_registry_witness:
  "load_packaged_circuit (example_host (\<lambda>_. Send_failed ''offline'')) example_coders (store_local ''root'')
     ''0.18.0'' ''c'' example_world
   = Some (Err [''circuit c not available locally and no registry fallback configured''], example_world)"
proof -
  have "local_circuit_path (store_local ''root'') ''c'' = Some ''root/circuits/c.json''"
    by (simp add: local_circuit_path_def store_local_def path_join_def starts_with_def ends_with_def)
  from missing_circuit_comes_from_registry [OF this, of example_world] show ?thesis
    by (simp add: path_exists_def example_world_def empty_world_def store_local_def)
qed

lemma as_bytes_of_text [simp]: "as_bytes (map byte_char bytes) = bytes"
  by (simp add: as_bytes_def comp_def)






end
