(* ===== verification/Certificates.thy ===== *)
theory Certificates
  imports Config Analysis
begin

text \<open>
  The packaged CSCA certificates, \<open>crates/prover-core/src/certificates.rs\<close>: fetching
  the registry's latest root and the certificates under a root, choosing the CSCA of a
  document, and the circuit context that follows from both.
\<close>

section \<open>Packaged certificates\<close>

datatype packaged_key =
    KeyEC string u32 string string
  | KeyRSA u32 string u64

record validity =
  va_not_before :: u64
  va_not_after :: u64

record key_usage_period =
  ku_not_before :: "u64 option"
  ku_not_after :: "u64 option"

record packaged_certificate =
  ct_country :: string
  ct_signature_algorithm :: string
  ct_hash_algorithm :: string
  ct_public_key :: packaged_key
  ct_validity :: validity
  ct_private_key_usage_period :: "key_usage_period option"
  ct_subject_key_identifier :: "string option"
  ct_authority_key_identifier :: "string option"
  ct_fingerprint :: "string option"
  ct_tags :: "string list"
  ct_type :: "string option"

record certificates_file =
  pf_version :: u64
  pf_timestamp :: u64
  pf_root :: string
  pf_certificates :: "packaged_certificate list"
  pf_serialised :: "string list list"

record certificate_client =
  cl_rpc_url :: string
  cl_root_registry :: string
  cl_certificate_base_url :: string

definition certificate_client_from_matrix :: "compatibility_matrix \<Rightarrow> certificate_client" where
  "certificate_client_from_matrix m =
    \<lparr>cl_rpc_url = rg_rpc_url (cm_registry m),
     cl_root_registry = rg_root_registry (cm_registry m),
     cl_certificate_base_url = rg_certificate_base_url (cm_registry m)\<rparr>"

section \<open>Hashes\<close>

definition strip_0x :: "string \<Rightarrow> string" where
  "strip_0x value = (case strip_prefix ''0x'' value of Some s \<Rightarrow> s | None \<Rightarrow> value)"

definition normalize_hash :: "string \<Rightarrow> string" where
  "normalize_hash value = ''0x'' @ pad_left_zeros 64 (to_ascii_lowercase (strip_0x value))"

section \<open>Fetching\<close>

definition certificate_registry_id :: nat where
  "certificate_registry_id = 1"

definition latest_root_with_param_signature :: string where
  "latest_root_with_param_signature = ''0xc3bc16e8''"

text \<open>The JSON-RPC request; \<open>serde_json\<close>'s maps list their keys in order.\<close>

definition latest_root_payload :: "certificate_client \<Rightarrow> json" where
  "latest_root_payload c =
    (let data = latest_root_with_param_signature @ pad_left_zeros 64 (hex_nat certificate_registry_id) in
     JObject
       [(''id'', JNumber (PosInt 1)),
        (''jsonrpc'', JString ''2.0''),
        (''method'', JString ''eth_call''),
        (''params'', JArray
          [JObject [(''data'', JString data), (''to'', JString (cl_root_registry c))],
           JString ''latest''])])"

text \<open>The reply with its body decoded as JSON (\<open>json()\<close>); \<open>show\<close> prints a JSON value.\<close>

definition latest_root_of_reply :: "(json \<Rightarrow> string) \<Rightarrow> string \<Rightarrow> json http_reply \<Rightarrow> string result" where
  "latest_root_of_reply show url reply =
    and_then
      (reply_body (''failed to call RPC endpoint: '' @ url) (''RPC request failed: '' @ url)
         ''failed to decode RPC response JSON'' reply) (\<lambda>value.
    case json_get value ''error'' of
      Some error \<Rightarrow> bail (''RPC returned error: '' @ show error)
    | None \<Rightarrow>
        and_then (opt_context ''RPC result field missing or not a string''
                    (Option.bind (json_get value ''result'') as_str)) (\<lambda>root.
        Ok (normalize_hash root)))"

definition fetch_latest_root :: "host \<Rightarrow> (json \<Rightarrow> string) \<Rightarrow> certificate_client \<Rightarrow> string io" where
  "fetch_latest_root h show c =
    io_bind (http_post_io h (cl_rpc_url c) (latest_root_payload c)) (\<lambda>reply.
    io_of (latest_root_of_reply show (cl_rpc_url c) reply))"

text \<open>The third-party decoders: gzip, and the deserialisers of the registry's files.\<close>

definition certificates_of_reply ::
  "(u8 list \<Rightarrow> string + u8 list) \<Rightarrow> (u8 list \<Rightarrow> string + certificates_file) \<Rightarrow> string \<Rightarrow> string
     \<Rightarrow> u8 list http_reply \<Rightarrow> certificates_file result" where
  "certificates_of_reply gunzip parse root url reply =
    and_then
      (reply_body (''failed to GET certificates: '' @ url) (''certificate request failed: '' @ url)
         (''failed to read certificate bytes: '' @ url) reply) (\<lambda>bytes.
    and_then (with_context (''invalid certificate JSON: '' @ url)
                (decode_json_bytes gunzip parse bytes url)) (\<lambda>packaged.
    let packaged = (if pf_root packaged = [] then packaged\<lparr>pf_root := root\<rparr> else packaged) in
    if normalize_hash (pf_root packaged) \<noteq> root
    then bail (''certificate root mismatch: requested='' @ root @ '', received='' @ pf_root packaged)
    else Ok packaged))"

definition fetch_certificates ::
  "host \<Rightarrow> (json \<Rightarrow> string) \<Rightarrow> (u8 list \<Rightarrow> string + u8 list) \<Rightarrow> (u8 list \<Rightarrow> string + certificates_file)
     \<Rightarrow> certificate_client \<Rightarrow> string option \<Rightarrow> certificates_file io" where
  "fetch_certificates h show gunzip parse c root =
    io_bind (case root of
               Some r \<Rightarrow> io_return (normalize_hash r)
             | None \<Rightarrow> fetch_latest_root h show c) (\<lambda>root.
    let url = cl_certificate_base_url c @ ''/'' @ root @ ''.json'' in
    io_bind (http_get_io h url) (\<lambda>reply. io_of (certificates_of_reply gunzip parse root url reply)))"

section \<open>The CSCA of a document\<close>

text \<open>A stable sort by key, \<open>sort_by_key\<close>.\<close>

definition sort_candidate_certificates ::
  "document_analysis \<Rightarrow> packaged_certificate list \<Rightarrow> packaged_certificate list" where
  "sort_candidate_certificates analysis certs =
    sort_key (\<lambda>cert.
      if eq_ignore_ascii_case (ct_signature_algorithm cert) (da_dsc_parent_signature_algorithm analysis)
      then 0 else (1 :: nat)) certs"

definition first :: "'a list \<Rightarrow> 'a option" where
  "first xs = (case xs of [] \<Rightarrow> None | x # _ \<Rightarrow> Some x)"

definition resolve_csca :: "document_analysis \<Rightarrow> certificates_file \<Rightarrow> packaged_certificate option" where
  "resolve_csca analysis packaged =
    (let same_country =
           filter (\<lambda>cert. eq_ignore_ascii_case (ct_country cert) (da_dsc_country analysis))
             (pf_certificates packaged)
     in
     if same_country = [] then None
     else
       let aki = map_option normalize_hash (da_dsc_authority_key_identifier analysis);
           aki_matches =
             filter (\<lambda>cert.
               case aki of
                 None \<Rightarrow> False
               | Some aki \<Rightarrow>
                   (case ct_subject_key_identifier cert of
                      Some ski \<Rightarrow> normalize_hash ski = aki
                    | None \<Rightarrow> False)) same_country
       in case first (sort_candidate_certificates analysis aki_matches) of
            Some cert \<Rightarrow> Some cert
          | None \<Rightarrow> first (sort_candidate_certificates analysis same_country))"

definition derive_document_circuit_context ::
  "document_analysis \<Rightarrow> packaged_certificate \<Rightarrow> string \<Rightarrow> circuit_context result" where
  "derive_document_circuit_context analysis csca outer_circuit =
    and_then
      (case ct_public_key csca of
         KeyEC curve _ _ _ \<Rightarrow> and_then (curve_from_zkpassport_name curve) (\<lambda>c. Ok (Ecdsa c))
       | KeyRSA key_size _ _ \<Rightarrow>
           Ok (if eq_ignore_ascii_case (ct_signature_algorithm csca) ''RSA-PSS''
               then RsaPss key_size else RsaPkcs key_size)) (\<lambda>dsc_key.
    Ok \<lparr>cc_dsc = \<lparr>cs_tbs_bucket = da_tbs_bucket analysis, cs_key = dsc_key,
                  cs_hash = da_dsc_signature_hash analysis\<rparr>,
        cc_id_data = \<lparr>cs_tbs_bucket = da_tbs_bucket analysis, cs_key = da_id_data_public_key analysis,
                      cs_hash = da_sod_signature_hash analysis\<rparr>,
        cc_dg_hash = da_dg_hash analysis,
        cc_outer_circuit = outer_circuit\<rparr>)"

section \<open>Normalised hashes\<close>

lemma strip_0x_prefix [simp]: "strip_0x (''0x'' @ s) = s"
  using strip_prefix_append [of "''0x''" s] by (simp add: strip_0x_def)

lemma lower_zeros [simp]: "to_ascii_lowercase (replicate n CHR ''0'') = replicate n CHR ''0''"
  by (simp add: to_ascii_lowercase_def ascii_lower_def)

lemma lower_pad: "to_ascii_lowercase (pad_left_zeros n s) = pad_left_zeros n (to_ascii_lowercase s)"
  by (simp add: pad_left_zeros_def)

lemma normalize_hash_idem: "normalize_hash (normalize_hash v) = normalize_hash v"
  using strip_0x_prefix [of "pad_left_zeros 64 (to_ascii_lowercase (strip_0x v))"]
  by (simp add: normalize_hash_def [of "normalize_hash v"]) (simp add: normalize_hash_def lower_pad)

lemma is_ascii_lower: "is_ascii s \<Longrightarrow> is_ascii (to_ascii_lowercase s)"
  by (auto simp: is_ascii_def to_ascii_lowercase_def ascii_lower_def Let_def)

lemma is_ascii_strip: "is_ascii s \<Longrightarrow> is_ascii (strip_0x s)"
  by (auto simp: is_ascii_def strip_0x_def strip_prefix_Some split: option.splits)

definition hash_digits :: "string \<Rightarrow> string" where
  "hash_digits v = dropWhile (\<lambda>c. c = CHR ''0'') (to_ascii_lowercase (strip_0x v))"

lemma dropWhile_zeros_append:
  "dropWhile (\<lambda>c. c = CHR ''0'') (replicate n CHR ''0'' @ s) = dropWhile (\<lambda>c. c = CHR ''0'') s"
  by (induction n) auto

lemma dropWhile_pad: "dropWhile (\<lambda>c. c = CHR ''0'') (pad_left_zeros n s) = dropWhile (\<lambda>c. c = CHR ''0'') s"
  by (simp add: pad_left_zeros_def dropWhile_zeros_append)

lemma split_zeros: "\<exists>k. s = replicate k CHR ''0'' @ dropWhile (\<lambda>c. c = CHR ''0'') s"
proof (induction s)
  case (Cons c s)
  then obtain k where k: "s = replicate k CHR ''0'' @ dropWhile (\<lambda>c. c = CHR ''0'') s" ..
  show ?case
  proof (cases "c = CHR ''0''")
    case True
    with k show ?thesis by (intro exI [of _ "Suc k"]) simp
  next
    case False
    then show ?thesis by (intro exI [of _ 0]) simp
  qed
qed simp

lemma pad_eq_iff:
  assumes "char_count s \<le> n" and "char_count t \<le> n"
  shows "pad_left_zeros n s = pad_left_zeros n t \<longleftrightarrow>
    dropWhile (\<lambda>c. c = CHR ''0'') s = dropWhile (\<lambda>c. c = CHR ''0'') t" (is "_ \<longleftrightarrow> ?d s = ?d t")
proof
  assume "pad_left_zeros n s = pad_left_zeros n t"
  then show "?d s = ?d t" by (metis dropWhile_pad)
next
  assume d: "?d s = ?d t"
  have "pad_left_zeros n r = replicate (n - char_count (?d r)) CHR ''0'' @ ?d r" if "char_count r \<le> n" for r
  proof -
    from split_zeros obtain k where k: "r = replicate k CHR ''0'' @ ?d r" by blast
    then have c: "char_count r = k + char_count (?d r)" by (metis char_count_append char_count_zeros)
    with that have "n - char_count r + k = n - char_count (?d r)" by simp
    moreover have "pad_left_zeros n r = (replicate (n - char_count r) CHR ''0'' @ replicate k CHR ''0'') @ ?d r"
      using k by (metis append_assoc pad_left_zeros_def)
    ultimately show ?thesis by (simp add: replicate_add [symmetric])
  qed
  with assms d show "pad_left_zeros n s = pad_left_zeros n t" by simp
qed

text \<open>Two hashes of at most 64 digits are normalised alike when they are the same number in hexadecimal.\<close>

lemma normalize_hash_eq_iff:
  assumes "char_count (strip_0x v) \<le> 64" and "char_count (strip_0x w) \<le> 64"
  shows "normalize_hash v = normalize_hash w \<longleftrightarrow> hash_digits v = hash_digits w"
  using assms by (simp add: normalize_hash_def hash_digits_def pad_eq_iff)

section \<open>Choosing\<close>

lemma insort_first:
  "insort_key (\<lambda>x. if P x then 0 else (1 :: nat)) x (filter P xs @ filter (\<lambda>y. \<not> P y) xs)
     = (if P x then x # filter P xs @ filter (\<lambda>y. \<not> P y) xs
        else filter P xs @ x # filter (\<lambda>y. \<not> P y) xs)"
proof -
  have low: "insort_key (\<lambda>x. if P x then 0 else (1 :: nat)) x (ys @ zs)
       = ys @ insort_key (\<lambda>x. if P x then 0 else (1 :: nat)) x zs"
    if "\<forall>y \<in> set ys. P y" "\<not> P x" for ys zs
    using that by (induction ys) auto
  have high: "insort_key (\<lambda>x. if P x then 0 else (1 :: nat)) x zs = x # zs"
    if "(\<forall>z \<in> set zs. \<not> P z) \<or> P x" for zs
    using that by (cases zs) auto
  show ?thesis by (auto simp: low high)
qed

lemma sort_key_filter:
  "sort_key (\<lambda>x. if P x then 0 else (1 :: nat)) xs = filter P xs @ filter (\<lambda>x. \<not> P x) xs"
  by (induction xs) (simp_all add: insort_first)

definition same_algorithm :: "document_analysis \<Rightarrow> packaged_certificate \<Rightarrow> bool" where
  "same_algorithm a c \<longleftrightarrow>
     eq_ignore_ascii_case (ct_signature_algorithm c) (da_dsc_parent_signature_algorithm a)"

definition of_country :: "document_analysis \<Rightarrow> packaged_certificate \<Rightarrow> bool" where
  "of_country a c \<longleftrightarrow> eq_ignore_ascii_case (ct_country c) (da_dsc_country a)"

definition key_matches :: "document_analysis \<Rightarrow> packaged_certificate \<Rightarrow> bool" where
  "key_matches a c \<longleftrightarrow>
     (\<exists>aki ski. da_dsc_authority_key_identifier a = Some aki \<and> ct_subject_key_identifier c = Some ski
        \<and> normalize_hash ski = normalize_hash aki)"

lemma sort_candidates: "sort_candidate_certificates a cs
     = filter (same_algorithm a) cs @ filter (\<lambda>c. \<not> same_algorithm a c) cs"
  unfolding sort_candidate_certificates_def same_algorithm_def by (rule sort_key_filter)

text \<open>The preference order of the choice: the first certificate of the country that...\<close>

definition preferences :: "document_analysis \<Rightarrow> (packaged_certificate \<Rightarrow> bool) list" where
  "preferences a =
    [\<lambda>c. key_matches a c \<and> same_algorithm a c, key_matches a, same_algorithm a, \<lambda>c. True]"

fun find_by :: "('a \<Rightarrow> bool) list \<Rightarrow> 'a list \<Rightarrow> 'a option" where
  "find_by [] xs = None"
| "find_by (P # Ps) xs = (case List.find P xs of Some x \<Rightarrow> Some x | None \<Rightarrow> find_by Ps xs)"

lemma find_first: "List.find P xs = first (filter P xs)"
  by (induction xs) (simp_all add: first_def)

lemma first_append: "first (xs @ ys) = (case first xs of Some x \<Rightarrow> Some x | None \<Rightarrow> first ys)"
  by (cases xs) (simp_all add: first_def)

lemma first_None [simp]: "first xs = None \<longleftrightarrow> xs = []"
  by (cases xs) (simp_all add: first_def)

lemma first_simps [simp]: "first [] = None" "first (x # xs) = Some x"
  by (simp_all add: first_def)

lemma first_not_filter: "filter P xs = [] \<Longrightarrow> filter (\<lambda>x. \<not> P x) xs = xs"
  by (induction xs) (auto split: if_splits)

lemma find_by_append:
  "find_by (Ps @ Qs) xs = (case find_by Ps xs of Some x \<Rightarrow> Some x | None \<Rightarrow> find_by Qs xs)"
  by (induction Ps) (auto split: option.splits)

lemma find_by_filter: "find_by Ps (filter Q xs) = find_by (map (\<lambda>P x. Q x \<and> P x) Ps) xs"
  by (induction Ps) (simp_all add: find_first conj_commute split: option.splits)

lemma find_True: "List.find (\<lambda>_. True) xs = first xs"
  by (simp add: find_first)

lemma first_sorted:
  "first (sort_candidate_certificates a cs) = find_by [same_algorithm a, \<lambda>_. True] cs"
  by (cases "filter (same_algorithm a) cs = []")
    (simp_all add: sort_candidates first_append find_first first_not_filter split: option.splits)

lemma key_matches_code:
  "(case map_option normalize_hash (da_dsc_authority_key_identifier a) of
      None \<Rightarrow> False
    | Some aki \<Rightarrow> (case ct_subject_key_identifier c of
        Some ski \<Rightarrow> normalize_hash ski = aki | None \<Rightarrow> False)) = key_matches a c"
  by (auto simp: key_matches_def split: option.splits)

lemma resolve_csca_find_by:
  "resolve_csca a p = find_by (preferences a) (filter (of_country a) (pf_certificates p))"
proof -
  let ?cs = "filter (of_country a) (pf_certificates p)"
  have "resolve_csca a p = (if ?cs = [] then None
      else case first (sort_candidate_certificates a (filter (key_matches a) ?cs)) of
             Some c \<Rightarrow> Some c | None \<Rightarrow> first (sort_candidate_certificates a ?cs))"
    by (simp only: resolve_csca_def Let_def key_matches_code of_country_def [abs_def])
  moreover have "preferences a = map (\<lambda>P x. key_matches a x \<and> P x) [same_algorithm a, \<lambda>_. True]
      @ [same_algorithm a, \<lambda>_. True]"
    by (simp add: preferences_def)
  ultimately show ?thesis
    by (cases "?cs = []") (simp_all only: find_by_append find_by_filter [symmetric] first_sorted, simp_all)
qed


text \<open>What that preference means for the certificate found.\<close>

lemma find_by_Some:
  "find_by Ps xs = Some x \<Longrightarrow> x \<in> set xs"
  by (induction Ps) (auto split: option.splits dest: find_member)

lemma find_by_None_True: "find_by (Ps @ [\<lambda>x. True]) xs = None \<longleftrightarrow> xs = []"
  by (induction Ps) (auto simp: find_first split: option.splits)

lemma find_None_filter: "List.find P xs = None \<longleftrightarrow> (\<forall>x \<in> set xs. \<not> P x)"
  by (auto simp: find_None_iff)

section \<open>Deriving the context\<close>

definition csca_key :: "packaged_certificate \<Rightarrow> signature_key option" where
  "csca_key c =
    (case ct_public_key c of
       KeyEC curve _ _ _ \<Rightarrow> map_option Ecdsa (map_of zkpassport_curves curve)
     | KeyRSA n _ _ \<Rightarrow>
         Some (if eq_ignore_ascii_case (ct_signature_algorithm c) ''RSA-PSS'' then RsaPss n else RsaPkcs n))"

lemma derive_context_Ok:
  "derive_document_circuit_context a c outer = Ok ctxt \<longleftrightarrow>
     (\<exists>key. csca_key c = Some key \<and>
        ctxt = \<lparr>cc_dsc = \<lparr>cs_tbs_bucket = da_tbs_bucket a, cs_key = key, cs_hash = da_dsc_signature_hash a\<rparr>,
          cc_id_data = \<lparr>cs_tbs_bucket = da_tbs_bucket a, cs_key = da_id_data_public_key a,
                       cs_hash = da_sod_signature_hash a\<rparr>,
          cc_dg_hash = da_dg_hash a, cc_outer_circuit = outer\<rparr>)"
  by (auto simp: derive_document_circuit_context_def csca_key_def and_then_eq_Ok curve_from_zkpassport_name_def
      split: packaged_key.splits option.splits)

lemma derive_context_no_panic [simp]: "derive_document_circuit_context a c outer \<noteq> Panic p"
  by (auto simp: derive_document_circuit_context_def and_then_eq_Panic curve_from_zkpassport_name_def
      split: packaged_key.splits option.splits)

section \<open>Fetching\<close>

lemma latest_root_of_reply_Ok:
  "latest_root_of_reply show url reply = Ok root \<longleftrightarrow>
     (\<exists>value text. reply = Received value \<and> json_get value ''error'' = None
        \<and> json_get value ''result'' = Some (JString text) \<and> root = normalize_hash text)"
proof -
  have "Option.bind x as_str = Some t \<longleftrightarrow> x = Some (JString t)" for x t
    by (cases x; cases "the x") auto
  then show ?thesis
    by (auto simp: latest_root_of_reply_def and_then_eq_Ok split: option.splits)
qed

lemma certificates_of_reply_root:
  assumes "certificates_of_reply gunzip parse (normalize_hash r) url reply = Ok packaged"
  shows "normalize_hash (pf_root packaged) = normalize_hash r"
  using assms
  by (auto simp: certificates_of_reply_def and_then_eq_Ok Let_def normalize_hash_idem split: if_splits)

lemma fetch_latest_root_Ok:
  "fetch_latest_root h show c w = Some (Ok root, w') \<Longrightarrow> \<exists>text. root = normalize_hash text"
  by (auto simp: fetch_latest_root_def io_bind_Ok latest_root_of_reply_Ok)

lemma fetch_certificates_root:
  assumes "fetch_certificates h show gunzip parse c root w = Some (Ok packaged, w')"
  shows "case root of
      Some r \<Rightarrow> normalize_hash (pf_root packaged) = normalize_hash r
    | None \<Rightarrow> \<exists>w1. fetch_latest_root h show c w = Some (Ok (normalize_hash (pf_root packaged)), w1)"
proof (cases root)
  case (Some r)
  with assms certificates_of_reply_root show ?thesis
    by (auto simp: fetch_certificates_def io_bind_Ok Let_def)
next
  case None
  with assms obtain root w1 where root: "fetch_latest_root h show c w = Some (Ok root, w1)"
    and "\<exists>url reply. certificates_of_reply gunzip parse root url reply = Ok packaged"
    by (auto simp: fetch_certificates_def io_bind_Ok Let_def)
  moreover from fetch_latest_root_Ok [OF root] obtain t where "root = normalize_hash t" ..
  ultimately have "normalize_hash (pf_root packaged) = root" using certificates_of_reply_root by blast
  with root None show ?thesis by auto
qed

section \<open>Properties of the certificate registry\<close>

text \<open>
  C14. The CSCA of a document is chosen among the certificates of its country (compared
  without case) in this order: the first whose subject key is the document's authority
  key and whose signature algorithm matches; the first whose subject key matches; the
  first whose algorithm matches; the first of the country. There is no other outcome:
  none is found exactly when the country has none.
\<close>

theorem resolve_csca_preference:
  "resolve_csca a p =
    (let cs = filter (of_country a) (pf_certificates p) in
     find_by [\<lambda>c. key_matches a c \<and> same_algorithm a c, key_matches a, same_algorithm a, \<lambda>c. True] cs)
   \<and> (resolve_csca a p = None \<longleftrightarrow> filter (of_country a) (pf_certificates p) = [])"
  unfolding resolve_csca_find_by preferences_def Let_def
  using find_by_None_True [of "[\<lambda>c. key_matches a c \<and> same_algorithm a c, key_matches a, same_algorithm a]"]
  by simp

text \<open>
  C37. Two hashes of at most 64 characters (after an \<open>0x\<close> prefix) are normalised to the
  same text exactly when their digits, in lower case and without leading zeros, are the
  same; normalising twice changes nothing.
\<close>

theorem normalize_hash_identifies:
  assumes "char_count (strip_0x v) \<le> 64" and "char_count (strip_0x w) \<le> 64"
  shows "(normalize_hash v = normalize_hash w \<longleftrightarrow> hash_digits v = hash_digits w)
    \<and> normalize_hash (normalize_hash v) = normalize_hash v"
  using normalize_hash_eq_iff [OF assms] by (simp add: normalize_hash_idem)

lemma example_digits:
  "hash_digits ''0x00aBc'' = ''abc''" "hash_digits ''ABC'' = ''abc''" "hash_digits ''0xabc'' = ''abc''"
  "hash_digits ''0xabd'' = ''abd''" "hash_digits ''0x0ABC'' = ''abc''" "hash_digits ''abc'' = ''abc''"
  by code_simp+

theorem normalize_hash_identifies_witness:
  "normalize_hash ''0x00aBc'' = normalize_hash ''ABC'' \<and> normalize_hash ''0xabc'' \<noteq> normalize_hash ''0xabd''"
proof -
  have len: "char_count (strip_0x ''0x00aBc'') \<le> 64" "char_count (strip_0x ''ABC'') \<le> 64"
    "char_count (strip_0x ''0xabc'') \<le> 64" "char_count (strip_0x ''0xabd'') \<le> 64"
    by (simp_all add: strip_0x_def char_count_ascii is_ascii_def)
  have "normalize_hash ''0x00aBc'' = normalize_hash ''ABC''"
    using normalize_hash_identifies [OF len(1,2)] by (simp add: example_digits)
  moreover have "normalize_hash ''0xabc'' \<noteq> normalize_hash ''0xabd''"
    using normalize_hash_identifies [OF len(3,4)] by (simp add: example_digits)
  ultimately show ?thesis ..
qed

text \<open>
  C16. Certificates that are fetched belong to the root that was asked for: whatever the
  server sends, a successful fetch returns a file whose root, normalised, is the
  requested one, or the latest root of the registry contract when none was requested.
\<close>

theorem fetched_certificates_have_root:
  assumes "fetch_certificates h show gunzip parse c root w = Some (Ok packaged, w')"
  shows "case root of
      Some r \<Rightarrow> normalize_hash (pf_root packaged) = normalize_hash r
    | None \<Rightarrow> \<exists>w1. fetch_latest_root h show c w = Some (Ok (normalize_hash (pf_root packaged)), w1)"
  by (rule fetch_certificates_root [OF assms])

definition example_client :: certificate_client where
  "example_client = \<lparr>cl_rpc_url = ''rpc'', cl_root_registry = ''0x1'', cl_certificate_base_url = ''base''\<rparr>"

definition example_file :: "string \<Rightarrow> certificates_file" where
  "example_file root =
    \<lparr>pf_version = 1, pf_timestamp = 0, pf_root = root, pf_certificates = [], pf_serialised = []\<rparr>"

theorem fetched_certificates_have_root_witness:
  "\<exists>w'. fetch_certificates (example_host (\<lambda>_. Received [1])) (\<lambda>_. []) (\<lambda>_. Inl []) (\<lambda>_. Inr (example_file ''0x0ABC''))
      example_client (Some ''abc'') empty_world = Some (Ok (example_file ''0x0ABC''), w')
    \<and> normalize_hash ''0x0ABC'' = normalize_hash ''abc''"
proof -
  have same: "normalize_hash ''0x0ABC'' = normalize_hash ''abc''"
    using normalize_hash_eq_iff [of "''0x0ABC''" "''abc''"]
    by (simp add: example_digits strip_0x_def char_count_ascii is_ascii_def)
  then obtain w' where run: "fetch_certificates (example_host (\<lambda>_. Received [1])) (\<lambda>_. []) (\<lambda>_. Inl [])
      (\<lambda>_. Inr (example_file ''0x0ABC'')) example_client (Some ''abc'') empty_world
      = Some (Ok (example_file ''0x0ABC''), w')"
    by (simp add: fetch_certificates_def io_bind_def io_return_def http_get_io_def io_of_def Let_def
        certificates_of_reply_def reply_body_def decode_json_bytes_def is_gzip_def example_host_def example_file_def)
  from fetched_certificates_have_root [OF run] run show ?thesis by (simp add: example_file_def)
qed

text \<open>
  The circuit context of a document and its CSCA exists exactly when the CSCA's key is
  RSA or on a supported curve. The DSC circuit is then for the CSCA's key, with the PSS
  scheme exactly when the CSCA's algorithm is RSA-PSS up to case, and for the hash of
  the document's DSC signature; the ID data circuit is for the document's own key and
  the hash of its SOD signature; both are for the bucket of the DSC.
\<close>

theorem derive_context_outcome:
  "derive_document_circuit_context a c outer = Ok ctxt \<longleftrightarrow>
     (\<exists>key. (case ct_public_key c of
          KeyEC curve _ _ _ \<Rightarrow> \<exists>t. map_of zkpassport_curves curve = Some t \<and> key = Ecdsa t
        | KeyRSA n _ _ \<Rightarrow> key = (if eq_ignore_ascii_case (ct_signature_algorithm c) ''RSA-PSS''
                               then RsaPss n else RsaPkcs n))
      \<and> cc_dsc ctxt = \<lparr>cs_tbs_bucket = da_tbs_bucket a, cs_key = key, cs_hash = da_dsc_signature_hash a\<rparr>
      \<and> cc_id_data ctxt = \<lparr>cs_tbs_bucket = da_tbs_bucket a, cs_key = da_id_data_public_key a,
                           cs_hash = da_sod_signature_hash a\<rparr>
      \<and> cc_dg_hash ctxt = da_dg_hash a \<and> cc_outer_circuit ctxt = outer)"
  unfolding derive_context_Ok csca_key_def
  by (cases ctxt) (auto split: packaged_key.split)

end
