(* ===== verification/Planning.thy ===== *)
theory Planning
  imports Prover_Types
begin

text \<open>
  Proof planning, \<open>crates/prover-core/src/planning.rs\<close>: the disclosure query of a
  request is normalised, checked for unsupported keys, and turned into the list of
  circuits to prove, the last of which is the outer aggregation circuit.
\<close>

definition default_query_field :: string where
  "default_query_field = ''nationality''"

definition max_disclosure_proofs :: nat where
  "max_disclosure_proofs = 10"

definition supported_query_keys :: "string list" where
  "supported_query_keys =
    [''age'', ''nationality'', ''issuing_country'', ''firstname'', ''lastname'', ''fullname'',
     ''birthdate'', ''expiry_date'', ''document_number'', ''document_type'', ''gender'']"

record planned_circuit =
  pc_name :: string
  pc_purpose :: string

record proof_plan =
  pp_circuit_version :: string
  pp_normalized_query :: json
  pp_disclosure_count :: nat
  pp_outer_circuit :: string
  pp_resolved_circuits :: "planned_circuit list"
  pp_unresolved_requirements :: "string list"

definition required_circuit_names :: "proof_plan \<Rightarrow> string list" where
  "required_circuit_names p = map pc_name (pp_resolved_circuits p)"

section \<open>The query\<close>

text \<open>The \<open>for key in query.keys()\<close> loop.\<close>

fun validate_supported_query_keys :: "json_map \<Rightarrow> unit result" where
  "validate_supported_query_keys [] = Ok ()"
| "validate_supported_query_keys ((key, _) # rest) =
    (if key \<notin> set supported_query_keys then bail (''unsupported request query key: '' @ key)
     else validate_supported_query_keys rest)"

definition default_query :: json where
  "default_query = JObject [(default_query_field, JObject [(''disclose'', JBool True)])]"

fun normalize_query :: "json \<Rightarrow> json result" where
  "normalize_query JNull = Ok default_query"
| "normalize_query (JObject []) = Ok default_query"
| "normalize_query (JObject m) =
    and_then (validate_supported_query_keys m) (\<lambda>_. Ok (JObject m))"
| "normalize_query _ = bail ''query must be a JSON object''"

definition cfg_discloses :: "json \<Rightarrow> bool" where
  "cfg_discloses cfg =
    (case as_object cfg of
       None \<Rightarrow> False
     | Some m \<Rightarrow>
         (case Option.bind (map_of m ''disclose'') as_bool of Some b \<Rightarrow> b | None \<Rightarrow> False)
         \<or> contains_key m ''eq'')"

definition has_disclose_bytes_requirement :: "json \<Rightarrow> bool" where
  "has_disclose_bytes_requirement query =
    (case as_object query of
       None \<Rightarrow> False
     | Some entries \<Rightarrow> list_ex cfg_discloses (map snd entries))"

definition has_age_requirement :: "json \<Rightarrow> bool" where
  "has_age_requirement query =
    (case Option.bind (Option.bind (as_object query) (\<lambda>entries. map_of entries ''age'')) as_object of
       None \<Rightarrow> False
     | Some cfg \<Rightarrow>
         list_ex (contains_key cfg)
           [''gte'', ''gt'', ''lte'', ''lt'', ''range'', ''eq'', ''disclose''])"

definition has_nested_key :: "json \<Rightarrow> string \<Rightarrow> string \<Rightarrow> bool" where
  "has_nested_key query field key =
    (case Option.bind (Option.bind (as_object query) (\<lambda>entries. map_of entries field)) as_object of
       None \<Rightarrow> False
     | Some cfg \<Rightarrow> contains_key cfg key)"

section \<open>The plan\<close>

definition push_if :: "bool \<Rightarrow> string \<Rightarrow> string \<Rightarrow> planned_circuit list \<Rightarrow> planned_circuit list" where
  "push_if c name purpose circuits =
    (if c then circuits @ [\<lparr>pc_name = name, pc_purpose = purpose\<rparr>] else circuits)"

text \<open>The six \<open>if ... push\<close> statements, in the source's order.\<close>

definition disclosure_circuits :: "json \<Rightarrow> planned_circuit list" where
  "disclosure_circuits q =
    push_if (has_nested_key q ''issuing_country'' ''out'')
      ''exclusion_check_issuing_country_evm'' ''issuing country exclusion set membership''
    (push_if (has_nested_key q ''issuing_country'' ''in'')
      ''inclusion_check_issuing_country_evm'' ''issuing country inclusion set membership''
    (push_if (has_nested_key q ''nationality'' ''out'')
      ''exclusion_check_nationality_evm'' ''nationality exclusion set membership''
    (push_if (has_nested_key q ''nationality'' ''in'')
      ''inclusion_check_nationality_evm'' ''nationality inclusion set membership''
    (push_if (has_age_requirement q) ''compare_age_evm'' ''age comparison''
    (push_if (has_disclose_bytes_requirement q)
      ''disclose_bytes_evm'' ''selective disclosure and parameter commitment'' [])))))"

definition outer_circuit_name :: "nat \<Rightarrow> string" where
  "outer_circuit_name n = ''outer_evm_count_'' @ show_nat (3 + n)"

definition unresolved_notes :: "string list" where
  "unresolved_notes =
    [''dsc_signature_circuit (requires SOD certificate analysis)'',
     ''id_data_signature_circuit (requires SOD signature algorithm analysis)'',
     ''integrity_circuit (requires LDS hash algorithm analysis)'']"

definition build_proof_plan :: "fixture_bundle \<Rightarrow> proof_plan result" where
  "build_proof_plan fixture =
    and_then (map_err (\<lambda>e. [validation_message e]) (fixture_validate fixture)) (\<lambda>_.
    and_then (normalize_query (pr_query (fb_request fixture))) (\<lambda>normalized_query.
      let resolved = disclosure_circuits normalized_query in
      if resolved = [] then bail ''request query produced no supported disclosure circuits''
      else if length resolved > max_disclosure_proofs
        then bail (''too many disclosure proofs requested: '' @ show_nat (length resolved)
                   @ '' (max '' @ show_nat max_disclosure_proofs @ '')'')
      else
        let outer_circuit = outer_circuit_name (length resolved);
            resolved' = resolved @ [\<lparr>pc_name = outer_circuit,
                          pc_purpose = ''outer recursive aggregation and EVM verification''\<rparr>]
        in Ok \<lparr>pp_circuit_version = pr_circuit_version (fb_request fixture),
               pp_normalized_query = normalized_query,
               pp_disclosure_count = length resolved' - 1,
               pp_outer_circuit = outer_circuit,
               pp_resolved_circuits = resolved',
               pp_unresolved_requirements = unresolved_notes\<rparr>))"

section \<open>What a query asks for\<close>

text \<open>
  The specification of the plan: the disclosure circuits, in a fixed order, each with
  the condition on the query under which the code wants it.
\<close>

definition circuit_conditions :: "(string \<times> (json \<Rightarrow> bool)) list" where
  "circuit_conditions =
    [(''disclose_bytes_evm'', has_disclose_bytes_requirement),
     (''compare_age_evm'', has_age_requirement),
     (''inclusion_check_nationality_evm'', \<lambda>q. has_nested_key q ''nationality'' ''in''),
     (''exclusion_check_nationality_evm'', \<lambda>q. has_nested_key q ''nationality'' ''out''),
     (''inclusion_check_issuing_country_evm'', \<lambda>q. has_nested_key q ''issuing_country'' ''in''),
     (''exclusion_check_issuing_country_evm'', \<lambda>q. has_nested_key q ''issuing_country'' ''out'')]"

definition wanted_circuits :: "json \<Rightarrow> string list" where
  "wanted_circuits q = map fst (filter (\<lambda>(_, c). c q) circuit_conditions)"

lemma map_push_if:
  "map pc_name (push_if c name purpose cs) = map pc_name cs @ (if c then [name] else [])"
  by (simp add: push_if_def)

lemma filter_Cons_append: "filter P (x # xs) = (if P x then [x] else []) @ filter P xs"
  by simp

lemma disclosure_circuit_names: "map pc_name (disclosure_circuits q) = wanted_circuits q"
  by (simp only: disclosure_circuits_def map_push_if wanted_circuits_def circuit_conditions_def
      filter_Cons_append map_append if_distrib [of "map fst"] prod.case fst_conv list.map
      filter.simps(1) append_Nil append_Nil2 append_assoc)

lemma length_disclosure_circuits: "length (disclosure_circuits q) = length (wanted_circuits q)"
  by (metis disclosure_circuit_names length_map)

lemma length_wanted_circuits: "length (wanted_circuits q) \<le> 6"
proof -
  have "length (wanted_circuits q) \<le> length circuit_conditions"
    by (simp add: wanted_circuits_def length_filter_le)
  then show ?thesis by (simp add: circuit_conditions_def)
qed

lemma distinct_wanted_circuits: "distinct (wanted_circuits q)"
proof -
  have "distinct (map fst circuit_conditions)" by (simp add: circuit_conditions_def)
  then show ?thesis
    by (simp add: wanted_circuits_def distinct_map_filter)
qed

lemma starts_outer: "starts_with ''outer_'' (outer_circuit_name n)"
  by (simp add: outer_circuit_name_def starts_with_def)

lemma outer_not_wanted: "outer_circuit_name n \<notin> set (wanted_circuits q)"
proof
  assume "outer_circuit_name n \<in> set (wanted_circuits q)"
  moreover have "\<forall>x \<in> set (wanted_circuits q). \<not> starts_with ''outer_'' x"
    by (auto simp: wanted_circuits_def circuit_conditions_def starts_with_def)
  ultimately show False using starts_outer by blast
qed

lemma has_nested_key_iff:
  "has_nested_key q field key \<longleftrightarrow>
     (\<exists>entries cfg. q = JObject entries \<and> map_of entries field = Some (JObject cfg)
        \<and> key \<in> fst ` set cfg)"
  by (auto simp: has_nested_key_def contains_key_iff as_object_Some bind_eq_Some_conv
      split: option.splits)

lemma validate_supported_query_keys_iff:
  "validate_supported_query_keys m = Ok () \<longleftrightarrow> fst ` set m \<subseteq> set supported_query_keys"
  by (induction m rule: validate_supported_query_keys.induct) auto

lemma validate_supported_query_keys_find:
  "validate_supported_query_keys m =
    (case find (\<lambda>(k, _). k \<notin> set supported_query_keys) m of
       None \<Rightarrow> Ok () | Some (k, _) \<Rightarrow> Err [''unsupported request query key: '' @ k])"
  by (induction m rule: validate_supported_query_keys.induct) (auto simp: bail_def)

lemma normalize_query_no_panic [simp]: "normalize_query q \<noteq> Panic p"
  by (cases q rule: normalize_query.cases)
    (auto simp: and_then_eq_Panic validate_supported_query_keys_find split: option.splits)

text \<open>The supported-key rule over whole queries.\<close>

lemma normalize_query_Ok:
  "normalize_query q = Ok n \<longleftrightarrow>
     ((q = JNull \<or> q = JObject []) \<and> n = default_query)
     \<or> (\<exists>m. m \<noteq> [] \<and> q = JObject m \<and> fst ` set m \<subseteq> set supported_query_keys \<and> n = q)"
  by (cases q rule: normalize_query.cases)
    (auto simp: and_then_eq_Ok validate_supported_query_keys_iff
      simp del: validate_supported_query_keys.simps)

lemma build_proof_plan_Ok:
  "build_proof_plan f = Ok p \<longleftrightarrow>
     fixture_validate f = Ok () \<and>
     (\<exists>n. normalize_query (pr_query (fb_request f)) = Ok n \<and> wanted_circuits n \<noteq> [] \<and>
        p = \<lparr>pp_circuit_version = pr_circuit_version (fb_request f),
             pp_normalized_query = n,
             pp_disclosure_count = length (wanted_circuits n),
             pp_outer_circuit = outer_circuit_name (length (wanted_circuits n)),
             pp_resolved_circuits = disclosure_circuits n
               @ [\<lparr>pc_name = outer_circuit_name (length (wanted_circuits n)),
                   pc_purpose = ''outer recursive aggregation and EVM verification''\<rparr>],
             pp_unresolved_requirements = unresolved_notes\<rparr>)"
proof -
  have le: "length (wanted_circuits n) \<le> max_disclosure_proofs" for n
    using length_wanted_circuits [of n] by (simp add: max_disclosure_proofs_def)
  have nil: "disclosure_circuits n = [] \<longleftrightarrow> wanted_circuits n = []" for n
    by (metis disclosure_circuit_names map_is_Nil_conv)
  show ?thesis
    by (auto simp: build_proof_plan_def and_then_eq_Ok Let_def length_disclosure_circuits nil
        not_less le split: if_splits)
qed

lemma build_proof_plan_no_panic [simp]: "build_proof_plan f \<noteq> Panic p"
  by (auto simp: build_proof_plan_def and_then_eq_Panic Let_def split: if_splits)

section \<open>Properties of planning\<close>

lemma required_circuit_names_plan:
  "build_proof_plan f = Ok p \<Longrightarrow>
     required_circuit_names p = wanted_circuits (pp_normalized_query p) @ [pp_outer_circuit p]"
  by (auto simp: build_proof_plan_Ok required_circuit_names_def disclosure_circuit_names)

text \<open>
  C11. A plan that is built lists exactly the disclosure circuits the normalised query
  asks for, in the fixed order, each once, followed by the outer circuit; there are
  between one and six of them; and the outer circuit is the one for three document
  circuits and that many disclosures.
\<close>

theorem plan_lists_wanted_circuits:
  assumes "build_proof_plan f = Ok p"
  shows "required_circuit_names p = wanted_circuits (pp_normalized_query p) @ [pp_outer_circuit p]
    \<and> distinct (required_circuit_names p)
    \<and> pp_disclosure_count p = length (wanted_circuits (pp_normalized_query p))
    \<and> 1 \<le> pp_disclosure_count p \<and> pp_disclosure_count p \<le> 6
    \<and> pp_outer_circuit p = ''outer_evm_count_'' @ show_nat (3 + pp_disclosure_count p)
    \<and> pp_circuit_version p = pr_circuit_version (fb_request f)"
proof -
  let ?q = "pp_normalized_query p"
  from assms have p: "wanted_circuits ?q \<noteq> []" "pp_disclosure_count p = length (wanted_circuits ?q)"
    "pp_outer_circuit p = outer_circuit_name (length (wanted_circuits ?q))"
    "pp_circuit_version p = pr_circuit_version (fb_request f)"
    by (auto simp: build_proof_plan_Ok)
  then have "1 \<le> pp_disclosure_count p" by (cases "wanted_circuits ?q") auto
  with p required_circuit_names_plan [OF assms] length_wanted_circuits [of ?q]
    distinct_wanted_circuits [of ?q] outer_not_wanted
  show ?thesis by (simp add: outer_circuit_name_def)
qed

definition example_request :: "json \<Rightarrow> proof_request" where
  "example_request q =
    \<lparr>pr_circuit_version = ''0.18.0'', pr_chain_id = 11155111, pr_service_scope = ''scope'',
     pr_service_subscope = ''petition'', pr_current_date = 1775041600, pr_query = q,
     pr_petition_id = None, pr_aggregate_mode = None\<rparr>"

definition example_fixture :: "json \<Rightarrow> fixture_bundle" where
  "example_fixture q =
    \<lparr>fb_document = \<lparr>di_dg1_base64 = ''AA=='', di_sod_der_base64 = ''AA=='', di_dg2_base64 = None,
                    di_document_type = None\<rparr>,
     fb_request = example_request q, fb_expected_inner = None, fb_expected_outer = None,
     fb_metadata = fixture_metadata_default\<rparr>"

definition example_query :: json where
  "example_query =
    JObject [(''age'', JObject [(''gte'', JNumber (PosInt 18))]),
             (''nationality'', JObject [(''disclose'', JBool True), (''in'', JArray [])])]"

lemma example_fixture_valid: "fixture_validate (example_fixture q) = Ok ()"
proof -
  have "\<not> is_blank ''AA==''" "\<not> is_blank ''0.18.0''" "\<not> is_blank ''scope''" "\<not> is_blank ''petition''"
    by code_simp+
  then show ?thesis
    by (simp add: fixture_validate_iff document_complete_def request_complete_def example_fixture_def
        example_request_def)
qed

lemma example_wanted:
  "wanted_circuits example_query =
    [''disclose_bytes_evm'', ''compare_age_evm'', ''inclusion_check_nationality_evm'']"
  by code_simp

lemma example_query_normal: "normalize_query example_query = Ok example_query"
  by code_simp

theorem plan_lists_wanted_circuits_witness:
  "\<exists>p. build_proof_plan (example_fixture example_query) = Ok p \<and> pp_disclosure_count p = 3
     \<and> pp_outer_circuit p = ''outer_evm_count_6''
     \<and> required_circuit_names p = wanted_circuits example_query @ [''outer_evm_count_6'']"
proof -
  have "pr_query (fb_request (example_fixture example_query)) = example_query"
    by (simp add: example_fixture_def example_request_def)
  then obtain p where p: "build_proof_plan (example_fixture example_query) = Ok p"
    and q: "pp_normalized_query p = example_query"
    by (simp add: build_proof_plan_Ok example_fixture_valid example_query_normal example_wanted)
  have "show_nat 6 = ''6''" by code_simp
  with plan_lists_wanted_circuits [OF p] q p example_wanted show ?thesis by (intro exI [of _ p]) simp
qed

text \<open>
  C36. A query is normalised exactly when it is absent, empty, or an object whose keys are
  all supported; the first two become the default query, which discloses the
  nationality, and the last is left as it is. Normalising again changes nothing.
\<close>

theorem normalize_query_outcome:
  "(normalize_query q = Ok n \<longleftrightarrow>
      ((q = JNull \<or> q = JObject [])
         \<and> n = JObject [(''nationality'', JObject [(''disclose'', JBool True)])])
      \<or> (\<exists>m. m \<noteq> [] \<and> q = JObject m \<and> fst ` set m \<subseteq> set supported_query_keys \<and> n = q))
   \<and> and_then (normalize_query q) normalize_query = normalize_query q"
proof -
  have "normalize_query default_query = Ok default_query" by code_simp
  then have "normalize_query n = Ok n" if "normalize_query q = Ok n" for n
    using that normalize_query_Ok [of q n] by fastforce
  then have "and_then (normalize_query q) normalize_query = normalize_query q"
    by (cases "normalize_query q") auto
  moreover have "default_query = JObject [(''nationality'', JObject [(''disclose'', JBool True)])]"
    by (simp add: default_query_def default_query_field_def)
  ultimately show ?thesis by (simp add: normalize_query_Ok)
qed

text \<open>
  A fixture whose query has unsupported keys gets no plan: the error names the first
  of them in the order of the object.
\<close>

theorem unsupported_key_rejected:
  assumes "fixture_validate f = Ok ()" and "pr_query (fb_request f) = JObject m"
    and "List.find (\<lambda>(k, _). k \<notin> set supported_query_keys) m = Some (key, v)"
  shows "build_proof_plan f = Err [''unsupported request query key: '' @ key]"
proof -
  from assms(3) have "m \<noteq> []" by auto
  then obtain x m' where "m = x # m'" by (cases m) auto
  with assms show ?thesis
    by (simp add: build_proof_plan_def validate_supported_query_keys_find
        del: validate_supported_query_keys.simps find.simps)
qed

theorem unsupported_key_rejected_witness:
  "build_proof_plan (example_fixture (JObject [(''gender'', JNull), (''height'', JNull)]))
    = Err [''unsupported request query key: height'']"
proof -
  let ?m = "[(''gender'', JNull), (''height'', JNull)]"
  have "List.find (\<lambda>(k, _). k \<notin> set supported_query_keys) ?m = Some (''height'', JNull)"
    by code_simp
  then show ?thesis
    using unsupported_key_rejected [OF example_fixture_valid, of "JObject ?m" ?m "''height''" JNull]
    by (simp add: example_fixture_def example_request_def)
qed

text \<open>
  The age entry is planned by its keys alone: a query that says \<open>age\<close> must not be
  disclosed still gets the age comparison circuit, while the same entry for the
  nationality gets none.
\<close>

theorem age_not_disclosed_is_planned:
  "wanted_circuits (JObject [(''age'', JObject [(''disclose'', JBool False)])]) = [''compare_age_evm'']
   \<and> wanted_circuits (JObject [(''nationality'', JObject [(''disclose'', JBool False)])]) = []"
  by code_simp

end
