(* ===== verification/Pipeline.thy ===== *)
theory Pipeline
  imports Artifacts Certificates Planning
begin

text \<open>
  The pipeline, \<open>crates/prover-core/src/pipeline.rs\<close>, which composes validation,
  planning, document analysis, the CSCA's circuit context and the manifest lookup; and
  the fixture loaders of \<open>crates/prover-core/src/fixture.rs\<close> that feed it.
\<close>

section \<open>Fixtures\<close>

text \<open>\<open>validate().context(...)\<close>\<close>

definition validated :: "string \<Rightarrow> fixture_bundle \<Rightarrow> fixture_bundle result" where
  "validated failed fixture =
    and_then (with_context failed (map_err (\<lambda>e. [validation_message e]) (fixture_validate fixture)))
      (\<lambda>_. Ok fixture)"

definition load_fixture_bundle :: "host \<Rightarrow> fixture_bundle from_json \<Rightarrow> string \<Rightarrow> fixture_bundle io" where
  "load_fixture_bundle h parse path =
    io_bind (read_json h ''failed to read fixture bundle: '' ''failed to parse fixture bundle: '' parse path)
      (\<lambda>bundle. io_of (validated ''fixture bundle validation failed'' bundle))"

record fixture_parsers =
  fx_document :: "document_input from_json"
  fx_request :: "proof_request from_json"
  fx_outer :: "outer_proof_result from_json"

definition load_fixture_dir :: "host \<Rightarrow> fixture_parsers \<Rightarrow> string \<Rightarrow> fixture_bundle io" where
  "load_fixture_dir h fx dir =
    (let document_path = path_join dir ''document.json'';
         request_path = path_join dir ''request.json'';
         expected_outer_path = path_join dir ''expected_outer.json'' in
     io_bind (read_json h ''failed to read '' ''failed to parse '' (fx_document fx) document_path) (\<lambda>document.
     io_bind (read_json h ''failed to read '' ''failed to parse '' (fx_request fx) request_path) (\<lambda>request.
     io_bind (io_exists expected_outer_path) (\<lambda>found.
     io_bind (if found
              then io_bind (read_json h ''failed to read '' ''failed to parse '' (fx_outer fx) expected_outer_path)
                     (\<lambda>result. io_return (Some result))
              else io_return None) (\<lambda>expected_outer.
     io_of (validated ''fixture directory validation failed''
       \<lparr>fb_document = document, fb_request = request, fb_expected_inner = None,
        fb_expected_outer = expected_outer, fb_metadata = fixture_metadata_default\<rparr>))))))"

section \<open>The pipeline\<close>

datatype pipeline_error = InvalidFixture string | NotImplemented string

fun pipeline_message :: "pipeline_error \<Rightarrow> string" where
  "pipeline_message (InvalidFixture m) = ''invalid fixture: '' @ m"
| "pipeline_message (NotImplemented m) = ''not implemented yet: '' @ m"

text \<open>\<open>PipelineError::InvalidFixture(error.to_string())\<close>; an error's text is its outermost message.\<close>

definition invalid_fixture :: "error \<Rightarrow> pipeline_error" where
  "invalid_fixture e = InvalidFixture (hd e)"

type_synonym 'a staged = "('a, pipeline_error) outcome"

record resolved_plan =
  rs_proof_plan :: proof_plan
  rs_analysis :: document_analysis
  rs_csca :: packaged_certificate
  rs_document_context :: circuit_context
  rs_circuits :: resolved_circuits

definition validate_fixture :: "fixture_bundle \<Rightarrow> unit staged" where
  "validate_fixture fixture =
    and_then (map_err (\<lambda>e. InvalidFixture (validation_message e)) (fixture_validate fixture)) (\<lambda>_. Ok ())"

definition plan_fixture :: "fixture_bundle \<Rightarrow> proof_plan staged" where
  "plan_fixture fixture =
    and_then (validate_fixture fixture) (\<lambda>_. map_err invalid_fixture (build_proof_plan fixture))"

text \<open>The document analyser of \<open>Analysis\<close> is called with its parameters already given.\<close>

definition analyze_fixture ::
  "(document_input \<Rightarrow> document_analysis run) \<Rightarrow> fixture_bundle \<Rightarrow> document_analysis staged option" where
  "analyze_fixture analyze fixture =
    (case validate_fixture fixture of
       Ok _ \<Rightarrow> map_option (map_err invalid_fixture) (analyze (fb_document fixture))
     | Err e \<Rightarrow> Some (Err e)
     | Panic p \<Rightarrow> Some (Panic p))"

definition resolve_analyzed ::
  "manifest \<Rightarrow> packaged_certificate \<Rightarrow> proof_plan \<Rightarrow> document_analysis \<Rightarrow> resolved_plan staged" where
  "resolve_analyzed m csca plan analysis =
    and_then (map_err invalid_fixture
                (derive_document_circuit_context analysis csca (pp_outer_circuit plan))) (\<lambda>document_context.
    and_then (map_err invalid_fixture (resolve_document_circuits m document_context)) (\<lambda>circuits.
    Ok \<lparr>rs_proof_plan = plan, rs_analysis = analysis, rs_csca = csca,
        rs_document_context = document_context, rs_circuits = circuits\<rparr>))"

definition resolve_proof_plan ::
  "(document_input \<Rightarrow> document_analysis run) \<Rightarrow> fixture_bundle \<Rightarrow> manifest \<Rightarrow> packaged_certificate
     \<Rightarrow> resolved_plan staged option" where
  "resolve_proof_plan analyze fixture m csca =
    (case plan_fixture fixture of
       Ok plan \<Rightarrow>
         map_option (\<lambda>r. and_then r (resolve_analyzed m csca plan)) (analyze_fixture analyze fixture)
     | Err e \<Rightarrow> Some (Err e)
     | Panic p \<Rightarrow> Some (Panic p))"

definition prove_inner :: "fixture_bundle \<Rightarrow> inner_proof_bundle staged" where
  "prove_inner fixture =
    and_then (plan_fixture fixture) (\<lambda>plan.
      Err (NotImplemented
        (if pp_unresolved_requirements plan = [] then ''inner proof generation is not wired yet''
         else ''inner proof generation is blocked until document-derived circuit resolution is implemented'')))"

definition prove_outer :: "fixture_bundle \<Rightarrow> outer_proof_result staged" where
  "prove_outer fixture =
    and_then (plan_fixture fixture) (\<lambda>_.
      Err (NotImplemented
        ''outer proof generation will be implemented after the canonical backend is wrapped in Rust''))"

text \<open>The map of the summary, its keys in order.\<close>

definition compatibility_matrix_summary :: "compatibility_matrix \<Rightarrow> (string \<times> string) list" where
  "compatibility_matrix_summary m =
    [(''bb_version'', pg_bb_version (cm_proving m)),
     (''canonical_backend'', pg_canonical_backend (cm_proving m)),
     (''circuit_version'', rg_circuit_version (cm_registry m)),
     (''noir_version'', pg_noir_version (cm_proving m)),
     (''oracle_hash_inner'', pg_inner_oracle_hash (cm_proving m)),
     (''oracle_hash_outer_evm'', pg_outer_evm_oracle_hash (cm_proving m)),
     (''status'', cm_status m)]"

section \<open>Properties of the stages\<close>

lemma validated_Ok:
  "validated m f = Ok f' \<longleftrightarrow> f' = f \<and> document_complete (fb_document f) \<and> request_complete (fb_request f)"
  by (auto simp: validated_def and_then_eq_Ok fixture_validate_iff)

lemma load_fixture_dir_complete:
  assumes "load_fixture_dir h fx dir w = Some (Ok f, w')"
  shows "document_complete (fb_document f) \<and> request_complete (fb_request f) \<and> wd_files w' = wd_files w"
  using assms
  by (auto simp: load_fixture_dir_def Let_def io_bind_Ok validated_Ok read_json_Ok split: if_splits)

lemma validate_fixture_Ok:
  "validate_fixture f = Ok () \<longleftrightarrow> document_complete (fb_document f) \<and> request_complete (fb_request f)"
  by (auto simp: validate_fixture_def and_then_eq_Ok fixture_validate_iff)

lemma plan_fixture_Ok: "plan_fixture f = Ok plan \<longleftrightarrow> build_proof_plan f = Ok plan"
  by (auto simp: plan_fixture_def and_then_eq_Ok validate_fixture_Ok build_proof_plan_Ok
      fixture_validate_iff [symmetric])

lemma plan_fixture_no_panic [simp]: "plan_fixture f \<noteq> Panic p"
  by (auto simp: plan_fixture_def validate_fixture_def and_then_eq_Panic)

lemma prove_inner_fails: "\<exists>e. prove_inner f = Err e"
  by (cases "plan_fixture f") (auto simp: prove_inner_def)

lemma prove_outer_fails: "\<exists>e. prove_outer f = Err e"
  by (cases "plan_fixture f") (auto simp: prove_outer_def)

text \<open>An error that reaches \<open>to_string()\<close> has a message.\<close>

lemma resolve_proof_plan_Ok:
  "resolve_proof_plan analyze f m csca = Some (Ok r) \<longleftrightarrow>
     (\<exists>plan a ctxt cs. build_proof_plan f = Ok plan \<and> analyze (fb_document f) = Some (Ok a)
        \<and> derive_document_circuit_context a csca (pp_outer_circuit plan) = Ok ctxt
        \<and> resolve_document_circuits m ctxt = Ok cs
        \<and> r = \<lparr>rs_proof_plan = plan, rs_analysis = a, rs_csca = csca, rs_document_context = ctxt,
              rs_circuits = cs\<rparr>)"
proof -
  have "validate_fixture f = Ok ()" if "plan_fixture f = Ok plan" for plan
    using that by (simp add: plan_fixture_Ok validate_fixture_Ok build_proof_plan_Ok fixture_validate_iff)
  then show ?thesis
    by (cases "plan_fixture f")
      (auto simp: resolve_proof_plan_def analyze_fixture_def resolve_analyzed_def and_then_eq_Ok
        plan_fixture_Ok [symmetric])
qed

section \<open>Properties of the pipeline\<close>

text \<open>
  C2. A resolved plan is consistent end to end: its fixture is complete, its circuits are
  all in the manifest, the DSC and ID data circuits carry the bucket of the analysed
  certificate and the hashes and keys of the analysis and the CSCA, the integrity circuit
  carries the two hashes of the analysis, and the outer circuit is the one for three
  document circuits and the plan's disclosures.
\<close>

theorem resolved_plan_is_consistent:
  assumes "resolve_proof_plan analyze f m csca = Some (Ok r)"
  shows "document_complete (fb_document f) \<and> request_complete (fb_request f)
    \<and> analyze (fb_document f) = Some (Ok (rs_analysis r))
    \<and> {rc_dsc_name (rs_circuits r), rc_id_data_name (rs_circuits r), rc_integrity_name (rs_circuits r),
        rc_outer_name (rs_circuits r)} \<subseteq> dom (mf_circuits m)
    \<and> (\<exists>key. csca_key csca = Some key \<and> rc_dsc_name (rs_circuits r) = dsc_circuit_name
         \<lparr>cs_tbs_bucket = da_tbs_bucket (rs_analysis r), cs_key = key,
          cs_hash = da_dsc_signature_hash (rs_analysis r)\<rparr>)
    \<and> rc_id_data_name (rs_circuits r) = id_data_circuit_name
         \<lparr>cs_tbs_bucket = da_tbs_bucket (rs_analysis r), cs_key = da_id_data_public_key (rs_analysis r),
          cs_hash = da_sod_signature_hash (rs_analysis r)\<rparr>
    \<and> rc_integrity_name (rs_circuits r) =
         integrity_circuit_name (da_sod_signature_hash (rs_analysis r)) (da_dg_hash (rs_analysis r))
    \<and> rc_outer_name (rs_circuits r) =
         ''outer_evm_count_'' @ show_nat (3 + pp_disclosure_count (rs_proof_plan r))"
proof -
  from assms obtain plan a ctxt cs where plan: "build_proof_plan f = Ok plan"
    and a: "analyze (fb_document f) = Some (Ok a)"
    and ctxt: "derive_document_circuit_context a csca (pp_outer_circuit plan) = Ok ctxt"
    and cs: "resolve_document_circuits m ctxt = Ok cs"
    and r: "r = \<lparr>rs_proof_plan = plan, rs_analysis = a, rs_csca = csca, rs_document_context = ctxt,
              rs_circuits = cs\<rparr>"
    by (auto simp: resolve_proof_plan_Ok)
  from plan have "document_complete (fb_document f)" "request_complete (fb_request f)"
    "pp_outer_circuit plan = ''outer_evm_count_'' @ show_nat (3 + pp_disclosure_count plan)"
    by (auto simp: build_proof_plan_Ok fixture_validate_iff outer_circuit_name_def)
  with a ctxt cs r show ?thesis
    by (auto simp: derive_context_Ok resolve_document_circuits_Ok)
qed

definition example_analysis :: document_analysis where
  "example_analysis =
    \<lparr>da_mrz = [], da_mrz_fields = \<lparr>mz_issuing_country = [], mz_document_number = [], mz_nationality = [],
       mz_date_of_birth = [], mz_gender = [], mz_expiry_date = [], mz_last_name = [], mz_first_name = []\<rparr>,
     da_document_type = ''passport'', da_tbs_len = 650, da_tbs_bucket = 700, da_dsc_country = ''ZKR'',
     da_dsc_authority_key_identifier = None, da_dsc_signature_hash = Sha256,
     da_dsc_parent_signature_algorithm = ''RSA'', da_dsc_signature_algorithm_oid = [],
     da_sod_digest_algorithm_oid = [], da_sod_signature_algorithm_oid = [],
     da_sod_signature_hash = Sha256, da_dg_hash = Sha1, da_id_data_public_key = Ecdsa NistP256,
     da_econtent_len = 10\<rparr>"

definition example_csca :: packaged_certificate where
  "example_csca =
    \<lparr>ct_country = ''ZKR'', ct_signature_algorithm = ''rsa-pss'', ct_hash_algorithm = [],
     ct_public_key = KeyRSA 4096 ''0x1'' 65537, ct_validity = \<lparr>va_not_before = 0, va_not_after = 0\<rparr>,
     ct_private_key_usage_period = None, ct_subject_key_identifier = None,
     ct_authority_key_identifier = None, ct_fingerprint = None, ct_tags = [], ct_type = None\<rparr>"

definition full_manifest :: manifest where
  "full_manifest = \<lparr>mf_version = [], mf_root = [], mf_circuits = (\<lambda>_. Some \<lparr>mc_hash = [], mc_size = 0\<rparr>)\<rparr>"

theorem resolved_plan_is_consistent_witness:
  "\<exists>r. resolve_proof_plan (\<lambda>_. Some (Ok example_analysis)) (example_fixture example_query) full_manifest
      example_csca = Some (Ok r)
    \<and> rc_dsc_name (rs_circuits r) = ''sig_check_dsc_tbs_700_rsa_pss_4096_sha256''
    \<and> rc_outer_name (rs_circuits r) = ''outer_evm_count_6''"
proof -
  let ?plan = "build_proof_plan (example_fixture example_query)"
  have "pr_query (fb_request (example_fixture example_query)) = example_query"
    by (simp add: example_fixture_def example_request_def)
  then obtain p where p: "?plan = Ok p" and count: "pp_disclosure_count p = 3"
    by (simp add: build_proof_plan_Ok example_fixture_valid example_query_normal example_wanted)
  have key: "csca_key example_csca = Some (RsaPss 4096)"
  proof -
    have "eq_ignore_ascii_case ''rsa-pss'' ''RSA-PSS''" by code_simp
    then show ?thesis by (simp add: csca_key_def example_csca_def)
  qed
  have "derive_document_circuit_context example_analysis example_csca o1 = Ok
      \<lparr>cc_dsc = \<lparr>cs_tbs_bucket = 700, cs_key = RsaPss 4096, cs_hash = Sha256\<rparr>,
       cc_id_data = \<lparr>cs_tbs_bucket = 700, cs_key = Ecdsa NistP256, cs_hash = Sha256\<rparr>,
       cc_dg_hash = Sha1, cc_outer_circuit = o1\<rparr>" for o1
    by (simp add: derive_context_Ok key) (simp add: example_analysis_def)
  then obtain r where run: "resolve_proof_plan (\<lambda>_. Some (Ok example_analysis)) (example_fixture example_query)
      full_manifest example_csca = Some (Ok r)" and plan: "rs_proof_plan r = p"
    and a: "rs_analysis r = example_analysis"
    using p by (auto simp: resolve_proof_plan_Ok resolve_document_circuits_Ok full_manifest_def dom_def)
  have "dsc_circuit_name \<lparr>cs_tbs_bucket = 700, cs_key = RsaPss 4096, cs_hash = Sha256\<rparr>
      = ''sig_check_dsc_tbs_700_rsa_pss_4096_sha256''"
    by (simp add: dsc_circuit_name_def show_u32_def show_nat.simps digit_char_def)
  moreover have "show_nat 6 = ''6''" by code_simp
  ultimately show ?thesis
    using resolved_plan_is_consistent [OF run] run plan count a key
    by (intro exI [of _ r]) (simp add: example_analysis_def)
qed

text \<open>
  Proof generation in the pipeline is not there yet: for a fixture that can be planned
  the inner and the outer prover fail with \<open>NotImplemented\<close>, for every other with the
  planner's own error; neither ever returns a proof.
\<close>

theorem pipeline_proves_nothing:
  "(case plan_fixture f of
      Ok _ \<Rightarrow> prove_inner f = Err (NotImplemented
          ''inner proof generation is blocked until document-derived circuit resolution is implemented'')
        \<and> prove_outer f = Err (NotImplemented
          ''outer proof generation will be implemented after the canonical backend is wrapped in Rust'')
    | Err e \<Rightarrow> prove_inner f = Err e \<and> prove_outer f = Err e
    | Panic p \<Rightarrow> False)"
proof (cases "plan_fixture f")
  case (Ok plan)
  then have "pp_unresolved_requirements plan = unresolved_notes"
    by (auto simp: plan_fixture_Ok build_proof_plan_Ok)
  then have "pp_unresolved_requirements plan \<noteq> []" by (simp add: unresolved_notes_def)
  with Ok show ?thesis by (simp add: prove_inner_def prove_outer_def)
qed (simp_all add: prove_inner_def prove_outer_def)

text \<open>
  C35. A fixture loaded from a directory is complete (document and request pass their
  validation), and loading changes no file.
\<close>

theorem loaded_fixture_is_complete:
  assumes "load_fixture_dir h fx dir w = Some (Ok f, w')"
  shows "document_complete (fb_document f) \<and> request_complete (fb_request f) \<and> wd_files w' = wd_files w"
  by (rule load_fixture_dir_complete [OF assms])

theorem loaded_fixture_is_complete_witness:
  "\<exists>f w'. load_fixture_dir (example_host (\<lambda>_. Received []))
      \<lparr>fx_document = \<lambda>_. Inr (fb_document (example_fixture JNull)),
       fx_request = \<lambda>_. Inr (example_request JNull), fx_outer = \<lambda>_. Inl ''none''\<rparr>
      ''dir'' (empty_world\<lparr>wd_files := [''dir/document.json'' \<mapsto> [1], ''dir/request.json'' \<mapsto> [2]]\<rparr>)
    = Some (Ok f, w') \<and> request_complete (fb_request f)"
proof -
  let ?fx = "\<lparr>fx_document = \<lambda>_. Inr (fb_document (example_fixture JNull)),
       fx_request = \<lambda>_. Inr (example_request JNull), fx_outer = \<lambda>_. Inl ''none''\<rparr> :: fixture_parsers"
  let ?w = "empty_world\<lparr>wd_files := [''dir/document.json'' \<mapsto> [1], ''dir/request.json'' \<mapsto> [2]]\<rparr>"
  let ?f = "\<lparr>fb_document = fb_document (example_fixture JNull), fb_request = example_request JNull,
      fb_expected_inner = None, fb_expected_outer = None, fb_metadata = fixture_metadata_default\<rparr>"
  have "?f = example_fixture JNull" by (simp add: example_fixture_def)
  then have "validated m ?f = Ok ?f" for m
    using example_fixture_valid [of JNull] by (simp add: validated_def)
  then have "\<exists>w'. load_fixture_dir (example_host (\<lambda>_. Received [])) ?fx ''dir'' ?w = Some (Ok ?f, w')"
    by (simp add: load_fixture_dir_def Let_def path_join_def starts_with_def ends_with_def read_json_def
        read_to_string_def read_file_def attempt_def io_bind_def io_return_def io_of_def io_context_def
        io_exists_def path_exists_def example_host_def empty_world_def from_utf8_def)
  then obtain w' where run: "load_fixture_dir (example_host (\<lambda>_. Received [])) ?fx ''dir'' ?w = Some (Ok ?f, w')" ..
  from loaded_fixture_is_complete [OF run] run show ?thesis by blast
qed

end
