(* ===== verification/Witness.thy ===== *)
theory Witness
  imports Effects Registry
begin

text \<open>
  Solving witnesses, \<open>crates/prover-core/src/witness.rs\<close>, and decoding circuits,
  \<open>crates/prover-core/src/circuit.rs\<close>. The ACVM (parsing the ABI, encoding the inputs,
  running the program, serialising the witness stack) is third-party code and a parameter;
  what the source does around it, and the environment variable through which it tells the
  serialiser which format to write, is modelled.
\<close>

record witness_payload =
  wp_bytecode :: string
  wp_abi :: json
  wp_inputs :: json

text \<open>
  The ACVM and the coders. A witness stack and a program are serialised in the format that
  the variable \<open>NOIR_SERIALIZATION_FORMAT\<close> names, or the default one.
\<close>

record ('abi, 'input, 'witness, 'program, 'stack) acvm =
  av_abi_in :: "json \<Rightarrow> string + 'abi"
  av_base64 :: "string \<Rightarrow> string + u8 list"
  av_json_out :: "json \<Rightarrow> string + string"
  av_parse_inputs :: "string \<Rightarrow> 'abi \<Rightarrow> string + 'input"
  av_encode :: "'abi \<Rightarrow> 'input \<Rightarrow> string + 'witness"
  av_program_in :: "u8 list \<Rightarrow> string + 'program"
  av_execute :: "'program \<Rightarrow> 'witness \<Rightarrow> string + 'stack"
  av_serialize :: "string option \<Rightarrow> 'stack \<Rightarrow> string + u8 list"
  av_program_out :: "string option \<Rightarrow> 'program \<Rightarrow> u8 list"
  av_gunzip :: "u8 list \<Rightarrow> string + u8 list"

definition format_variable :: string where
  "format_variable = ''NOIR_SERIALIZATION_FORMAT''"

definition compact_format :: string where
  "compact_format = ''msgpack-compact''"

section \<open>Solving\<close>

text \<open>Up to the witness stack, before the environment is touched.\<close>

definition witness_stack ::
  "('abi, 'input, 'witness, 'program, 'stack) acvm \<Rightarrow> witness_payload \<Rightarrow> 'stack result" where
  "witness_stack av payload =
    and_then (of_sum (\<lambda>e. [''failed to parse Noir ABI'', e]) (av_abi_in av (wp_abi payload))) (\<lambda>abi.
    and_then (of_sum (\<lambda>e. [''failed to decode circuit bytecode'', e])
                (av_base64 av (wp_bytecode payload))) (\<lambda>program_bytes.
    and_then (of_sum (\<lambda>e. [''failed to serialize inputs'', e])
                (av_json_out av (wp_inputs payload))) (\<lambda>inputs_str.
    and_then (of_sum (\<lambda>e. [''input parse failed: '' @ e]) (av_parse_inputs av inputs_str abi)) (\<lambda>input_map.
    and_then (of_sum (\<lambda>e. [''ABI encode failed: '' @ e]) (av_encode av abi input_map)) (\<lambda>witness_map.
    and_then (of_sum (\<lambda>e. [''Program::deserialize_program failed: '' @ e])
                (av_program_in av program_bytes)) (\<lambda>program.
    of_sum (\<lambda>e. [''ACVM execution failed: '' @ e]) (av_execute av program witness_map)))))))"

definition serialize_stack ::
  "('abi, 'input, 'witness, 'program, 'stack) acvm \<Rightarrow> string option \<Rightarrow> 'stack \<Rightarrow> u8 list result" where
  "serialize_stack av format stack =
    of_sum (\<lambda>e. [''witness serialization failed: '' @ e]) (av_serialize av format stack)"

definition solve_compressed_witness_with_format ::
  "('abi, 'input, 'witness, 'program, 'stack) acvm \<Rightarrow> witness_payload \<Rightarrow> string option \<Rightarrow> u8 list io" where
  "solve_compressed_witness_with_format av payload serialization_format =
    io_bind (io_of (witness_stack av payload)) (\<lambda>stack.
    io_bind (set_env format_variable serialization_format) (\<lambda>_.
    io_bind (get_env format_variable) (\<lambda>format.
    io_of (serialize_stack av format stack))))"

definition decompress_witness_stack ::
  "('abi, 'input, 'witness, 'program, 'stack) acvm \<Rightarrow> u8 list \<Rightarrow> u8 list result" where
  "decompress_witness_stack av serialized =
    of_sum (\<lambda>e. [''witness gzip decompression failed: '' @ e]) (av_gunzip av serialized)"

definition solve_serialized_witness ::
  "('abi, 'input, 'witness, 'program, 'stack) acvm \<Rightarrow> witness_payload \<Rightarrow> u8 list io" where
  "solve_serialized_witness av payload =
    solve_compressed_witness_with_format av payload (Some compact_format)"

definition solve_serialized_legacy_witness ::
  "('abi, 'input, 'witness, 'program, 'stack) acvm \<Rightarrow> witness_payload \<Rightarrow> u8 list io" where
  "solve_serialized_legacy_witness av payload = solve_compressed_witness_with_format av payload None"

definition solve_compressed_witness ::
  "('abi, 'input, 'witness, 'program, 'stack) acvm \<Rightarrow> witness_payload \<Rightarrow> u8 list io" where
  "solve_compressed_witness av payload =
    io_bind (solve_serialized_witness av payload) (\<lambda>serialized.
    io_of (decompress_witness_stack av serialized))"

definition solve_legacy_witness ::
  "('abi, 'input, 'witness, 'program, 'stack) acvm \<Rightarrow> witness_payload \<Rightarrow> u8 list io" where
  "solve_legacy_witness av payload =
    io_bind (solve_serialized_legacy_witness av payload) (\<lambda>serialized.
    io_of (decompress_witness_stack av serialized))"

section \<open>For a packaged circuit\<close>

definition circuit_payload :: "packaged_circuit \<Rightarrow> json \<Rightarrow> witness_payload" where
  "circuit_payload circuit inputs =
    \<lparr>wp_bytecode = ca_bytecode circuit, wp_abi = ca_abi circuit, wp_inputs = inputs\<rparr>"

definition solve_serialized_witness_for_circuit ::
  "('abi, 'input, 'witness, 'program, 'stack) acvm \<Rightarrow> packaged_circuit \<Rightarrow> json \<Rightarrow> u8 list io" where
  "solve_serialized_witness_for_circuit av circuit inputs =
    solve_serialized_witness av (circuit_payload circuit inputs)"

definition solve_serialized_legacy_witness_for_circuit ::
  "('abi, 'input, 'witness, 'program, 'stack) acvm \<Rightarrow> packaged_circuit \<Rightarrow> json \<Rightarrow> u8 list io" where
  "solve_serialized_legacy_witness_for_circuit av circuit inputs =
    solve_serialized_legacy_witness av (circuit_payload circuit inputs)"

definition solve_compressed_witness_for_circuit ::
  "('abi, 'input, 'witness, 'program, 'stack) acvm \<Rightarrow> packaged_circuit \<Rightarrow> json \<Rightarrow> u8 list io" where
  "solve_compressed_witness_for_circuit av circuit inputs =
    solve_compressed_witness av (circuit_payload circuit inputs)"

definition solve_legacy_witness_for_circuit ::
  "('abi, 'input, 'witness, 'program, 'stack) acvm \<Rightarrow> packaged_circuit \<Rightarrow> json \<Rightarrow> u8 list io" where
  "solve_legacy_witness_for_circuit av circuit inputs =
    solve_legacy_witness av (circuit_payload circuit inputs)"

section \<open>Decoding circuits\<close>

definition get_acir_buffer ::
  "('abi, 'input, 'witness, 'program, 'stack) acvm \<Rightarrow> string \<Rightarrow> u8 list result" where
  "get_acir_buffer av circuit_bytecode =
    of_sum (\<lambda>e. [''failed to decode circuit bytecode from base64'', e]) (av_base64 av circuit_bytecode)"

definition uncompress_acir_buffer ::
  "('abi, 'input, 'witness, 'program, 'stack) acvm \<Rightarrow> u8 list \<Rightarrow> u8 list result" where
  "uncompress_acir_buffer av acir_buffer =
    of_sum (\<lambda>e. [''failed to decompress ACIR buffer'', e]) (av_gunzip av acir_buffer)"

definition get_acir_buffer_uncompressed ::
  "('abi, 'input, 'witness, 'program, 'stack) acvm \<Rightarrow> string \<Rightarrow> u8 list io" where
  "get_acir_buffer_uncompressed av circuit_bytecode =
    io_bind (io_of (get_acir_buffer av circuit_bytecode)) (\<lambda>acir_buffer.
    io_bind (io_of (of_sum (\<lambda>e. [''failed to deserialize program: '' @ e])
                      (av_program_in av acir_buffer))) (\<lambda>program.
    io_bind (set_env format_variable (Some compact_format)) (\<lambda>_.
    io_bind (get_env format_variable) (\<lambda>format.
    io_of (uncompress_acir_buffer av (av_program_out av format program))))))"

section \<open>What the solvers return\<close>

text \<open>The world after a solver: the variable is set once there is a witness stack.\<close>

definition format_set :: "string option \<Rightarrow> ('a, 'e) outcome \<Rightarrow> world \<Rightarrow> world" where
  "format_set format stack w =
    (if is_ok stack then w\<lparr>wd_env := (wd_env w)(format_variable := format)\<rparr> else w)"

lemma solve_with_format_eq:
  "solve_compressed_witness_with_format av payload format w =
    Some (and_then (witness_stack av payload) (serialize_stack av format),
          format_set format (witness_stack av payload) w)"
  by (cases "witness_stack av payload")
    (simp_all add: solve_compressed_witness_with_format_def io_bind_def io_of_def set_env_def
      get_env_def format_set_def)

lemma solve_compressed_eq:
  "solve_compressed_witness av payload w =
    Some (and_then (and_then (witness_stack av payload) (serialize_stack av (Some compact_format)))
            (decompress_witness_stack av),
          format_set (Some compact_format) (witness_stack av payload) w)"
  by (simp add: solve_compressed_witness_def solve_serialized_witness_def io_bind_def solve_with_format_eq
      io_of_def split: outcome.split)

lemma solve_legacy_eq:
  "solve_legacy_witness av payload w =
    Some (and_then (and_then (witness_stack av payload) (serialize_stack av None))
            (decompress_witness_stack av),
          format_set None (witness_stack av payload) w)"
  by (simp add: solve_legacy_witness_def solve_serialized_legacy_witness_def io_bind_def solve_with_format_eq
      io_of_def split: outcome.split)

text \<open>
  The calls a program can make: a solver of one of the four kinds, on a payload or on a
  packaged circuit with its inputs, and the decoding of a circuit's bytecode, which sets the
  same variable.
\<close>

datatype solver_kind = Serialized | Serialized_legacy | Compressed | Compressed_legacy

datatype solver_call =
    Solve_payload solver_kind witness_payload
  | Solve_circuit solver_kind packaged_circuit json
  | Decode_circuit string

fun run_call ::
  "('abi, 'input, 'witness, 'program, 'stack) acvm \<Rightarrow> solver_call \<Rightarrow> u8 list io" where
  "run_call av (Solve_payload Serialized p) = solve_serialized_witness av p"
| "run_call av (Solve_payload Serialized_legacy p) = solve_serialized_legacy_witness av p"
| "run_call av (Solve_payload Compressed p) = solve_compressed_witness av p"
| "run_call av (Solve_payload Compressed_legacy p) = solve_legacy_witness av p"
| "run_call av (Solve_circuit Serialized c i) = solve_serialized_witness_for_circuit av c i"
| "run_call av (Solve_circuit Serialized_legacy c i) = solve_serialized_legacy_witness_for_circuit av c i"
| "run_call av (Solve_circuit Compressed c i) = solve_compressed_witness_for_circuit av c i"
| "run_call av (Solve_circuit Compressed_legacy c i) = solve_legacy_witness_for_circuit av c i"
| "run_call av (Decode_circuit bytecode) = get_acir_buffer_uncompressed av bytecode"

text \<open>What each is to return, without a machine: the format is fixed by the kind.\<close>

fun kind_format :: "solver_kind \<Rightarrow> string option" where
  "kind_format Serialized = Some ''msgpack-compact''"
| "kind_format Compressed = Some ''msgpack-compact''"
| "kind_format Serialized_legacy = None"
| "kind_format Compressed_legacy = None"

definition kind_unzips :: "solver_kind \<Rightarrow> bool" where
  "kind_unzips kind \<longleftrightarrow> kind \<in> {Compressed, Compressed_legacy}"

definition solved ::
  "('abi, 'input, 'witness, 'program, 'stack) acvm \<Rightarrow> solver_kind \<Rightarrow> witness_payload \<Rightarrow> u8 list result" where
  "solved av kind payload =
    and_then (witness_stack av payload) (\<lambda>stack.
    and_then (serialize_stack av (kind_format kind) stack) (\<lambda>bytes.
    if kind_unzips kind then decompress_witness_stack av bytes else Ok bytes))"

fun expected ::
  "('abi, 'input, 'witness, 'program, 'stack) acvm \<Rightarrow> solver_call \<Rightarrow> u8 list result" where
  "expected av (Solve_payload kind p) = solved av kind p"
| "expected av (Solve_circuit kind c inputs) =
    solved av kind \<lparr>wp_bytecode = ca_bytecode c, wp_abi = ca_abi c, wp_inputs = inputs\<rparr>"
| "expected av (Decode_circuit bytecode) =
    and_then (get_acir_buffer av bytecode) (\<lambda>acir_buffer.
    and_then (of_sum (\<lambda>e. [''failed to deserialize program: '' @ e]) (av_program_in av acir_buffer)) (\<lambda>program.
    uncompress_acir_buffer av (av_program_out av (Some ''msgpack-compact'') program)))"

text \<open>Two worlds that differ at most in the variable.\<close>

definition but_format :: "world \<Rightarrow> world \<Rightarrow> bool" where
  "but_format w w' \<longleftrightarrow> (\<exists>v. w' = w\<lparr>wd_env := (wd_env w)(format_variable := v)\<rparr>)"

lemma but_format_refl: "but_format w w"
  unfolding but_format_def by (rule exI [of _ "wd_env w format_variable"]) simp

lemma but_format_set: "but_format w (w\<lparr>wd_env := (wd_env w)(format_variable := f)\<rparr>)"
  by (auto simp: but_format_def)

lemma but_format_trans: "but_format w w' \<Longrightarrow> but_format w' w'' \<Longrightarrow> but_format w w''"
  by (auto simp: but_format_def)

interpretation but_format: kept_relation but_format
  by unfold_locales (fact but_format_refl, fact but_format_trans)

text \<open>An operation that returns a fixed result and changes the variable alone.\<close>

definition returns :: "'a result \<Rightarrow> 'a io \<Rightarrow> bool" where
  "returns r m \<longleftrightarrow> (\<forall>w. \<exists>w'. m w = Some (r, w') \<and> but_format w w')"

lemma returns_of: "returns r (io_of r)"
  by (simp add: returns_def but_format_refl)

lemma returns_return: "returns (Ok x) (io_return x)"
  by (simp add: returns_def but_format_refl)

lemma returns_bind:
  assumes m: "returns r m" and f: "\<And>x. returns (g x) (f x)"
  shows "returns (and_then r g) (io_bind m f)"
  unfolding returns_def
proof
  fix w
  from m obtain w1 where w1: "m w = Some (r, w1)" "but_format w w1" by (auto simp: returns_def)
  show "\<exists>w'. io_bind m f w = Some (and_then r g, w') \<and> but_format w w'"
  proof (cases r)
    case (Ok x)
    from f [of x] obtain w2 where "f x w1 = Some (g x, w2)" "but_format w1 w2" by (auto simp: returns_def)
    with w1 Ok show ?thesis by (auto simp: io_bind_def intro: but_format_trans)
  qed (use w1 in \<open>auto simp: io_bind_def\<close>)
qed

lemma returns_with_variable:
  "returns (g f) (io_bind (set_env format_variable f) (\<lambda>_. io_bind (get_env format_variable) (\<lambda>v. io_of (g v))))"
  by (auto simp: returns_def io_bind_def set_env_def get_env_def io_of_def intro: but_format_set)

lemma returns_map: "(\<And>x. returns (g x) (f x)) \<Longrightarrow> returns (try_map g xs) (io_map f xs)"
  by (induction xs) (auto intro!: returns_bind returns_return)

lemma returns_solve:
  "returns (and_then (witness_stack av p) (serialize_stack av format)) (solve_compressed_witness_with_format av p format)"
  unfolding solve_compressed_witness_with_format_def
  by (rule returns_bind [OF returns_of]) (rule returns_with_variable [where g = "\<lambda>v. serialize_stack av v stack" for stack])

lemma solved_kinds:
  "solved av Serialized p = and_then (witness_stack av p) (serialize_stack av (Some compact_format))"
  "solved av Serialized_legacy p = and_then (witness_stack av p) (serialize_stack av None)"
  "solved av Compressed p = and_then (solved av Serialized p) (decompress_witness_stack av)"
  "solved av Compressed_legacy p = and_then (solved av Serialized_legacy p) (decompress_witness_stack av)"
  by (simp_all add: solved_def kind_unzips_def compact_format_def and_then_assoc and_then_Ok_right)

lemma returns_payload: "returns (solved av kind p) (run_call av (Solve_payload kind p))"
  by (cases kind)
    (simp_all add: solved_kinds solve_serialized_witness_def solve_serialized_legacy_witness_def
      solve_compressed_witness_def solve_legacy_witness_def returns_solve returns_bind returns_of)

lemma run_for_circuit:
  "run_call av (Solve_circuit kind c inputs) = run_call av (Solve_payload kind (circuit_payload c inputs))"
  by (cases kind)
    (simp_all add: solve_serialized_witness_for_circuit_def solve_serialized_legacy_witness_for_circuit_def
      solve_compressed_witness_for_circuit_def solve_legacy_witness_for_circuit_def)

lemma returns_call: "returns (expected av call) (run_call av call)"
proof (cases call)
  case (Solve_payload kind p)
  then show ?thesis using returns_payload by simp
next
  case (Solve_circuit kind c inputs)
  then show ?thesis using returns_payload [of av kind] by (simp add: run_for_circuit circuit_payload_def)
next
  case (Decode_circuit bytecode)
  have "returns (uncompress_acir_buffer av (av_program_out av (Some compact_format) program))
      (io_bind (set_env format_variable (Some compact_format)) (\<lambda>_.
       io_bind (get_env format_variable) (\<lambda>format. io_of (uncompress_acir_buffer av (av_program_out av format program)))))"
    for program
    by (rule returns_with_variable [where g = "\<lambda>v. uncompress_acir_buffer av (av_program_out av v program)"])
  with Decode_circuit show ?thesis
    by (auto simp: get_acir_buffer_uncompressed_def compact_format_def intro!: returns_bind returns_of)
qed

text \<open>
  C24. Whatever sequence of solver calls and circuit decodings a program makes, for payloads
  and for packaged circuits, and whatever the variable is at the start, each call returns
  what its own arguments determine: the compact solvers the stack in the format
  \<open>msgpack-compact\<close>, the legacy ones in the default format, the serialised ones as it is
  and the others decompressed, the first failure ending the sequence. So a call of one kind
  never disturbs a later one of another, and nothing but the variable changes.
\<close>

theorem solvers_fix_format:
  fixes av :: "('abi, 'input, 'witness, 'program, 'stack) acvm"
  shows "\<exists>w'. io_map (run_call av) calls w = Some (try_map (expected av) calls, w')
    \<and> (\<exists>v. w' = w\<lparr>wd_env := (wd_env w)(''NOIR_SERIALIZATION_FORMAT'' := v)\<rparr>)"
  using returns_map [of "expected av" "run_call av" calls, OF returns_call]
  unfolding returns_def but_format_def format_variable_def by (rule spec)

text \<open>An ACVM whose serialiser writes one byte in the compact format and two in the default one.\<close>

definition example_acvm :: "(unit, unit, unit, unit, unit) acvm" where
  "example_acvm =
    \<lparr>av_abi_in = (\<lambda>_. Inr ()), av_base64 = (\<lambda>s. Inr (as_bytes s)), av_json_out = (\<lambda>_. Inr []),
     av_parse_inputs = (\<lambda>_ _. Inr ()), av_encode = (\<lambda>_ _. Inr ()), av_program_in = (\<lambda>_. Inr ()),
     av_execute = (\<lambda>_ _. Inr ()),
     av_serialize = (\<lambda>format _. Inr (if format = None then [1, 2] else [3])),
     av_program_out = (\<lambda>_ _. []), av_gunzip = Inr\<rparr>"

end
