(* ===== verification/Mobile.thy ===== *)
theory Mobile
  imports Witness
begin

text \<open>
  The witness solver of the phones, \<open>crates/acvm-witness-jni/src/lib.rs\<close>: its core, the
  entry point of the Java interface, and the command line of \<open>bin/acvm_witness_cli.rs\<close>.
  Unlike \<open>prover-core\<close> it never sets \<open>NOIR_SERIALIZATION_FORMAT\<close>, so the format of
  its witnesses is that of the process it runs in.
\<close>

datatype solve_error =
    JsonError string
  | Base64Error string
  | InputParse string
  | AbiEncode string
  | Deserialize string
  | Acvm string
  | SerializeError string

fun solve_message :: "solve_error \<Rightarrow> string" where
  "solve_message (JsonError e) = ''JSON: '' @ e"
| "solve_message (Base64Error e) = ''Base64: '' @ e"
| "solve_message (InputParse e) = ''Input parse: '' @ e"
| "solve_message (AbiEncode e) = ''ABI encode: '' @ e"
| "solve_message (Deserialize e) = ''Program deserialize: '' @ e"
| "solve_message (Acvm e) = ''ACVM: '' @ e"
| "solve_message (SerializeError e) = ''Witness serialize: '' @ e"

text \<open>The payload of this crate holds the ABI itself, not its JSON.\<close>

record 'abi mobile_payload =
  mp_bytecode :: string
  mp_abi :: 'abi
  mp_inputs :: json

definition or_error :: "('m \<Rightarrow> 'e) \<Rightarrow> 'm + 'a \<Rightarrow> ('a, 'e) outcome" where
  "or_error f s = (case s of Inl e \<Rightarrow> Err (f e) | Inr v \<Rightarrow> Ok v)"

definition solve_inner ::
  "('abi, 'input, 'witness, 'program, 'stack) acvm \<Rightarrow> (string \<Rightarrow> string + 'abi mobile_payload)
     \<Rightarrow> string option \<Rightarrow> string \<Rightarrow> (u8 list, solve_error) outcome" where
  "solve_inner av parse format json =
    and_then (or_error JsonError (parse json)) (\<lambda>payload.
    and_then (or_error Base64Error (av_base64 av (mp_bytecode payload))) (\<lambda>program_bytes.
    and_then (or_error JsonError (av_json_out av (mp_inputs payload))) (\<lambda>inputs_str.
    and_then (or_error InputParse (av_parse_inputs av inputs_str (mp_abi payload))) (\<lambda>input_map.
    and_then (or_error AbiEncode (av_encode av (mp_abi payload) input_map)) (\<lambda>witness_map.
    and_then (or_error (\<lambda>e. Deserialize (''Program::deserialize_program failed: '' @ e))
                (av_program_in av program_bytes)) (\<lambda>program.
    and_then (or_error Acvm (av_execute av program witness_map)) (\<lambda>witness_stack.
    and_then (or_error SerializeError (av_serialize av format witness_stack)) (\<lambda>compressed.
    or_error (\<lambda>e. SerializeError (''gzip decompress: '' @ e)) (av_gunzip av compressed)))))))))"

definition solve_compressed_witness_from_json_utf8 ::
  "('abi, 'input, 'witness, 'program, 'stack) acvm \<Rightarrow> (string \<Rightarrow> string + 'abi mobile_payload)
     \<Rightarrow> string option \<Rightarrow> string \<Rightarrow> (u8 list, string) outcome" where
  "solve_compressed_witness_from_json_utf8 av parse format json =
    map_err solve_message (solve_inner av parse format json)"

section \<open>The Java entry point\<close>

text \<open>
  A call returns an array or null; on null it has asked for a \<open>RuntimeException\<close> with a
  message. The Java environment's string and array operations are parameters.
\<close>

datatype 'a jni_return = Null_after string | Java_array 'a

definition native_solve_from_json_utf8 ::
  "('j \<Rightarrow> string + string) \<Rightarrow> (u8 list \<Rightarrow> string + 'a) \<Rightarrow> (string \<Rightarrow> (u8 list, solve_error) outcome)
     \<Rightarrow> 'j \<Rightarrow> 'a jni_return option" where
  "native_solve_from_json_utf8 get_string byte_array solve json =
    (case get_string json of
       Inl e \<Rightarrow> Some (Null_after (''JNI get_string: '' @ e))
     | Inr json_str \<Rightarrow>
         (case solve json_str of
            Err e \<Rightarrow> Some (Null_after (solve_message e))
          | Panic p \<Rightarrow> None
          | Ok bytes \<Rightarrow>
              (case byte_array bytes of
                 Inl e \<Rightarrow> Some (Null_after (''byte_array_from_slice: '' @ e))
               | Inr a \<Rightarrow> Some (Java_array a))))"

section \<open>The command line\<close>

text \<open>\<open>main\<close> of the binary returns the exit status of the process.\<close>

definition io_try :: "'a io \<Rightarrow> (error + 'a \<Rightarrow> 'b io) \<Rightarrow> 'b io" where
  "io_try m f w =
    (case m w of
       None \<Rightarrow> None
     | Some (Ok x, w') \<Rightarrow> f (Inr x) w'
     | Some (Err e, w') \<Rightarrow> f (Inl e) w'
     | Some (Panic p, w') \<Rightarrow> Some (Panic p, w'))"

definition witness_cli_main ::
  "host \<Rightarrow> ('abi, 'input, 'witness, 'program, 'stack) acvm \<Rightarrow> (string \<Rightarrow> string + 'abi mobile_payload)
     \<Rightarrow> string list \<Rightarrow> nat io" where
  "witness_cli_main h av parse args =
    (if length args \<noteq> 2
     then io_bind (eprint_line ''usage: acvm_witness_cli <payload.json>'') (\<lambda>_. io_return 2)
     else
       let path = args ! 1 in
       io_try (read_to_string h path) (\<lambda>read.
       case read of
         Inl e \<Rightarrow> io_bind (eprint_line (''read '' @ path @ '': '' @ hd e)) (\<lambda>_. io_return 2)
       | Inr json \<Rightarrow>
           io_bind (get_env format_variable) (\<lambda>format.
           case solve_compressed_witness_from_json_utf8 av parse format json of
             Ok bytes \<Rightarrow>
               io_bind (print_line (''ok: witness bytes='' @ show_nat (length bytes))) (\<lambda>_. io_return 0)
           | Err e \<Rightarrow> io_bind (eprint_line (''error: '' @ e)) (\<lambda>_. io_return 1)
           | Panic p \<Rightarrow> io_of (Panic p))))"

section \<open>The two solvers\<close>

lemma or_error_simps [simp]: "or_error f (Inl e) = Err (f e)" "or_error f (Inr v) = Ok v"
  by (simp_all add: or_error_def)

lemma or_error_eq_Ok [simp]: "or_error f s = Ok v \<longleftrightarrow> s = Inr v"
  by (cases s) auto

lemma or_error_no_panic [simp]: "or_error f s \<noteq> Panic p"
  by (cases s) auto

lemma solve_inner_no_panic [simp]: "solve_inner av parse format json \<noteq> Panic p"
  by (auto simp: solve_inner_def and_then_eq_Panic)

text \<open>The stack of a payload whose ABI parses is what the mobile solver runs as well.\<close>

lemma solve_inner_Ok:
  assumes "parse json = Inr p" and "av_abi_in av (wp_abi payload) = Inr (mp_abi p)"
    and "wp_bytecode payload = mp_bytecode p" and "wp_inputs payload = mp_inputs p"
  shows "solve_inner av parse format json = Ok bytes \<longleftrightarrow>
    and_then (and_then (witness_stack av payload) (serialize_stack av format)) (decompress_witness_stack av)
      = Ok bytes"
  using assms
  by (auto simp: solve_inner_def witness_stack_def serialize_stack_def decompress_witness_stack_def
      and_then_eq_Ok)

text \<open>
  C25. The solver of the phones and that of the prover agree: on the same payload the former
  returns a witness exactly when the latter's compact solver does, and the same bytes, in a
  process where the format variable says \<open>msgpack-compact\<close>; and as the legacy solver
  does where it is unset. Nothing in the mobile crate sets it.
\<close>

theorem mobile_solver_agrees:
  assumes "parse json = Inr p" and "av_abi_in av (wp_abi payload) = Inr (mp_abi p)"
    and "wp_bytecode payload = mp_bytecode p" and "wp_inputs payload = mp_inputs p"
  shows "(solve_inner av parse (Some ''msgpack-compact'') json = Ok bytes \<longleftrightarrow>
            map_option fst (solve_compressed_witness av payload w) = Some (Ok bytes))
    \<and> (solve_inner av parse None json = Ok bytes \<longleftrightarrow>
            map_option fst (solve_legacy_witness av payload w) = Some (Ok bytes))"
  using solve_inner_Ok [where parse = parse and json = json and p = p, OF assms]
  by (simp add: solve_compressed_eq solve_legacy_eq compact_format_def)

definition example_payload :: "unit mobile_payload" where
  "example_payload = \<lparr>mp_bytecode = ''AA=='', mp_abi = (), mp_inputs = JNull\<rparr>"

theorem mobile_solver_agrees_witness:
  "map_option fst (solve_compressed_witness example_acvm (circuit_payload example_circuit JNull) empty_world)
     = Some (Ok [3])
   \<and> map_option fst (solve_legacy_witness example_acvm (circuit_payload example_circuit JNull) empty_world)
     = Some (Ok [1, 2])"
proof -
  have solved: "solve_inner example_acvm (\<lambda>_. Inr example_payload) (Some ''msgpack-compact'') [] = Ok [3]"
    "solve_inner example_acvm (\<lambda>_. Inr example_payload) None [] = Ok [1, 2]"
    by (simp_all add: solve_inner_def example_acvm_def)
  have "wp_bytecode (circuit_payload example_circuit JNull) = mp_bytecode example_payload"
    "av_abi_in example_acvm (wp_abi (circuit_payload example_circuit JNull)) = Inr (mp_abi example_payload)"
    "wp_inputs (circuit_payload example_circuit JNull) = mp_inputs example_payload"
    by (simp_all add: circuit_payload_def example_circuit_def example_payload_def example_acvm_def)
  from mobile_solver_agrees [where parse = "\<lambda>_. Inr example_payload" and json = "[]" and p = example_payload
      and av = example_acvm, OF refl this(2,1,3)] solved
  show ?thesis by simp
qed

end
