(* ===== verification/Ffi.thy ===== *)
theory Ffi
  imports Mobile "HOL-Library.Multiset"
begin

text \<open>
  The C interface of the witness solver, \<open>crates/acvm-witness-jni/src/ffi.rs\<close>: results
  that hold pointers into memory the library allocated, which the client hands back to be
  freed. Memory is a map from addresses to the blocks the library has allocated.
\<close>

section \<open>Memory\<close>

datatype block = Byte_block "u8 list" | C_string "u8 list"

type_synonym heap = "usize \<rightharpoonup> block"

text \<open>
  The global allocator answers an address, or none when memory is out, which aborts the
  process (\<open>None\<close> below). It is documented to return addresses that are not null and not
  in use, and a Rust allocation has at most \<open>isize::MAX\<close> bytes.
\<close>

type_synonym allocator = "heap \<Rightarrow> nat \<Rightarrow> usize option"

definition sound_allocator :: "allocator \<Rightarrow> bool" where
  "sound_allocator alloc \<longleftrightarrow>
     (\<forall>H n a. alloc H n = Some a \<longrightarrow> a \<noteq> 0 \<and> H a = None \<and> n < 2 ^ 63)"

record witness_buffer =
  wb_ptr :: usize
  wb_len :: usize

record ffi_result =
  fr_status :: u32
  fr_data :: witness_buffer
  fr_error_utf8 :: usize

text \<open>
  The pointer of a boxed slice: an empty one is not allocated, its pointer is the dangling
  one, the alignment of a byte.
\<close>

definition box_bytes :: "allocator \<Rightarrow> u8 list \<Rightarrow> heap \<Rightarrow> (usize \<times> heap) option" where
  "box_bytes alloc bytes H =
    (if bytes = [] then Some (1, H)
     else map_option (\<lambda>a. (a, H(a \<mapsto> Byte_block bytes))) (alloc H (length bytes)))"

definition ffi_ok :: "allocator \<Rightarrow> u8 list \<Rightarrow> heap \<Rightarrow> (ffi_result \<times> heap) option" where
  "ffi_ok alloc bytes H =
    map_option (\<lambda>(ptr, H').
      (\<lparr>fr_status = 0, fr_data = \<lparr>wb_ptr = ptr, wb_len = of_nat (length bytes)\<rparr>, fr_error_utf8 = 0\<rparr>, H'))
      (box_bytes alloc bytes H)"

text \<open>\<open>CString::new\<close> refuses a text with a NUL byte.\<close>

definition c_text :: "string \<Rightarrow> u8 list" where
  "c_text msg = (if 0 \<in> set (as_bytes msg) then as_bytes ''invalid error string'' else as_bytes msg)"

definition ffi_err :: "allocator \<Rightarrow> string \<Rightarrow> heap \<Rightarrow> (ffi_result \<times> heap) option" where
  "ffi_err alloc msg H =
    (let c = c_text msg in
     map_option (\<lambda>a.
       (\<lparr>fr_status = 1, fr_data = \<lparr>wb_ptr = 0, wb_len = 0\<rparr>, fr_error_utf8 = a\<rparr>, H(a \<mapsto> C_string c)))
       (alloc H (length c + 1)))"

text \<open>The bytes of the caller's memory, \<open>slice::from_raw_parts\<close>.\<close>

definition read_memory :: "(usize \<Rightarrow> u8) \<Rightarrow> usize \<Rightarrow> usize \<Rightarrow> u8 list" where
  "read_memory mem ptr len = map (\<lambda>i. mem (ptr + of_nat i)) [0..<unat len]"

text \<open>A panic cannot leave an \<open>extern "C"\<close> function: it aborts.\<close>

definition acvm_witness_solve_json_utf8 ::
  "allocator \<Rightarrow> (string \<Rightarrow> (u8 list, string) outcome) \<Rightarrow> (usize \<Rightarrow> u8) \<Rightarrow> usize \<Rightarrow> usize
     \<Rightarrow> heap \<Rightarrow> (ffi_result \<times> heap) option" where
  "acvm_witness_solve_json_utf8 alloc solve mem json_ptr json_len H =
    (if json_ptr = 0 \<or> json_len = 0 then ffi_err alloc ''empty or null JSON input'' H
     else
       case from_utf8 (read_memory mem json_ptr json_len) of
         None \<Rightarrow> ffi_err alloc ''invalid UTF-8'' H
       | Some json \<Rightarrow>
           (case solve json of
              Ok v \<Rightarrow> ffi_ok alloc v H
            | Err e \<Rightarrow> ffi_err alloc e H
            | Panic p \<Rightarrow> None))"

text \<open>
  Freeing a pointer that is not of a live block with that layout is undefined behaviour,
  \<open>None\<close> here.
\<close>

definition free_bytes :: "usize \<Rightarrow> usize \<Rightarrow> heap \<Rightarrow> heap option" where
  "free_bytes ptr len H =
    (case H ptr of
       Some (Byte_block b) \<Rightarrow> if length b = unat len then Some (H(ptr := None)) else None
     | _ \<Rightarrow> None)"

definition free_c_string :: "usize \<Rightarrow> heap \<Rightarrow> heap option" where
  "free_c_string ptr H = (case H ptr of Some (C_string s) \<Rightarrow> Some (H(ptr := None)) | _ \<Rightarrow> None)"

definition acvm_witness_free_ffi_result :: "ffi_result \<Rightarrow> heap \<Rightarrow> heap option" where
  "acvm_witness_free_ffi_result r H =
    Option.bind
      (if wb_ptr (fr_data r) \<noteq> 0 \<and> 0 < wb_len (fr_data r)
       then free_bytes (wb_ptr (fr_data r)) (wb_len (fr_data r)) H
       else Some H)
      (\<lambda>H. if fr_error_utf8 r \<noteq> 0 then free_c_string (fr_error_utf8 r) H else Some H)"

section \<open>What a result holds\<close>

text \<open>The blocks that belong to a result, and that they are live and of the right kind.\<close>

definition owned :: "ffi_result \<Rightarrow> usize list" where
  "owned r =
    (if fr_status r = 0 then (if wb_len (fr_data r) = 0 then [] else [wb_ptr (fr_data r)])
     else [fr_error_utf8 r])"

definition holds :: "heap \<Rightarrow> ffi_result \<Rightarrow> bool" where
  "holds H r \<longleftrightarrow>
     (if fr_status r = 0
      then fr_error_utf8 r = 0 \<and> wb_ptr (fr_data r) \<noteq> 0
        \<and> (wb_len (fr_data r) = 0
           \<or> (\<exists>b. H (wb_ptr (fr_data r)) = Some (Byte_block b) \<and> length b = unat (wb_len (fr_data r))))
      else wb_ptr (fr_data r) = 0 \<and> fr_error_utf8 r \<noteq> 0 \<and> (\<exists>s. H (fr_error_utf8 r) = Some (C_string s)))"

text \<open>What the client reads: the message of an error, or the witness.\<close>

definition view :: "heap \<Rightarrow> ffi_result \<Rightarrow> u8 list + u8 list" where
  "view H r =
    (if fr_status r = 0
     then Inr (if wb_len (fr_data r) = 0 then []
               else case H (wb_ptr (fr_data r)) of Some (Byte_block b) \<Rightarrow> b | _ \<Rightarrow> [])
     else Inl (case H (fr_error_utf8 r) of Some (C_string s) \<Rightarrow> s | _ \<Rightarrow> []))"

text \<open>
  What a call answers, as a function of its input alone: the \<open>len\<close> bytes of the caller's
  memory that start at \<open>ptr\<close>.
\<close>

definition answer ::
  "(string \<Rightarrow> (u8 list, string) outcome) \<Rightarrow> (usize \<Rightarrow> u8) \<Rightarrow> usize \<Rightarrow> usize \<Rightarrow> u8 list + u8 list" where
  "answer solve mem ptr len =
    (if ptr = 0 \<or> len = 0 then Inl (as_bytes ''empty or null JSON input'')
     else case from_utf8 (map (\<lambda>i. mem (ptr + of_nat i)) [0..<unat len]) of
            None \<Rightarrow> Inl (as_bytes ''invalid UTF-8'')
          | Some json \<Rightarrow> (case solve json of Ok v \<Rightarrow> Inr v | Err e \<Rightarrow> Inl (c_text e) | Panic p \<Rightarrow> Inl []))"

lemma view_other:
  "a \<notin> set (owned r) \<Longrightarrow> view (H(a := x)) r = view H r"
  "a \<notin> set (owned r) \<Longrightarrow> holds (H(a := x)) r = holds H r"
  by (auto simp: view_def owned_def holds_def split: if_splits)

lemma view_restrict:
  assumes "set (owned r) \<inter> A = {}"
  shows "view (H |` (- A)) r = view H r" and "holds (H |` (- A)) r = holds H r"
  using assms by (auto simp: view_def owned_def holds_def restrict_map_def split: if_splits)

lemma holds_owned: "holds H r \<Longrightarrow> set (owned r) \<subseteq> dom H"
  by (auto simp: holds_def owned_def split: if_splits)

lemma c_text_literal [simp]:
  "c_text ''empty or null JSON input'' = as_bytes ''empty or null JSON input''"
  "c_text ''invalid UTF-8'' = as_bytes ''invalid UTF-8''"
  by code_simp+

text \<open>A call adds the blocks of its result, which are new, and the result reads as the answer.\<close>

lemma ffi_ok_result:
  assumes "sound_allocator alloc" and "ffi_ok alloc bytes H = Some (r, H')"
  shows "holds H' r \<and> view H' r = Inr bytes \<and> set (owned r) \<inter> dom H = {} \<and> distinct (owned r)
    \<and> dom H' = dom H \<union> set (owned r) \<and> H \<subseteq>\<^sub>m H'"
proof (cases "bytes = []")
  case True
  with assms(2) show ?thesis
    by (auto simp: ffi_ok_def box_bytes_def holds_def view_def owned_def map_le_def)
next
  case False
  with assms(2) obtain a where a: "alloc H (length bytes) = Some a" and H': "H' = H(a \<mapsto> Byte_block bytes)"
    and r: "r = \<lparr>fr_status = 0, fr_data = \<lparr>wb_ptr = a, wb_len = of_nat (length bytes)\<rparr>, fr_error_utf8 = 0\<rparr>"
    by (auto simp: ffi_ok_def box_bytes_def)
  from assms(1) a have new: "a \<noteq> 0" "H a = None" "length bytes < 2 ^ 63" by (auto simp: sound_allocator_def)
  then have len: "unat (of_nat (length bytes) :: usize) = length bytes"
    by (simp add: unat_of_nat)
  with False have "(of_nat (length bytes) :: usize) \<noteq> 0" by (metis length_0_conv unat_0)
  with new len r H' show ?thesis
    by (auto simp: holds_def view_def owned_def map_le_def)
qed

lemma ffi_err_result:
  assumes "sound_allocator alloc" and "ffi_err alloc msg H = Some (r, H')"
  shows "holds H' r \<and> view H' r = Inl (c_text msg) \<and> set (owned r) \<inter> dom H = {} \<and> distinct (owned r)
    \<and> dom H' = dom H \<union> set (owned r) \<and> H \<subseteq>\<^sub>m H'"
proof -
  from assms(2) obtain a where a: "alloc H (length (c_text msg) + 1) = Some a"
    and H': "H' = H(a \<mapsto> C_string (c_text msg))"
    and r: "r = \<lparr>fr_status = 1, fr_data = \<lparr>wb_ptr = 0, wb_len = 0\<rparr>, fr_error_utf8 = a\<rparr>"
    by (auto simp: ffi_err_def Let_def)
  from assms(1) a have "a \<noteq> 0" "H a = None" by (auto simp: sound_allocator_def)
  with r H' show ?thesis by (auto simp: holds_def view_def owned_def map_le_def)
qed

lemma solve_result:
  assumes "sound_allocator alloc" and "acvm_witness_solve_json_utf8 alloc solve mem ptr len H = Some (r, H')"
  shows "holds H' r \<and> view H' r = answer solve mem ptr len \<and> set (owned r) \<inter> dom H = {}
    \<and> distinct (owned r) \<and> dom H' = dom H \<union> set (owned r) \<and> H \<subseteq>\<^sub>m H'"
proof (cases "ptr = 0 \<or> len = 0")
  case True
  with assms(2) have "ffi_err alloc ''empty or null JSON input'' H = Some (r, H')"
    by (simp add: acvm_witness_solve_json_utf8_def)
  from ffi_err_result [OF assms(1) this] True show ?thesis by (simp add: answer_def)
next
  case False
  note call = assms(2) [unfolded acvm_witness_solve_json_utf8_def if_not_P [OF False] read_memory_def]
  show ?thesis
  proof (cases "from_utf8 (map (\<lambda>i. mem (ptr + of_nat i)) [0..<unat len])")
    case None
    with call have "ffi_err alloc ''invalid UTF-8'' H = Some (r, H')" by simp
    from ffi_err_result [OF assms(1) this] False None show ?thesis by (simp add: answer_def)
  next
    case (Some json)
    show ?thesis
    proof (cases "solve json")
      case (Ok v)
      with call Some have "ffi_ok alloc v H = Some (r, H')" by simp
      from ffi_ok_result [OF assms(1) this] False Some Ok show ?thesis by (simp add: answer_def)
    next
      case (Err e)
      with call Some have "ffi_err alloc e H = Some (r, H')" by simp
      from ffi_err_result [OF assms(1) this] False Some Err show ?thesis by (simp add: answer_def)
    next
      case (Panic p)
      with call Some show ?thesis by simp
    qed
  qed
qed

text \<open>Freeing a result whose blocks are live takes exactly these blocks.\<close>

lemma free_holds: "holds H r \<Longrightarrow> acvm_witness_free_ffi_result r H = Some (H |` (- set (owned r)))"
  by (auto simp: holds_def acvm_witness_free_ffi_result_def owned_def free_bytes_def free_c_string_def
      restrict_map_def word_gt_0 fun_eq_iff split: if_splits)

section \<open>Clients\<close>

text \<open>
  A client calls the solver and frees the results it got, in any order and each once. The
  state is the library's memory and the results the client holds.
\<close>

type_synonym ffi_state = "heap \<times> ffi_result list"

datatype ffi_action =
    Solve "usize \<Rightarrow> u8" usize usize
  | Release nat

text \<open>\<open>Solve\<close> gives the solver the client's memory; \<open>Release\<close> frees a result by its place.\<close>

inductive ffi_step ::
  "allocator \<Rightarrow> (string \<Rightarrow> (u8 list, string) outcome) \<Rightarrow> ffi_state \<Rightarrow> ffi_action \<Rightarrow> ffi_state \<Rightarrow> bool"
  for alloc solve where
  Call: "acvm_witness_solve_json_utf8 alloc solve mem ptr len H = Some (r, H') \<Longrightarrow>
     ffi_step alloc solve (H, rs) (Solve mem ptr len) (H', r # rs)"
| Free: "acvm_witness_free_ffi_result r H = Some H' \<Longrightarrow>
     ffi_step alloc solve (H, rs @ r # rs') (Release (length rs)) (H', rs @ rs')"

inductive ffi_reachable ::
  "allocator \<Rightarrow> (string \<Rightarrow> (u8 list, string) outcome) \<Rightarrow> ffi_state \<Rightarrow> bool"
  for alloc solve where
  Start: "ffi_reachable alloc solve (Map.empty, [])"
| Step: "ffi_reachable alloc solve s \<Longrightarrow> ffi_step alloc solve s a s' \<Longrightarrow> ffi_reachable alloc solve s'"

inductive ffi_run ::
  "allocator \<Rightarrow> (string \<Rightarrow> (u8 list, string) outcome) \<Rightarrow> ffi_state \<Rightarrow> ffi_action list \<Rightarrow> ffi_state \<Rightarrow> bool"
  for alloc solve where
  Done: "ffi_run alloc solve s [] s"
| Do: "ffi_step alloc solve s a s' \<Longrightarrow> ffi_run alloc solve s' as s'' \<Longrightarrow> ffi_run alloc solve s (a # as) s''"

inductive_cases ffi_stepE: "ffi_step alloc solve s a s'"

text \<open>The invariant: the live blocks are those of the results held, each of one result.\<close>

definition blocks :: "ffi_result list \<Rightarrow> usize list" where
  "blocks rs = concat (map owned rs)"

definition ffi_inv :: "ffi_state \<Rightarrow> bool" where
  "ffi_inv s \<longleftrightarrow>
     (\<forall>r \<in> set (snd s). holds (fst s) r) \<and> distinct (blocks (snd s)) \<and> dom (fst s) = set (blocks (snd s))"

lemma blocks_simps [simp]:
  "blocks [] = []" "blocks (r # rs) = owned r @ blocks rs" "blocks (rs @ rs') = blocks rs @ blocks rs'"
  by (simp_all add: blocks_def)

lemma owned_blocks: "r \<in> set rs \<Longrightarrow> set (owned r) \<subseteq> set (blocks rs)"
  by (auto simp: blocks_def)

lemma view_extends:
  assumes "holds H r" and "H \<subseteq>\<^sub>m H'"
  shows "view H' r = view H r" and "holds H' r"
proof -
  from holds_owned [OF assms(1)] assms(2) have "\<forall>a \<in> set (owned r). H' a = H a"
    by (metis map_le_def subsetD)
  with assms(1) show "view H' r = view H r" "holds H' r"
    by (auto simp: view_def holds_def owned_def split: if_splits)
qed

lemma ffi_inv_call:
  assumes "sound_allocator alloc" and "ffi_inv (H, rs)"
    and "acvm_witness_solve_json_utf8 alloc solve mem ptr len H = Some (r, H')"
  shows "ffi_inv (H', r # rs)"
proof -
  from solve_result [OF assms(1,3)]
  have r: "holds H' r" "set (owned r) \<inter> dom H = {}" "distinct (owned r)" "dom H' = dom H \<union> set (owned r)"
    "H \<subseteq>\<^sub>m H'" by auto
  with assms(2) view_extends(2) [OF _ r(5)] show ?thesis by (auto simp: ffi_inv_def)
qed

lemma other_owned:
  assumes "distinct (blocks (rs @ r # rs'))" and "x \<in> set rs \<union> set rs'"
  shows "set (owned x) \<inter> set (owned r) = {}"
  using assms owned_blocks [of x rs] owned_blocks [of x rs'] by auto

lemma ffi_inv_free:
  assumes "ffi_inv (H, rs @ r # rs')" and "acvm_witness_free_ffi_result r H = Some H'"
  shows "ffi_inv (H', rs @ rs')"
proof -
  from assms(1) have "holds H r" by (simp add: ffi_inv_def)
  with assms(2) free_holds have H': "H' = H |` (- set (owned r))" by simp
  have "holds H' x" if "x \<in> set rs \<union> set rs'" for x
  proof -
    from assms(1) that have "holds H x" by (auto simp: ffi_inv_def)
    moreover from assms(1) have "distinct (blocks (rs @ r # rs'))" by (simp add: ffi_inv_def)
    ultimately show ?thesis using view_restrict(2) [OF other_owned] that H' by blast
  qed
  moreover from assms(1) H' have "dom H' = set (blocks (rs @ rs'))" "distinct (blocks (rs @ rs'))"
    by (auto simp: ffi_inv_def)
  ultimately show ?thesis by (auto simp: ffi_inv_def)
qed

lemma ffi_inv_step:
  "sound_allocator alloc \<Longrightarrow> ffi_inv s \<Longrightarrow> ffi_step alloc solve s a s' \<Longrightarrow> ffi_inv s'"
  by (erule ffi_stepE) (auto intro: ffi_inv_call ffi_inv_free)

lemma ffi_reachable_inv:
  assumes "sound_allocator alloc"
  shows "ffi_reachable alloc solve s \<Longrightarrow> ffi_inv s"
  by (induction rule: ffi_reachable.induct) (auto simp: ffi_inv_def [of "(Map.empty, [])"] intro: ffi_inv_step assms)

section \<open>The machine the interface implements\<close>

text \<open>A machine without memory: it holds the answers it gave, the newest first, until released.\<close>

fun answer_step ::
  "(string \<Rightarrow> (u8 list, string) outcome) \<Rightarrow> ffi_action \<Rightarrow> (u8 list + u8 list) list
     \<Rightarrow> (u8 list + u8 list) list option" where
  "answer_step solve (Solve mem ptr len) answers = Some (answer solve mem ptr len # answers)"
| "answer_step solve (Release i) answers =
    (if i < length answers then Some (take i answers @ drop (Suc i) answers) else None)"

primrec answer_run ::
  "(string \<Rightarrow> (u8 list, string) outcome) \<Rightarrow> ffi_action list \<Rightarrow> (u8 list + u8 list) list
     \<Rightarrow> (u8 list + u8 list) list option" where
  "answer_run solve [] answers = Some answers"
| "answer_run solve (a # as) answers = Option.bind (answer_step solve a answers) (answer_run solve as)"

text \<open>What the client can read of the results it holds.\<close>

definition read_all :: "ffi_state \<Rightarrow> (u8 list + u8 list) list" where
  "read_all s = map (view (fst s)) (snd s)"

lemma ffi_step_refines:
  assumes "sound_allocator alloc" and inv: "ffi_inv s" and "ffi_step alloc solve s a s'"
  shows "answer_step solve a (read_all s) = Some (read_all s')"
  using assms(3)
proof cases
  case (Call mem ptr len H r H' rs)
  from solve_result [OF assms(1) Call(4)] have "view H' r = answer solve mem ptr len" "H \<subseteq>\<^sub>m H'" by auto
  moreover from this(2) inv Call(1) have "\<forall>x \<in> set rs. view H' x = view H x"
    by (auto simp: ffi_inv_def intro: view_extends)
  ultimately show ?thesis using Call by (simp add: read_all_def)
next
  case (Free r H H' rs1 rs2)
  with inv free_holds [of H r] have H': "H' = H |` (- set (owned r))" by (auto simp: ffi_inv_def)
  from inv Free(1) have "distinct (blocks (rs1 @ r # rs2))" by (simp add: ffi_inv_def)
  from view_restrict(1) [OF other_owned [OF this]] H' have "\<forall>x \<in> set rs1 \<union> set rs2. view H' x = view H x" by auto
  with Free show ?thesis by (simp add: read_all_def)
qed

lemma ffi_run_refines:
  assumes "sound_allocator alloc" and "ffi_run alloc solve s as s'" and "ffi_inv s"
  shows "answer_run solve as (read_all s) = Some (read_all s')"
  using assms(2,3)
proof (induction rule: ffi_run.induct)
  case (Do s a s' as s'')
  from Do.IH ffi_inv_step [OF assms(1) Do.prems Do.hyps(1)] ffi_step_refines [OF assms(1) Do.prems Do.hyps(1)]
  show ?case by simp
qed simp

section \<open>Properties of the C interface\<close>

text \<open>An allocator of two addresses.\<close>

definition example_allocator :: allocator where
  "example_allocator H n =
    (if 2 ^ 63 \<le> n then None else List.find (\<lambda>a. H a = None) [16, 32])"

lemma example_allocator_sound: "sound_allocator example_allocator"
  by (auto simp: sound_allocator_def example_allocator_def split: if_splits)

text \<open>
  C4. However a client calls the solver and frees results, the live blocks of the library
  are exactly those of the results the client still holds, each of one of them; freeing any
  of these is defined and takes only its own blocks, so that the other results read as
  before; and a client that has freed every result has leaked nothing.
\<close>

theorem ffi_memory_safe:
  assumes "sound_allocator alloc" and "ffi_reachable alloc solve (H, rs)"
  shows "(\<forall>r \<in> set rs. \<exists>H'. acvm_witness_free_ffi_result r H = Some H')
    \<and> (\<forall>rs1 r rs2 H' x. rs = rs1 @ r # rs2 \<and> acvm_witness_free_ffi_result r H = Some H'
          \<and> x \<in> set rs1 \<union> set rs2 \<longrightarrow> view H' x = view H x)
    \<and> dom H = set (blocks rs) \<and> distinct (blocks rs) \<and> (rs = [] \<longrightarrow> H = Map.empty)"
proof -
  from assms have inv: "ffi_inv (H, rs)" by (rule ffi_reachable_inv)
  have "view H' x = view H x"
    if "rs = rs1 @ r # rs2" "acvm_witness_free_ffi_result r H = Some H'" "x \<in> set rs1 \<union> set rs2"
    for rs1 r rs2 H' x
    using inv that free_holds [of H r] view_restrict(1) [OF other_owned]
    by (auto simp: ffi_inv_def)
  with inv free_holds show ?thesis by (fastforce simp: ffi_inv_def)
qed

text \<open>
  C10. The interface implements the machine without memory: for every sequence of calls and
  frees that a client makes, from any state it may have reached, what it reads at the end is
  what the machine holds after the same sequence. So a call adds the answer to the very
  bytes it was given, which depends on them alone, and changes no other answer, and a free
  removes the answer of that result and no other.
\<close>

theorem ffi_refines_answers:
  assumes "sound_allocator alloc" and "ffi_reachable alloc solve (H, rs)"
    and "ffi_run alloc solve (H, rs) as (H', rs')"
  shows "answer_run solve as (map (view H) rs) = Some (map (view H') rs')"
  using ffi_run_refines [OF assms(1,3) ffi_reachable_inv [OF assms(1,2)]] by (simp add: read_all_def)

text \<open>Freeing results one after the other.\<close>

primrec free_all :: "ffi_result list \<Rightarrow> heap \<Rightarrow> heap option" where
  "free_all [] H = Some H"
| "free_all (r # rs) H = Option.bind (acvm_witness_free_ffi_result r H) (free_all rs)"

lemma ffi_inv_perm:
  assumes "mset rs = mset order" and "ffi_inv (H, rs)"
  shows "ffi_inv (H, order)"
proof -
  from assms(1) have "mset (blocks order) = mset (blocks rs)"
    unfolding blocks_def mset_concat map_map o_def by (metis mset_map sum_mset_sum_list)
  with assms mset_eq_setD [OF this] mset_eq_imp_distinct_iff [OF this] mset_eq_setD [OF assms(1)]
  show ?thesis by (simp add: ffi_inv_def)
qed

lemma free_all_inv: "ffi_inv (H, rs) \<Longrightarrow> free_all rs H = Some Map.empty"
proof (induction rs arbitrary: H)
  case (Cons r rs)
  then have free: "acvm_witness_free_ffi_result r H = Some (H |` (- set (owned r)))"
    by (intro free_holds) (simp add: ffi_inv_def)
  from ffi_inv_free [of H "[]" r rs] Cons.prems free Cons.IH show ?case by simp
qed (simp add: ffi_inv_def)

text \<open>
  C26. Whatever a client has called, it can give everything back, in any order: freeing the
  results it holds, each once, is defined at every step and ends with an empty memory.
\<close>

theorem ffi_can_drain:
  assumes "sound_allocator alloc" and "ffi_reachable alloc solve (H, rs)" and "mset rs = mset order"
  shows "free_all order H = Some Map.empty"
  by (rule free_all_inv [OF ffi_inv_perm [OF assms(3) ffi_reachable_inv [OF assms(1,2)]]])

text \<open>A solver that answers every input with two bytes, and a memory with the input \<open>A\<close>.\<close>

definition example_solver :: "string \<Rightarrow> (u8 list, string) outcome" where
  "example_solver json = Ok [1, 2]"

definition example_result :: ffi_result where
  "example_result = \<lparr>fr_status = 0, fr_data = \<lparr>wb_ptr = 16, wb_len = 2\<rparr>, fr_error_utf8 = 0\<rparr>"

lemma example_call:
  "acvm_witness_solve_json_utf8 example_allocator example_solver (\<lambda>_. 0x41) 7 1 Map.empty
   = Some (example_result, [16 \<mapsto> Byte_block [1, 2]])"
proof -
  have "char_of (65 :: nat) = CHR ''A''" by code_simp
  then have "from_utf8 (read_memory (\<lambda>_. 0x41) 7 1) = Some ''A''"
    by (simp add: read_memory_def from_utf8_def byte_char_def)
  then show ?thesis
    by (simp add: acvm_witness_solve_json_utf8_def example_solver_def ffi_ok_def box_bytes_def
        example_allocator_def example_result_def)
qed

lemma example_reachable:
  "ffi_reachable example_allocator example_solver ([16 \<mapsto> Byte_block [1, 2]], [example_result])"
  by (rule ffi_reachable.Step [OF ffi_reachable.Start ffi_step.Call [OF example_call]])

theorem ffi_memory_safe_witness:
  "\<exists>H'. acvm_witness_free_ffi_result example_result [16 \<mapsto> Byte_block [1, 2]] = Some H'"
  using ffi_memory_safe [OF example_allocator_sound example_reachable] by simp

text \<open>A solver that echoes its input, called on two bytes and on one, then a free of the first result.\<close>

definition echo_solver :: "string \<Rightarrow> (u8 list, string) outcome" where
  "echo_solver json = Ok (as_bytes json)"

definition echo_memory :: "usize \<Rightarrow> u8" where
  "echo_memory a = (if a = 7 then 0x41 else 0x42)"

definition echo_result :: "usize \<Rightarrow> usize \<Rightarrow> ffi_result" where
  "echo_result a n = \<lparr>fr_status = 0, fr_data = \<lparr>wb_ptr = a, wb_len = n\<rparr>, fr_error_utf8 = 0\<rparr>"

lemma echo_calls:
  "acvm_witness_solve_json_utf8 example_allocator echo_solver echo_memory 7 2 Map.empty
   = Some (echo_result 16 2, [16 \<mapsto> Byte_block [0x41, 0x42]])"
  "acvm_witness_solve_json_utf8 example_allocator echo_solver echo_memory 8 1 [16 \<mapsto> Byte_block [0x41, 0x42]]
   = Some (echo_result 32 1, [16 \<mapsto> Byte_block [0x41, 0x42], 32 \<mapsto> Byte_block [0x42]])"
  by (simp_all add: acvm_witness_solve_json_utf8_def read_memory_def from_utf8_def echo_memory_def echo_solver_def
      ffi_ok_def box_bytes_def example_allocator_def echo_result_def as_bytes_def upt_rec)

theorem ffi_refines_answers_witness:
  "answer_run echo_solver [Solve echo_memory 7 2, Solve echo_memory 8 1, Release 1] [] = Some [Inr [0x42]]"
proof -
  have free: "acvm_witness_free_ffi_result (echo_result 16 2) [16 \<mapsto> Byte_block [0x41, 0x42], 32 \<mapsto> Byte_block [0x42]]
      = Some [32 \<mapsto> Byte_block [0x42]]"
    by (simp add: acvm_witness_free_ffi_result_def echo_result_def free_bytes_def fun_upd_twist)
  have last: "ffi_step example_allocator echo_solver
      ([16 \<mapsto> Byte_block [0x41, 0x42], 32 \<mapsto> Byte_block [0x42]], [echo_result 32 1, echo_result 16 2]) (Release 1)
      ([32 \<mapsto> Byte_block [0x42]], [echo_result 32 1])"
    using ffi_step.Free [OF free, of example_allocator echo_solver "[echo_result 32 1]" "[]"] by simp
  have "ffi_run example_allocator echo_solver (Map.empty, [])
      [Solve echo_memory 7 2, Solve echo_memory 8 1, Release 1] ([32 \<mapsto> Byte_block [0x42]], [echo_result 32 1])"
    by (rule ffi_run.Do [OF ffi_step.Call [OF echo_calls(1)] ffi_run.Do [OF ffi_step.Call [OF echo_calls(2)]
          ffi_run.Do [OF last ffi_run.Done]]])
  from ffi_refines_answers [OF example_allocator_sound ffi_reachable.Start this]
  show ?thesis by (simp only: list.map view_def echo_result_def) simp
qed

text \<open>A client that called twice.\<close>

definition second_result :: ffi_result where
  "second_result = \<lparr>fr_status = 0, fr_data = \<lparr>wb_ptr = 32, wb_len = 2\<rparr>, fr_error_utf8 = 0\<rparr>"

lemma example_reachable_twice:
  "ffi_reachable example_allocator example_solver
     ([16 \<mapsto> Byte_block [1, 2], 32 \<mapsto> Byte_block [1, 2]], [second_result, example_result])"
proof -
  have "char_of (65 :: nat) = CHR ''A''" by code_simp
  then have "from_utf8 (read_memory (\<lambda>_. 0x41) 7 1) = Some ''A''"
    by (simp add: read_memory_def from_utf8_def byte_char_def)
  then have "acvm_witness_solve_json_utf8 example_allocator example_solver (\<lambda>_. 0x41) 7 1 [16 \<mapsto> Byte_block [1, 2]]
      = Some (second_result, [16 \<mapsto> Byte_block [1, 2], 32 \<mapsto> Byte_block [1, 2]])"
    by (simp add: acvm_witness_solve_json_utf8_def example_solver_def ffi_ok_def box_bytes_def
        example_allocator_def second_result_def)
  from ffi_reachable.Step [OF example_reachable ffi_step.Call [OF this]] show ?thesis .
qed

theorem ffi_can_drain_witness:
  "free_all [example_result, second_result] [16 \<mapsto> Byte_block [1, 2], 32 \<mapsto> Byte_block [1, 2]] = Some Map.empty"
  by (rule ffi_can_drain [OF example_allocator_sound example_reachable_twice]) (simp add: add_mset_commute)

end
