(* ===== verification/Proving.thy ===== *)
theory Proving
  imports Effects Artifacts
begin

text \<open>
  Proving with the \<open>bb\<close> binary, \<open>crates/prover-core/src/proving.rs\<close>: where the
  binary comes from, the command lines it is run with, and the temporary files that
  carry the circuit, witness and keys to it and the proof back.
\<close>

section \<open>Options and artifacts\<close>

datatype oracle_hash = Poseidon2 | Keccak

record proof_options =
  op_oracle_hash :: oracle_hash
  op_ipa_accumulation :: bool
  op_disable_zk :: bool
  op_low_memory_mode :: bool
  op_max_storage_usage :: "u64 option"

definition ultra_honk_poseidon2 :: proof_options where
  "ultra_honk_poseidon2 =
    \<lparr>op_oracle_hash = Poseidon2, op_ipa_accumulation = False, op_disable_zk = False,
     op_low_memory_mode = False, op_max_storage_usage = None\<rparr>"

definition ultra_honk_keccak :: proof_options where
  "ultra_honk_keccak =
    \<lparr>op_oracle_hash = Keccak, op_ipa_accumulation = False, op_disable_zk = False,
     op_low_memory_mode = False, op_max_storage_usage = None\<rparr>"

record proof_artifacts =
  pa_proof :: "u8 list"
  pa_public_inputs :: "u8 list"
  pa_verification_key :: "u8 list"
  pa_public_inputs_count :: u32

text \<open>
  What the build and the libraries fix: the feature \<open>native-prover\<close>, the operating
  system and architecture, the crate's directory, and the coders (the compatibility
  matrix, base64, \<open>{:?}\<close> of a string, and the pretty printer of a circuit).
\<close>

record toolchain =
  tc_native :: bool
  tc_os :: string
  tc_arch :: string
  tc_manifest_dir :: string
  tc_matrix :: "compatibility_matrix from_json"
  tc_base64 :: "string \<Rightarrow> string + u8 list"
  tc_debug :: "string \<Rightarrow> string"
  tc_circuit_out :: "packaged_circuit \<Rightarrow> string + u8 list"

section \<open>Directories\<close>

text \<open>The directory of the crate's workspace, then of the executable's parent.\<close>

definition compiled_root :: "host \<Rightarrow> string \<Rightarrow> string io" where
  "compiled_root h compiled w =
    Some (Ok (case ho_canonicalize h w compiled of
                Some root \<Rightarrow> root
              | None \<Rightarrow>
                  (case ho_exe_parent h of
                     Some parent \<Rightarrow>
                       (case ho_canonicalize h w (path_join parent ''..'') of
                          Some root \<Rightarrow> root
                        | None \<Rightarrow> compiled)
                   | None \<Rightarrow> compiled)), w)"

definition workspace_root :: "host \<Rightarrow> string \<Rightarrow> string io" where
  "workspace_root h manifest_dir =
    io_bind (get_env ''VOCDONI_WORKSPACE_ROOT'') (\<lambda>var.
    let compiled = compiled_root h (path_join manifest_dir ''../..'') in
    case var of
      Some root \<Rightarrow> io_bind (io_exists root) (\<lambda>found. if found then io_return root else compiled)
    | None \<Rightarrow> compiled)"

definition in_workspace :: "host \<Rightarrow> toolchain \<Rightarrow> string \<Rightarrow> string io" where
  "in_workspace h tc sub = io_bind (workspace_root h (tc_manifest_dir tc)) (\<lambda>root. io_return (path_join root sub))"

definition bb_source_dir :: "host \<Rightarrow> toolchain \<Rightarrow> string io" where
  "bb_source_dir h tc =
    io_bind (get_env ''VOCDONI_AZTEC_PACKAGES_CPP_DIR'') (\<lambda>var.
    case var of
      Some dir \<Rightarrow> io_return dir
    | None \<Rightarrow> in_workspace h tc ''../.cache/aztec-packages-src/aztec-packages/barretenberg/cpp'')"

definition compatibility_matrix_path :: "host \<Rightarrow> toolchain \<Rightarrow> string io" where
  "compatibility_matrix_path h tc = in_workspace h tc ''config/compatibility-matrix.json''"

definition bb_release_cache_dir :: "host \<Rightarrow> toolchain \<Rightarrow> string io" where
  "bb_release_cache_dir h tc = in_workspace h tc ''../.cache/barretenberg-release''"

definition bb_build_dir :: "host \<Rightarrow> toolchain \<Rightarrow> string io" where
  "bb_build_dir h tc = in_workspace h tc ''../.cache/barretenberg-zkpassport/build''"

definition aztec_source_cache_dir :: "host \<Rightarrow> toolchain \<Rightarrow> string io" where
  "aztec_source_cache_dir h tc = in_workspace h tc ''../.cache/aztec-packages-src''"

section \<open>Commands\<close>

definition oracle_hash_arg :: "oracle_hash \<Rightarrow> string" where
  "oracle_hash_arg o_hash = (case o_hash of Poseidon2 \<Rightarrow> ''poseidon2'' | Keccak \<Rightarrow> ''keccak'')"

definition command_failed :: "string \<Rightarrow> process_output \<Rightarrow> string" where
  "command_failed description output =
    description @ '' failed with status '' @ po_status output @ ''.'' @ [CHR 0x0A] @ ''stdout:'' @ [CHR 0x0A]
      @ str_trim (from_utf8_lossy (po_stdout output)) @ [CHR 0x0A] @ ''stderr:'' @ [CHR 0x0A]
      @ str_trim (from_utf8_lossy (po_stderr output))"

definition run_command :: "host \<Rightarrow> string option \<Rightarrow> string \<Rightarrow> string list \<Rightarrow> string \<Rightarrow> unit io" where
  "run_command h cwd program args description =
    io_bind (io_context (''failed to execute '' @ description) (run_process h cwd program args)) (\<lambda>output.
    if po_success output then io_return () else io_of (bail (command_failed description output)))"

definition release_asset_name :: "toolchain \<Rightarrow> string option" where
  "release_asset_name tc =
    (if tc_os tc = ''linux'' \<and> tc_arch tc = ''x86_64'' then Some ''barretenberg-amd64-linux.tar.gz''
     else if tc_os tc = ''linux'' \<and> tc_arch tc = ''aarch64'' then Some ''barretenberg-arm64-linux.tar.gz''
     else if tc_os tc = ''macos'' \<and> tc_arch tc = ''x86_64'' then Some ''barretenberg-amd64-darwin.tar.gz''
     else if tc_os tc = ''macos'' \<and> tc_arch tc = ''aarch64'' then Some ''barretenberg-arm64-darwin.tar.gz''
     else None)"

definition load_matrix :: "host \<Rightarrow> toolchain \<Rightarrow> compatibility_matrix io" where
  "load_matrix h tc =
    io_bind (compatibility_matrix_path h tc) (\<lambda>path. load_compatibility_matrix h (tc_matrix tc) path)"

definition release_url_of :: "toolchain \<Rightarrow> compatibility_matrix \<Rightarrow> string result" where
  "release_url_of tc m =
    (case pg_bb_binary_source (cm_proving m) of
       Some url \<Rightarrow> Ok url
     | None \<Rightarrow>
         and_then (opt_context ''unsupported platform for official bb release binary'' (release_asset_name tc)) (\<lambda>asset.
         Ok (''https://github.com/AztecProtocol/aztec-packages/releases/download/v''
             @ pg_bb_version (cm_proving m) @ ''/'' @ asset)))"

definition bb_release_url :: "host \<Rightarrow> toolchain \<Rightarrow> string io" where
  "bb_release_url h tc =
    io_bind (get_env ''BB_BINARY_DOWNLOAD_URL'') (\<lambda>var.
    let of_matrix = io_bind (load_matrix h tc) (\<lambda>m. io_of (release_url_of tc m)) in
    case var of
      Some url \<Rightarrow> if str_trim url \<noteq> [] then io_return url else of_matrix
    | None \<Rightarrow> of_matrix)"

section \<open>The binary\<close>

definition download_args :: "string \<Rightarrow> string \<Rightarrow> string list" where
  "download_args url archive = [''-LfsS'', url, ''-o'', archive]"

definition extract_args :: "string \<Rightarrow> string \<Rightarrow> string list" where
  "extract_args archive dir = [''-xzf'', archive, ''-C'', dir]"

definition cache_binary :: "host \<Rightarrow> string \<Rightarrow> string \<Rightarrow> string io" where
  "cache_binary h extracted binary =
    io_bind (io_context (''failed to cache bb binary at '' @ binary) (copy_file h extracted binary)) (\<lambda>_.
    io_bind (io_context (''failed to stat bb binary: '' @ binary) (stat_file h binary)) (\<lambda>_.
    io_bind (io_context (''failed to mark bb binary executable: '' @ binary) (make_executable h binary)) (\<lambda>_.
    io_return binary)))"

definition ensure_downloaded_bb_binary :: "host \<Rightarrow> toolchain \<Rightarrow> string io" where
  "ensure_downloaded_bb_binary h tc =
    io_bind (load_matrix h tc) (\<lambda>m.
    io_bind (bb_release_cache_dir h tc) (\<lambda>releases.
    let cache_dir = path_join releases (''v'' @ pg_bb_version (cm_proving m));
        binary = path_join cache_dir ''bb'' in
    io_bind (io_exists binary) (\<lambda>cached.
    if cached then io_return binary
    else
      io_bind (io_context (''failed to create bb release cache directory: '' @ cache_dir)
                 (create_dir_all h cache_dir)) (\<lambda>_.
      with_temp_dir h ''failed to create temporary bb release directory'' (\<lambda>temp_dir.
        let archive_path = path_join temp_dir ''bb.tar.gz'' in
        io_bind (bb_release_url h tc) (\<lambda>url.
        io_bind (run_command h None ''curl'' (download_args url archive_path) ''download official bb release'') (\<lambda>_.
        io_bind (run_command h None ''tar'' (extract_args archive_path temp_dir) ''extract official bb release'') (\<lambda>_.
        let extracted = path_join temp_dir ''bb'' in
        io_bind (io_exists extracted) (\<lambda>found.
        if \<not> found
        then io_of (bail (''official bb release archive did not contain expected `bb` binary: '' @ url))
        else cache_binary h extracted binary)))))))))"

definition configure_args :: "string \<Rightarrow> string \<Rightarrow> string list" where
  "configure_args source_dir build_dir =
    [''-S'', source_dir, ''-B'', build_dir, ''-G'', ''Ninja'', ''-DCMAKE_BUILD_TYPE=Release'',
     ''-DCMAKE_C_COMPILER=clang'', ''-DCMAKE_CXX_COMPILER=clang++'',
     ''-DCMAKE_CXX_FLAGS=-Wno-error=sign-conversion -Wno-error=missing-field-initializers'',
     ''-DTRACY_ENABLE=OFF'']"

text \<open>Cloning the sources and checking out the pinned version.\<close>

definition preferred_fork :: "compatibility_matrix \<Rightarrow> string" where
  "preferred_fork m =
    (if str_trim (pg_preferred_fork (cm_proving m)) = [] then ''AztecProtocol/aztec-packages''
     else pg_preferred_fork (cm_proving m))"

definition checkout_source :: "host \<Rightarrow> toolchain \<Rightarrow> string \<Rightarrow> unit io" where
  "checkout_source h tc source_checkout =
    io_bind (load_matrix h tc) (\<lambda>m.
    let clone_url = ''https://github.com/'' @ preferred_fork m;
        checkout_ref = ''v'' @ pg_bb_version (cm_proving m) in
    io_bind (aztec_source_cache_dir h tc) (\<lambda>cache_dir.
    io_bind (io_context (''failed to create aztec source cache directory: '' @ cache_dir)
               (create_dir_all h cache_dir)) (\<lambda>_.
    io_bind (run_command h None ''git'' [''clone'', clone_url, source_checkout] ''clone aztec-packages'') (\<lambda>_.
    run_command h (Some source_checkout) ''git'' [''checkout'', checkout_ref] ''checkout aztec-packages ref''))))"

definition build_bb :: "host \<Rightarrow> toolchain \<Rightarrow> string io" where
  "build_bb h tc =
    io_bind (bb_source_dir h tc) (\<lambda>source_dir.
    io_bind (bb_build_dir h tc) (\<lambda>build_dir.
    let binary = path_join build_dir ''bin/bb'' in
    io_bind (io_exists binary) (\<lambda>built.
    if built then io_return binary
    else
      io_bind (io_context (''failed to create bb build directory: '' @ build_dir)
                 (create_dir_all h build_dir)) (\<lambda>_.
      io_bind (run_command h None ''cmake'' (configure_args source_dir build_dir) ''bb cmake configure'') (\<lambda>_.
      io_bind (run_command h None ''cmake'' [''--build'', build_dir, ''--target'', ''bb''] ''bb cmake build'') (\<lambda>_.
      io_return binary))))))"

definition ensure_bb_binary :: "host \<Rightarrow> toolchain \<Rightarrow> string io" where
  "ensure_bb_binary h tc =
    io_bind (get_env ''BB_BINARY_PATH'') (\<lambda>path.
    case path of
      Some binary \<Rightarrow>
        io_bind (io_exists binary) (\<lambda>found.
        if found then io_return binary
        else io_of (bail (''BB_BINARY_PATH does not exist: '' @ binary)))
    | None \<Rightarrow>
        io_bind (get_env ''VOCDONI_ALLOW_BB_SOURCE_BUILD'') (\<lambda>allow.
        if allow \<noteq> Some ''1'' then ensure_downloaded_bb_binary h tc
        else
          io_bind (aztec_source_cache_dir h tc) (\<lambda>cache_dir.
          let source_checkout = path_join cache_dir ''aztec-packages'' in
          io_bind (io_exists source_checkout) (\<lambda>found.
          io_bind (if found then io_return () else checkout_source h tc source_checkout) (\<lambda>_.
          build_bb h tc)))))"

section \<open>Files for the prover\<close>

definition write_circuit_artifact :: "host \<Rightarrow> toolchain \<Rightarrow> string \<Rightarrow> packaged_circuit \<Rightarrow> string io" where
  "write_circuit_artifact h tc temp_dir circuit =
    (let circuit_file = path_join temp_dir ''circuit.json'' in
     io_bind (io_of (of_sum (\<lambda>e. [''failed to serialize circuit artifact'', e]) (tc_circuit_out tc circuit))) (\<lambda>bytes.
     io_bind (io_context (''failed to write circuit artifact: '' @ circuit_file)
                (write_file h circuit_file bytes)) (\<lambda>_.
     io_return circuit_file)))"

definition write_witness :: "host \<Rightarrow> string \<Rightarrow> u8 list \<Rightarrow> string io" where
  "write_witness h temp_dir witness =
    (let witness_path = path_join temp_dir ''witness.gz'' in
     io_bind (io_context (''failed to write witness file: '' @ witness_path)
                (write_file h witness_path witness)) (\<lambda>_.
     io_return witness_path))"

definition circuit_label :: "packaged_circuit \<Rightarrow> string" where
  "circuit_label circuit = (case ca_name circuit of Some name \<Rightarrow> name | None \<Rightarrow> ''<unknown>'')"

definition write_packaged_verification_key ::
  "host \<Rightarrow> toolchain \<Rightarrow> string \<Rightarrow> packaged_circuit \<Rightarrow> (string \<times> u8 list) io" where
  "write_packaged_verification_key h tc temp_dir circuit =
    (let vk_path = path_join temp_dir ''vk'' in
     io_bind (io_of (of_sum
         (\<lambda>e. [''failed to decode packaged verification key for circuit '' @ tc_debug tc (circuit_label circuit), e])
         (tc_base64 tc (ca_vkey circuit)))) (\<lambda>vk_bytes.
     io_bind (io_context (''failed to write packaged vk file: '' @ vk_path)
                (write_file h vk_path vk_bytes)) (\<lambda>_.
     io_return (vk_path, vk_bytes))))"

definition read_required_file :: "host \<Rightarrow> string \<Rightarrow> string \<Rightarrow> u8 list io" where
  "read_required_file h path description =
    io_context (''failed to read '' @ description @ '': '' @ path) (read_file h path)"

definition public_inputs_count :: "u8 list \<Rightarrow> u32 result" where
  "public_inputs_count public_inputs =
    (if length public_inputs mod 32 \<noteq> 0
     then bail (''public inputs buffer length '' @ show_nat (length public_inputs)
                @ '' is not a multiple of 32 bytes'')
     else Ok (of_nat (length public_inputs div 32)))"

section \<open>Proving and verifying\<close>

definition prove_args :: "string \<Rightarrow> string \<Rightarrow> string \<Rightarrow> string \<Rightarrow> proof_options \<Rightarrow> string list" where
  "prove_args circuit_file witness_path output_dir vk_path options =
    [''prove'', ''--scheme'', ''ultra_honk'', ''-b'', circuit_file, ''-w'', witness_path, ''-o'', output_dir,
     ''--oracle_hash'', oracle_hash_arg (op_oracle_hash options), ''--vk_path'', vk_path]
    @ (if op_ipa_accumulation options then [''--ipa_accumulation''] else [])
    @ (if op_disable_zk options then [''--disable_zk''] else [])
    @ (if op_low_memory_mode options then [''--slow_low_memory''] else [])
    @ (case op_max_storage_usage options of
         Some budget \<Rightarrow> [''--storage_budget'', show_u64 budget] | None \<Rightarrow> [])"

definition collect_proof :: "host \<Rightarrow> string \<Rightarrow> u8 list \<Rightarrow> proof_artifacts io" where
  "collect_proof h output_dir packaged_verification_key =
    io_bind (read_required_file h (path_join output_dir ''proof'') ''proof output'') (\<lambda>the_proof.
    io_bind (read_required_file h (path_join output_dir ''public_inputs'') ''public inputs output'') (\<lambda>public_inputs.
    io_bind (io_of (public_inputs_count public_inputs)) (\<lambda>count.
    io_return \<lparr>pa_proof = the_proof, pa_public_inputs = public_inputs,
               pa_verification_key = packaged_verification_key, pa_public_inputs_count = count\<rparr>)))"

definition prove_in ::
  "host \<Rightarrow> toolchain \<Rightarrow> string \<Rightarrow> packaged_circuit \<Rightarrow> u8 list \<Rightarrow> proof_options \<Rightarrow> string \<Rightarrow> proof_artifacts io" where
  "prove_in h tc bb circuit witness options temp_dir =
    io_bind (write_circuit_artifact h tc temp_dir circuit) (\<lambda>circuit_file.
    io_bind (write_witness h temp_dir witness) (\<lambda>witness_path.
    io_bind (write_packaged_verification_key h tc temp_dir circuit) (\<lambda>(vk_path, packaged_verification_key).
    let output_dir = path_join temp_dir ''proof'' in
    io_bind (io_context (''failed to create proof output directory: '' @ output_dir)
               (create_dir_all h output_dir)) (\<lambda>_.
    io_bind (run_command h None bb (prove_args circuit_file witness_path output_dir vk_path options) ''bb prove'') (\<lambda>_.
    collect_proof h output_dir packaged_verification_key)))))"

definition prove_native ::
  "host \<Rightarrow> toolchain \<Rightarrow> packaged_circuit \<Rightarrow> u8 list \<Rightarrow> proof_options \<Rightarrow> proof_artifacts io" where
  "prove_native h tc circuit witness options =
    io_bind (ensure_bb_binary h tc) (\<lambda>bb.
    with_temp_dir h ''failed to create temporary proving directory''
      (prove_in h tc bb circuit witness options))"

definition backend_disabled :: string where
  "backend_disabled = ''native prover backend is disabled; rebuild with --features native-prover''"

definition prove_circuit_with_witness ::
  "host \<Rightarrow> toolchain \<Rightarrow> packaged_circuit \<Rightarrow> u8 list \<Rightarrow> proof_options \<Rightarrow> proof_artifacts io" where
  "prove_circuit_with_witness h tc circuit witness options =
    (if tc_native tc then prove_native h tc circuit witness options else io_of (bail backend_disabled))"

definition verify_args :: "string \<Rightarrow> string \<Rightarrow> string \<Rightarrow> proof_options \<Rightarrow> string list" where
  "verify_args proof_path public_inputs_path vk_path options =
    [''verify'', ''--scheme'', ''ultra_honk'', ''-p'', proof_path, ''-i'', public_inputs_path, ''-k'', vk_path,
     ''--oracle_hash'', oracle_hash_arg (op_oracle_hash options)]
    @ (if op_ipa_accumulation options then [''--ipa_accumulation''] else [])
    @ (if op_disable_zk options then [''--disable_zk''] else [])"

definition verify_in ::
  "host \<Rightarrow> string \<Rightarrow> u8 list \<Rightarrow> u8 list \<Rightarrow> u8 list \<Rightarrow> proof_options \<Rightarrow> string \<Rightarrow> bool io" where
  "verify_in h bb the_proof public_inputs verification_key options temp_dir =
    (let proof_path = path_join temp_dir ''proof'';
         public_inputs_path = path_join temp_dir ''public_inputs'';
         vk_path = path_join temp_dir ''vk'' in
     io_bind (io_context (''failed to write proof file: '' @ proof_path)
                (write_file h proof_path the_proof)) (\<lambda>_.
     io_bind (io_context (''failed to write public inputs file: '' @ public_inputs_path)
                (write_file h public_inputs_path public_inputs)) (\<lambda>_.
     io_bind (io_context (''failed to write vk file: '' @ vk_path)
                (write_file h vk_path verification_key)) (\<lambda>_.
     io_bind (io_context ''failed to execute bb verify command''
                (run_process h None bb (verify_args proof_path public_inputs_path vk_path options))) (\<lambda>output.
     io_return (po_success output))))))"

definition verify_native ::
  "host \<Rightarrow> toolchain \<Rightarrow> u8 list \<Rightarrow> u8 list \<Rightarrow> u8 list \<Rightarrow> proof_options \<Rightarrow> bool io" where
  "verify_native h tc the_proof public_inputs verification_key options =
    io_bind (ensure_bb_binary h tc) (\<lambda>bb.
    with_temp_dir h ''failed to create temporary verification directory''
      (verify_in h bb the_proof public_inputs verification_key options))"

definition verify_circuit_proof ::
  "host \<Rightarrow> toolchain \<Rightarrow> u8 list \<Rightarrow> u8 list \<Rightarrow> u8 list \<Rightarrow> proof_options \<Rightarrow> bool io" where
  "verify_circuit_proof h tc the_proof public_inputs verification_key options =
    (if tc_native tc then verify_native h tc the_proof public_inputs verification_key options
     else io_of (bail backend_disabled))"

definition split_flattened_proof :: "u8 list \<Rightarrow> (u8 list list \<times> u8 list list) result" where
  "split_flattened_proof _ = bail ''proof splitting is not implemented in the v2 prover yet''"

section \<open>Rules\<close>

lemma run_command_Ok:
  "run_command h cwd program args description w = Some (Ok (), w') \<longleftrightarrow>
     \<not> ho_hangs h w cwd program args
     \<and> (\<exists>out fs ds. ho_run h w cwd program args = Inr (out, fs, ds) \<and> po_success out
          \<and> w' = note_event (Ran program args) (w\<lparr>wd_files := fs, wd_dirs := ds\<rparr>))"
  by (auto simp: run_command_def io_bind_Ok run_process_Ok bail_def split: if_splits)

lemma public_inputs_count_Ok:
  "public_inputs_count bytes = Ok n \<longleftrightarrow> length bytes mod 32 = 0 \<and> n = of_nat (length bytes div 32)"
  by (auto simp: public_inputs_count_def)

text \<open>The directory the workspace is taken to be in.\<close>

definition root_in :: "host \<Rightarrow> string \<Rightarrow> world \<Rightarrow> string" where
  "root_in h manifest_dir w =
    (case workspace_root h manifest_dir w of Some (Ok root, _) \<Rightarrow> root | _ \<Rightarrow> [])"

lemma workspace_root_eq: "workspace_root h manifest_dir w = Some (Ok (root_in h manifest_dir w), w)"
proof -
  have "\<exists>root. workspace_root h manifest_dir w = Some (Ok root, w)"
    by (auto simp: workspace_root_def Let_def compiled_root_def io_return_def split: option.split)
  then show ?thesis by (auto simp: root_in_def)
qed

lemma in_workspace_bind [simp]:
  "io_bind (in_workspace h tc sub) f w = f (path_join (root_in h (tc_manifest_dir tc) w) sub) w"
  by (simp add: in_workspace_def io_bind_assoc) (simp add: io_bind_def workspace_root_eq)

lemmas directories = compatibility_matrix_path_def bb_release_cache_dir_def bb_build_dir_def
  aztec_source_cache_dir_def

lemma temp_names_differ [simp]:
  "path_join dir ''witness.gz'' \<noteq> path_join dir ''vk''" "path_join dir ''vk'' \<noteq> path_join dir ''witness.gz''"
  "path_join dir ''circuit.json'' \<noteq> path_join dir ''vk''" "path_join dir ''vk'' \<noteq> path_join dir ''circuit.json''"
  "path_join dir ''circuit.json'' \<noteq> path_join dir ''witness.gz''"
  "path_join dir ''witness.gz'' \<noteq> path_join dir ''circuit.json''"
  "path_join dir ''proof'' \<noteq> path_join dir ''vk''" "path_join dir ''vk'' \<noteq> path_join dir ''proof''"
  "path_join dir ''proof'' \<noteq> path_join dir ''public_inputs''"
  "path_join dir ''public_inputs'' \<noteq> path_join dir ''proof''"
  "path_join dir ''public_inputs'' \<noteq> path_join dir ''vk''" "path_join dir ''vk'' \<noteq> path_join dir ''public_inputs''"
  by (subst path_join_inject; simp add: starts_with_def)+

section \<open>What reaches the prover, and what comes back\<close>

lemma collect_proof_Ok:
  assumes "collect_proof h dir key w = Some (Ok a, w')"
  shows "wd_files w (path_join dir ''proof'') = Some (pa_proof a)
    \<and> wd_files w (path_join dir ''public_inputs'') = Some (pa_public_inputs a)
    \<and> pa_verification_key a = key \<and> length (pa_public_inputs a) mod 32 = 0
    \<and> pa_public_inputs_count a = of_nat (length (pa_public_inputs a) div 32)"
  using assms
  by (auto simp: collect_proof_def read_required_file_def io_bind_Ok read_file_Ok public_inputs_count_Ok)

lemma prove_in_Ok:
  assumes "prove_in h tc bb c witness options tmp w = Some (Ok a, w')"
  shows "\<exists>w1 out fs ds json.
    ho_run h w1 None bb
      (prove_args (path_join tmp ''circuit.json'') (path_join tmp ''witness.gz'') (path_join tmp ''proof'')
         (path_join tmp ''vk'') options) = Inr (out, fs, ds) \<and> po_success out
    \<and> tc_circuit_out tc c = Inr json \<and> wd_files w1 (path_join tmp ''circuit.json'') = Some json
    \<and> wd_files w1 (path_join tmp ''witness.gz'') = Some witness
    \<and> wd_files w1 (path_join tmp ''vk'') = Some (pa_verification_key a)
    \<and> tc_base64 tc (ca_vkey c) = Inr (pa_verification_key a)
    \<and> fs (path_join (path_join tmp ''proof'') ''proof'') = Some (pa_proof a)
    \<and> fs (path_join (path_join tmp ''proof'') ''public_inputs'') = Some (pa_public_inputs a)
    \<and> length (pa_public_inputs a) mod 32 = 0
    \<and> pa_public_inputs_count a = of_nat (length (pa_public_inputs a) div 32)"
proof -
  let ?args = "prove_args (path_join tmp ''circuit.json'') (path_join tmp ''witness.gz'')
    (path_join tmp ''proof'') (path_join tmp ''vk'') options"
  from assms obtain json key w1 w2 where run: "run_command h None bb ?args ''bb prove'' w1 = Some (Ok (), w2)"
    and out: "collect_proof h (path_join tmp ''proof'') key w2 = Some (Ok a, w')"
    and json: "tc_circuit_out tc c = Inr json" and key: "tc_base64 tc (ca_vkey c) = Inr key"
    and files: "wd_files w1 = (wd_files w)(path_join tmp ''circuit.json'' \<mapsto> json,
      path_join tmp ''witness.gz'' \<mapsto> witness, path_join tmp ''vk'' \<mapsto> key)"
    by (auto simp: prove_in_def io_bind_Ok Let_def write_circuit_artifact_def write_witness_def
        write_packaged_verification_key_def write_file_Ok create_dir_all_Ok)
  from run obtain out fs ds where "ho_run h w1 None bb ?args = Inr (out, fs, ds)" "po_success out" "wd_files w2 = fs"
    by (auto simp: run_command_Ok)
  with json key files collect_proof_Ok [OF out] show ?thesis
    by (intro exI [of _ w1] exI [of _ out] exI [of _ fs] exI [of _ ds] exI [of _ json]) simp
qed

lemma prove_key:
  assumes "prove_circuit_with_witness h tc c witness options w = Some (Ok a, w')"
  shows "tc_base64 tc (ca_vkey c) = Inr (pa_verification_key a)"
    and "length (pa_public_inputs a) mod 32 = 0"
  using assms
  by (auto simp: prove_circuit_with_witness_def prove_native_def bail_def io_bind_Ok with_temp_dir_Ok
      dest!: prove_in_Ok split: if_splits)

text \<open>
  The contract of a prover that its callers rely on: the key it returns is the one packaged
  with the circuit, and its public inputs are whole fields. What follows for a
  caller that decodes the packaged key itself is proved from the contract alone.
\<close>

locale proving_backend =
  fixes prove :: "packaged_circuit \<Rightarrow> u8 list \<Rightarrow> proof_options \<Rightarrow> proof_artifacts io"
    and key_of :: "packaged_circuit \<Rightarrow> string + u8 list"
  assumes returns_packaged_key: "prove c witness options w = Some (Ok a, w') \<Longrightarrow> key_of c = Inr (pa_verification_key a)"
    and returns_whole_fields: "prove c witness options w = Some (Ok a, w') \<Longrightarrow> length (pa_public_inputs a) mod 32 = 0"
begin

lemma keys_agree: "prove c witness options w = Some (Ok a, w') \<Longrightarrow> key_of c = Inr key \<longleftrightarrow> key = pa_verification_key a"
  by (auto dest: returns_packaged_key)

lemma undecodable_key_fails: "key_of c = Inl e \<Longrightarrow> prove c witness options w \<noteq> Some (Ok a, w')"
  by (auto dest: returns_packaged_key)

end

interpretation bb: proving_backend "prove_circuit_with_witness h tc" "\<lambda>c. tc_base64 tc (ca_vkey c)" for h tc
  by unfold_locales (auto dest: prove_key)

text \<open>
  C6. A proof that is returned was made by the binary, run with the options on exactly the
  circuit, the witness and the circuit's own packaged key, and is what the run left in its
  output directory. The key of the result is the packaged one, so that whatever key the
  binary worked with, the result never shows another. The public inputs are whole fields
  of 32 bytes, counted modulo 2^32, and nothing is left of the temporary directory.
\<close>

theorem prove_hands_over:
  assumes "prove_circuit_with_witness h tc c witness options w = Some (Ok a, w')"
  shows "\<exists>bb w0 tmp w1 out fs ds json.
    ensure_bb_binary h tc w = Some (Ok bb, w0) \<and> ho_temp h w0 = Inr tmp
    \<and> ho_run h w1 None bb
         (prove_args (path_join tmp ''circuit.json'') (path_join tmp ''witness.gz'') (path_join tmp ''proof'')
            (path_join tmp ''vk'') options) = Inr (out, fs, ds) \<and> po_success out
    \<and> tc_circuit_out tc c = Inr json \<and> wd_files w1 (path_join tmp ''circuit.json'') = Some json
    \<and> wd_files w1 (path_join tmp ''witness.gz'') = Some witness
    \<and> wd_files w1 (path_join tmp ''vk'') = Some (pa_verification_key a)
    \<and> tc_base64 tc (ca_vkey c) = Inr (pa_verification_key a)
    \<and> fs (path_join (path_join tmp ''proof'') ''proof'') = Some (pa_proof a)
    \<and> fs (path_join (path_join tmp ''proof'') ''public_inputs'') = Some (pa_public_inputs a)
    \<and> length (pa_public_inputs a) mod 32 = 0
    \<and> pa_public_inputs_count a = of_nat (length (pa_public_inputs a) div 32)
    \<and> (\<forall>q. below tmp q \<longrightarrow> wd_files w' q = None \<and> q \<notin> wd_dirs w')"
proof -
  from assms obtain bb w0 tmp w2 where "ensure_bb_binary h tc w = Some (Ok bb, w0)" "ho_temp h w0 = Inr tmp"
    and run: "prove_in h tc bb c witness options tmp
      (note_event (Made_temp tmp) (w0\<lparr>wd_dirs := insert tmp (wd_dirs w0)\<rparr>)) = Some (Ok a, w2)"
    and "w' = delete_tree tmp w2"
    by (auto simp: prove_circuit_with_witness_def prove_native_def bail_def io_bind_Ok with_temp_dir_Ok
        split: if_splits)
  with prove_in_Ok [OF run] show ?thesis by auto
qed

text \<open>
  A machine with the binary \<open>/bb\<close>, whose runs leave a proof of two bytes and two public
  inputs, and accept every proof.
\<close>

definition example_prover :: host where
  "example_prover = (example_host (\<lambda>_. Send_failed ''offline''))
    \<lparr>ho_run := \<lambda>w _ _ _. Inr (\<lparr>po_success = True, po_status = ''exit status: 0'', po_stdout = [], po_stderr = []\<rparr>,
        (wd_files w)(''/tmp/t/proof/proof'' \<mapsto> [7, 8], ''/tmp/t/proof/public_inputs'' \<mapsto> replicate 64 1),
        wd_dirs w),
     ho_temp := \<lambda>_. Inr ''/tmp/t''\<rparr>"

definition example_tools :: toolchain where
  "example_tools =
    \<lparr>tc_native = True, tc_os = ''linux'', tc_arch = ''x86_64'', tc_manifest_dir = ''/src/crates/prover-core'',
     tc_matrix = (\<lambda>_. Inl ''no matrix''), tc_base64 = (\<lambda>s. Inr (as_bytes s)), tc_debug = (\<lambda>s. s),
     tc_circuit_out = (\<lambda>c. Inr (as_bytes (ca_bytecode c)))\<rparr>"

definition bb_world :: world where
  "bb_world = empty_world\<lparr>wd_files := [''/bb'' \<mapsto> []], wd_env := [''BB_BINARY_PATH'' \<mapsto> ''/bb'']\<rparr>"

lemma example_prover_simps [simp]:
  "ho_fault example_prover w e = None" "\<not> ho_hangs example_prover w cwd program args"
  "ho_temp example_prover w = Inr ''/tmp/t''"
  "ho_run example_prover w cwd program args =
    Inr (\<lparr>po_success = True, po_status = ''exit status: 0'', po_stdout = [], po_stderr = []\<rparr>,
        (wd_files w)(''/tmp/t/proof/proof'' \<mapsto> [7, 8], ''/tmp/t/proof/public_inputs'' \<mapsto> replicate 64 1),
        wd_dirs w)"
  "tc_native example_tools" "tc_base64 example_tools s = Inr (as_bytes s)"
  "tc_circuit_out example_tools c = Inr (as_bytes (ca_bytecode c))"
  by (simp_all add: example_prover_def example_host_def example_tools_def)

lemma example_paths [simp]:
  "path_join ''/tmp/t'' ''proof'' = ''/tmp/t/proof''" "path_join ''/tmp/t/proof'' ''proof'' = ''/tmp/t/proof/proof''"
  "path_join ''/tmp/t/proof'' ''public_inputs'' = ''/tmp/t/proof/public_inputs''"
  "path_join ''/tmp/t'' ''vk'' = ''/tmp/t/vk''" "path_join ''/tmp/t'' ''witness.gz'' = ''/tmp/t/witness.gz''"
  "path_join ''/tmp/t'' ''circuit.json'' = ''/tmp/t/circuit.json''"
  "path_join ''/tmp/t'' ''public_inputs'' = ''/tmp/t/public_inputs''"
  by code_simp+

lemma example_bb: "ensure_bb_binary example_prover example_tools bb_world = Some (Ok ''/bb'', bb_world)"
  by (simp add: ensure_bb_binary_def bb_world_def path_exists_def io_return_def)

lemma example_prove:
  "\<exists>w'. prove_circuit_with_witness example_prover example_tools example_circuit [1] ultra_honk_keccak bb_world
     = Some (Ok \<lparr>pa_proof = [7, 8], pa_public_inputs = replicate 64 1,
                pa_verification_key = as_bytes (ca_vkey example_circuit), pa_public_inputs_count = 2\<rparr>, w')"
  by (simp add: prove_circuit_with_witness_def prove_native_def prove_in_def io_bind_Ok with_temp_dir_Ok example_bb
      write_circuit_artifact_def write_witness_def write_packaged_verification_key_def Let_def
      write_file_Ok create_dir_all_Ok run_command_Ok collect_proof_def read_required_file_def
      read_file_Ok public_inputs_count_Ok)

theorem prove_hands_over_witness:
  "\<exists>a w'. prove_circuit_with_witness example_prover example_tools example_circuit [1] ultra_honk_keccak bb_world
       = Some (Ok a, w') \<and> wd_files w' ''/tmp/t/proof/proof'' = None \<and> pa_public_inputs_count a = 2"
proof -
  from example_prove obtain a w' where run: "prove_circuit_with_witness example_prover example_tools
      example_circuit [1] ultra_honk_keccak bb_world = Some (Ok a, w')" and n: "pa_public_inputs_count a = 2"
    by auto
  from prove_hands_over [OF run] obtain tmp w0
    where "ensure_bb_binary example_prover example_tools bb_world = Some (Ok ''/bb'', w0)"
      and "ho_temp example_prover w0 = Inr tmp" and "\<forall>q. below tmp q \<longrightarrow> wd_files w' q = None"
    by (auto simp: example_bb)
  moreover have "below ''/tmp/t'' ''/tmp/t/proof/proof''" by (simp add: below_def starts_with_def)
  ultimately have "wd_files w' ''/tmp/t/proof/proof'' = None" by simp
  with run n show ?thesis by blast
qed

lemma verify_in_Ok:
  assumes "verify_in h bb the_proof public_inputs key options tmp w = Some (Ok b, w')"
  shows "\<exists>w1 out fs ds.
    ho_run h w1 None bb
      (verify_args (path_join tmp ''proof'') (path_join tmp ''public_inputs'') (path_join tmp ''vk'') options)
       = Inr (out, fs, ds)
    \<and> b = po_success out
    \<and> wd_files w1 (path_join tmp ''proof'') = Some the_proof
    \<and> wd_files w1 (path_join tmp ''public_inputs'') = Some public_inputs
    \<and> wd_files w1 (path_join tmp ''vk'') = Some key"
proof -
  define w1 where "w1 = note_event (Wrote (path_join tmp ''vk'')) (note_event (Wrote (path_join tmp ''public_inputs''))
    (note_event (Wrote (path_join tmp ''proof''))
      (w\<lparr>wd_files := (wd_files w)(path_join tmp ''proof'' \<mapsto> the_proof)\<rparr>)
     \<lparr>wd_files := (wd_files w)(path_join tmp ''proof'' \<mapsto> the_proof,
        path_join tmp ''public_inputs'' \<mapsto> public_inputs)\<rparr>)
     \<lparr>wd_files := (wd_files w)(path_join tmp ''proof'' \<mapsto> the_proof,
        path_join tmp ''public_inputs'' \<mapsto> public_inputs, path_join tmp ''vk'' \<mapsto> key)\<rparr>)"
  from assms show ?thesis
    by (intro exI [of _ w1])
      (auto simp: w1_def verify_in_def io_bind_Ok Let_def write_file_Ok run_process_Ok)
qed

text \<open>
  C17. A verification that returns gave the binary exactly the proof, the public inputs and
  the key it was called with, under the options' oracle hash, and answers whether that run
  succeeded: a binary that rejects the proof makes it \<open>false\<close>, not an error.
\<close>

theorem verify_hands_over:
  assumes "verify_circuit_proof h tc the_proof public_inputs key options w = Some (Ok b, w')"
  shows "\<exists>bb w0 tmp w1 out fs ds.
    ensure_bb_binary h tc w = Some (Ok bb, w0) \<and> ho_temp h w0 = Inr tmp
    \<and> ho_run h w1 None bb
         (verify_args (path_join tmp ''proof'') (path_join tmp ''public_inputs'') (path_join tmp ''vk'') options)
       = Inr (out, fs, ds)
    \<and> b = po_success out
    \<and> wd_files w1 (path_join tmp ''proof'') = Some the_proof
    \<and> wd_files w1 (path_join tmp ''public_inputs'') = Some public_inputs
    \<and> wd_files w1 (path_join tmp ''vk'') = Some key
    \<and> (\<forall>q. below tmp q \<longrightarrow> wd_files w' q = None \<and> q \<notin> wd_dirs w')"
proof -
  from assms obtain bb w0 tmp w2 where "ensure_bb_binary h tc w = Some (Ok bb, w0)" "ho_temp h w0 = Inr tmp"
    and run: "verify_in h bb the_proof public_inputs key options tmp
      (note_event (Made_temp tmp) (w0\<lparr>wd_dirs := insert tmp (wd_dirs w0)\<rparr>)) = Some (Ok b, w2)"
    and "w' = delete_tree tmp w2"
    by (auto simp: verify_circuit_proof_def verify_native_def bail_def io_bind_Ok with_temp_dir_Ok
        split: if_splits)
  with verify_in_Ok [OF run] show ?thesis by auto
qed

theorem verify_hands_over_witness:
  "\<exists>w'. verify_circuit_proof example_prover example_tools [7] [] [9] ultra_honk_keccak bb_world = Some (Ok True, w')
     \<and> wd_files w' ''/tmp/t/vk'' = None"
proof -
  have "\<exists>w'. verify_circuit_proof example_prover example_tools [7] [] [9] ultra_honk_keccak bb_world = Some (Ok True, w')"
    by (simp add: verify_circuit_proof_def verify_native_def verify_in_def io_bind_Ok with_temp_dir_Ok example_bb Let_def
        write_file_Ok run_process_Ok)
  then obtain w' where run: "verify_circuit_proof example_prover example_tools [7] [] [9] ultra_honk_keccak bb_world
      = Some (Ok True, w')" by blast
  from verify_hands_over [OF run] obtain tmp w0
    where "ensure_bb_binary example_prover example_tools bb_world = Some (Ok ''/bb'', w0)"
      and "ho_temp example_prover w0 = Inr tmp" and "\<forall>q. below tmp q \<longrightarrow> wd_files w' q = None"
    by (auto simp: example_bb)
  moreover have "below ''/tmp/t'' ''/tmp/t/vk''" by (simp add: below_def starts_with_def)
  ultimately have "wd_files w' ''/tmp/t/vk'' = None" by simp
  with run show ?thesis by blast
qed

text \<open>The directories of a source build, in the workspace as the world shows it.\<close>

definition source_checkout_of :: "host \<Rightarrow> toolchain \<Rightarrow> world \<Rightarrow> string" where
  "source_checkout_of h tc w =
    path_join (path_join (root_in h (tc_manifest_dir tc) w) ''../.cache/aztec-packages-src'') ''aztec-packages''"

definition source_dir_of :: "host \<Rightarrow> toolchain \<Rightarrow> world \<Rightarrow> string" where
  "source_dir_of h tc w =
    (case wd_env w ''VOCDONI_AZTEC_PACKAGES_CPP_DIR'' of
       Some dir \<Rightarrow> dir
     | None \<Rightarrow> path_join (root_in h (tc_manifest_dir tc) w)
                 ''../.cache/aztec-packages-src/aztec-packages/barretenberg/cpp'')"

definition build_dir_of :: "host \<Rightarrow> toolchain \<Rightarrow> world \<Rightarrow> string" where
  "build_dir_of h tc w =
    path_join (root_in h (tc_manifest_dir tc) w) ''../.cache/barretenberg-zkpassport/build''"

lemma bb_source_dir_bind: "io_bind (bb_source_dir h tc) f w = f (source_dir_of h tc w) w"
  by (simp add: bb_source_dir_def source_dir_of_def io_bind_assoc split: option.split)

lemma ensure_in_checkout:
  assumes "wd_env w ''BB_BINARY_PATH'' = None" and "wd_env w ''VOCDONI_ALLOW_BB_SOURCE_BUILD'' = Some ''1''"
    and "path_exists w (source_checkout_of h tc w)"
  shows "ensure_bb_binary h tc w = build_bb h tc w"
  using assms by (simp add: ensure_bb_binary_def directories Let_def source_checkout_of_def)

lemma build_bb_built:
  "path_exists w (path_join (build_dir_of h tc w) ''bin/bb'') \<Longrightarrow>
     build_bb h tc w = Some (Ok (path_join (build_dir_of h tc w) ''bin/bb''), w)"
  by (simp add: build_bb_def bb_source_dir_bind directories Let_def build_dir_of_def)

lemma build_bb_builds:
  assumes "\<not> path_exists w (path_join (build_dir_of h tc w) ''bin/bb'')"
    and "build_bb h tc w = Some (Ok b, w')"
  shows "b = path_join (build_dir_of h tc w) ''bin/bb''
    \<and> wd_log w' = Ran ''cmake'' [''--build'', build_dir_of h tc w, ''--target'', ''bb'']
        # Ran ''cmake'' (configure_args (source_dir_of h tc w) (build_dir_of h tc w))
        # Made_dir (build_dir_of h tc w) # wd_log w"
  using assms
  by (auto simp: build_bb_def bb_source_dir_bind directories Let_def build_dir_of_def io_bind_Ok create_dir_all_Ok
      run_command_Ok)

text \<open>
  C32. A source build follows the pinned version only when it clones. Once the checkout
  directory exists, whatever is in it, a binary that has been built before is returned as it
  is, with nothing run, read or written; otherwise a build that succeeds has configured and
  built the source directory as it stands, the one of the checkout unless a variable names
  another, and run nothing else. Either way the compatibility matrix is not looked at,
  and the outcome is the same for every version it may name.
\<close>

theorem source_build_ignores_pin:
  assumes "wd_env w ''BB_BINARY_PATH'' = None" and "wd_env w ''VOCDONI_ALLOW_BB_SOURCE_BUILD'' = Some ''1''"
    and "path_exists w (source_checkout_of h tc w)"
  shows "(if path_exists w (path_join (build_dir_of h tc w) ''bin/bb'')
      then ensure_bb_binary h tc w = Some (Ok (path_join (build_dir_of h tc w) ''bin/bb''), w)
      else \<forall>b w'. ensure_bb_binary h tc w = Some (Ok b, w') \<longrightarrow>
             b = path_join (build_dir_of h tc w) ''bin/bb''
             \<and> wd_log w' = Ran ''cmake'' [''--build'', build_dir_of h tc w, ''--target'', ''bb'']
                 # Ran ''cmake'' (configure_args (source_dir_of h tc w) (build_dir_of h tc w))
                 # Made_dir (build_dir_of h tc w) # wd_log w)
    \<and> ensure_bb_binary h (tc\<lparr>tc_matrix := parse\<rparr>) w = ensure_bb_binary h tc w"
proof -
  note ensure = ensure_in_checkout [OF assms]
  have same: "in_workspace h (tc\<lparr>tc_matrix := parse\<rparr>) sub = in_workspace h tc sub" for sub
    by (simp add: in_workspace_def)
  have "source_checkout_of h (tc\<lparr>tc_matrix := parse\<rparr>) w = source_checkout_of h tc w"
    by (simp add: source_checkout_of_def)
  with assms have "ensure_bb_binary h (tc\<lparr>tc_matrix := parse\<rparr>) w = build_bb h (tc\<lparr>tc_matrix := parse\<rparr>) w"
    by (intro ensure_in_checkout) simp_all
  also have "\<dots> = build_bb h tc w"
    by (simp add: build_bb_def bb_source_dir_def directories same cong: option.case_cong)
  finally show ?thesis
    using build_bb_built [of w h tc] build_bb_builds [of w h tc] unfolding ensure by auto
qed

definition stale_checkout :: world where
  "stale_checkout = empty_world
    \<lparr>wd_env := [''VOCDONI_ALLOW_BB_SOURCE_BUILD'' \<mapsto> ''1'', ''VOCDONI_WORKSPACE_ROOT'' \<mapsto> ''/w''],
     wd_files := [''/w/../.cache/barretenberg-zkpassport/build/bin/bb'' \<mapsto> []],
     wd_dirs := {''/w'', ''/w/../.cache/aztec-packages-src/aztec-packages''}\<rparr>"

theorem source_build_ignores_pin_witness:
  "ensure_bb_binary example_prover (example_tools\<lparr>tc_matrix := \<lambda>_. Inl ''another matrix''\<rparr>) stale_checkout
   = Some (Ok ''/w/../.cache/barretenberg-zkpassport/build/bin/bb'', stale_checkout)"
proof -
  have root: "root_in example_prover (tc_manifest_dir example_tools) stale_checkout = ''/w''"
    by (simp add: root_in_def workspace_root_def stale_checkout_def path_exists_def Let_def io_return_def)
  have paths: "path_join (path_join ''/w'' ''../.cache/aztec-packages-src'') ''aztec-packages''
      = ''/w/../.cache/aztec-packages-src/aztec-packages''"
    "path_join (path_join ''/w'' ''../.cache/barretenberg-zkpassport/build'') ''bin/bb''
      = ''/w/../.cache/barretenberg-zkpassport/build/bin/bb''"
    by code_simp+
  have "path_exists stale_checkout (source_checkout_of example_prover example_tools stale_checkout)"
    unfolding source_checkout_of_def root paths by (simp add: stale_checkout_def path_exists_def)
  moreover have binary: "path_join (build_dir_of example_prover example_tools stale_checkout) ''bin/bb''
      = ''/w/../.cache/barretenberg-zkpassport/build/bin/bb''"
    unfolding build_dir_of_def root paths ..
  moreover have "path_exists stale_checkout ''/w/../.cache/barretenberg-zkpassport/build/bin/bb''"
    by (simp add: stale_checkout_def path_exists_def)
  ultimately show ?thesis
    using source_build_ignores_pin [of stale_checkout example_prover example_tools "\<lambda>_. Inl ''another matrix''"]
    by (simp add: stale_checkout_def empty_world_def)
qed

end
