(* ===== verification/Cli_Support.thy ===== *)
theory Cli_Support
  imports Proving Witness Pipeline
begin

text \<open>
  The helpers of the command line, \<open>crates/prover-cli/src/main.rs\<close> from line 212 and from
  \<open>load_input\<close> on: loading inputs, running the scripts that prepare circuit inputs,
  solving and proving a list of circuits, and writing what comes out. The commands are in
  \<open>Cli\<close>.
\<close>

section \<open>Data\<close>

datatype witness_format = Legacy | Compact

record reference_disclosure =
  rd_circuit_name :: string
  rd_inputs :: json

record reference_inputs =
  ri_dsc_inputs :: json
  ri_id_data_inputs :: json
  ri_integrity_inputs :: json
  ri_disclosures :: "reference_disclosure list"

record outer_reference =
  oq_version :: string
  oq_current_date :: u64
  oq_outer_circuit_name :: string
  oq_inner_bundle :: inner_proof_bundle
  oq_outer_inputs :: json

record solve_job =
  sj_circuit_name :: string
  sj_inputs :: json

text \<open>The JSON readers and pretty printers of \<open>serde_json\<close>, and its conversions to values.\<close>

record readers =
  rd_fixture :: "fixture_bundle from_json"
  rd_fixture_dir :: fixture_parsers
  rd_manifest :: "manifest from_json"
  rd_circuit :: "packaged_circuit from_json"
  rd_certificates :: "certificates_file from_json"
  rd_value :: "json from_json"
  rd_snapshot :: "snapshot from_json"
  rd_context :: "circuit_context from_json"
  rd_payload :: "witness_payload from_json"
  rd_reference :: "reference_inputs from_json"
  rd_outer :: "outer_reference from_json"

type_synonym 'a to_json = "'a \<Rightarrow> string + string"

record printers =
  pr_value :: "json to_json"
  pr_fixture :: "fixture_bundle to_json"
  pr_summary :: "(string \<times> string) list to_json"
  pr_manifest :: "manifest to_json"
  pr_plan :: "proof_plan to_json"
  pr_snapshot :: "snapshot to_json"
  pr_resolved :: "resolved_circuits to_json"
  pr_analysis :: "document_analysis to_json"
  pr_certificates :: "certificates_file to_json"
  pr_reference :: "reference_inputs to_json"
  pr_inner_bundle :: "inner_proof_bundle to_json"
  pr_outer_result :: "outer_proof_result to_json"
  vl_circuit :: "packaged_circuit \<Rightarrow> json"
  vl_plan :: "proof_plan \<Rightarrow> json"
  vl_analysis :: "document_analysis \<Rightarrow> json"
  vl_certificate :: "packaged_certificate \<Rightarrow> json"
  vl_context :: "circuit_context \<Rightarrow> json"
  vl_resolved :: "resolved_circuits \<Rightarrow> json"

text \<open>Everything third-party or fixed by the build that the program runs with.\<close>

record ('abi, 'input, 'witness, 'program, 'stack) cli =
  cx_host :: host
  cx_coders :: coders
  cx_tools :: toolchain
  cx_acvm :: "('abi, 'input, 'witness, 'program, 'stack) acvm"
  cx_manifest_dir :: string
  cx_checks :: bool
  cx_x509 :: x509_parser
  cx_alpha3 :: "string \<Rightarrow> string option"
  cx_show :: "json \<Rightarrow> string"
  cx_certificates_in :: "u8 list \<Rightarrow> string + certificates_file"
  cx_read :: readers
  cx_print :: printers

section \<open>JSON values\<close>

text \<open>An object keeps its keys in order, a \<open>BTreeMap\<close>.\<close>

fun map_insert :: "string \<Rightarrow> json \<Rightarrow> json_map \<Rightarrow> json_map" where
  "map_insert k v [] = [(k, v)]"
| "map_insert k v ((k', v') # m) =
    (if k = k' then (k, v) # m else if k < k' then (k, v) # (k', v') # m else (k', v') # map_insert k v m)"

fun json_object :: "json_map \<Rightarrow> json" where
  "json_object fs = JObject (foldl (\<lambda>m (k, v). map_insert k v m) [] fs)"

text \<open>\<open>entry[key] = value\<close> on an object.\<close>

fun json_set :: "json \<Rightarrow> string \<Rightarrow> json \<Rightarrow> json" where
  "json_set (JObject m) k v = JObject (map_insert k v m)"
| "json_set other k v = other"

definition json_len :: "'a list \<Rightarrow> json" where
  "json_len xs = JNumber (PosInt (of_nat (length xs)))"

definition show_bool :: "bool \<Rightarrow> string" where
  "show_bool b = (if b then ''true'' else ''false'')"

lemma map_of_map_insert [simp]: "map_of (map_insert k v m) = (map_of m)(k \<mapsto> v)"
  by (induction m) auto

lemma json_get_set [simp]:
  "json_get (json_set (JObject m) k v) k' = (if k' = k then Some v else json_get (JObject m) k')"
  by (simp add: json_get_def)

section \<open>Keys and formats\<close>

definition solve_serialized_witness_for_circuit_with_format ::
  "('abi, 'input, 'witness, 'program, 'stack) acvm \<Rightarrow> packaged_circuit \<Rightarrow> json \<Rightarrow> witness_format \<Rightarrow> u8 list io" where
  "solve_serialized_witness_for_circuit_with_format av circuit inputs format =
    (case format of
       Legacy \<Rightarrow> solve_serialized_legacy_witness_for_circuit av circuit inputs
     | Compact \<Rightarrow> solve_serialized_witness_for_circuit av circuit inputs)"

definition packaged_verification_key :: "toolchain \<Rightarrow> packaged_circuit \<Rightarrow> u8 list result" where
  "packaged_verification_key tc circuit =
    of_sum (\<lambda>e. [''failed to decode packaged vkey for '' @ circuit_label circuit, e])
      (tc_base64 tc (ca_vkey circuit))"

definition verification_keys_match :: "u8 list \<Rightarrow> u8 list \<Rightarrow> bool" where
  "verification_keys_match packaged generated \<longleftrightarrow> packaged = generated"

section \<open>Loading\<close>

definition load_input ::
  "host \<Rightarrow> readers \<Rightarrow> string option \<Rightarrow> string option \<Rightarrow> fixture_bundle io" where
  "load_input h rd file dir =
    (case (file, dir) of
       (Some file, None) \<Rightarrow> load_fixture_bundle h (rd_fixture rd) file
     | (None, Some dir) \<Rightarrow> load_fixture_dir h (rd_fixture_dir rd) dir
     | _ \<Rightarrow> io_of (bail ''provide exactly one of --file or --dir''))"

definition load_manifest_file :: "host \<Rightarrow> readers \<Rightarrow> string \<Rightarrow> manifest io" where
  "load_manifest_file h rd =
    read_json h ''failed to read manifest file: '' ''failed to parse manifest file: '' (rd_manifest rd)"

definition load_packaged_circuit_file :: "host \<Rightarrow> readers \<Rightarrow> string \<Rightarrow> packaged_circuit io" where
  "load_packaged_circuit_file h rd =
    read_json h ''failed to read packaged circuit file: '' ''failed to parse packaged circuit file: '' (rd_circuit rd)"

definition load_certificates_file :: "host \<Rightarrow> readers \<Rightarrow> string \<Rightarrow> certificates_file io" where
  "load_certificates_file h rd =
    read_json h ''failed to read certificates file: '' ''failed to parse certificates file: '' (rd_certificates rd)"

definition load_json_value_file :: "host \<Rightarrow> readers \<Rightarrow> string \<Rightarrow> json io" where
  "load_json_value_file h rd =
    read_json h ''failed to read JSON value file: '' ''failed to parse JSON value file: '' (rd_value rd)"

definition artifact_store_from_options :: "compatibility_matrix \<Rightarrow> string option \<Rightarrow> artifact_store" where
  "artifact_store_from_options m artifacts_dir =
    (let registry = registry_client_from_matrix m in
     case artifacts_dir of
       Some dir \<Rightarrow> store_local_with_registry_fallback dir registry
     | None \<Rightarrow> store_registry registry)"

text \<open>The CLI has its own copy of \<open>workspace_root\<close>, compiled in its own crate's directory.\<close>

definition cli_workspace_root :: "('abi, 'input, 'witness, 'program, 'stack) cli \<Rightarrow> string io" where
  "cli_workspace_root cx = workspace_root (cx_host cx) (cx_manifest_dir cx)"

definition fixture_id_for_dir :: "string \<Rightarrow> string" where
  "fixture_id_for_dir dir = (case path_file_name dir of Some name \<Rightarrow> name | None \<Rightarrow> ''fixture'')"

text \<open>
  The certificates and a path to them: the given file, or a temporary one with what was
  fetched, which lives until the command \<open>body\<close> that uses it is done. (A file is flushed
  by writing to it.)
\<close>

definition materialize_certificates_path ::
  "('abi, 'input, 'witness, 'program, 'stack) cli \<Rightarrow> compatibility_matrix \<Rightarrow> string option \<Rightarrow> string option
     \<Rightarrow> (certificates_file \<Rightarrow> string \<Rightarrow> 'a io) \<Rightarrow> 'a io" where
  "materialize_certificates_path cx m certificates cert_root body =
    (case certificates of
       Some path \<Rightarrow> io_bind (load_certificates_file (cx_host cx) (cx_read cx) path) (\<lambda>packaged. body packaged path)
     | None \<Rightarrow>
         io_bind (fetch_certificates (cx_host cx) (cx_show cx) (co_gunzip (cx_coders cx)) (cx_certificates_in cx)
                    (certificate_client_from_matrix m) cert_root) (\<lambda>packaged.
         with_temp_file (cx_host cx) ''failed to create temporary certificates file'' (\<lambda>path.
           io_bind (io_context ''failed to write temporary certificates file''
               (io_bind (io_of (of_sum (\<lambda>e. [e]) (pr_certificates (cx_print cx) packaged))) (\<lambda>text'.
                write_file (cx_host cx) path (as_bytes text')))) (\<lambda>_.
           body packaged path))))"

section \<open>Scripts\<close>

text \<open>Run a node script and fail with its trimmed error output when it does.\<close>

definition run_script :: "host \<Rightarrow> string \<Rightarrow> string list \<Rightarrow> string \<Rightarrow> unit io" where
  "run_script h script_path args failed =
    io_bind (io_context (''failed to execute node script: '' @ script_path)
               (run_process h None ''node'' (script_path # args))) (\<lambda>result.
    if \<not> po_success result
    then io_of (bail (failed @ '': '' @ str_trim (from_utf8_lossy (po_stderr result))))
    else io_return ())"

definition reference_script ::
  "host \<Rightarrow> string \<Rightarrow> string \<Rightarrow> string \<Rightarrow> string \<Rightarrow> (string \<times> string) io" where
  "reference_script h script_path fixture_dir certificates_path output_path =
    io_bind (run_script h script_path
               [''--fixture-dir'', fixture_dir, ''--certificates'', certificates_path, ''--out'', output_path]
               ''reference input generation failed'') (\<lambda>_.
    io_bind (io_context (''failed to read reference inputs file: '' @ output_path)
               (read_to_string h output_path)) (\<lambda>raw.
    io_return (output_path, raw)))"

definition run_reference_inputs_script ::
  "('abi, 'input, 'witness, 'program, 'stack) cli \<Rightarrow> string \<Rightarrow> string \<Rightarrow> string option \<Rightarrow> reference_inputs io" where
  "run_reference_inputs_script cx fixture_dir certificates_path output =
    io_bind (cli_workspace_root cx) (\<lambda>root.
    let script = reference_script (cx_host cx) (path_join root ''scripts/reference-inputs.cjs'') fixture_dir certificates_path in
    io_bind (case output of
               Some path \<Rightarrow> script path
             | None \<Rightarrow>
                 with_temp_file (cx_host cx) ''failed to create temporary reference output file'' script) (\<lambda>(output_path, raw).
    io_of (of_sum (\<lambda>e. [''failed to parse reference inputs file: '' @ output_path, e])
             (rd_reference (cx_read cx) raw))))"

definition outer_script ::
  "host \<Rightarrow> readers \<Rightarrow> string \<Rightarrow> string list \<Rightarrow> string \<Rightarrow> string \<Rightarrow> outer_reference io" where
  "outer_script h rd script_path args what output_path =
    io_bind (run_script h script_path (args @ [''--out'', output_path]) (what @ '' input generation failed'')) (\<lambda>_.
    read_json h (''failed to read '' @ what @ '' input file: '') (''failed to parse '' @ what @ '' input file: '')
      (rd_outer rd) output_path)"

definition run_outer_inputs_script ::
  "('abi, 'input, 'witness, 'program, 'stack) cli \<Rightarrow> string \<Rightarrow> string \<Rightarrow> string \<Rightarrow> outer_reference io" where
  "run_outer_inputs_script cx fixture_dir proof_dir artifacts_dir =
    io_bind (cli_workspace_root cx) (\<lambda>root.
    with_temp_file (cx_host cx) ''failed to create temporary outer input output file''
      (outer_script (cx_host cx) (cx_read cx) (path_join root ''scripts/outer-inputs.cjs'')
         [''--fixture-dir'', fixture_dir, ''--proof-dir'', proof_dir, ''--artifacts-dir'', artifacts_dir] ''outer''))"

definition run_aggregate_inputs_script ::
  "('abi, 'input, 'witness, 'program, 'stack) cli \<Rightarrow> string \<Rightarrow> string \<Rightarrow> outer_reference io" where
  "run_aggregate_inputs_script cx request_path artifacts_dir =
    io_bind (cli_workspace_root cx) (\<lambda>root.
    with_temp_file (cx_host cx) ''failed to create temporary aggregate output file''
      (outer_script (cx_host cx) (cx_read cx) (path_join root ''scripts/aggregate-inputs.cjs'')
         [''--request'', request_path, ''--artifacts-dir'', artifacts_dir] ''aggregate''))"

definition local_artifacts_dir_for_version ::
  "('abi, 'input, 'witness, 'program, 'stack) cli \<Rightarrow> string \<Rightarrow> string option \<Rightarrow> string io" where
  "local_artifacts_dir_for_version cx version artifacts_dir =
    (case artifacts_dir of
       Some dir \<Rightarrow> io_return dir
     | None \<Rightarrow>
         io_bind (cli_workspace_root cx) (\<lambda>root.
         io_return (path_join (path_join (path_join root ''artifacts'') ''registry'')
                      (''minimal-default-'' @ version))))"

section \<open>Jobs\<close>

definition collect_solve_jobs :: "reference_inputs \<Rightarrow> resolved_plan \<Rightarrow> solve_job list" where
  "collect_solve_jobs reference resolved =
    [\<lparr>sj_circuit_name = rc_dsc_name (rs_circuits resolved), sj_inputs = ri_dsc_inputs reference\<rparr>,
     \<lparr>sj_circuit_name = rc_id_data_name (rs_circuits resolved), sj_inputs = ri_id_data_inputs reference\<rparr>,
     \<lparr>sj_circuit_name = rc_integrity_name (rs_circuits resolved), sj_inputs = ri_integrity_inputs reference\<rparr>]
    @ map (\<lambda>d. \<lparr>sj_circuit_name = rd_circuit_name d, sj_inputs = rd_inputs d\<rparr>) (ri_disclosures reference)"

section \<open>Hexadecimal fields\<close>

definition bytes_to_hex :: "u8 list \<Rightarrow> string" where
  "bytes_to_hex bytes = concat (map hex02 bytes)"

text \<open>\<open>bytes.chunks(n)\<close>, for \<open>n\<close> above zero.\<close>

fun chunks :: "nat \<Rightarrow> 'a list \<Rightarrow> 'a list list" where
  "chunks n [] = []"
| "chunks n (x # xs) = (x # take (n - 1) xs) # chunks n (drop (n - 1) xs)"

definition split_hex_fields :: "u8 list \<Rightarrow> string list result" where
  "split_hex_fields bytes =
    (if length bytes mod 32 \<noteq> 0
     then bail (''buffer length '' @ show_nat (length bytes) @ '' is not a multiple of 32 bytes'')
     else Ok (map (\<lambda>chunk. ''0x'' @ bytes_to_hex chunk) (chunks 32 bytes)))"

definition outer_nullifier :: "string list \<Rightarrow> string option" where
  "outer_nullifier public_inputs =
    (if length public_inputs < 2 then None else Some (public_inputs ! (length public_inputs - 2)))"

section \<open>Solving and proving\<close>

definition verify_inner_proof ::
  "host \<Rightarrow> toolchain \<Rightarrow> proof_artifacts \<Rightarrow> u8 list \<Rightarrow> proof_options \<Rightarrow> bool io" where
  "verify_inner_proof h tc a verification_key options =
    verify_circuit_proof h tc (pa_proof a) (pa_public_inputs a) verification_key options"

definition write_named :: "host \<Rightarrow> string \<Rightarrow> string \<Rightarrow> string \<Rightarrow> u8 list \<Rightarrow> unit io" where
  "write_named h dir name failed bytes =
    (let path = path_join dir name in io_context (failed @ path) (write_file h path bytes))"

definition persist_proof_artifacts ::
  "host \<Rightarrow> string \<Rightarrow> string \<Rightarrow> proof_artifacts \<Rightarrow> u8 list \<Rightarrow> bool \<Rightarrow> unit io" where
  "persist_proof_artifacts h output_dir circuit_name a packaged_key generated_vk_matches_packaged =
    io_bind (write_named h output_dir (circuit_name @ ''.proof.bin'') ''failed to write proof file: '' (pa_proof a)) (\<lambda>_.
    io_bind (write_named h output_dir (circuit_name @ ''.vk.bin'') ''failed to write verification key file: ''
               packaged_key) (\<lambda>_.
    io_bind (if \<not> generated_vk_matches_packaged
             then write_named h output_dir (circuit_name @ ''.generated_vk.bin'')
                    ''failed to write generated verification key file: '' (pa_verification_key a)
             else io_return ()) (\<lambda>_.
    write_named h output_dir (circuit_name @ ''.public_inputs.bin'') ''failed to write public inputs file: ''
      (pa_public_inputs a))))"

definition save_witness ::
  "host \<Rightarrow> printers \<Rightarrow> string \<Rightarrow> solve_job \<Rightarrow> u8 list \<Rightarrow> json \<Rightarrow> json io" where
  "save_witness h pr output_dir job witness entry =
    (let input_path = path_join output_dir (sj_circuit_name job @ ''.inputs.json'');
         witness_path = path_join output_dir (sj_circuit_name job @ ''.witness.bin'') in
     io_bind (io_of (of_sum (\<lambda>e. [e]) (pr_value pr (sj_inputs job)))) (\<lambda>bytes.
     io_bind (io_context (''failed to write circuit input file: '' @ input_path)
                (write_file h input_path (as_bytes bytes))) (\<lambda>_.
     io_bind (io_context (''failed to write witness file: '' @ witness_path)
                (write_file h witness_path witness)) (\<lambda>_.
     io_return (json_set (json_set entry ''inputs_path'' (JString input_path))
                  ''witness_path'' (JString witness_path))))))"

definition prove_job ::
  "host \<Rightarrow> toolchain \<Rightarrow> string option \<Rightarrow> proof_options \<Rightarrow> packaged_circuit \<Rightarrow> solve_job \<Rightarrow> u8 list
     \<Rightarrow> json \<Rightarrow> json io" where
  "prove_job h tc output_dir options circuit job witness entry =
    io_bind (io_context (''failed to generate proof for '' @ sj_circuit_name job)
               (prove_circuit_with_witness h tc circuit witness options)) (\<lambda>a.
    io_bind (io_of (packaged_verification_key tc circuit)) (\<lambda>packaged_vk.
    let generated_vk_matches_packaged = verification_keys_match packaged_vk (pa_verification_key a) in
    io_bind (io_context (''failed to verify proof for '' @ sj_circuit_name job)
               (verify_inner_proof h tc a packaged_vk options)) (\<lambda>verified.
    io_bind (case output_dir of
               Some dir \<Rightarrow>
                 persist_proof_artifacts h dir (sj_circuit_name job) a packaged_vk generated_vk_matches_packaged
             | None \<Rightarrow> io_return ()) (\<lambda>_.
    io_return
      (json_set (json_set (json_set (json_set entry
         ''proof_bytes'' (json_len (pa_proof a)))
         ''public_inputs_count'' (JNumber (PosInt (ucast (pa_public_inputs_count a)))))
         ''proof_verified'' (JBool verified))
         ''generated_vk_matches_packaged'' (JBool generated_vk_matches_packaged))))))"

definition run_job ::
  "('abi, 'input, 'witness, 'program, 'stack) cli \<Rightarrow> artifact_store \<Rightarrow> string \<Rightarrow> string option \<Rightarrow> bool
     \<Rightarrow> proof_options \<Rightarrow> solve_job \<Rightarrow> json io" where
  "run_job cx store version output_dir generate_proofs options job =
    io_bind (load_packaged_circuit (cx_host cx) (cx_coders cx) store version (sj_circuit_name job)) (\<lambda>circuit.
    io_bind (io_context (''failed to solve witness for '' @ sj_circuit_name job)
               (if generate_proofs
                then solve_serialized_legacy_witness_for_circuit (cx_acvm cx) circuit (sj_inputs job)
                else solve_compressed_witness_for_circuit (cx_acvm cx) circuit (sj_inputs job))) (\<lambda>witness.
    let entry = json_object [(''circuit_name'', JString (sj_circuit_name job)), (''witness_bytes'', json_len witness)] in
    io_bind (case output_dir of
               Some dir \<Rightarrow> save_witness (cx_host cx) (cx_print cx) dir job witness entry
             | None \<Rightarrow> io_return entry) (\<lambda>entry.
    if generate_proofs
    then prove_job (cx_host cx) (cx_tools cx) output_dir options circuit job witness entry
    else io_return entry)))"

definition solve_fixture_jobs ::
  "('abi, 'input, 'witness, 'program, 'stack) cli \<Rightarrow> artifact_store \<Rightarrow> string \<Rightarrow> solve_job list \<Rightarrow> string option
     \<Rightarrow> bool \<Rightarrow> proof_options \<Rightarrow> json io" where
  "solve_fixture_jobs cx store version jobs output_dir generate_proofs options =
    io_bind (case output_dir of
               Some dir \<Rightarrow> io_context (''failed to create output directory: '' @ dir) (create_dir_all (cx_host cx) dir)
             | None \<Rightarrow> io_return ()) (\<lambda>_.
    io_bind (io_map (run_job cx store version output_dir generate_proofs options) jobs) (\<lambda>circuit_summaries.
    let summary = json_object [(''generate_proofs'', JBool generate_proofs), (''circuits'', JArray circuit_summaries)] in
    case output_dir of
      None \<Rightarrow> io_return summary
    | Some dir \<Rightarrow>
        let summary_path = path_join dir ''summary.json'' in
        io_bind (io_of (of_sum (\<lambda>e. [e]) (pr_value (cx_print cx) summary))) (\<lambda>bytes.
        io_bind (io_context (''failed to write summary file: '' @ summary_path)
                   (write_file (cx_host cx) summary_path (as_bytes bytes))) (\<lambda>_.
        io_return (json_set summary ''summary_path'' (JString summary_path))))))"

section \<open>Fields of the outer proof\<close>

lemma hex02_inject: "hex02 a = hex02 b \<Longrightarrow> a = b"
proof -
  assume h: "hex02 a = hex02 b"
  have "distinct ''0123456789abcdef''" "length ''0123456789abcdef'' = 16" by code_simp+
  then have digit: "digit_char m = digit_char n \<Longrightarrow> m < 16 \<Longrightarrow> n < 16 \<Longrightarrow> m = n" for m n
    unfolding digit_char_def by (metis nth_eq_iff_index_eq)
  have small: "unat c div 16 < 16" for c :: u8
  proof -
    have "unat c < 256" using unsigned_less [of c] by simp
    then show ?thesis by simp
  qed
  from h small digit have "unat a div 16 = unat b div 16" "unat a mod 16 = unat b mod 16"
    by (auto simp: hex02_def)
  then show ?thesis by (metis div_mult_mod_eq word_unat_eq_iff)
qed

lemma bytes_to_hex_simps [simp]:
  "bytes_to_hex [] = []" "bytes_to_hex (b # bs) = hex02 b @ bytes_to_hex bs"
  by (simp_all add: bytes_to_hex_def)

lemma length_bytes_to_hex [simp]: "length (bytes_to_hex bytes) = 2 * length bytes"
  by (induction bytes) simp_all

lemma bytes_to_hex_inject [simp]: "bytes_to_hex bs = bytes_to_hex cs \<longleftrightarrow> bs = cs"
proof (induction bs arbitrary: cs)
  case Nil
  have "bytes_to_hex cs = [] \<longleftrightarrow> cs = []"
    by (metis length_0_conv length_bytes_to_hex mult_is_0 zero_neq_numeral)
  then show ?case by auto
next
  case (Cons b bs)
  show ?case
  proof (cases cs)
    case Nil
    have "hex02 b \<noteq> []" by (simp add: hex02_def)
    with Nil show ?thesis by auto
  next
    case (Cons c cs')
    with Cons.IH hex02_inject [of b c] show ?thesis by (auto simp: append_eq_append_conv)
  qed
qed

lemma concat_chunks: "concat (chunks n xs) = xs"
  by (induction n xs rule: chunks.induct) simp_all

lemma chunks_length:
  assumes "0 < n" and "length xs mod n = 0" and "c \<in> set (chunks n xs)"
  shows "length c = n"
  using assms(2,3)
proof (induction "length xs" arbitrary: xs rule: less_induct)
  case less
  show ?case
  proof (cases xs)
    case (Cons x ys)
    have le: "n \<le> length xs"
    proof (rule ccontr)
      assume "\<not> n \<le> length xs"
      with less.prems(1) have "length xs = 0" by simp
      with Cons show False by simp
    qed
    have rest: "drop n xs = drop (n - 1) ys" "take n xs = x # take (n - 1) ys"
      using Cons assms(1) by (simp_all add: drop_Cons' take_Cons')
    have whole: "length (drop n xs) mod n = 0" using le less.prems(1) by (metis le_mod_geq length_drop)
    have "length (drop n xs) < length xs" using le assms(1) by simp
    from less.hyps [OF this whole] have "c \<in> set (chunks n (drop n xs)) \<Longrightarrow> length c = n" .
    moreover have "length (take n xs) = n" using le by simp
    ultimately show ?thesis using less.prems(2) Cons rest assms(1) by auto
  qed (use less.prems in simp)
qed

text \<open>The chunks are the only way to cut the bytes into pieces of that length.\<close>

lemma chunks_unique: "0 < n \<Longrightarrow> \<forall>c \<in> set cs. length c = n \<Longrightarrow> chunks n (concat cs) = cs"
proof (induction cs)
  case (Cons c cs)
  then obtain x xs where c: "c = x # xs" and "length xs = n - 1" by (cases c) auto
  with Cons show ?case by simp
qed simp

lemma chunks_append:
  assumes "0 < n" and "length ys = n" and "length xs mod n = 0"
  shows "chunks n (xs @ ys) = chunks n xs @ [ys]"
proof -
  have "\<forall>c \<in> set (chunks n xs @ [ys]). length c = n" using chunks_length [OF assms(1,3)] assms(2) by auto
  from chunks_unique [OF assms(1) this] show ?thesis by (simp add: concat_chunks)
qed

text \<open>
  C28. The public inputs are split exactly when they are whole fields of 32 bytes, and then
  losslessly: field by field, in order, each as \<open>0x\<close> and its 64 digits; so that no two
  proofs with different public inputs are shown alike.
\<close>

theorem hex_fields_lossless:
  "(split_hex_fields bytes = Ok fs \<longleftrightarrow>
      (\<exists>cs. bytes = concat cs \<and> (\<forall>c \<in> set cs. length c = 32) \<and> fs = map (\<lambda>c. ''0x'' @ bytes_to_hex c) cs))
   \<and> (split_hex_fields bytes = Ok fs \<and> split_hex_fields other = Ok fs \<longrightarrow> bytes = other)
   \<and> (split_hex_fields bytes = Ok fs \<longrightarrow> (\<forall>f \<in> set fs. length f = 66))"
proof -
  have iff: "split_hex_fields bytes = Ok fs \<longleftrightarrow>
      (\<exists>cs. bytes = concat cs \<and> (\<forall>c \<in> set cs. length c = 32) \<and> fs = map (\<lambda>c. ''0x'' @ bytes_to_hex c) cs)"
    (is "_ \<longleftrightarrow> ?cut bytes") for bytes
  proof
    assume ok: "split_hex_fields bytes = Ok fs"
    then have "length bytes mod 32 = 0" by (simp add: split_hex_fields_def bail_def split: if_splits)
    then have "\<forall>c \<in> set (chunks 32 bytes). length c = 32" using chunks_length [of 32 bytes] by force
    with ok concat_chunks [of 32 bytes] show "?cut bytes"
      by (intro exI [of _ "chunks 32 bytes"]) (auto simp: split_hex_fields_def bail_def split: if_splits)
  next
    assume "?cut bytes"
    then obtain cs where cs: "bytes = concat cs" "\<forall>c \<in> set cs. length c = 32"
      "fs = map (\<lambda>c. ''0x'' @ bytes_to_hex c) cs" by blast
    have "length (concat cs) = 32 * length cs" using cs(2) by (induction cs) auto
    with cs chunks_unique [of 32 cs] show "split_hex_fields bytes = Ok fs" by (simp add: split_hex_fields_def)
  qed
  have inj: "inj (\<lambda>c. ''0x'' @ bytes_to_hex c)" by (simp add: inj_def)
  have "bytes = other" if "split_hex_fields bytes = Ok fs" "split_hex_fields other = Ok fs"
    using that unfolding iff by (metis inj_map_eq_map inj)
  moreover have "\<forall>f \<in> set fs. length f = 66" if "split_hex_fields bytes = Ok fs"
    using that unfolding iff by auto
  ultimately show ?thesis using iff by blast
qed

theorem hex_fields_lossless_witness:
  "split_hex_fields (replicate 32 7) = Ok [''0x'' @ concat (replicate 32 ''07'')]"
proof -
  have "hex02 7 = ''07''" by (simp add: hex02_def digit_char_def)
  then have "bytes_to_hex (replicate 32 7) = concat (replicate 32 ''07'')" by (simp add: bytes_to_hex_def)
  then have "\<exists>cs. replicate 32 7 = concat cs \<and> (\<forall>c \<in> set cs. length c = 32)
      \<and> [''0x'' @ concat (replicate 32 ''07'')] = map (\<lambda>c. ''0x'' @ bytes_to_hex c) cs"
    by (intro exI [of _ "[replicate 32 7]"]) simp
  then show ?thesis by (rule hex_fields_lossless [THEN conjunct1, THEN iffD2])
qed

lemma outer_nullifier_append: "outer_nullifier (xs @ [n, l]) = Some n"
  by (simp add: outer_nullifier_def nth_append)

text \<open>
  C27. The nullifier is the last field but one, the \<open>scoped_nullifier\<close> of the circuits since
  0.18.0: for public inputs of at least two fields it is the field of 32 bytes that ends 32
  bytes before the end, never the trailing \<open>oprf_pk_hash\<close>.
\<close>

theorem nullifier_is_last_but_one:
  assumes "length scoped_nullifier = 32" and "length oprf_pk_hash = 32" and "length front mod 32 = 0"
  shows "and_then (split_hex_fields (front @ scoped_nullifier @ oprf_pk_hash)) (\<lambda>fs. Ok (outer_nullifier fs))
    = Ok (Some (''0x'' @ bytes_to_hex scoped_nullifier))"
proof -
  have "length (front @ scoped_nullifier) mod 32 = 0" using assms by simp
  with assms have "chunks 32 ((front @ scoped_nullifier) @ oprf_pk_hash)
      = (chunks 32 front @ [scoped_nullifier]) @ [oprf_pk_hash]"
    by (simp only: chunks_append zero_less_numeral)
  moreover from assms(3) have "(length front + 64) mod 32 = 0" by presburger
  ultimately show ?thesis using assms by (simp add: split_hex_fields_def outer_nullifier_append)
qed

theorem nullifier_is_last_but_one_witness:
  "and_then (split_hex_fields (replicate 32 5 @ replicate 32 7 @ replicate 32 0)) (\<lambda>fs. Ok (outer_nullifier fs))
    = Ok (Some (''0x'' @ concat (replicate 32 ''07'')))"
proof -
  have "hex02 7 = ''07''" by (simp add: hex02_def digit_char_def)
  then have "bytes_to_hex (replicate 32 7) = concat (replicate 32 ''07'')"
    by (simp add: bytes_to_hex_def)
  with nullifier_is_last_but_one [of "replicate 32 7" "replicate 32 0" "replicate 32 5"] show ?thesis
    by (simp only: length_replicate)  simp
qed

section \<open>Solved and proved jobs\<close>

lemma packaged_key_Ok [simp]:
  "packaged_verification_key tc c = Ok key \<longleftrightarrow> tc_base64 tc (ca_vkey c) = Inr key"
  by (simp add: packaged_verification_key_def)

text \<open>An entry of the summary that tells of a proof made and checked for the job.\<close>

definition proved_entry ::
  "('abi, 'input, 'witness, 'program, 'stack) cli \<Rightarrow> proof_options \<Rightarrow> solve_job \<Rightarrow> json \<Rightarrow> bool" where
  "proved_entry cx options job entry \<longleftrightarrow>
    (\<exists>c a verified witness w1 w2 w3 w4.
       prove_circuit_with_witness (cx_host cx) (cx_tools cx) c witness options w1 = Some (Ok a, w2)
       \<and> verify_circuit_proof (cx_host cx) (cx_tools cx) (pa_proof a) (pa_public_inputs a)
            (pa_verification_key a) options w3 = Some (Ok verified, w4)
       \<and> json_get entry ''circuit_name'' = Some (JString (sj_circuit_name job))
       \<and> json_get entry ''proof_bytes'' = Some (json_len (pa_proof a))
       \<and> json_get entry ''proof_verified'' = Some (JBool verified)
       \<and> json_get entry ''generated_vk_matches_packaged'' = Some (JBool True))"

lemma prove_job_Ok:
  assumes "prove_job (cx_host cx) (cx_tools cx) od options c job witness (JObject m) w = Some (Ok entry, w')"
    and "map_of m ''circuit_name'' = Some (JString (sj_circuit_name job))"
  shows "proved_entry cx options job entry"
proof -
  from assms(1) obtain a packaged_vk verified w1 w2 w3
    where prove: "prove_circuit_with_witness (cx_host cx) (cx_tools cx) c witness options w = Some (Ok a, w1)"
      and key: "tc_base64 (cx_tools cx) (ca_vkey c) = Inr packaged_vk"
      and verify: "verify_inner_proof (cx_host cx) (cx_tools cx) a packaged_vk options w1 = Some (Ok verified, w2)"
      and entry: "entry = json_set (json_set (json_set (json_set (JObject m)
         ''proof_bytes'' (json_len (pa_proof a)))
         ''public_inputs_count'' (JNumber (PosInt (ucast (pa_public_inputs_count a)))))
         ''proof_verified'' (JBool verified))
         ''generated_vk_matches_packaged'' (JBool (verification_keys_match packaged_vk (pa_verification_key a)))"
    by (auto simp: prove_job_def io_bind_Ok Let_def)
  from bb.keys_agree [OF prove] key have "packaged_vk = pa_verification_key a" by simp
  with prove verify entry assms(2) show ?thesis
    unfolding proved_entry_def verify_inner_proof_def
    by (intro exI conjI) (auto simp: json_get_def verification_keys_match_def)
qed

lemma save_witness_Ok:
  assumes "save_witness h pr dir job witness (JObject m) w = Some (Ok entry, w')"
  shows "\<exists>m'. entry = JObject m' \<and> map_of m' ''circuit_name'' = map_of m ''circuit_name''"
  using assms by (auto simp: save_witness_def io_bind_Ok Let_def)

lemma run_job_proved:
  assumes "run_job cx store version od True options job w = Some (Ok entry, w')"
  shows "proved_entry cx options job entry"
proof -
  from assms obtain c witness m w1
    where "prove_job (cx_host cx) (cx_tools cx) od options c job witness (JObject m) w1 = Some (Ok entry, w')"
      and "map_of m ''circuit_name'' = Some (JString (sj_circuit_name job))"
    by (cases od) (auto simp: run_job_def io_bind_Ok Let_def dest!: save_witness_Ok)
  then show ?thesis by (rule prove_job_Ok)
qed

text \<open>
  C15. When the inner circuits are proved, the summary has one entry per job, in the order of
  the jobs, each of a proof that the binary made and whose flag is what verifying it against
  the packaged key answered; a proof that fails to verify does not stop the command. The
  flag \<open>generated_vk_matches_packaged\<close> is always true: prover and check decode the same
  packaged key, and no key the binary generated is ever looked at.
\<close>

theorem summary_tells_each_proof:
  assumes "solve_fixture_jobs cx store version jobs od True options w = Some (Ok summary, w')"
  shows "\<exists>entries. json_get summary ''circuits'' = Some (JArray entries)
    \<and> list_all2 (proved_entry cx options) jobs entries"
proof -
  from assms obtain entries w1 w2
    where run: "io_map (run_job cx store version od True options) jobs w1 = Some (Ok entries, w2)"
      and summary: "json_get summary ''circuits'' = Some (JArray entries)"
    by (cases od) (auto simp: solve_fixture_jobs_def io_bind_Ok Let_def json_get_def)
  from io_map_Ok [OF run] have "list_all2 (proved_entry cx options) jobs entries"
    by (rule list_all2_mono) (blast intro: run_job_proved)
  with summary show ?thesis by blast
qed

text \<open>A command line whose readers fail and whose printers print nothing.\<close>

definition example_readers :: readers where
  "example_readers =
    \<lparr>rd_fixture = (\<lambda>_. Inl []), rd_fixture_dir = \<lparr>fx_document = (\<lambda>_. Inl []), fx_request = (\<lambda>_. Inl []),
       fx_outer = (\<lambda>_. Inl [])\<rparr>,
     rd_manifest = (\<lambda>_. Inl []), rd_circuit = (\<lambda>_. Inl []), rd_certificates = (\<lambda>_. Inl []),
     rd_value = (\<lambda>_. Inl []), rd_snapshot = (\<lambda>_. Inl []), rd_context = (\<lambda>_. Inl []),
     rd_payload = (\<lambda>_. Inl []), rd_reference = (\<lambda>_. Inl []), rd_outer = (\<lambda>_. Inl [])\<rparr>"

definition example_printers :: printers where
  "example_printers =
    \<lparr>pr_value = (\<lambda>_. Inr []), pr_fixture = (\<lambda>_. Inr []), pr_summary = (\<lambda>_. Inr []), pr_manifest = (\<lambda>_. Inr []),
     pr_plan = (\<lambda>_. Inr []), pr_snapshot = (\<lambda>_. Inr []), pr_resolved = (\<lambda>_. Inr []), pr_analysis = (\<lambda>_. Inr []),
     pr_certificates = (\<lambda>_. Inr []), pr_reference = (\<lambda>_. Inr []), pr_inner_bundle = (\<lambda>_. Inr []),
     pr_outer_result = (\<lambda>_. Inr []), vl_circuit = (\<lambda>_. JNull), vl_plan = (\<lambda>_. JNull), vl_analysis = (\<lambda>_. JNull),
     vl_certificate = (\<lambda>_. JNull), vl_context = (\<lambda>_. JNull), vl_resolved = (\<lambda>_. JNull)\<rparr>"

definition example_cli :: "(unit, unit, unit, unit, unit) cli" where
  "example_cli =
    \<lparr>cx_host = example_prover, cx_coders = example_coders, cx_tools = example_tools, cx_acvm = example_acvm,
     cx_manifest_dir = ''/src/crates/prover-cli'', cx_checks = True, cx_x509 = (\<lambda>_. Inl ''x509''),
     cx_alpha3 = (\<lambda>_. None), cx_show = (\<lambda>_. []), cx_certificates_in = (\<lambda>_. Inl ''certificates''),
     cx_read = example_readers, cx_print = example_printers\<rparr>"

lemma example_cli_simps [simp]:
  "cx_host example_cli = example_prover" "cx_coders example_cli = example_coders"
  "cx_tools example_cli = example_tools" "cx_acvm example_cli = example_acvm"
  by (simp_all add: example_cli_def)

definition job_world :: world where
  "job_world = bb_world\<lparr>wd_files := [''/bb'' \<mapsto> [], ''root/circuits/a.json'' \<mapsto> [0x61]]\<rparr>"

lemma bb_found:
  "wd_env w ''BB_BINARY_PATH'' = Some ''/bb'' \<Longrightarrow> wd_files w ''/bb'' \<noteq> None \<Longrightarrow>
     ensure_bb_binary h tc w = Some (Ok ''/bb'', w)"
  by (simp add: ensure_bb_binary_def path_exists_def io_return_def)

lemma example_load:
  assumes "wd_files w ''root/circuits/a.json'' = Some [0x61]" and "as_local_root store = Some ''root''"
  shows "load_packaged_circuit example_prover example_coders store v ''a'' w
    = Some (Ok example_circuit, note_event (Read_back ''root/circuits/a.json'') w)"
proof -
  from assms(2) have "local_circuit_path store ''a'' = Some ''root/circuits/a.json''"
    by (simp add: local_circuit_path_def path_join_def starts_with_def ends_with_def)
  moreover have "from_utf8 [0x61] = Some [byte_char 0x61]" by (simp add: from_utf8_def)
  ultimately show ?thesis using assms(1)
    by (simp add: load_packaged_circuit_def local_first_found path_exists_def load_json_file_def read_json_def
        io_bind_def io_context_def read_to_string_def read_file_def attempt_def io_of_def example_coders_def)
qed

text \<open>Proving and verifying there, from any world that has the binary and with any matrix.\<close>

lemma example_prove_any:
  assumes "wd_env w ''BB_BINARY_PATH'' = Some ''/bb''" and "wd_files w ''/bb'' \<noteq> None"
  shows "\<exists>a w'. prove_circuit_with_witness example_prover (example_tools\<lparr>tc_matrix := mx\<rparr>) example_circuit
      witness options w = Some (Ok a, w')
    \<and> pa_public_inputs a = replicate 64 1
    \<and> wd_env w' ''BB_BINARY_PATH'' = Some ''/bb'' \<and> wd_files w' ''/bb'' \<noteq> None"
proof -
  have "\<not> below ''/tmp/t'' ''/bb''" by (simp add: below_def starts_with_def)
  with assms bb_found [OF assms, of example_prover "example_tools\<lparr>tc_matrix := mx\<rparr>"] show ?thesis
    by (auto simp: prove_circuit_with_witness_def prove_native_def prove_in_def io_bind_Ok with_temp_dir_Ok
        write_circuit_artifact_def write_witness_def write_packaged_verification_key_def Let_def
        write_file_Ok create_dir_all_Ok run_command_Ok collect_proof_def read_required_file_def
        read_file_Ok public_inputs_count_Ok)
qed

lemma example_verify_any:
  assumes "wd_env w ''BB_BINARY_PATH'' = Some ''/bb''" and "wd_files w ''/bb'' \<noteq> None"
  shows "\<exists>w'. verify_circuit_proof example_prover (example_tools\<lparr>tc_matrix := mx\<rparr>) the_proof inputs key options w
      = Some (Ok True, w')
    \<and> wd_env w' ''BB_BINARY_PATH'' = Some ''/bb'' \<and> wd_files w' ''/bb'' \<noteq> None"
proof -
  have "\<not> below ''/tmp/t'' ''/bb''" by (simp add: below_def starts_with_def)
  with assms bb_found [OF assms, of example_prover "example_tools\<lparr>tc_matrix := mx\<rparr>"] show ?thesis
    by (auto simp: verify_circuit_proof_def verify_native_def verify_in_def io_bind_Ok with_temp_dir_Ok Let_def
        write_file_Ok run_process_Ok)
qed

text \<open>The circuit there is solved in either format.\<close>

lemma example_solve_any:
  "\<exists>witness w'. solve_serialized_witness_for_circuit_with_format example_acvm example_circuit JNull format w
      = Some (Ok witness, w')
    \<and> wd_files w' = wd_files w \<and> wd_env w' ''BB_BINARY_PATH'' = wd_env w ''BB_BINARY_PATH''"
  by (cases format)
    (auto simp: solve_serialized_witness_for_circuit_with_format_def solve_serialized_legacy_witness_for_circuit_def
      solve_serialized_legacy_witness_def solve_serialized_witness_for_circuit_def solve_serialized_witness_def
      solve_with_format_eq witness_stack_def serialize_stack_def example_acvm_def format_set_def format_variable_def)

lemma example_jobs:
  "\<exists>summary w'. solve_fixture_jobs example_cli (store_local ''root'') ''0.18.0''
     [\<lparr>sj_circuit_name = ''a'', sj_inputs = JNull\<rparr>] None True ultra_honk_poseidon2 job_world = Some (Ok summary, w')"
proof -
  let ?w1 = "note_event (Read_back ''root/circuits/a.json'') job_world"
  have files: "wd_files job_world ''root/circuits/a.json'' = Some [0x61]" "wd_files job_world ''/bb'' \<noteq> None"
    "wd_env job_world ''BB_BINARY_PATH'' = Some ''/bb''"
    by (simp_all add: job_world_def bb_world_def)
  have tools: "example_tools = example_tools\<lparr>tc_matrix := tc_matrix example_tools\<rparr>" by simp
  from example_solve_any [of Legacy ?w1] obtain witness w2
    where solve: "solve_serialized_legacy_witness_for_circuit example_acvm example_circuit JNull ?w1
      = Some (Ok witness, w2)"
      and env: "wd_env w2 ''BB_BINARY_PATH'' = Some ''/bb''" "wd_files w2 ''/bb'' \<noteq> None"
    using files by (auto simp: solve_serialized_witness_for_circuit_with_format_def)
  from example_prove_any [OF env, of "tc_matrix example_tools", folded tools] obtain a w3
    where prove: "prove_circuit_with_witness example_prover example_tools example_circuit witness ultra_honk_poseidon2 w2
      = Some (Ok a, w3)" and w3: "wd_env w3 ''BB_BINARY_PATH'' = Some ''/bb''" "wd_files w3 ''/bb'' \<noteq> None"
    by blast
  from example_verify_any [OF w3, of "tc_matrix example_tools", folded tools] obtain w4
    where verify: "verify_circuit_proof example_prover example_tools (pa_proof a) (pa_public_inputs a)
      (as_bytes (ca_vkey example_circuit)) ultra_honk_poseidon2 w3 = Some (Ok True, w4)"
    by blast
  show ?thesis
    by (auto simp: solve_fixture_jobs_def io_bind_Ok run_job_def example_load [OF files(1)] store_local_def solve
        Let_def prove_job_def prove verify verify_inner_proof_def)
qed

theorem summary_tells_each_proof_witness:
  "\<exists>summary w' entry. solve_fixture_jobs example_cli (store_local ''root'') ''0.18.0''
       [\<lparr>sj_circuit_name = ''a'', sj_inputs = JNull\<rparr>] None True ultra_honk_poseidon2 job_world = Some (Ok summary, w')
     \<and> json_get summary ''circuits'' = Some (JArray [entry])
     \<and> json_get entry ''generated_vk_matches_packaged'' = Some (JBool True)"
proof -
  from example_jobs obtain summary w' where run: "solve_fixture_jobs example_cli (store_local ''root'') ''0.18.0''
      [\<lparr>sj_circuit_name = ''a'', sj_inputs = JNull\<rparr>] None True ultra_honk_poseidon2 job_world = Some (Ok summary, w')"
    by blast
  from summary_tells_each_proof [OF run] obtain entry where "json_get summary ''circuits'' = Some (JArray [entry])"
    and "proved_entry example_cli ultra_honk_poseidon2 \<lparr>sj_circuit_name = ''a'', sj_inputs = JNull\<rparr> entry"
    by (auto simp: list_all2_Cons1)
  with run show ?thesis unfolding proved_entry_def by blast
qed

section \<open>The schema of a summary\<close>

datatype json_type = TNull | TBool | TNumber | TString | TArray | TObject

fun json_type_of :: "json \<Rightarrow> json_type" where
  "json_type_of JNull = TNull"
| "json_type_of (JBool _) = TBool"
| "json_type_of (JNumber _) = TNumber"
| "json_type_of (JString _) = TString"
| "json_type_of (JArray _) = TArray"
| "json_type_of (JObject _) = TObject"

text \<open>An object as \<open>serde_json\<close> holds it, with its keys in order and each once, and its type.\<close>

definition well_formed_object :: "json \<Rightarrow> bool" where
  "well_formed_object j \<longleftrightarrow> (case j of JObject m \<Rightarrow> sorted_wrt (<) (map fst m) | _ \<Rightarrow> False)"

definition object_type :: "json \<Rightarrow> string \<rightharpoonup> json_type" where
  "object_type j = (\<lambda>k. map_option json_type_of (json_get j k))"

definition has_type :: "json \<Rightarrow> (string \<rightharpoonup> json_type) \<Rightarrow> bool" where
  "has_type j t \<longleftrightarrow> well_formed_object j \<and> object_type j = t"

definition saved_type :: "string option \<Rightarrow> string \<rightharpoonup> json_type" where
  "saved_type output_dir =
    (if output_dir = None then Map.empty else [''inputs_path'' \<mapsto> TString, ''witness_path'' \<mapsto> TString])"

definition proof_type :: "string \<rightharpoonup> json_type" where
  "proof_type =
    [''proof_bytes'' \<mapsto> TNumber, ''public_inputs_count'' \<mapsto> TNumber, ''proof_verified'' \<mapsto> TBool,
     ''generated_vk_matches_packaged'' \<mapsto> TBool]"

definition entry_type :: "string option \<Rightarrow> bool \<Rightarrow> string \<rightharpoonup> json_type" where
  "entry_type output_dir generate_proofs =
    [''circuit_name'' \<mapsto> TString, ''witness_bytes'' \<mapsto> TNumber] ++ saved_type output_dir
      ++ (if generate_proofs then proof_type else Map.empty)"

lemma map_insert_keys: "set (map fst (map_insert k v m)) = insert k (set (map fst m))"
  unfolding set_map dom_map_of_conv_image_fst [symmetric] by simp

lemma map_insert_sorted: "sorted_wrt (<) (map fst m) \<Longrightarrow> sorted_wrt (<) (map fst (map_insert k v m))"
proof (induction m)
  case (Cons x m)
  then show ?case
    by (cases x) (auto simp del: set_map simp: map_insert_keys neq_iff intro: less_trans)
qed simp

lemma has_type_set: "has_type j t \<Longrightarrow> has_type (json_set j k v) (t(k \<mapsto> json_type_of v))"
  by (cases j)
    (auto simp: has_type_def well_formed_object_def object_type_def map_insert_sorted json_get_def fun_eq_iff)

lemma json_object_snoc: "json_object (fs @ [(k, v)]) = json_set (json_object fs) k v"
  by simp

lemma has_type_object: "has_type (json_object fs) (foldl (\<lambda>t (k, v). t(k \<mapsto> json_type_of v)) Map.empty fs)"
proof (induction fs rule: rev_induct)
  case Nil
  show ?case by (simp add: has_type_def well_formed_object_def object_type_def json_get_def fun_eq_iff)
next
  case (snoc x fs)
  obtain k v where x: "x = (k, v)" by fastforce
  from has_type_set [OF snoc, of k v] show ?case
    unfolding x json_object_snoc by (simp only: foldl_append foldl.simps prod.case)
qed

lemma has_type_field:
  "has_type j t \<Longrightarrow> json_type_of v = ty \<Longrightarrow> has_type (json_set j k v) (t(k \<mapsto> ty))"
  using has_type_set by blast

lemma save_witness_type:
  assumes "save_witness h pr dir job witness entry w = Some (Ok entry', w')" and "has_type entry t"
  shows "has_type entry' (t ++ saved_type (Some dir))"
proof -
  from assms(1) obtain i o' where "entry' = json_set (json_set entry ''inputs_path'' (JString i)) ''witness_path'' (JString o')"
    by (auto simp: save_witness_def io_bind_Ok Let_def)
  then show ?thesis
    by (simp add: saved_type_def del: fun_upd_apply) (intro has_type_field assms(2) json_type_of.simps)
qed

lemma prove_job_type:
  assumes "prove_job h tc od options c job witness entry w = Some (Ok entry', w')" and "has_type entry t"
  shows "has_type entry' (t ++ proof_type)"
proof -
  from assms(1) obtain n1 n2 b1 b2 where "entry' = json_set (json_set (json_set (json_set entry
      ''proof_bytes'' (JNumber n1)) ''public_inputs_count'' (JNumber n2)) ''proof_verified'' (JBool b1))
      ''generated_vk_matches_packaged'' (JBool b2)"
    by (auto simp: prove_job_def io_bind_Ok Let_def json_len_def)
  then show ?thesis
    by (simp add: proof_type_def del: fun_upd_apply) (intro has_type_field assms(2) json_type_of.simps)
qed

lemma run_job_type:
  assumes "run_job cx store version od generate_proofs options job w = Some (Ok entry, w')"
  shows "has_type entry (entry_type od generate_proofs)"
proof -
  let ?t = "[''circuit_name'' \<mapsto> TString, ''witness_bytes'' \<mapsto> TNumber]"
  from assms obtain c witness e0 e1 w1 w2 w3
    where e0: "e0 = json_object [(''circuit_name'', JString (sj_circuit_name job)), (''witness_bytes'', json_len witness)]"
      and saved: "(case od of Some dir \<Rightarrow> save_witness (cx_host cx) (cx_print cx) dir job witness e0 | None \<Rightarrow> io_return e0) w1
        = Some (Ok e1, w2)"
      and proved: "(if generate_proofs then prove_job (cx_host cx) (cx_tools cx) od options c job witness e1
        else io_return e1) w2 = Some (Ok entry, w3)"
    unfolding run_job_def io_bind_Ok Let_def by blast
  have "has_type e0 ?t"
    unfolding e0 using has_type_object [of "[(''circuit_name'', JString (sj_circuit_name job)), (''witness_bytes'', json_len witness)]"]
    by (simp add: json_len_def del: json_object.simps fun_upd_apply)
  with saved have "has_type e1 (?t ++ saved_type od)"
    by (cases od) (auto simp: saved_type_def [of None] dest: save_witness_type)
  with proved show ?thesis
    by (cases generate_proofs) (auto simp: entry_type_def dest: prove_job_type)
qed

text \<open>
  C29. The summary has one schema, whatever the jobs: an object with the flag, the array of
  entries and, when it was saved, its path; as many entries as jobs, each an object of the
  same type, which has the fields of a proof exactly when proofs were asked for and the
  paths exactly when files were written.
\<close>

theorem summary_has_schema:
  assumes "solve_fixture_jobs cx store version jobs od generate_proofs options w = Some (Ok summary, w')"
  shows "has_type summary ([''generate_proofs'' \<mapsto> TBool, ''circuits'' \<mapsto> TArray]
      ++ (if od = None then Map.empty else [''summary_path'' \<mapsto> TString]))
    \<and> (\<exists>entries. json_get summary ''circuits'' = Some (JArray entries) \<and> length entries = length jobs
         \<and> (\<forall>entry \<in> set entries. has_type entry (entry_type od generate_proofs)))"
proof -
  let ?object = "\<lambda>entries. json_object [(''generate_proofs'', JBool generate_proofs), (''circuits'', JArray entries)]"
  from assms obtain entries w1 w2
    where run: "io_map (run_job cx store version od generate_proofs options) jobs w1 = Some (Ok entries, w2)"
      and summary: "summary = ?object entries \<and> od = None
        \<or> (\<exists>path. summary = json_set (?object entries) ''summary_path'' (JString path)) \<and> od \<noteq> None"
    by (cases od) (auto simp: solve_fixture_jobs_def io_bind_Ok Let_def simp del: json_object.simps)
  have "has_type (?object entries) [''generate_proofs'' \<mapsto> TBool, ''circuits'' \<mapsto> TArray]"
    using has_type_object [of "[(''generate_proofs'', JBool generate_proofs), (''circuits'', JArray entries)]"]
    by (simp del: json_object.simps fun_upd_apply)
  with summary have "has_type summary ([''generate_proofs'' \<mapsto> TBool, ''circuits'' \<mapsto> TArray]
      ++ (if od = None then Map.empty else [''summary_path'' \<mapsto> TString]))"
    by (auto simp del: json_object.simps fun_upd_apply intro!: has_type_field)
  moreover from summary have "json_get summary ''circuits'' = Some (JArray entries)"
    by (auto simp: json_get_def)
  moreover from io_map_Ok [OF run] have "list_all2 (\<lambda>job entry. has_type entry (entry_type od generate_proofs)) jobs entries"
    by (rule list_all2_mono) (blast intro: run_job_type)
  then have "length entries = length jobs" "\<forall>entry \<in> set entries. has_type entry (entry_type od generate_proofs)"
    by (auto simp: list_all2_conv_all_nth in_set_conv_nth)
  ultimately show ?thesis by blast
qed

theorem summary_has_schema_witness:
  "\<exists>summary w' entry. solve_fixture_jobs example_cli (store_local ''root'') ''0.18.0''
       [\<lparr>sj_circuit_name = ''a'', sj_inputs = JNull\<rparr>] None True ultra_honk_poseidon2 job_world = Some (Ok summary, w')
     \<and> json_get summary ''circuits'' = Some (JArray [entry]) \<and> object_type entry ''proof_verified'' = Some TBool"
proof -
  from example_jobs obtain summary w' where run: "solve_fixture_jobs example_cli (store_local ''root'') ''0.18.0''
      [\<lparr>sj_circuit_name = ''a'', sj_inputs = JNull\<rparr>] None True ultra_honk_poseidon2 job_world = Some (Ok summary, w')"
    by blast
  from summary_has_schema [OF run] obtain entry where "json_get summary ''circuits'' = Some (JArray [entry])"
    and "has_type entry (entry_type None True)" by (auto simp: length_Suc_conv)
  with run show ?thesis
    by (auto simp: has_type_def entry_type_def saved_type_def proof_type_def)
qed

end
