(* ===== verification/Cli.thy ===== *)
theory Cli
  imports Cli_Support Document
begin

text \<open>
  The commands of \<open>prover-cli\<close>, \<open>crates/prover-cli/src/main.rs\<close>: one operation per arm
  of \<open>main\<close>, which composes the components of the library. Parsing the command line is
  \<open>clap\<close>'s; a command is its value after that, with the default of \<open>--matrix\<close> filled in.
\<close>

section \<open>Commands\<close>

record certificate_options =
  ce_root :: "string option"
  ce_certificates :: "string option"

record proving_limits =
  lm_low_memory_mode :: bool
  lm_max_storage_usage :: "u64 option"

datatype command =
    ValidateFixture "string option" "string option"
  | ShowMatrix
  | FetchManifest "string option" string "string option"
  | InspectCircuit string "string option" string "string option"
  | PlanRequest "string option" "string option"
  | SnapshotRegistry "string option" string "string option" "string option" "string list" "string option"
  | MaterializeSnapshot string string string
  | ResolveCircuits string "string option" "string option" string
  | PrintExampleFixture
  | AnalyzeDocument "string option" "string option"
  | FetchCertificates "string option" string
  | ResolveDocumentCircuits "string option" "string option" certificate_options "string option"
      "string option" "string option" string
  | ReferenceInputs string certificate_options string "string option"
  | SolveFixtureWitnesses string certificate_options "string option" string "string option"
  | ProveFixtureInner string certificate_options "string option" string "string option" proving_limits
  | ProveFixtureOuter string "string option" string "string option" "string option" witness_format proving_limits
  | AggregateRequest string "string option" string "string option" witness_format proving_limits
  | SolveWitness "string option" "string option" "string option"
  | ProveAll "string option" "string option"

text \<open>\<open>println!\<close> of a pretty-printed value.\<close>

definition print_json :: "'a to_json \<Rightarrow> 'a \<Rightarrow> unit io" where
  "print_json printer x = io_bind (io_of (of_sum (\<lambda>e. [e]) (printer x))) print_line"

text \<open>A \<open>PipelineError\<close> under the question mark operator becomes its message.\<close>

definition of_stage :: "'a staged \<Rightarrow> 'a result" where
  "of_stage = map_err (\<lambda>e. [pipeline_message e])"

definition cli_analyze ::
  "('abi, 'input, 'witness, 'program, 'stack) cli \<Rightarrow> document_input \<Rightarrow> document_analysis run" where
  "cli_analyze cx =
    analyze_document (cx_checks cx) (tc_base64 (cx_tools cx)) (cx_x509 cx) (cx_alpha3 cx)"

definition load_cli_matrix ::
  "('abi, 'input, 'witness, 'program, 'stack) cli \<Rightarrow> string \<Rightarrow> compatibility_matrix io" where
  "load_cli_matrix cx path = load_compatibility_matrix (cx_host cx) (tc_matrix (cx_tools cx)) path"

definition version_or_default :: "string option \<Rightarrow> compatibility_matrix \<Rightarrow> string" where
  "version_or_default version m = (case version of Some v \<Rightarrow> v | None \<Rightarrow> rg_circuit_version (cm_registry m))"

section \<open>Fixtures and plans\<close>

definition cmd_validate_fixture ::
  "('abi, 'input, 'witness, 'program, 'stack) cli \<Rightarrow> string option \<Rightarrow> string option \<Rightarrow> unit io" where
  "cmd_validate_fixture cx file dir =
    io_bind (load_input (cx_host cx) (cx_read cx) file dir) (\<lambda>fixture.
    io_bind (io_of (with_context ''fixture validation failed in pipeline''
                      (of_stage (validate_fixture fixture)))) (\<lambda>_.
    print_json (pr_fixture (cx_print cx)) fixture))"

definition cmd_show_matrix :: "('abi, 'input, 'witness, 'program, 'stack) cli \<Rightarrow> unit io" where
  "cmd_show_matrix cx =
    io_bind (load_cli_matrix cx ''config/compatibility-matrix.json'') (\<lambda>m.
    print_json (pr_summary (cx_print cx)) (compatibility_matrix_summary m))"

definition cmd_fetch_manifest ::
  "('abi, 'input, 'witness, 'program, 'stack) cli \<Rightarrow> string option \<Rightarrow> string \<Rightarrow> string option \<Rightarrow> unit io" where
  "cmd_fetch_manifest cx version matrix artifacts_dir =
    io_bind (load_cli_matrix cx matrix) (\<lambda>m.
    io_bind (load_manifest (cx_host cx) (cx_coders cx) (artifact_store_from_options m artifacts_dir)
               (version_or_default version m)) (\<lambda>manifest.
    print_json (pr_manifest (cx_print cx)) manifest))"

definition cmd_inspect_circuit ::
  "('abi, 'input, 'witness, 'program, 'stack) cli \<Rightarrow> string \<Rightarrow> string option \<Rightarrow> string \<Rightarrow> string option \<Rightarrow> unit io" where
  "cmd_inspect_circuit cx name version matrix artifacts_dir =
    io_bind (load_cli_matrix cx matrix) (\<lambda>m.
    let version = version_or_default version m;
        store = artifact_store_from_options m artifacts_dir in
    io_bind (load_manifest (cx_host cx) (cx_coders cx) store version) (\<lambda>manifest.
    io_bind (load_packaged_circuit (cx_host cx) (cx_coders cx) store version name) (\<lambda>circuit.
    print_json (pr_value (cx_print cx))
      (json_object
        [(''manifest_version'', JString (mf_version manifest)), (''manifest_root'', JString (mf_root manifest)),
         (''circuit_name'', JString name), (''artifact'', vl_circuit (cx_print cx) circuit)]))))"

definition cmd_plan_request ::
  "('abi, 'input, 'witness, 'program, 'stack) cli \<Rightarrow> string option \<Rightarrow> string option \<Rightarrow> unit io" where
  "cmd_plan_request cx file dir =
    io_bind (load_input (cx_host cx) (cx_read cx) file dir) (\<lambda>fixture.
    io_bind (io_of (of_stage (plan_fixture fixture))) (\<lambda>plan.
    print_json (pr_plan (cx_print cx)) plan))"

text \<open>The circuits of a snapshot: those named, then those of the fixture's plan when one is given.\<close>

definition snapshot_names ::
  "('abi, 'input, 'witness, 'program, 'stack) cli \<Rightarrow> string option \<Rightarrow> string option \<Rightarrow> string list \<Rightarrow> string list io" where
  "snapshot_names cx file dir circuit =
    (if file \<noteq> None \<or> dir \<noteq> None
     then
       io_bind (load_input (cx_host cx) (cx_read cx) file dir) (\<lambda>fixture.
       io_bind (io_of (of_stage (plan_fixture fixture))) (\<lambda>plan.
       io_return (circuit @ required_circuit_names plan)))
     else io_return circuit)"

definition cmd_snapshot_registry ::
  "('abi, 'input, 'witness, 'program, 'stack) cli \<Rightarrow> string option \<Rightarrow> string \<Rightarrow> string option \<Rightarrow> string option
     \<Rightarrow> string list \<Rightarrow> string option \<Rightarrow> unit io" where
  "cmd_snapshot_registry cx version matrix file dir circuit output =
    io_bind (load_cli_matrix cx matrix) (\<lambda>m.
    io_bind (snapshot_names cx file dir circuit) (\<lambda>circuit_names.
    if circuit_names = []
    then io_of (bail ''provide at least one --circuit or a fixture via --file/--dir to derive query circuits'')
    else
      io_bind (snapshot_circuits (cx_host cx) (cx_coders cx) (registry_client_from_matrix m)
                 (version_or_default version m) circuit_names) (\<lambda>snapshot.
      io_bind (io_of (of_sum (\<lambda>e. [e]) (pr_snapshot (cx_print cx) snapshot))) (\<lambda>rendered.
      io_bind (case output of
                 Some path \<Rightarrow>
                   io_context (''failed to write snapshot file: '' @ path)
                     (write_file (cx_host cx) path (as_bytes rendered))
               | None \<Rightarrow> io_return ()) (\<lambda>_.
      print_line rendered)))))"

definition cmd_materialize_snapshot ::
  "('abi, 'input, 'witness, 'program, 'stack) cli \<Rightarrow> string \<Rightarrow> string \<Rightarrow> string \<Rightarrow> unit io" where
  "cmd_materialize_snapshot cx snapshot_path out_dir matrix =
    io_bind (load_cli_matrix cx matrix) (\<lambda>m.
    io_bind (read_json (cx_host cx) ''failed to read snapshot file: '' ''failed to parse snapshot file: ''
               (rd_snapshot (cx_read cx)) snapshot_path) (\<lambda>snapshot.
    io_bind (materialize_snapshot (cx_host cx) (cx_coders cx) (registry_client_from_matrix m) snapshot out_dir) (\<lambda>_.
    print_json (pr_value (cx_print cx))
      (json_object
        [(''snapshot'', JString (sn_manifest_version snapshot)),
         (''manifest_root'', JString (sn_manifest_root snapshot)), (''out_dir'', JString out_dir),
         (''circuits'', JArray (map (\<lambda>c. JString (fp_name c)) (sn_circuits snapshot)))]))))"

definition cmd_resolve_circuits ::
  "('abi, 'input, 'witness, 'program, 'stack) cli \<Rightarrow> string \<Rightarrow> string option \<Rightarrow> string option \<Rightarrow> string \<Rightarrow> unit io" where
  "cmd_resolve_circuits cx context_path manifest_path version matrix =
    io_bind (read_json (cx_host cx) ''failed to read context file: '' ''failed to parse context file: ''
               (rd_context (cx_read cx)) context_path) (\<lambda>document_context.
    io_bind (case manifest_path of
               Some path \<Rightarrow> load_manifest_file (cx_host cx) (cx_read cx) path
             | None \<Rightarrow>
                 io_bind (load_cli_matrix cx matrix) (\<lambda>m.
                 fetch_manifest (cx_host cx) (cx_coders cx) (registry_client_from_matrix m)
                   (version_or_default version m))) (\<lambda>manifest.
    io_bind (io_of (resolve_document_circuits manifest document_context)) (\<lambda>resolved.
    print_json (pr_resolved (cx_print cx)) resolved)))"

definition the_example_fixture :: fixture_bundle where
  "the_example_fixture =
    \<lparr>fb_document =
       \<lparr>di_dg1_base64 = ''<dg1-base64>'', di_sod_der_base64 = ''<sod-der-base64>'', di_dg2_base64 = None,
        di_document_type = Some ''passport''\<rparr>,
     fb_request =
       \<lparr>pr_circuit_version = ''0.18.0'', pr_chain_id = 11155111, pr_service_scope = ''vocdoni-passport'',
        pr_service_subscope = ''petition'', pr_current_date = 1775041600,
        pr_query = json_object [(''nationality'', json_object [(''disclose'', JBool True)])],
        pr_petition_id = Some ''demo-1'', pr_aggregate_mode = Some ''server''\<rparr>,
     fb_expected_inner = None, fb_expected_outer = None,
     fb_metadata =
       \<lparr>fm_fixture_id = Some ''example'', fm_source = Some ''manual'',
        fm_notes = Some ''replace placeholders with real captured data''\<rparr>\<rparr>"

definition cmd_print_example_fixture :: "('abi, 'input, 'witness, 'program, 'stack) cli \<Rightarrow> unit io" where
  "cmd_print_example_fixture cx = print_json (pr_fixture (cx_print cx)) the_example_fixture"

definition cmd_analyze_document ::
  "('abi, 'input, 'witness, 'program, 'stack) cli \<Rightarrow> string option \<Rightarrow> string option \<Rightarrow> unit io" where
  "cmd_analyze_document cx file dir =
    io_bind (load_input (cx_host cx) (cx_read cx) file dir) (\<lambda>fixture.
    io_bind (io_run (cli_analyze cx (fb_document fixture))) (\<lambda>analysis.
    print_json (pr_analysis (cx_print cx)) analysis))"

definition cli_fetch_certificates ::
  "('abi, 'input, 'witness, 'program, 'stack) cli \<Rightarrow> compatibility_matrix \<Rightarrow> string option \<Rightarrow> certificates_file io" where
  "cli_fetch_certificates cx m root =
    fetch_certificates (cx_host cx) (cx_show cx) (co_gunzip (cx_coders cx)) (cx_certificates_in cx)
      (certificate_client_from_matrix m) root"

definition cmd_fetch_certificates ::
  "('abi, 'input, 'witness, 'program, 'stack) cli \<Rightarrow> string option \<Rightarrow> string \<Rightarrow> unit io" where
  "cmd_fetch_certificates cx root matrix =
    io_bind (load_cli_matrix cx matrix) (\<lambda>m.
    io_bind (cli_fetch_certificates cx m root) (\<lambda>packaged.
    print_json (pr_certificates (cx_print cx)) packaged))"

section \<open>Document circuits\<close>

text \<open>The stages of the pipeline under the question mark operator.\<close>

definition io_stage :: "'a staged option \<Rightarrow> 'a io" where
  "io_stage r = io_run (map_option of_stage r)"

definition csca_of ::
  "document_analysis \<Rightarrow> certificates_file \<Rightarrow> packaged_certificate result" where
  "csca_of analysis packaged =
    opt_context ''failed to match CSCA certificate from packaged registry'' (resolve_csca analysis packaged)"

definition cmd_resolve_document_circuits ::
  "('abi, 'input, 'witness, 'program, 'stack) cli \<Rightarrow> string option \<Rightarrow> string option \<Rightarrow> certificate_options
     \<Rightarrow> string option \<Rightarrow> string option \<Rightarrow> string option \<Rightarrow> string \<Rightarrow> unit io" where
  "cmd_resolve_document_circuits cx file dir ce manifest_path version artifacts_dir matrix =
    io_bind (load_input (cx_host cx) (cx_read cx) file dir) (\<lambda>fixture.
    io_bind (load_cli_matrix cx matrix) (\<lambda>m.
    io_bind (io_of (of_stage (plan_fixture fixture))) (\<lambda>proof_plan.
    io_bind (io_stage (analyze_fixture (cli_analyze cx) fixture)) (\<lambda>analysis.
    io_bind (case ce_certificates ce of
               Some path \<Rightarrow> load_certificates_file (cx_host cx) (cx_read cx) path
             | None \<Rightarrow> cli_fetch_certificates cx m (ce_root ce)) (\<lambda>packaged.
    io_bind (io_of (csca_of analysis packaged)) (\<lambda>csca.
    io_bind (case manifest_path of
               Some path \<Rightarrow> load_manifest_file (cx_host cx) (cx_read cx) path
             | None \<Rightarrow>
                 load_manifest (cx_host cx) (cx_coders cx) (artifact_store_from_options m artifacts_dir)
                   (version_or_default version m)) (\<lambda>manifest.
    io_bind (io_stage (resolve_proof_plan (cli_analyze cx) fixture manifest csca)) (\<lambda>resolved.
    print_json (pr_value (cx_print cx))
      (json_object
        [(''proof_plan'', vl_plan (cx_print cx) proof_plan),
         (''analysis'', vl_analysis (cx_print cx) (rs_analysis resolved)),
         (''csca'', vl_certificate (cx_print cx) (rs_csca resolved)),
         (''context'', vl_context (cx_print cx) (rs_document_context resolved)),
         (''resolved'', vl_resolved (cx_print cx) (rs_circuits resolved))])))))))))"

definition cmd_reference_inputs ::
  "('abi, 'input, 'witness, 'program, 'stack) cli \<Rightarrow> string \<Rightarrow> certificate_options \<Rightarrow> string \<Rightarrow> string option \<Rightarrow> unit io" where
  "cmd_reference_inputs cx dir ce matrix output =
    io_bind (load_cli_matrix cx matrix) (\<lambda>m.
    materialize_certificates_path cx m (ce_certificates ce) (ce_root ce) (\<lambda>_ certificates_path.
      io_bind (run_reference_inputs_script cx dir certificates_path output) (\<lambda>reference.
      print_json (pr_reference (cx_print cx)) reference)))"

section \<open>Inner circuits\<close>

text \<open>The output directory: the one given, or one below the workspace.\<close>

definition output_dir_or_default ::
  "('abi, 'input, 'witness, 'program, 'stack) cli \<Rightarrow> string option \<Rightarrow> string \<Rightarrow> string \<Rightarrow> string io" where
  "output_dir_or_default cx output_dir dir sub =
    (case output_dir of
       Some d \<Rightarrow> io_return d
     | None \<Rightarrow>
         io_bind (cli_workspace_root cx) (\<lambda>root.
         io_return (path_join (path_join (path_join root ''outputs'') (fixture_id_for_dir dir)) sub)))"

text \<open>The stages that solving and proving the inner circuits share.\<close>

definition inner_circuits ::
  "('abi, 'input, 'witness, 'program, 'stack) cli \<Rightarrow> string \<Rightarrow> certificate_options \<Rightarrow> string option \<Rightarrow> string
     \<Rightarrow> string option \<Rightarrow> string \<Rightarrow> bool \<Rightarrow> proof_options \<Rightarrow> unit io" where
  "inner_circuits cx dir ce artifacts_dir matrix output_dir sub generate_proofs options =
    io_bind (load_cli_matrix cx matrix) (\<lambda>m.
    io_bind (load_fixture_dir (cx_host cx) (rd_fixture_dir (cx_read cx)) dir) (\<lambda>fixture.
    let version = pr_circuit_version (fb_request fixture) in
    materialize_certificates_path cx m (ce_certificates ce) (ce_root ce) (\<lambda>packaged certificates_path.
      io_bind (run_reference_inputs_script cx dir certificates_path None) (\<lambda>reference.
      let store = artifact_store_from_options m artifacts_dir in
      io_bind (load_manifest (cx_host cx) (cx_coders cx) store version) (\<lambda>manifest.
      io_bind (io_stage (analyze_fixture (cli_analyze cx) fixture)) (\<lambda>analysis.
      io_bind (io_of (csca_of analysis packaged)) (\<lambda>csca.
      io_bind (io_stage (resolve_proof_plan (cli_analyze cx) fixture manifest csca)) (\<lambda>resolved.
      io_bind (output_dir_or_default cx output_dir dir sub) (\<lambda>output_dir.
      io_bind (solve_fixture_jobs cx store version (collect_solve_jobs reference resolved) (Some output_dir)
                 generate_proofs options) (\<lambda>summary.
      print_json (pr_value (cx_print cx)) summary))))))))))"

definition cmd_solve_fixture_witnesses ::
  "('abi, 'input, 'witness, 'program, 'stack) cli \<Rightarrow> string \<Rightarrow> certificate_options \<Rightarrow> string option \<Rightarrow> string
     \<Rightarrow> string option \<Rightarrow> unit io" where
  "cmd_solve_fixture_witnesses cx dir ce artifacts_dir matrix output_dir =
    inner_circuits cx dir ce artifacts_dir matrix output_dir ''witnesses'' False ultra_honk_poseidon2"

definition with_limits :: "proving_limits \<Rightarrow> proof_options \<Rightarrow> proof_options" where
  "with_limits lm options =
    options\<lparr>op_low_memory_mode := lm_low_memory_mode lm, op_max_storage_usage := lm_max_storage_usage lm\<rparr>"

definition cmd_prove_fixture_inner ::
  "('abi, 'input, 'witness, 'program, 'stack) cli \<Rightarrow> string \<Rightarrow> certificate_options \<Rightarrow> string option \<Rightarrow> string
     \<Rightarrow> string option \<Rightarrow> proving_limits \<Rightarrow> unit io" where
  "cmd_prove_fixture_inner cx dir ce artifacts_dir matrix output_dir lm =
    inner_circuits cx dir ce artifacts_dir matrix output_dir ''proofs'' True (with_limits lm ultra_honk_poseidon2)"

section \<open>The outer circuit\<close>

definition outer_options :: "proving_limits \<Rightarrow> proof_options" where
  "outer_options lm =
    with_limits lm (ultra_honk_keccak\<lparr>op_ipa_accumulation := False, op_disable_zk := True\<rparr>)"

definition format_name :: "witness_format \<Rightarrow> string" where
  "format_name format = (case format of Legacy \<Rightarrow> ''legacy'' | Compact \<Rightarrow> ''compact'')"

definition solve_outer ::
  "('abi, 'input, 'witness, 'program, 'stack) cli \<Rightarrow> artifact_store \<Rightarrow> string \<Rightarrow> outer_reference \<Rightarrow> witness_format
     \<Rightarrow> (packaged_circuit \<times> u8 list) io" where
  "solve_outer cx store version oq format =
    io_bind (load_packaged_circuit (cx_host cx) (cx_coders cx) store version (oq_outer_circuit_name oq)) (\<lambda>outer_circuit.
    io_bind (io_context (''failed to solve outer witness for '' @ oq_outer_circuit_name oq)
               (solve_serialized_witness_for_circuit_with_format (cx_acvm cx) outer_circuit (oq_outer_inputs oq) format))
      (\<lambda>witness. io_return (outer_circuit, witness)))"

definition prove_outer_circuit ::
  "('abi, 'input, 'witness, 'program, 'stack) cli \<Rightarrow> string \<Rightarrow> packaged_circuit \<Rightarrow> u8 list \<Rightarrow> proof_options
     \<Rightarrow> proof_artifacts io" where
  "prove_outer_circuit cx name circuit witness options =
    io_context (''failed to generate outer proof for '' @ name)
      (prove_circuit_with_witness (cx_host cx) (cx_tools cx) circuit witness options)"

text \<open>The packaged key, whether the proof's key is that key, and whether it verifies.\<close>

definition check_outer_proof ::
  "('abi, 'input, 'witness, 'program, 'stack) cli \<Rightarrow> string \<Rightarrow> packaged_circuit \<Rightarrow> proof_artifacts \<Rightarrow> proof_options
     \<Rightarrow> (u8 list \<times> bool \<times> bool) io" where
  "check_outer_proof cx name circuit a options =
    io_bind (io_of (packaged_verification_key (cx_tools cx) circuit)) (\<lambda>packaged_vk.
    io_bind (io_context (''failed to verify outer proof for '' @ name)
               (verify_inner_proof (cx_host cx) (cx_tools cx) a packaged_vk options)) (\<lambda>verified.
    io_return (packaged_vk, verification_keys_match packaged_vk (pa_verification_key a), verified)))"

definition outer_metadata :: "bool \<Rightarrow> bool \<Rightarrow> proof_options \<Rightarrow> witness_format \<Rightarrow> string \<rightharpoonup> string" where
  "outer_metadata verified generated_vk_matches_packaged options format =
    [''proof_verified'' \<mapsto> show_bool verified,
     ''prover_backend'' \<mapsto> ''zkpassport-bb-cli-v4.2.0-aztecnr-rc.2'',
     ''oracle_hash'' \<mapsto> ''keccak'',
     ''generated_vk_matches_packaged'' \<mapsto> show_bool generated_vk_matches_packaged,
     ''disable_zk'' \<mapsto> show_bool (op_disable_zk options),
     ''witness_format'' \<mapsto> format_name format,
     ''ipa_accumulation'' \<mapsto> show_bool (op_ipa_accumulation options)]"

definition outer_result_of ::
  "string \<Rightarrow> string \<Rightarrow> packaged_circuit \<Rightarrow> proof_artifacts \<Rightarrow> string list \<Rightarrow> (string \<rightharpoonup> string) \<Rightarrow> outer_proof_result" where
  "outer_result_of version name circuit a public_inputs metadata =
    \<lparr>or_version = version, or_name = name, or_proof = bytes_to_hex (pa_proof a),
     or_public_inputs = public_inputs, or_vkey_hash = ca_vkey_hash circuit,
     or_nullifier = outer_nullifier public_inputs, or_metadata = metadata\<rparr>"

text \<open>Write what a printer makes of a value to a file of the output directory.\<close>

definition write_json_named :: "host \<Rightarrow> string \<Rightarrow> string \<Rightarrow> string \<Rightarrow> 'a to_json \<Rightarrow> 'a \<Rightarrow> unit io" where
  "write_json_named h dir name failed printer x =
    io_bind (io_of (of_sum (\<lambda>e. [e]) (printer x))) (\<lambda>bytes. write_named h dir name failed (as_bytes bytes))"

definition cmd_prove_fixture_outer ::
  "('abi, 'input, 'witness, 'program, 'stack) cli \<Rightarrow> string \<Rightarrow> string option \<Rightarrow> string \<Rightarrow> string option \<Rightarrow> string option
     \<Rightarrow> witness_format \<Rightarrow> proving_limits \<Rightarrow> unit io" where
  "cmd_prove_fixture_outer cx dir artifacts_dir matrix proofs_dir output_dir format lm =
    io_bind (load_cli_matrix cx matrix) (\<lambda>m.
    io_bind (load_fixture_dir (cx_host cx) (rd_fixture_dir (cx_read cx)) dir) (\<lambda>fixture.
    let version = pr_circuit_version (fb_request fixture);
        store = artifact_store_from_options m artifacts_dir;
        h = cx_host cx; pr = cx_print cx; options = outer_options lm in
    io_bind (local_artifacts_dir_for_version cx version artifacts_dir) (\<lambda>outer_artifacts_dir.
    io_bind (output_dir_or_default cx proofs_dir dir ''proofs'') (\<lambda>proofs_dir.
    io_bind (output_dir_or_default cx output_dir dir ''outer'') (\<lambda>output_dir.
    io_bind (io_context (''failed to create outer output directory: '' @ output_dir) (create_dir_all h output_dir)) (\<lambda>_.
    io_bind (run_outer_inputs_script cx dir proofs_dir outer_artifacts_dir) (\<lambda>oq.
    let name = oq_outer_circuit_name oq in
    io_bind (write_json_named h output_dir ''inner_bundle.json'' ''failed to write inner bundle file: ''
               (pr_inner_bundle pr) (oq_inner_bundle oq)) (\<lambda>_.
    io_bind (write_json_named h output_dir ''outer_inputs.json'' ''failed to write outer inputs file: ''
               (pr_value pr) (oq_outer_inputs oq)) (\<lambda>_.
    io_bind (solve_outer cx store version oq format) (\<lambda>(outer_circuit, witness).
    io_bind (write_named h output_dir (name @ ''.witness.bin'') ''failed to write outer witness file: '' witness) (\<lambda>_.
    io_bind (eprint_line (''outer: proving '' @ name
      @ '' with zkPassport bb cli v4.2.0-aztecnr-rc.2 (keccak, disable_zk, no ipa, witness='' @ format_name format @ '')'')) (\<lambda>_.
    io_bind (prove_outer_circuit cx name outer_circuit witness options) (\<lambda>a.
    io_bind (eprint_line (''outer: proof generated ('' @ show_nat (length (pa_proof a)) @ '' proof bytes, ''
      @ show_nat (length (pa_public_inputs a)) @ '' public inputs bytes)'')) (\<lambda>_.
    io_bind (eprint_line (''outer: verifying '' @ name)) (\<lambda>_.
    io_bind (check_outer_proof cx name outer_circuit a options) (\<lambda>(packaged_vk, generated_vk_matches_packaged, verified).
    io_bind (persist_proof_artifacts h output_dir name a packaged_vk generated_vk_matches_packaged) (\<lambda>_.
    io_bind (io_of (split_hex_fields (pa_public_inputs a))) (\<lambda>public_inputs.
    io_bind (write_json_named h output_dir ''outer_result.json'' ''failed to write outer result file: ''
       (pr_outer_result pr)
       (outer_result_of version name outer_circuit a public_inputs
          (outer_metadata verified generated_vk_matches_packaged options format))) (\<lambda>_.
    print_json (pr_value pr)
      (json_object
        [(''outer_circuit_name'', JString name), (''proof_verified'', JBool verified),
         (''proof_bytes'', json_len (pa_proof a)),
         (''public_inputs_count'', JNumber (PosInt (ucast (pa_public_inputs_count a)))),
         (''summary_path'', JString (path_join output_dir ''outer_result.json''))]))))))))))))))))))))"

definition write_output :: "host \<Rightarrow> printers \<Rightarrow> string option \<Rightarrow> outer_proof_result \<Rightarrow> unit io" where
  "write_output h pr output outer_result =
    (case output of
       None \<Rightarrow> io_return ()
     | Some path \<Rightarrow>
         io_bind (case path_parent path of
                    Some parent \<Rightarrow>
                      io_context (''failed to create output directory: '' @ parent) (create_dir_all h parent)
                  | None \<Rightarrow> io_return ()) (\<lambda>_.
         io_bind (io_of (of_sum (\<lambda>e. [e]) (pr_outer_result pr outer_result))) (\<lambda>bytes.
         io_context (''failed to write aggregate output file: '' @ path) (write_file h path (as_bytes bytes)))))"

definition aggregate_outer ::
  "('abi, 'input, 'witness, 'program, 'stack) cli \<Rightarrow> string option \<Rightarrow> witness_format \<Rightarrow> proof_options
     \<Rightarrow> outer_reference \<Rightarrow> packaged_circuit \<Rightarrow> u8 list \<Rightarrow> unit io" where
  "aggregate_outer cx output format options oq outer_circuit witness =
    (let name = oq_outer_circuit_name oq in
     io_bind (prove_outer_circuit cx name outer_circuit witness options) (\<lambda>a.
     io_bind (check_outer_proof cx name outer_circuit a options) (\<lambda>(packaged_vk, generated_vk_matches_packaged, verified).
     io_bind (io_of (split_hex_fields (pa_public_inputs a))) (\<lambda>public_inputs.
     let outer_result =
           outer_result_of (oq_version oq) name outer_circuit a public_inputs
             (outer_metadata verified generated_vk_matches_packaged options format) in
     io_bind (write_output (cx_host cx) (cx_print cx) output outer_result) (\<lambda>_.
     print_json (pr_outer_result (cx_print cx)) outer_result)))))"

definition cmd_aggregate_request ::
  "('abi, 'input, 'witness, 'program, 'stack) cli \<Rightarrow> string \<Rightarrow> string option \<Rightarrow> string \<Rightarrow> string option
     \<Rightarrow> witness_format \<Rightarrow> proving_limits \<Rightarrow> unit io" where
  "cmd_aggregate_request cx input artifacts_dir matrix output format lm =
    io_bind (load_cli_matrix cx matrix) (\<lambda>m.
    io_bind (local_artifacts_dir_for_version cx (rg_circuit_version (cm_registry m)) artifacts_dir) (\<lambda>artifacts_dir.
    let store = artifact_store_from_options m (Some artifacts_dir) in
    io_bind (run_aggregate_inputs_script cx input artifacts_dir) (\<lambda>oq.
    io_bind (solve_outer cx store (oq_version oq) oq format) (\<lambda>(outer_circuit, witness).
    aggregate_outer cx output format (outer_options lm) oq outer_circuit witness))))"

section \<open>Witnesses and stubs\<close>

definition witness_bytes :: "u8 list \<Rightarrow> json" where
  "witness_bytes witness = json_object [(''witness_bytes'', json_len witness)]"

definition cmd_solve_witness ::
  "('abi, 'input, 'witness, 'program, 'stack) cli \<Rightarrow> string option \<Rightarrow> string option \<Rightarrow> string option \<Rightarrow> unit io" where
  "cmd_solve_witness cx payload artifact inputs =
    (case (payload, artifact, inputs) of
       (Some payload, None, None) \<Rightarrow>
         io_bind (read_json (cx_host cx) ''failed to read witness payload: '' ''failed to parse witness payload: ''
                    (rd_payload (cx_read cx)) payload) (\<lambda>payload.
         io_bind (solve_compressed_witness (cx_acvm cx) payload) (\<lambda>witness.
         print_json (pr_value (cx_print cx)) (witness_bytes witness)))
     | (None, Some artifact, Some inputs) \<Rightarrow>
         io_bind (load_packaged_circuit_file (cx_host cx) (cx_read cx) artifact) (\<lambda>circuit.
         io_bind (load_json_value_file (cx_host cx) (cx_read cx) inputs) (\<lambda>inputs.
         io_bind (solve_compressed_witness_for_circuit (cx_acvm cx) circuit inputs) (\<lambda>witness.
         print_json (pr_value (cx_print cx)) (witness_bytes witness))))
     | _ \<Rightarrow> io_of (bail ''provide either --payload or both --artifact and --inputs''))"

text \<open>\<open>as_ref().map_err(to_string).err().unwrap_or("ok")\<close>\<close>

definition stage_status :: "'a staged \<Rightarrow> string" where
  "stage_status r = (case r of Err e \<Rightarrow> pipeline_message e | _ \<Rightarrow> ''ok'')"

definition cmd_prove_all ::
  "('abi, 'input, 'witness, 'program, 'stack) cli \<Rightarrow> string option \<Rightarrow> string option \<Rightarrow> unit io" where
  "cmd_prove_all cx file dir =
    io_bind (load_input (cx_host cx) (cx_read cx) file dir) (\<lambda>fixture.
    print_json (pr_value (cx_print cx))
      (json_object
        [(''inner'', JString (stage_status (prove_inner fixture))),
         (''outer'', JString (stage_status (prove_outer fixture)))]))"

section \<open>The program\<close>

fun cli_main :: "('abi, 'input, 'witness, 'program, 'stack) cli \<Rightarrow> command \<Rightarrow> unit io" where
  "cli_main cx (ValidateFixture file dir) = cmd_validate_fixture cx file dir"
| "cli_main cx ShowMatrix = cmd_show_matrix cx"
| "cli_main cx (FetchManifest version matrix artifacts_dir) = cmd_fetch_manifest cx version matrix artifacts_dir"
| "cli_main cx (InspectCircuit name version matrix artifacts_dir) =
    cmd_inspect_circuit cx name version matrix artifacts_dir"
| "cli_main cx (PlanRequest file dir) = cmd_plan_request cx file dir"
| "cli_main cx (SnapshotRegistry version matrix file dir circuit output) =
    cmd_snapshot_registry cx version matrix file dir circuit output"
| "cli_main cx (MaterializeSnapshot snapshot out_dir matrix) = cmd_materialize_snapshot cx snapshot out_dir matrix"
| "cli_main cx (ResolveCircuits context manifest version matrix) =
    cmd_resolve_circuits cx context manifest version matrix"
| "cli_main cx PrintExampleFixture = cmd_print_example_fixture cx"
| "cli_main cx (AnalyzeDocument file dir) = cmd_analyze_document cx file dir"
| "cli_main cx (FetchCertificates root matrix) = cmd_fetch_certificates cx root matrix"
| "cli_main cx (ResolveDocumentCircuits file dir ce manifest version artifacts_dir matrix) =
    cmd_resolve_document_circuits cx file dir ce manifest version artifacts_dir matrix"
| "cli_main cx (ReferenceInputs dir ce matrix output) = cmd_reference_inputs cx dir ce matrix output"
| "cli_main cx (SolveFixtureWitnesses dir ce artifacts_dir matrix output_dir) =
    cmd_solve_fixture_witnesses cx dir ce artifacts_dir matrix output_dir"
| "cli_main cx (ProveFixtureInner dir ce artifacts_dir matrix output_dir lm) =
    cmd_prove_fixture_inner cx dir ce artifacts_dir matrix output_dir lm"
| "cli_main cx (ProveFixtureOuter dir artifacts_dir matrix proofs_dir output_dir format lm) =
    cmd_prove_fixture_outer cx dir artifacts_dir matrix proofs_dir output_dir format lm"
| "cli_main cx (AggregateRequest input artifacts_dir matrix output format lm) =
    cmd_aggregate_request cx input artifacts_dir matrix output format lm"
| "cli_main cx (SolveWitness payload artifact inputs) = cmd_solve_witness cx payload artifact inputs"
| "cli_main cx (ProveAll file dir) = cmd_prove_all cx file dir"

section \<open>What is aggregated\<close>

lemma print_json_Ok:
  "print_json printer x w = Some (Ok (), w') \<longleftrightarrow> (\<exists>t. printer x = Inr t \<and> w' = note_event (Printed t) w)"
  by (auto simp: print_json_def io_bind_Ok print_line_Ok)

lemma write_output_Ok:
  assumes "write_output h pr (Some path) r w = Some (Ok (), w')"
  shows "\<exists>t. pr_outer_result pr r = Inr t \<and> wd_files w' path = Some (as_bytes t)"
  using assms by (auto simp: write_output_def io_bind_Ok write_file_Ok)

lemma check_outer_proof_Ok:
  assumes "check_outer_proof cx name c a options w = Some (Ok (key, matching, verified), w')"
    and "prove_outer_circuit cx name c witness options w0 = Some (Ok a, w1)"
  shows "key = pa_verification_key a \<and> matching
    \<and> verify_circuit_proof (cx_host cx) (cx_tools cx) (pa_proof a) (pa_public_inputs a) key options w
        = Some (Ok verified, w')"
proof -
  from assms(2) have "prove_circuit_with_witness (cx_host cx) (cx_tools cx) c witness options w0 = Some (Ok a, w1)"
    by (simp add: prove_outer_circuit_def)
  from bb.keys_agree [OF this] assms(1) show ?thesis
    by (auto simp: check_outer_proof_def io_bind_Ok verify_inner_proof_def verification_keys_match_def)
qed

lemma aggregate_outer_Ok:
  assumes "aggregate_outer cx (Some path) format options oq c witness w = Some (Ok (), w')"
  shows "\<exists>a verified fs w1 w2 w3.
    prove_outer_circuit cx (oq_outer_circuit_name oq) c witness options w = Some (Ok a, w1)
    \<and> check_outer_proof cx (oq_outer_circuit_name oq) c a options w1
        = Some (Ok (pa_verification_key a, True, verified), w2)
    \<and> split_hex_fields (pa_public_inputs a) = Ok fs
    \<and> write_output (cx_host cx) (cx_print cx) (Some path)
        (outer_result_of (oq_version oq) (oq_outer_circuit_name oq) c a fs
           (outer_metadata verified True options format)) w2 = Some (Ok (), w3)
    \<and> wd_files w' = wd_files w3"
proof -
  from assms obtain a key matching verified fs w1 w2 w3
    where prove: "prove_outer_circuit cx (oq_outer_circuit_name oq) c witness options w = Some (Ok a, w1)"
      and check: "check_outer_proof cx (oq_outer_circuit_name oq) c a options w1
        = Some (Ok (key, matching, verified), w2)"
      and fs: "split_hex_fields (pa_public_inputs a) = Ok fs"
      and out: "write_output (cx_host cx) (cx_print cx) (Some path)
        (outer_result_of (oq_version oq) (oq_outer_circuit_name oq) c a fs
           (outer_metadata verified matching options format)) w2 = Some (Ok (), w3)"
      and w': "wd_files w' = wd_files w3"
    by (auto simp: aggregate_outer_def Let_def io_bind_Ok print_json_Ok)
  from check_outer_proof_Ok [OF check prove] have key: "key = pa_verification_key a" "matching = True" by auto
  from prove check fs out w' show ?thesis unfolding key by blast
qed

text \<open>
  C3. When an aggregation succeeds, the file it was asked for holds the printed result of a
  proof that the binary made without zero knowledge and under the keccak oracle, as the EVM
  verifier needs it: the proof and the public inputs in hexadecimal, the circuit's key hash,
  the nullifier that is the last field but one. Its \<open>proof_verified\<close>, which is what the
  server lets a proof pass by, says \<open>true\<close> exactly when the binary verified that proof
  with these inputs against the packaged key; the command succeeds either way.
\<close>

theorem aggregate_tells_verification:
  assumes "cmd_aggregate_request cx request artifacts_dir matrix (Some path) format lm w = Some (Ok (), w')"
  shows "\<exists>result t c witness a verified w1 w2 w3.
    wd_files w' path = Some (as_bytes t) \<and> pr_outer_result (cx_print cx) result = Inr t
    \<and> prove_circuit_with_witness (cx_host cx) (cx_tools cx) c witness (outer_options lm) w1 = Some (Ok a, w2)
    \<and> verify_circuit_proof (cx_host cx) (cx_tools cx) (pa_proof a) (pa_public_inputs a)
        (pa_verification_key a) (outer_options lm) w2 = Some (Ok verified, w3)
    \<and> (or_metadata result ''proof_verified'' = Some ''true'' \<longleftrightarrow> verified)
    \<and> or_proof result = bytes_to_hex (pa_proof a)
    \<and> split_hex_fields (pa_public_inputs a) = Ok (or_public_inputs result)
    \<and> or_nullifier result = outer_nullifier (or_public_inputs result)
    \<and> or_vkey_hash result = ca_vkey_hash c
    \<and> op_disable_zk (outer_options lm) \<and> \<not> op_ipa_accumulation (outer_options lm)
    \<and> op_oracle_hash (outer_options lm) = Keccak"
proof -
  from assms obtain oq c witness w1
    where "aggregate_outer cx (Some path) format (outer_options lm) oq c witness w1 = Some (Ok (), w')"
    by (auto simp: cmd_aggregate_request_def Let_def io_bind_Ok)
  from aggregate_outer_Ok [OF this] obtain a verified fs w2 w3 w5
    where prove: "prove_outer_circuit cx (oq_outer_circuit_name oq) c witness (outer_options lm) w1 = Some (Ok a, w2)"
      and check: "check_outer_proof cx (oq_outer_circuit_name oq) c a (outer_options lm) w2
        = Some (Ok (pa_verification_key a, True, verified), w3)"
      and fs: "split_hex_fields (pa_public_inputs a) = Ok fs"
      and out: "write_output (cx_host cx) (cx_print cx) (Some path)
        (outer_result_of (oq_version oq) (oq_outer_circuit_name oq) c a fs
           (outer_metadata verified True (outer_options lm) format)) w3 = Some (Ok (), w5)"
      and w': "wd_files w' = wd_files w5"
    by blast
  let ?r = "outer_result_of (oq_version oq) (oq_outer_circuit_name oq) c a fs
    (outer_metadata verified True (outer_options lm) format)"
  from write_output_Ok [OF out] obtain t where "pr_outer_result (cx_print cx) ?r = Inr t" "wd_files w5 path = Some (as_bytes t)"
    by blast
  moreover from prove have
    "prove_circuit_with_witness (cx_host cx) (cx_tools cx) c witness (outer_options lm) w1 = Some (Ok a, w2)"
    by (simp add: prove_outer_circuit_def)
  moreover from check_outer_proof_Ok [OF check prove]
  have "verify_circuit_proof (cx_host cx) (cx_tools cx) (pa_proof a) (pa_public_inputs a)
      (pa_verification_key a) (outer_options lm) w2 = Some (Ok verified, w3)" by blast
  moreover have "or_metadata ?r ''proof_verified'' = Some ''true'' \<longleftrightarrow> verified"
    by (simp add: outer_result_of_def outer_metadata_def show_bool_def)
  moreover have "or_proof ?r = bytes_to_hex (pa_proof a)" "or_public_inputs ?r = fs"
    "or_nullifier ?r = outer_nullifier fs" "or_vkey_hash ?r = ca_vkey_hash c"
    by (simp_all add: outer_result_of_def)
  moreover have "op_disable_zk (outer_options lm)" "\<not> op_ipa_accumulation (outer_options lm)"
    "op_oracle_hash (outer_options lm) = Keccak"
    by (simp_all add: outer_options_def with_limits_def ultra_honk_keccak_def)
  ultimately show ?thesis using w' fs
    by (intro exI [of _ ?r] exI [of _ t] exI [of _ c] exI [of _ witness] exI [of _ a] exI [of _ verified]
        exI [of _ w1] exI [of _ w2] exI [of _ w3]) simp
qed

text \<open>
  A command line that aggregates: \<open>/bb\<close> is the binary, the script leaves the inputs of
  circuit \<open>a\<close>, which is in the artifacts directory \<open>root\<close>.
\<close>

definition example_compatibility :: compatibility_matrix where
  "example_compatibility =
    \<lparr>cm_status = [], cm_source_of_truth_policy = [],
     cm_registry = \<lparr>rg_chain_id = 1, rg_rpc_url = [], rg_root_registry = [], rg_certificate_base_url = [],
       rg_manifest_base_url = ''m'', rg_artifact_base_url = ''a'', rg_circuit_version = ''0.18.0'',
       rg_manifest_root = None\<rparr>,
     cm_proving = \<lparr>pg_canonical_backend = [], pg_preferred_fork = [], pg_noir_version = [], pg_bb_version = [],
       pg_bb_binary_source = None, pg_inner_oracle_hash = [], pg_outer_evm_oracle_hash = [],
       pg_outer_evm_ipa_accumulation = []\<rparr>,
     cm_mobile = \<lparr>mo_target_mode = [], mo_ffi_surface = []\<rparr>,
     cm_server = \<lparr>sv_target_mode = [], sv_integration_mode = []\<rparr>, cm_notes = []\<rparr>"

definition example_recursive :: recursive_proof where
  "example_recursive =
    \<lparr>rp_circuit_name = [], rp_proof = [], rp_public_inputs = [], rp_vkey = [], rp_key_hash = [],
     rp_tree_hash_path = [], rp_tree_index = []\<rparr>"

definition example_outer :: outer_reference where
  "example_outer =
    \<lparr>oq_version = ''0.18.0'', oq_current_date = 0, oq_outer_circuit_name = ''a'',
     oq_inner_bundle =
       \<lparr>ib_version = [], ib_current_date = 0, ib_dsc = example_recursive, ib_id_data = example_recursive,
        ib_integrity = example_recursive, ib_disclosures = [], ib_metadata = (\<lambda>_. None)\<rparr>,
     oq_outer_inputs = JNull\<rparr>"

definition aggregating_cli :: "(unit, unit, unit, unit, unit) cli" where
  "aggregating_cli = example_cli
    \<lparr>cx_tools := example_tools\<lparr>tc_matrix := \<lambda>_. Inr example_compatibility\<rparr>,
     cx_read := example_readers\<lparr>rd_outer := \<lambda>_. Inr example_outer\<rparr>\<rparr>"

lemma aggregating_cli_simps [simp]:
  "cx_host aggregating_cli = example_prover" "cx_coders aggregating_cli = example_coders"
  "cx_acvm aggregating_cli = example_acvm" "cx_print aggregating_cli = example_printers"
  "cx_tools aggregating_cli = example_tools\<lparr>tc_matrix := \<lambda>_. Inr example_compatibility\<rparr>"
  "rd_outer (cx_read aggregating_cli) raw = Inr example_outer"
  by (simp_all add: aggregating_cli_def) (simp add: example_cli_def)

lemma example_aggregate_inputs:
  "\<exists>w'. run_aggregate_inputs_script aggregating_cli request artifacts_dir w = Some (Ok example_outer, w')
     \<and> wd_env w' = wd_env w \<and> (\<forall>p. \<not> below ''/tmp/t'' p \<longrightarrow> wd_files w' p = wd_files w p)"
proof -
  have "''/tmp/t'' \<noteq> ''/tmp/t/proof/proof'' \<and> ''/tmp/t'' \<noteq> ''/tmp/t/proof/public_inputs''
    \<and> below ''/tmp/t'' ''/tmp/t/proof/proof'' \<and> below ''/tmp/t'' ''/tmp/t/proof/public_inputs'' \<and> below ''/tmp/t'' ''/tmp/t''"
    by (simp add: below_def starts_with_def)
  then show ?thesis
    by (auto simp: run_aggregate_inputs_script_def io_bind_Ok cli_workspace_root_def workspace_root_eq with_temp_file_Ok
        outer_script_def run_script_def run_process_Ok read_json_Ok from_utf8_def)
qed

lemma example_aggregate:
  "\<exists>w'. cmd_aggregate_request aggregating_cli request (Some ''root'') ''matrix'' (Some ''out'') Compact lm
      (job_world\<lparr>wd_files := (wd_files job_world)(''matrix'' \<mapsto> [])\<rparr>) = Some (Ok (), w')"
proof -
  let ?w = "job_world\<lparr>wd_files := (wd_files job_world)(''matrix'' \<mapsto> [])\<rparr>"
  let ?store = "artifact_store_from_options example_compatibility (Some ''root'')"
  have matrix: "\<exists>w1. load_cli_matrix aggregating_cli ''matrix'' ?w = Some (Ok example_compatibility, w1)
      \<and> wd_files w1 = wd_files ?w \<and> wd_env w1 = wd_env ?w"
    by (simp add: load_cli_matrix_def load_compatibility_matrix_def read_json_Ok from_utf8_def)
  then obtain w1 where matrix: "load_cli_matrix aggregating_cli ''matrix'' ?w = Some (Ok example_compatibility, w1)"
    and w1: "wd_files w1 = wd_files ?w" "wd_env w1 = wd_env ?w" by blast
  obtain w2 where script: "run_aggregate_inputs_script aggregating_cli request ''root'' w1 = Some (Ok example_outer, w2)"
    and w2: "wd_env w2 = wd_env w1" "\<forall>p. \<not> below ''/tmp/t'' p \<longrightarrow> wd_files w2 p = wd_files w1 p"
    using example_aggregate_inputs by blast
  have "\<not> below ''/tmp/t'' ''/bb'' \<and> \<not> below ''/tmp/t'' ''root/circuits/a.json''" by (simp add: below_def starts_with_def)
  with w1 w2 have files: "wd_files w2 ''root/circuits/a.json'' = Some [0x61]" "wd_files w2 ''/bb'' \<noteq> None"
    "wd_env w2 ''BB_BINARY_PATH'' = Some ''/bb''"
    by (simp_all add: job_world_def bb_world_def)
  let ?w3 = "note_event (Read_back ''root/circuits/a.json'') w2"
  have load: "load_packaged_circuit example_prover example_coders ?store ''0.18.0'' ''a'' w2 = Some (Ok example_circuit, ?w3)"
    by (rule example_load [OF files(1)])
      (simp add: artifact_store_from_options_def store_local_with_registry_fallback_def Let_def)
  from example_solve_any [of Compact ?w3] files obtain witness w4
    where solve: "solve_serialized_witness_for_circuit_with_format example_acvm example_circuit JNull Compact ?w3
      = Some (Ok witness, w4)" and w4: "wd_env w4 ''BB_BINARY_PATH'' = Some ''/bb''" "wd_files w4 ''/bb'' \<noteq> None"
    by auto
  let ?matrix = "\<lambda>_. Inr example_compatibility"
  from example_prove_any [OF w4, of ?matrix witness "outer_options lm"] obtain a w5
    where prove: "prove_circuit_with_witness example_prover (cx_tools aggregating_cli) example_circuit witness
      (outer_options lm) w4 = Some (Ok a, w5)" and inputs: "pa_public_inputs a = replicate 64 1"
      and w5: "wd_env w5 ''BB_BINARY_PATH'' = Some ''/bb''" "wd_files w5 ''/bb'' \<noteq> None"
    unfolding aggregating_cli_simps by blast
  from example_verify_any [OF w5, of ?matrix "pa_proof a" "pa_public_inputs a" "as_bytes (ca_vkey example_circuit)"
      "outer_options lm"] obtain w6
    where verify: "verify_circuit_proof example_prover (cx_tools aggregating_cli) (pa_proof a) (pa_public_inputs a)
      (as_bytes (ca_vkey example_circuit)) (outer_options lm) w5 = Some (Ok True, w6)"
    unfolding aggregating_cli_simps by blast
  have "\<exists>w'. aggregate_outer aggregating_cli (Some ''out'') Compact (outer_options lm) example_outer example_circuit
      witness w4 = Some (Ok (), w')"
    using prove verify inputs
    by (simp add: aggregate_outer_def Let_def io_bind_Ok prove_outer_circuit_def check_outer_proof_def
        verify_inner_proof_def split_hex_fields_def write_output_def write_file_Ok create_dir_all_Ok print_json_Ok
        example_printers_def path_parent_def) auto
  with matrix script load solve show ?thesis
    by (auto simp: cmd_aggregate_request_def io_bind_Ok local_artifacts_dir_for_version_def Let_def solve_outer_def
        example_outer_def)
qed

theorem aggregate_tells_verification_witness:
  "\<exists>w' result t. cmd_aggregate_request aggregating_cli ''request'' (Some ''root'') ''matrix'' (Some ''out'') Compact
      \<lparr>lm_low_memory_mode = False, lm_max_storage_usage = None\<rparr>
      (job_world\<lparr>wd_files := (wd_files job_world)(''matrix'' \<mapsto> [])\<rparr>) = Some (Ok (), w')
    \<and> wd_files w' ''out'' = Some (as_bytes t) \<and> pr_outer_result example_printers result = Inr t
    \<and> or_nullifier result = outer_nullifier (or_public_inputs result)"
proof -
  obtain w' where run: "cmd_aggregate_request aggregating_cli ''request'' (Some ''root'') ''matrix'' (Some ''out'') Compact
      \<lparr>lm_low_memory_mode = False, lm_max_storage_usage = None\<rparr>
      (job_world\<lparr>wd_files := (wd_files job_world)(''matrix'' \<mapsto> [])\<rparr>) = Some (Ok (), w')"
    using example_aggregate by blast
  from aggregate_tells_verification [OF run] run show ?thesis by auto
qed

text \<open>What a snapshot needs is read without writing a file.\<close>

lemma snapshot_steps_keep_files:
  "io_keeps same_files (load_cli_matrix cx path)"
  "io_keeps same_files (load_input h rd file dir)"
  "io_keeps same_files (snapshot_circuits h co c version names)"
proof -
  note read = read_json_def validated_def load_json_file_def
  show "io_keeps same_files (load_cli_matrix cx path)"
    unfolding load_cli_matrix_def load_compatibility_matrix_def read_json_def
    by (intro files.keeps_intros read_to_string_keeps)
  show "io_keeps same_files (load_input h rd file dir)"
    unfolding load_input_def load_fixture_bundle_def load_fixture_dir_def Let_def read
    by (auto split: option.split intro!: files.keeps_intros read_to_string_keeps)
  have "io_keeps same_files (io_now h)" by (simp add: io_keeps_def io_now_def same_files_def)
  then show "io_keeps same_files (snapshot_circuits h co c version names)"
    unfolding snapshot_circuits_def fetch_manifest_def fingerprint_of_def fetch_packaged_circuit_def
    by (intro files.keeps_intros files_effects)
qed

lemma snapshot_names_Ok:
  assumes "snapshot_names cx file dir circuit w = Some (Ok names, w')" and "file \<noteq> None \<or> dir \<noteq> None"
  shows "\<exists>fixture plan. load_input (cx_host cx) (cx_read cx) file dir w = Some (Ok fixture, w')
    \<and> build_proof_plan fixture = Ok plan \<and> names = circuit @ required_circuit_names plan"
  using assms by (auto simp: snapshot_names_def io_bind_Ok of_stage_def plan_fixture_Ok)

text \<open>
  C19. The command that snapshots the registry for a fixture, given as a file or as a
  directory, covers the fixture's plan: what it prints, and writes when asked for a file and
  to no other, is a snapshot with a fingerprint of every circuit named on the command line
  and of every circuit the plan needs, the outer one included, and of no other, in byte
  order and each once. Each has the hash and the size of the live manifest's entry and the
  key hash and tool versions of the artifact that was fetched.
\<close>

theorem snapshot_covers_plan:
  assumes "cmd_snapshot_registry cx version matrix file dir circuit output w = Some (Ok (), w')"
    and "file \<noteq> None \<or> dir \<noteq> None"
  shows "\<exists>compat w1 fixture plan w2 m w3 s rendered.
    load_cli_matrix cx matrix w = Some (Ok compat, w1)
    \<and> load_input (cx_host cx) (cx_read cx) file dir w1 = Some (Ok fixture, w2)
    \<and> build_proof_plan fixture = Ok plan
    \<and> fetch_manifest (cx_host cx) (cx_coders cx) (registry_client_from_matrix compat)
        (version_or_default version compat) w2 = Some (Ok m, w3)
    \<and> sn_manifest_version s = mf_version m \<and> sn_manifest_root s = mf_root m
    \<and> map fp_name (sn_circuits s) = sorted_list_of_set (set circuit \<union> set (required_circuit_names plan))
    \<and> pp_outer_circuit plan \<in> fp_name ` set (sn_circuits s)
    \<and> (\<forall>fp \<in> set (sn_circuits s). \<exists>a wa wb. fetch_packaged_circuit (cx_host cx) (cx_coders cx)
          (registry_client_from_matrix compat) m (fp_name fp) wa = Some (Ok a, wb) \<and> fingerprint_agrees m fp a)
    \<and> pr_snapshot (cx_print cx) s = Inr rendered \<and> hd (wd_log w') = Printed rendered
    \<and> wd_files w' = (case output of None \<Rightarrow> wd_files w | Some path \<Rightarrow> (wd_files w)(path \<mapsto> as_bytes rendered))"
proof -
  let ?h = "cx_host cx" and ?co = "cx_coders cx"
  from assms(1) obtain compat w1 names w2 s w4 rendered w5
    where compat: "load_cli_matrix cx matrix w = Some (Ok compat, w1)"
      and names: "snapshot_names cx file dir circuit w1 = Some (Ok names, w2)"
      and snap: "snapshot_circuits ?h ?co (registry_client_from_matrix compat)
        (version_or_default version compat) names w2 = Some (Ok s, w4)"
      and rendered: "pr_snapshot (cx_print cx) s = Inr rendered"
      and out: "(case output of Some path \<Rightarrow> io_context (''failed to write snapshot file: '' @ path)
            (write_file ?h path (as_bytes rendered)) | None \<Rightarrow> io_return ()) w4 = Some (Ok (), w5)"
      and printed: "w' = note_event (Printed rendered) w5"
    by (auto simp: cmd_snapshot_registry_def io_bind_Ok print_line_Ok split: if_splits)
  from snapshot_names_Ok [OF names assms(2)] obtain fixture plan
    where load: "load_input ?h (cx_read cx) file dir w1 = Some (Ok fixture, w2)"
      and plan: "build_proof_plan fixture = Ok plan" and wanted: "names = circuit @ required_circuit_names plan"
    by blast
  have files: "wd_files w4 = wd_files w"
    using io_keepsD [OF snapshot_steps_keep_files(1) compat] io_keepsD [OF snapshot_steps_keep_files(2) load]
      io_keepsD [OF snapshot_steps_keep_files(3) snap] by (simp add: same_files_def)
  from snap obtain m w3 w6 where m: "fetch_manifest ?h ?co (registry_client_from_matrix compat)
      (version_or_default version compat) w2 = Some (Ok m, w3)"
    and "io_map (fingerprint_of ?h ?co (registry_client_from_matrix compat) m) (remdups_adj (sort names)) w3
      = Some (Ok (sn_circuits s), w6)"
    by (auto simp: snapshot_circuits_def io_bind_Ok)
  from snapshot_fingerprints [OF this(2)]
  have agree: "\<forall>fp \<in> set (sn_circuits s). \<exists>a wa wb. fetch_packaged_circuit ?h ?co
        (registry_client_from_matrix compat) m (fp_name fp) wa = Some (Ok a, wb) \<and> fingerprint_agrees m fp a"
    by blast
  from m snapshot_circuits_Ok [OF snap] have s: "sn_manifest_version s = mf_version m" "sn_manifest_root s = mf_root m"
    and listed: "map fp_name (sn_circuits s) = sorted_list_of_set (set names)" by auto
  from listed have covered: "fp_name ` set (sn_circuits s) = set names"
    by (metis List.finite_set set_map set_sorted_list_of_set)
  from required_circuit_names_plan [OF plan] have outer: "pp_outer_circuit plan \<in> fp_name ` set (sn_circuits s)"
    by (simp add: covered wanted)
  from listed have names_of: "map fp_name (sn_circuits s)
      = sorted_list_of_set (set circuit \<union> set (required_circuit_names plan))" by (simp add: wanted)
  from out files printed have end_files: "wd_files w' = (case output of None \<Rightarrow> wd_files w
      | Some path \<Rightarrow> (wd_files w)(path \<mapsto> as_bytes rendered))" "hd (wd_log w') = Printed rendered"
    by (auto simp: write_file_Ok split: option.splits)
  from compat load plan m s names_of outer agree rendered end_files show ?thesis by blast
qed

text \<open>A command line whose network serves every circuit, and which reads every fixture as the example.\<close>

definition served_cli :: "(unit, unit, unit, unit, unit) cli" where
  "served_cli = example_cli
    \<lparr>cx_host := example_host (\<lambda>_. Received [1]),
     cx_coders := example_coders\<lparr>co_manifest_in := \<lambda>_. Inr full_manifest\<rparr>,
     cx_tools := example_tools\<lparr>tc_matrix := \<lambda>_. Inr example_compatibility\<rparr>,
     cx_read := example_readers\<lparr>rd_fixture := \<lambda>_. Inr (example_fixture example_query)\<rparr>\<rparr>"

lemma io_map_total:
  assumes "\<And>x w. \<exists>y w'. f x w = Some (Ok y, w')"
  shows "\<exists>ys w'. io_map f xs w = Some (Ok ys, w')"
proof (induction xs arbitrary: w)
  case (Cons x xs)
  from assms [of x w] obtain y w1 where "f x w = Some (Ok y, w1)" by blast
  moreover from Cons.IH [of w1] obtain ys w2 where "io_map f xs w1 = Some (Ok ys, w2)" by blast
  ultimately show ?case by (auto simp: io_bind_Ok)
qed simp

lemma served_snapshot:
  "\<exists>s w'. snapshot_circuits (cx_host served_cli) (cx_coders served_cli) c version names w = Some (Ok s, w')"
proof -
  have "\<exists>y w'. fingerprint_of (cx_host served_cli) (cx_coders served_cli) c full_manifest name w1 = Some (Ok y, w')"
    for name w1
    by (simp add: fingerprint_of_def fetch_packaged_circuit_def circuit_of_reply_def manifest_node_def
        full_manifest_def served_cli_def example_run_defs)
  from io_map_total [of "fingerprint_of (cx_host served_cli) (cx_coders served_cli) c full_manifest", OF this]
  obtain fps w2 where
    "io_map (fingerprint_of (cx_host served_cli) (cx_coders served_cli) c full_manifest) (remdups_adj (sort names))
      (note_event (Got (manifest_url c version)) w) = Some (Ok fps, w2)" by blast
  then show ?thesis
    by (simp add: snapshot_circuits_def fetch_manifest_def manifest_of_reply_def io_now_def served_cli_def
        example_run_defs)
qed

definition served_world :: world where
  "served_world = empty_world\<lparr>wd_files := [''f'' \<mapsto> [], ''matrix'' \<mapsto> []]\<rparr>"

lemma served_cli_simps [simp]:
  "cx_host served_cli = example_host (\<lambda>_. Received [1])" "cx_print served_cli = example_printers"
  by (simp_all add: served_cli_def example_cli_def)

lemma served_command:
  assumes p: "build_proof_plan (example_fixture example_query) = Ok p"
  shows "\<exists>w1 w2 w'.
     load_cli_matrix served_cli ''matrix'' served_world = Some (Ok example_compatibility, w1)
   \<and> load_input (cx_host served_cli) (cx_read served_cli) (Some ''f'') None w1
       = Some (Ok (example_fixture example_query), w2)
   \<and> cmd_snapshot_registry served_cli None ''matrix'' (Some ''f'') None [''a''] (Some ''out'') served_world
       = Some (Ok (), w')"
proof -
  let ?f = "example_fixture example_query"
  have matrix: "\<exists>w1. load_cli_matrix served_cli ''matrix'' served_world = Some (Ok example_compatibility, w1)
      \<and> wd_files w1 = wd_files served_world"
    by (simp add: load_cli_matrix_def load_compatibility_matrix_def read_json_Ok served_world_def served_cli_def
        example_host_def from_utf8_def)
  then obtain w1 where w1: "load_cli_matrix served_cli ''matrix'' served_world = Some (Ok example_compatibility, w1)"
    "wd_files w1 = wd_files served_world" by blast
  then have "\<exists>w2. load_input (cx_host served_cli) (cx_read served_cli) (Some ''f'') None w1 = Some (Ok ?f, w2)"
    using example_fixture_valid [of example_query]
    by (simp add: load_input_def load_fixture_bundle_def io_bind_Ok read_json_Ok validated_def served_cli_def
        example_host_def served_world_def from_utf8_def)
  then obtain w2 where w2: "load_input (cx_host served_cli) (cx_read served_cli) (Some ''f'') None w1 = Some (Ok ?f, w2)" ..
  from served_snapshot obtain s w3 where "snapshot_circuits (cx_host served_cli) (cx_coders served_cli)
      (registry_client_from_matrix example_compatibility) (version_or_default None example_compatibility)
      (''a'' # required_circuit_names p) w2 = Some (Ok s, w3)" by blast
  with w1 w2 p have "\<exists>w'. cmd_snapshot_registry served_cli None ''matrix'' (Some ''f'') None [''a''] (Some ''out'')
      served_world = Some (Ok (), w')"
    by (simp add: cmd_snapshot_registry_def io_bind_Ok snapshot_names_def of_stage_def plan_fixture_Ok print_line_Ok
        write_file_Ok example_printers_def) (auto simp: example_host_def)
  with w1 w2 show ?thesis by blast
qed

theorem snapshot_covers_plan_witness:
  "\<exists>(s :: snapshot) w'. cmd_snapshot_registry served_cli None ''matrix'' (Some ''f'') None [''a''] (Some ''out'') served_world
       = Some (Ok (), w')
   \<and> {''a'', ''outer_evm_count_6''} \<subseteq> fp_name ` set (sn_circuits s) \<and> sn_manifest_root s = mf_root full_manifest
   \<and> wd_files w' ''out'' = Some []"
proof -
  let ?f = "example_fixture example_query"
  have "pr_query (fb_request ?f) = example_query" by (simp add: example_fixture_def example_request_def)
  then obtain p where p: "build_proof_plan ?f = Ok p" and count: "pp_disclosure_count p = 3"
    by (simp add: build_proof_plan_Ok example_fixture_valid example_query_normal example_wanted)
  have "show_nat 6 = ''6''" by code_simp
  with p count have outer: "pp_outer_circuit p = ''outer_evm_count_6''"
    by (auto simp: build_proof_plan_Ok outer_circuit_name_def)
  have root: "m = full_manifest" if "fetch_manifest (cx_host served_cli) (cx_coders served_cli) c v w = Some (Ok m, w3)"
    for c v w m w3
    using that by (simp add: fetch_manifest_def manifest_of_reply_def served_cli_def example_run_defs)
  from served_command [OF p] obtain w1 w2 w'
    where w1: "load_cli_matrix served_cli ''matrix'' served_world = Some (Ok example_compatibility, w1)"
      and w2: "load_input (cx_host served_cli) (cx_read served_cli) (Some ''f'') None w1 = Some (Ok ?f, w2)"
      and run: "cmd_snapshot_registry served_cli None ''matrix'' (Some ''f'') None [''a''] (Some ''out'') served_world
        = Some (Ok (), w')" by blast
  have "Some ''f'' \<noteq> None \<or> (None :: string option) \<noteq> None" by simp
  from snapshot_covers_plan [OF run this] obtain compat w1' fixture plan w2' m w3 rendered
      and s :: snapshot
    where "load_cli_matrix served_cli ''matrix'' served_world = Some (Ok compat, w1')"
      and load: "load_input (cx_host served_cli) (cx_read served_cli) (Some ''f'') None w1' = Some (Ok fixture, w2')"
      and plan: "build_proof_plan fixture = Ok plan"
      and m: "fetch_manifest (cx_host served_cli) (cx_coders served_cli) (registry_client_from_matrix compat)
        (version_or_default None compat) w2' = Some (Ok m, w3)" "sn_manifest_root s = mf_root m"
      and listed: "map fp_name (sn_circuits s) = sorted_list_of_set (set [''a''] \<union> set (required_circuit_names plan))"
      and covered: "pp_outer_circuit plan \<in> fp_name ` set (sn_circuits s)"
      and out: "wd_files w' = (case Some ''out'' of None \<Rightarrow> wd_files served_world
          | Some path \<Rightarrow> (wd_files served_world)(path \<mapsto> as_bytes rendered))"
      and rendered: "pr_snapshot (cx_print served_cli) s = Inr rendered"
    by blast
  with w1 have "w1' = w1" by simp
  with load w2 have "fixture = ?f" by simp
  with plan p covered outer have "''outer_evm_count_6'' \<in> fp_name ` set (sn_circuits s)" by simp
  moreover from arg_cong [OF listed, of set] have "''a'' \<in> fp_name ` set (sn_circuits s)"
    by (simp del: sorted_list_of_set_insert_remove)
  moreover from rendered out have "wd_files w' ''out'' = Some []"
    by (simp add: example_printers_def as_bytes_def)
  ultimately show ?thesis using run root [OF m(1)] m(2) by (intro exI [of _ s] exI [of _ w']) simp
qed

end
