(* ===== verification/Spec2Isabelle.thy ===== *)
theory Spec2Isabelle
  imports Document Pipeline Ffi Cli
begin

text \<open>
  A model of the Rust crates of the Vocdoni Passport prover, and proofs of what they
  promise.

  \<^bold>\<open>The program.\<close> A passport chip holds data groups and a signed list of their hashes, the SOD.
  \<open>crates/prover-core\<close> reads the SOD and the machine-readable zone (\<open>analysis.rs\<close>), finds
  the issuing authority's certificate, the CSCA, among packaged ones (\<open>certificates.rs\<close>),
  plans which disclosure circuits a request needs (\<open>planning.rs\<close>), derives the names of
  the circuits for the document's algorithms and looks them up in a manifest
  (\<open>resolution.rs\<close>), and fetches, checks and caches circuits (\<open>registry.rs\<close>,
  \<open>artifacts.rs\<close>); \<open>pipeline.rs\<close> composes these. \<open>witness.rs\<close> solves a circuit's witness
  with the ACVM, \<open>proving.rs\<close> proves and verifies it with the \<open>bb\<close> binary. \<open>prover-types\<close>
  has the shared structs, \<open>prover-cli\<close> the commands, and \<open>acvm-witness-jni\<close> the witness
  solver for phones, behind a Java and a C interface.

  \<^bold>\<open>How it is modelled.\<close> A struct is a record with the source's field names under a prefix, an
  enum a datatype, a machine integer a word of its width (\<open>usize\<close> has 64 bits). A fallible
  function returns an \<open>outcome\<close>: a value, an error (a chain of messages, as in
  \<open>anyhow\<close>) or a panic. A loop of the source that may not end is a \<open>while_loop\<close> whose
  result may be absent, and so is the result of everything built on it (\<open>run\<close>); there is no
  fuel. \<open>checks\<close> tells a build with overflow checks from one without. Effects are functions
  of a \<open>world\<close> (files, directories, environment, a log of events) under a \<open>host\<close>, which
  decides, from the whole world, what the network, the clock, child processes and failing
  operations answer: type \<open>'a io\<close>. A child process may also never end, and then neither
  does what waits for it; a request is always answered, if only by the time-out of the
  client. A path and a string are byte lists, and two paths name one file exactly when they
  are equal: \<open>a/../b\<close> and \<open>b\<close> are two files of the model.

  \<^bold>\<open>Theories.\<close>
  \<^item> \<open>Prelude\<close>: integers, outcomes, loops with their rules; \<open>Rust_Str\<close>: operations on
    strings, UTF-8; \<open>Paths\<close>: \<open>std::path\<close>; \<open>Fetch\<close>, \<open>Host\<close>: HTTP and the world;
    \<open>Effects\<close>: the relations between worlds that operations keep, and what each operation
    leaves.
  \<^item> \<open>Prover_Types\<close> (\<open>prover-types/src/lib.rs\<close>); \<open>Resolution\<close> (\<open>resolution.rs\<close>);
    \<open>Planning\<close> (\<open>planning.rs\<close>); \<open>Config\<close> (\<open>config.rs\<close>).
  \<^item> \<open>Der\<close>: the DER and SOD reader of \<open>analysis.rs\<close>; \<open>Der_Encoding\<close>, \<open>Sod\<close>: the encoding
    it inverts, and inputs that are no encoding; \<open>Analysis\<close>: the rest of \<open>analysis.rs\<close>;
    \<open>Mrz\<close>, \<open>Document\<close>: the layouts of ICAO 9303 and whole documents.
  \<^item> \<open>Certificates\<close> (\<open>certificates.rs\<close>); \<open>Registry\<close> (\<open>registry.rs\<close>); \<open>Artifacts\<close>
    (\<open>artifacts.rs\<close>); \<open>Pipeline\<close> (\<open>pipeline.rs\<close>, \<open>fixture.rs\<close>).
  \<^item> \<open>Proving\<close> (\<open>proving.rs\<close>): options, directories, where the binary comes from (a
    variable, a cached or downloaded release, a build from source), its command lines and
    the files that carry its inputs and outputs.
  \<^item> \<open>Witness\<close> (\<open>witness.rs\<close>, \<open>circuit.rs\<close>): the four solvers and the environment variable
    through which they choose the format; \<open>Mobile\<close> (\<open>acvm-witness-jni/src/lib.rs\<close>,
    \<open>bin/acvm_witness_cli.rs\<close>): the solver of the phones, its Java entry point and its
    command line.
  \<^item> \<open>Ffi\<close> (\<open>acvm-witness-jni/src/ffi.rs\<close>): the C interface over a map from addresses to
    allocated blocks, and its clients as an inductive step relation.
  \<^item> \<open>Cli_Support\<close>, \<open>Cli\<close> (\<open>prover-cli/src/main.rs\<close>): the helpers, then one operation per
    arm of \<open>main\<close> and the dispatch \<open>cli_main\<close>.

  \<^bold>\<open>What is proved.\<close>
  \<^item> Readers invert encoders: TLV headers, object identifiers, RSA keys, both MRZ layouts,
    the SOD, and with them the analysis of a document. With overflow checks the reader ends
    on every input; without, it agrees unless the former stops at an overflow, and an input
    of twelve bytes makes it run for ever; any SOD cut off within its digest OID panics. The
    hash of a signature is right exactly for the algorithms listed.
  \<^item> Names, plans and choices: circuit names determine the algorithms they stand for; a plan
    lists what the query asks for; a resolved plan fits the document and the manifest; the
    CSCA is chosen by preference; hashes and queries have normal forms.
  \<^item> Safety of what is fetched: certificates have the requested root; a materialised
    snapshot agrees with the live registry, and its files encode the very artifacts that were
    fetched, which a store on these files then loads without a request; a fixture that is
    loaded is complete.
  \<^item> Proving: what a returned proof was made from and where it was found, that verifying
    judges exactly the arguments, that nothing is left of the temporary files, what a source
    build uses; the contract \<open>proving_backend\<close> gives the callers what they rely on.
  \<^item> Witnesses: in every sequence of calls each solver returns its result in its own format;
    the solver of the phones agrees with the one of the prover that has the format of its
    environment.
  \<^item> The C interface: an invariant of all reachable states (live memory is what the client
    holds), a refinement, over sequences of calls and frees, of a machine that only remembers
    answers, and that everything can be given back in any order.
  \<^item> The command line: the summary of the inner proofs has a fixed
    schema and tells the verdict on each proof; an aggregation writes a proof that the EVM
    verifier can take and says whether it was verified; public inputs are split without
    loss and the nullifier is the last field but one; the command that snapshots the registry
    covers the plan of its fixture. That commands end is not claimed: they wait for child
    processes.

  Locales state the interfaces: \<open>advancing_loop\<close> (\<open>Prelude\<close>, interpreted by the four loops
  of \<open>Der\<close>), \<open>suffix_code\<close> and \<open>last_suffix\<close> (\<open>Resolution\<close>, by the tokens of a circuit
  name), \<open>offline_source\<close> (\<open>Artifacts\<close>, by the store), \<open>kept_relation\<close> (\<open>Effects\<close>, by
  the relations between worlds that keep the files, that keep what was logged, and, in
  \<open>Witness\<close>, that change one variable only) and \<open>proving_backend\<close> (\<open>Proving\<close>, by the \<open>bb\<close> prover).

  \<^bold>\<open>Parameters.\<close> Third-party code is an argument of what uses it: base64, the X.509 parser,
  the table of country codes, gzip, the JSON readers and printers of \<open>serde_json\<close>, the HTTP
  client, the ACVM with \<open>noirc_abi\<close> and \<open>nargo\<close> (record \<open>acvm\<close>), the Java environment, the
  allocator, and every child process (\<open>bb\<close>, \<open>curl\<close>, \<open>tar\<close>, \<open>git\<close>, \<open>cmake\<close>, \<open>node\<close>).
  Nothing is assumed of them, with two exceptions: of the allocator \<open>sound_allocator\<close> states
  what Rust's documentation does, that addresses are new and not null and blocks below 2^63
  bytes; and that a materialised snapshot can be loaded assumes that the JSON reader reads
  back the circuits that the printer writes.

  \<^bold>\<open>Not modelled.\<close> Parsing the command line (\<open>clap\<close>): a \<open>command\<close> is its result. The
  attributes of \<open>serde\<close>: a reader is a parameter. Paths and environment variables that are
  not UTF-8, permissions, symbolic links other than through \<open>canonicalize\<close>, and concurrent
  changes of files by others while an operation runs, beyond what a run of a process does.
  The debug prints of \<open>acvm-witness-jni\<close>, and a \<open>println!\<close> that fails. Flushing a temporary file
  is part of writing it. The re-exports of \<open>prover-core/src/lib.rs\<close>, the unit tests, and
  what is not Rust: the Go server, the node scripts, the Solidity verifier and the build
  files.
\<close>

end
